(* ===== verification/Prelude.thy ===== *)
theory Prelude
  imports "HOL-Library.Word" "HOL-Library.AList" "HOL-Library.Sublist"
begin

text \<open>
  Shared vocabulary of the development.

  \<^item> Rust integers are words of their width; a signed integer is the same word
    read with \<^const>\<open>sint\<close>.  A \<open>usize\<close> is a natural number, a byte slice is a list
    of 8-bit words.
  \<^item> A computation that can fail or panic returns a \<open>result\<close>: \<open>Ok\<close> and \<open>Err\<close> as in
    Rust, and \<open>Panic\<close> for \<open>unwrap\<close> on \<open>None\<close>, slicing out of range, \<open>todo!()\<close> and the
    like.  The \<open>?\<close> operator is \<open>and_then\<close>.
  \<^item> \<open>be_bytes\<close> and \<open>be_word\<close> are the big-endian conversions behind the readers and
    writers of the wire format.
  \<^item> A \<open>HashMap\<close> is an association list in its iteration order, with distinct keys;
    \<^const>\<open>AList.update\<close> is \<open>insert\<close> and \<^const>\<open>map_of\<close> is \<open>get\<close>.

  The collections \<open>codec_defs\<close>, \<open>round_trips\<close>, \<open>size_simps\<close>, \<open>prefix_decoders\<close> and
  \<open>resumables\<close> carry the proofs of the later theories.
\<close>

type_synonym u8 = "8 word"
type_synonym u16 = "16 word"
type_synonym u32 = "32 word"
type_synonym u64 = "64 word"
type_synonym i8 = "8 word"
type_synonym i16 = "16 word"
type_synonym i32 = "32 word"
type_synonym i64 = "64 word"
type_synonym bytes = "u8 list"

named_theorems codec_defs \<open>definitions of the encoders and decoders\<close>
named_theorems round_trips \<open>decoding what was encoded\<close>
named_theorems size_simps \<open>the announced size is the number of bytes written\<close>
named_theorems prefix_decoders \<open>decoders that depend on what they consume only\<close>
named_theorems resumables \<open>decoders that report every cut of a value as incomplete\<close>

section \<open>Results, panics included\<close>

datatype ('a, 'e) result = Ok 'a | Err 'e | Panic

fun and_then :: "('a, 'e) result \<Rightarrow> ('a \<Rightarrow> ('b, 'e) result) \<Rightarrow> ('b, 'e) result" where
  "and_then (Ok x) f = f x"
| "and_then (Err e) f = Err e"
| "and_then Panic f = Panic"

fun unwrap :: "'a option \<Rightarrow> ('a, 'e) result" where
  "unwrap None = Panic"
| "unwrap (Some x) = Ok x"

fun map_err :: "('e \<Rightarrow> 'f) \<Rightarrow> ('a, 'e) result \<Rightarrow> ('a, 'f) result" where
  "map_err f (Ok x) = Ok x"
| "map_err f (Err e) = Err (f e)"
| "map_err f Panic = Panic"

lemma and_then_assoc [simp]:
  "and_then (and_then m f) g = and_then m (\<lambda>x. and_then (f x) g)"
  by (cases m) auto

lemma and_then_Ok_iff:
  "and_then m f = Ok y \<longleftrightarrow> (\<exists>x. m = Ok x \<and> f x = Ok y)"
  by (cases m) auto

lemma and_then_Err_iff:
  "and_then m f = Err e \<longleftrightarrow> m = Err e \<or> (\<exists>x. m = Ok x \<and> f x = Err e)"
  by (cases m) auto

lemma and_then_Panic_iff:
  "and_then m f = Panic \<longleftrightarrow> m = Panic \<or> (\<exists>x. m = Ok x \<and> f x = Panic)"
  by (cases m) auto

lemma and_then_cong [fundef_cong]:
  "m = m' \<Longrightarrow> (\<And>x. m' = Ok x \<Longrightarrow> f x = g x) \<Longrightarrow> and_then m f = and_then m' g"
  by (cases m') auto

lemma unwrap_Ok_iff [simp]: "unwrap v = Ok x \<longleftrightarrow> v = Some x"
  by (cases v) auto

lemma unwrap_Err [simp]: "unwrap v \<noteq> Err e"
  by (cases v) auto

section \<open>Big-endian integers\<close>

unbundle bit_operations_syntax

primrec be_bytes :: "nat \<Rightarrow> 'a::len word \<Rightarrow> bytes" where
  "be_bytes 0 w = []"
| "be_bytes (Suc n) w = be_bytes n (drop_bit 8 w) @ [ucast w]"

definition be_word :: "bytes \<Rightarrow> 'a::len word" where
  "be_word bs = foldl (\<lambda>acc b. push_bit 8 acc OR ucast b) 0 bs"

lemma be_bytes_length [simp]: "length (be_bytes n w) = n"
  by (induction n arbitrary: w) auto

lemma be_word_Nil [simp]: "be_word [] = 0"
  by (simp add: be_word_def)

lemma be_word_snoc [simp]: "be_word (bs @ [b]) = push_bit 8 (be_word bs) OR ucast b"
  by (simp add: be_word_def)

lemma take_bit_split:
  fixes w :: "'a::len word"
  shows "push_bit 8 (take_bit n (drop_bit 8 w)) OR take_bit 8 w = take_bit (n + 8) w"
  by (rule bit_word_eqI)
     (auto simp: bit_or_iff bit_push_bit_iff bit_take_bit_iff bit_drop_bit_eq)

lemma be_word_be_bytes_take: 
  fixes w :: "'a::len word"
  shows "(be_word (be_bytes n w) :: 'a word) = take_bit (8 * n) w"
proof (induction n arbitrary: w)
  case 0
  show ?case by simp
next
  case (Suc n)
  have "(ucast (ucast w :: u8) :: 'a word) = take_bit 8 w"
    by (rule bit_word_eqI) (auto simp: bit_simps)
  then show ?case
    using Suc.IH [of "drop_bit 8 w"] take_bit_split [of "8 * n" w]
    by (simp add: add.commute)
qed

lemma be_word_be_bytes [simp]:
  fixes w :: "'a::len word"
  assumes "LENGTH('a) \<le> 8 * n"
  shows "be_word (be_bytes n w) = w"
  using assms by (simp add: be_word_be_bytes_take take_bit_word_eq_self)

text \<open>A \<open>usize\<close> converted from a signed 16- or 32-bit integer is sign extended to 64
  bits; \<open>as_usize\<close> is the natural number the Rust cast \<open>len as usize\<close> gives.\<close>

definition as_usize :: "'a::len word \<Rightarrow> nat" where
  "as_usize w = unat (scast w :: u64)"

lemma as_usize_of_nat:
  assumes "n < 2 ^ (LENGTH('a) - 1)" and "LENGTH('a) \<le> 64"
  shows "as_usize (of_nat n :: 'a::len word) = n"
proof -
  have "(2::nat) ^ (LENGTH('a) - 1) \<le> 2 ^ 64"
    using assms(2) by (intro power_increasing) auto
  with assms(1) have n: "n < 2 ^ 64" by simp
  have "int n < 2 ^ (LENGTH('a) - 1)"
    using assms(1) by (metis of_nat_less_iff of_nat_numeral of_nat_power)
  then have "signed_take_bit (LENGTH('a) - 1) (int n) = int n"
    by (intro signed_take_bit_int_eq_self) (auto intro: order_trans [of _ 0])
  then have "sint (of_nat n :: 'a word) = int n"
    by (simp add: signed_of_nat)
  then have "(scast (of_nat n :: 'a word) :: u64) = of_nat n"
    by (simp add: scast_eq)
  with n show ?thesis
    by (simp add: as_usize_def unsigned_of_nat take_bit_nat_eq_self)
qed

section \<open>Hash maps as association lists\<close>

lemma update_new [simp]:
  "k \<notin> fst ` set m \<Longrightarrow> AList.update k v m = m @ [(k, v)]"
  by (induction m) auto

lemma foldl_update_distinct:
  "distinct (map fst (m @ ps)) \<Longrightarrow> foldl (\<lambda>m (k, v). AList.update k v m) m ps = m @ ps"
  by (induction ps arbitrary: m) (auto simp: image_iff)

lemma foldl_plus_word:
  fixes f :: "'a \<Rightarrow> 'b::len word"
  shows "foldl (\<lambda>acc v. acc + f v) a xs = a + sum_list (map f xs)"
  by (induction xs arbitrary: a) (auto simp: algebra_simps)

lemma sum_list_of_nat_length:
  "sum_list (map (\<lambda>x. of_nat (length (f x))) xs) = of_nat (length (concat (map f xs)))"
  by (induction xs) auto

end
