(* ===== verification/Wire.thy ===== *)
theory Wire
  imports Prelude
begin

text \<open>
  The primitive layer of \<open>protocol/src/codec\<close>: the error types, the readers and writers
  of fixed-width integers, the element loop of \<open>read_vec\<close>, and the contracts an encoder
  and a decoder can satisfy.

  An infallible \<open>encode(&self, writer)\<close> is a function to the bytes it appends to the
  writer (an in-memory buffer never fails).  A \<open>decode(input)\<close> returns the rest of the
  input with the value.  The readers of the source return \<open>IncompleteError\<close>, which \<open>?\<close>
  turns into \<open>DecodeError::Incomplete\<close>; the model returns the latter at once.

  Contracts, stated as locales and interpreted on the model in this and the later theories:
  \<^item> \<open>codec\<close>: decoding the encoding followed by anything gives the value and the rest;
  \<^item> \<open>sized\<close>: the 32-bit size an encoder announces is the number of bytes it writes, for the
    values its third parameter admits;
  \<^item> \<open>prefix_decoder\<close>: a successful decode depends on the bytes it consumed only;
  \<^item> \<open>resumable\<close>: in addition every strict prefix of those bytes is reported as incomplete.
\<close>

section \<open>Errors (error.rs)\<close>

datatype DecodeError =
    Incomplete nat
  | Utf8Error bytes
  | UnknownResponseCode u16
  | UnsupportedResponseType u16
  | MismatchSize nat
  | MessageParse string
  | InvalidFormatCode u8
  | Empty

text \<open>The payload of \<open>Io\<close>, an operating system error, is left out.\<close>

datatype EncodeError = Io | MaxSizeError nat

type_synonym 'a decoded = "(bytes \<times> 'a, DecodeError) result"
type_synonym 'a decoder = "bytes \<Rightarrow> 'a decoded"

section \<open>Readers (codec/decoder.rs) and writers of integers\<close>

definition check_len :: "bytes \<Rightarrow> nat \<Rightarrow> (unit, DecodeError) result" where
  "check_len input sz = (if length input < sz then Err (Incomplete sz) else Ok ())"

definition read_be :: "nat \<Rightarrow> 'a::len word decoder" where
  "read_be sz input =
     and_then (check_len input sz) (\<lambda>_. Ok (drop sz input, be_word (take sz input)))"

definition read_u8 :: "u8 decoder" where
  "read_u8 input = and_then (check_len input 1) (\<lambda>_. Ok (drop 1 input, input ! 0))"

definition read_i8 :: "i8 decoder" where
  "read_i8 input = and_then (check_len input 1) (\<lambda>_. Ok (drop 1 input, input ! 0))"

definition read_exact :: "bytes \<Rightarrow> nat \<Rightarrow> bytes decoded" where
  "read_exact input len =
     and_then (check_len input len) (\<lambda>_. Ok (drop len input, take len input))"

definition read_i16 :: "i16 decoder" where "read_i16 = read_be 2"
definition read_u16 :: "u16 decoder" where "read_u16 = read_be 2"
definition read_u32 :: "u32 decoder" where "read_u32 = read_be 4"
definition read_i32 :: "i32 decoder" where "read_i32 = read_be 4"
definition read_u64 :: "u64 decoder" where "read_u64 = read_be 8"
definition read_i64 :: "i64 decoder" where "read_i64 = read_be 8"
definition read_f32 :: "32 word decoder" where "read_f32 = read_be 4"
definition read_f64 :: "64 word decoder" where "read_f64 = read_be 8"

definition encode_i8 :: "i8 \<Rightarrow> bytes" where "encode_i8 x = [x]"
definition encode_u8 :: "u8 \<Rightarrow> bytes" where "encode_u8 x = [x]"
definition encode_i16 :: "i16 \<Rightarrow> bytes" where "encode_i16 x = be_bytes 2 x"
definition encode_u16 :: "u16 \<Rightarrow> bytes" where "encode_u16 x = be_bytes 2 x"
definition encode_i32 :: "i32 \<Rightarrow> bytes" where "encode_i32 x = be_bytes 4 x"
definition encode_u32 :: "u32 \<Rightarrow> bytes" where "encode_u32 x = be_bytes 4 x"
definition encode_i64 :: "i64 \<Rightarrow> bytes" where "encode_i64 x = be_bytes 8 x"
definition encode_u64 :: "u64 \<Rightarrow> bytes" where "encode_u64 x = be_bytes 8 x"

definition encoded_size_i8 :: "i8 \<Rightarrow> u32" where "encoded_size_i8 x = 1"
definition encoded_size_i32 :: "i32 \<Rightarrow> u32" where "encoded_size_i32 x = 4"
definition encoded_size_u8 :: "u8 \<Rightarrow> u32" where "encoded_size_u8 x = 1"
definition encoded_size_u16 :: "u16 \<Rightarrow> u32" where "encoded_size_u16 x = 2"
definition encoded_size_u32 :: "u32 \<Rightarrow> u32" where "encoded_size_u32 x = 4"
definition encoded_size_u64 :: "u64 \<Rightarrow> u32" where "encoded_size_u64 x = 8"
definition encoded_size_i64 :: "i64 \<Rightarrow> u32" where "encoded_size_i64 x = 8"

lemmas read_defs = read_i16_def read_u16_def read_u32_def read_i32_def read_u64_def read_i64_def
  read_f32_def read_f64_def

lemmas encode_int_defs = encode_i8_def encode_u8_def encode_i16_def encode_u16_def encode_i32_def
  encode_u32_def encode_i64_def encode_u64_def

lemmas encoded_size_int_defs = encoded_size_i8_def encoded_size_u8_def encoded_size_u16_def
  encoded_size_i32_def encoded_size_u32_def encoded_size_i64_def encoded_size_u64_def

text \<open>The loop \<open>for _ in 0..n\<close> that decodes \<open>n\<close> values one after the other, and
  \<open>read_vec\<close>: the length is a signed 32-bit integer; a negative one is a huge capacity
  for \<open>Vec::with_capacity\<close>, which panics.\<close>

primrec decode_n :: "'a decoder \<Rightarrow> nat \<Rightarrow> 'a list decoder" where
  "decode_n dec 0 input = Ok (input, [])"
| "decode_n dec (Suc n) input =
     and_then (dec input) (\<lambda>(input1, value).
     and_then (decode_n dec n input1) (\<lambda>(input2, values). Ok (input2, value # values)))"

definition read_vec :: "'a decoder \<Rightarrow> 'a list decoder" where
  "read_vec dec input =
     and_then (read_i32 input) (\<lambda>(input, len).
       if as_usize len \<ge> 2 ^ 63 then Panic else decode_n dec (as_usize len) input)"

section \<open>Contract: encode and decode\<close>

locale codec =
  fixes enc :: "'a \<Rightarrow> bytes" and dec :: "'a decoder" and wf :: "'a \<Rightarrow> bool"
  assumes dec_enc: "wf x \<Longrightarrow> dec (enc x @ rest) = Ok (rest, x)"
begin

lemma dec_enc_exact: "wf x \<Longrightarrow> dec (enc x) = Ok ([], x)"
  using dec_enc [of x "[]"] by simp

lemma enc_prefix_free:
  assumes "wf x" "wf y" "enc x @ r = enc y @ s"
  shows "x = y \<and> r = s"
proof -
  have "Ok (r, x) = (Ok (s, y) :: 'a decoded)"
    by (metis assms dec_enc)
  then show ?thesis by simp
qed

lemma enc_inj: "wf x \<Longrightarrow> wf y \<Longrightarrow> enc x = enc y \<Longrightarrow> x = y"
  using enc_prefix_free [of x y "[]" "[]"] by simp

lemma decode_n_concat:
  "list_all wf xs \<Longrightarrow> decode_n dec (length xs) (concat (map enc xs) @ rest) = Ok (rest, xs)"
  by (induction xs) (simp_all add: dec_enc)

end

section \<open>Contract: announced sizes\<close>

locale sized =
  fixes enc :: "'a \<Rightarrow> bytes" and size_of :: "'a \<Rightarrow> u32" and fits :: "'a \<Rightarrow> bool"
  assumes size_enc: "fits x \<Longrightarrow> size_of x = of_nat (length (enc x))"
begin

lemma fold_size_enc:
  "list_all fits xs \<Longrightarrow>
   foldl (\<lambda>acc v. acc + size_of v) a xs = a + of_nat (length (concat (map enc xs)))"
  by (induction xs arbitrary: a) (simp_all add: size_enc)

end

section \<open>Contract: what a decoder looks at\<close>

locale prefix_decoder =
  fixes dec :: "'a decoder"
  assumes consumes: "dec input = Ok (rest, x) \<Longrightarrow>
    \<exists>c. input = c @ rest \<and> (\<forall>s. dec (c @ s) = Ok (s, x))"
begin

lemma rest_suffix: "dec input = Ok (rest, x) \<Longrightarrow> suffix rest input"
  using consumes by (metis suffix_def)

lemma rest_length: "dec input = Ok (rest, x) \<Longrightarrow> length rest \<le> length input"
  using rest_suffix by (metis suffix_length_le)

lemma extend_input: "dec input = Ok (rest, x) \<Longrightarrow> dec (input @ more) = Ok (rest @ more, x)"
  using consumes by (metis append_assoc)

end

locale resumable = prefix_decoder +
  assumes strict_prefix_incomplete:
    "dec c = Ok ([], x) \<Longrightarrow> strict_prefix p c \<Longrightarrow> \<exists>n. dec p = Err (Incomplete n)"

lemma prefix_decoder_return [prefix_decoders]: "prefix_decoder (\<lambda>input. Ok (input, x))"
  by unfold_locales auto

lemma prefix_decoder_fail [prefix_decoders]: "prefix_decoder (\<lambda>input. Err e)"
  by unfold_locales auto

lemma prefix_decoder_panic [prefix_decoders]: "prefix_decoder (\<lambda>input. Panic)"
  by unfold_locales auto

lemma prefix_decoder_bind [prefix_decoders]:
  assumes "prefix_decoder d" "\<And>x. prefix_decoder (f x)"
  shows "prefix_decoder (\<lambda>input. and_then (d input) (\<lambda>(input, x). f x input))"
proof
  fix input rest y
  assume "and_then (d input) (\<lambda>(input, x). f x input) = Ok (rest, y)"
  then obtain i x where d: "d input = Ok (i, x)" and f: "f x i = Ok (rest, y)"
    by (auto simp: and_then_Ok_iff)
  obtain c where c: "input = c @ i" "\<And>s. d (c @ s) = Ok (s, x)"
    using prefix_decoder.consumes [OF assms(1) d] by blast
  obtain c' where c': "i = c' @ rest" "\<And>s. f x (c' @ s) = Ok (s, y)"
    using prefix_decoder.consumes [OF assms(2) f] by blast
  show "\<exists>c. input = c @ rest \<and>
      (\<forall>s. and_then (d (c @ s)) (\<lambda>(input, x). f x input) = Ok (s, y))"
    by (rule exI [of _ "c @ c'"]) (use c c' in simp)
qed

lemma decode_n_fun:
  "decode_n d 0 = (\<lambda>input. Ok (input, []))"
  "decode_n d (Suc n) = (\<lambda>input. and_then (d input) (\<lambda>(input, v).
     and_then (decode_n d n input) (\<lambda>(input, vs). Ok (input, v # vs))))"
  by auto

lemma prefix_decoder_decode_n [prefix_decoders]:
  assumes "prefix_decoder d"
  shows "prefix_decoder (decode_n d n)"
  by (induction n)
     (unfold decode_n_fun, intro prefix_decoder_return,
      intro prefix_decoder_bind assms prefix_decoder_return)

lemma resumable_return [resumables]: "resumable (\<lambda>input. Ok (input, x))"
  by unfold_locales auto

lemma resumable_fail [resumables]: "resumable (\<lambda>input. Err e)"
  by unfold_locales auto

lemma strict_prefix_append_cases:
  assumes "strict_prefix p (c @ c')"
  obtains "strict_prefix p c" | p' where "p = c @ p'" "strict_prefix p' c'"
proof (cases "strict_prefix p c")
  case True
  then show ?thesis by (rule that(1))
next
  case False
  have "prefix p (c @ c')" "p \<noteq> c @ c'"
    using assms by (auto simp: strict_prefix_def)
  then have "\<exists>q. p = c @ q \<and> prefix q c'"
    using False by (auto simp: prefix_append strict_prefix_def)
  then obtain q where "p = c @ q" "prefix q c'" by blast
  with \<open>p \<noteq> c @ c'\<close> show ?thesis by (intro that(2) [of q]) (auto simp: strict_prefix_def)
qed

lemma incomplete_bind:
  assumes "resumable d" "d c = Ok ([], x)" "strict_prefix p (c @ c')"
    and "\<And>q. strict_prefix q c' \<Longrightarrow> \<exists>n. f x q = Err (Incomplete n)"
  shows "\<exists>n. and_then (d p) (\<lambda>(input, x). f x input) = Err (Incomplete n)"
  using assms(3)
proof (cases rule: strict_prefix_append_cases)
  case 1
  then show ?thesis
    using resumable.strict_prefix_incomplete [OF assms(1,2)] by fastforce
next
  case (2 q)
  have "d (c @ q) = Ok (q, x)"
    using prefix_decoder.extend_input [OF resumable.axioms(1) [OF assms(1)] assms(2)] by simp
  with assms(4) [OF 2(2)] 2(1) show ?thesis by auto
qed

lemma resumable_bind [resumables]:
  assumes "resumable d" "\<And>x. resumable (f x)"
  shows "resumable (\<lambda>input. and_then (d input) (\<lambda>(input, x). f x input))"
proof (intro resumable.intro resumable_axioms.intro prefix_decoder_bind)
  show "prefix_decoder d" "prefix_decoder (f x)" for x
    using assms by (auto simp: resumable_def)
  fix c y p
  assume "and_then (d c) (\<lambda>(input, x). f x input) = Ok ([], y)" and p: "strict_prefix p c"
  then obtain i x where d: "d c = Ok (i, x)" and f: "f x i = Ok ([], y)"
    by (auto simp: and_then_Ok_iff)
  obtain c' where c: "c = c' @ i" "\<And>s. d (c' @ s) = Ok (s, x)"
    using prefix_decoder.consumes [OF resumable.axioms(1) [OF assms(1)] d] by blast
  show "\<exists>n. and_then (d p) (\<lambda>(input, x). f x input) = Err (Incomplete n)"
    using assms(1) c(2) [of "[]"] p c(1) resumable.strict_prefix_incomplete [OF assms(2) f]
    by (intro incomplete_bind [where c = c' and c' = i]) auto
qed

lemma resumable_decode_n [resumables]:
  assumes "resumable d"
  shows "resumable (decode_n d n)"
  by (induction n)
     (unfold decode_n_fun, intro resumable_return,
      intro resumable_bind assms resumable_return)

section \<open>The integers satisfy the contracts\<close>

lemma read_be_append:
  fixes w :: "'a::len word"
  assumes "LENGTH('a) \<le> 8 * n"
  shows "read_be n (be_bytes n w @ rest) = Ok (rest, w)"
  using assms by (simp add: read_be_def check_len_def)

lemma resumable_read_be: "resumable (read_be n)"
proof
  fix input rest and x :: "'a::len word"
  assume "read_be n input = Ok (rest, x)"
  then have "n \<le> length input" "rest = drop n input" "x = be_word (take n input)"
    by (auto simp: read_be_def check_len_def and_then_Ok_iff split: if_splits)
  then show "\<exists>c. input = c @ rest \<and> (\<forall>s. read_be n (c @ s) = Ok (s, x))"
    by (intro exI [of _ "take n input"]) (simp add: read_be_def check_len_def)
next
  fix c p and x :: "'a::len word"
  assume "read_be n c = Ok ([], x)" "strict_prefix p c"
  then show "\<exists>k. (read_be n p :: 'a word decoded) = Err (Incomplete k)"
    by (auto simp: read_be_def check_len_def dest: prefix_length_less split: if_splits)
qed

lemma read_byte_be: "read_u8 = read_be 1" "read_i8 = read_be 1"
  by (auto simp: fun_eq_iff read_u8_def read_i8_def read_be_def check_len_def be_word_def
      take_Suc_conv_app_nth)

interpretation i8: codec encode_i8 read_i8 "\<lambda>_. True"
  by unfold_locales (simp add: encode_int_defs read_i8_def check_len_def)

interpretation u8: codec encode_u8 read_u8 "\<lambda>_. True"
  by unfold_locales (simp add: encode_int_defs read_u8_def check_len_def)

interpretation i16: codec encode_i16 read_i16 "\<lambda>_. True"
  by unfold_locales (simp add: encode_int_defs read_defs read_be_append)

interpretation u16: codec encode_u16 read_u16 "\<lambda>_. True"
  by unfold_locales (simp add: encode_int_defs read_defs read_be_append)

interpretation i32: codec encode_i32 read_i32 "\<lambda>_. True"
  by unfold_locales (simp add: encode_int_defs read_defs read_be_append)

interpretation u32: codec encode_u32 read_u32 "\<lambda>_. True"
  by unfold_locales (simp add: encode_int_defs read_defs read_be_append)

interpretation i64: codec encode_i64 read_i64 "\<lambda>_. True"
  by unfold_locales (simp add: encode_int_defs read_defs read_be_append)

interpretation u64: codec encode_u64 read_u64 "\<lambda>_. True"
  by unfold_locales (simp add: encode_int_defs read_defs read_be_append)

interpretation i8: sized encode_i8 encoded_size_i8 "\<lambda>_. True"
  by unfold_locales (simp add: encode_int_defs encoded_size_int_defs)

interpretation u8: sized encode_u8 encoded_size_u8 "\<lambda>_. True"
  by unfold_locales (simp add: encode_int_defs encoded_size_int_defs)

interpretation u16: sized encode_u16 encoded_size_u16 "\<lambda>_. True"
  by unfold_locales (simp add: encode_int_defs encoded_size_int_defs)

interpretation i32: sized encode_i32 encoded_size_i32 "\<lambda>_. True"
  by unfold_locales (simp add: encode_int_defs encoded_size_int_defs)

interpretation u32: sized encode_u32 encoded_size_u32 "\<lambda>_. True"
  by unfold_locales (simp add: encode_int_defs encoded_size_int_defs)

interpretation i64: sized encode_i64 encoded_size_i64 "\<lambda>_. True"
  by unfold_locales (simp add: encode_int_defs encoded_size_int_defs)

interpretation u64: sized encode_u64 encoded_size_u64 "\<lambda>_. True"
  by unfold_locales (simp add: encode_int_defs encoded_size_int_defs)

interpretation i8: resumable read_i8
  unfolding read_byte_be by (rule resumable_read_be)

interpretation u8: resumable read_u8
  unfolding read_byte_be by (rule resumable_read_be)

interpretation i16: resumable read_i16
  unfolding read_defs by (rule resumable_read_be)

interpretation u16: resumable read_u16
  unfolding read_defs by (rule resumable_read_be)

interpretation i32: resumable read_i32
  unfolding read_defs by (rule resumable_read_be)

interpretation u32: resumable read_u32
  unfolding read_defs by (rule resumable_read_be)

interpretation i64: resumable read_i64
  unfolding read_defs by (rule resumable_read_be)

interpretation u64: resumable read_u64
  unfolding read_defs by (rule resumable_read_be)

lemmas int_round_trips [round_trips] =
  i8.dec_enc [OF TrueI] u8.dec_enc [OF TrueI] i16.dec_enc [OF TrueI] u16.dec_enc [OF TrueI]
  i32.dec_enc [OF TrueI] u32.dec_enc [OF TrueI] i64.dec_enc [OF TrueI] u64.dec_enc [OF TrueI]

lemmas int_sizes [size_simps] =
  i8.size_enc [OF TrueI] u8.size_enc [OF TrueI] u16.size_enc [OF TrueI] i32.size_enc [OF TrueI] u32.size_enc [OF TrueI] i64.size_enc [OF TrueI] u64.size_enc [OF TrueI]

lemmas int_resumable [resumables] =
  i8.resumable_axioms u8.resumable_axioms i16.resumable_axioms u16.resumable_axioms
  i32.resumable_axioms u32.resumable_axioms i64.resumable_axioms u64.resumable_axioms

lemmas int_prefix_decoders [prefix_decoders] =
  i8.prefix_decoder_axioms u8.prefix_decoder_axioms i16.prefix_decoder_axioms
  u16.prefix_decoder_axioms i32.prefix_decoder_axioms u32.prefix_decoder_axioms
  i64.prefix_decoder_axioms u64.prefix_decoder_axioms

lemma encode_int_lengths [simp]:
  "length (encode_i8 a) = 1" "length (encode_u8 a) = 1" "length (encode_i16 b) = 2"
  "length (encode_u16 b) = 2" "length (encode_i32 c) = 4" "length (encode_u32 c) = 4"
  "length (encode_i64 d) = 8" "length (encode_u64 d) = 8"
  by (simp_all add: encode_int_defs)

section \<open>Vectors\<close>

lemma as_usize_of_nat32:
  "n < 2 ^ 31 \<Longrightarrow> as_usize (of_nat n :: i32) = n"
  by (rule as_usize_of_nat) simp_all

lemma encode_i32_u32: "encode_u32 = encode_i32"
  by (simp add: fun_eq_iff encode_int_defs)

lemma read_vec_len:
  "n < 2 ^ 31 \<Longrightarrow> read_vec dec (encode_i32 (of_nat n) @ rest) = decode_n dec n rest"
  by (simp add: read_vec_def round_trips as_usize_of_nat32)

context codec
begin

lemma read_vec_enc:
  "list_all wf xs \<Longrightarrow> length xs < 2 ^ 31 \<Longrightarrow>
   read_vec dec (encode_i32 (of_nat (length xs)) @ concat (map enc xs) @ rest) = Ok (rest, xs)"
  by (simp add: read_vec_len decode_n_concat)

end

lemma resumable_if [resumables]:
  "resumable d \<Longrightarrow> resumable e \<Longrightarrow> resumable (\<lambda>input. if b then d input else e input)"
  by (cases b) simp_all

lemma resumable_panic [resumables]: "resumable (\<lambda>input. Panic)"
  by unfold_locales auto

lemma prefix_decoder_if [prefix_decoders]:
  "prefix_decoder d \<Longrightarrow> prefix_decoder e \<Longrightarrow>
   prefix_decoder (\<lambda>input. if b then d input else e input)"
  by (cases b) simp_all

lemma resumable_read_vec [resumables]:
  assumes "resumable d"
  shows "resumable (read_vec d)"
  unfolding read_vec_def
  by (intro resumable_bind resumable_if resumable_panic resumable_decode_n int_resumable assms)

lemma prefix_decoder_read_vec [prefix_decoders]:
  assumes "prefix_decoder d"
  shows "prefix_decoder (read_vec d)"
  unfolding read_vec_def
  by (intro prefix_decoder_bind prefix_decoder_if prefix_decoder_panic prefix_decoder_decode_n
      int_prefix_decoders assms)

end
