(* ===== verification/Codec.thy ===== *)
theory Codec
  imports Wire
begin

text \<open>
  The \<open>Encoder\<close> and \<open>Decoder\<close> instances of \<open>protocol/src/codec/{encoder,decoder}.rs\<close> for
  the shared types: strings, optional strings, hash maps and vectors.

  A Rust \<open>String\<close> is the list of its UTF-8 code units; \<open>rust_string\<close> is the invariant of
  that type.  \<open>wire_string\<close> is what the format can carry: a length in 1..32767, because the
  length is a signed 16-bit integer and length zero means \<open>None\<close>.
\<close>

section \<open>UTF-8\<close>

definition as_bytes :: "string \<Rightarrow> bytes" where
  "as_bytes s = map (\<lambda>c. of_nat (of_char c)) s"

definition utf8_cont :: "u8 \<Rightarrow> bool" where
  "utf8_cont b \<longleftrightarrow> 0x80 \<le> b \<and> b \<le> 0xBF"

fun utf8_valid :: "bytes \<Rightarrow> bool" where
  "utf8_valid [] = True"
| "utf8_valid (b # bs) =
    (if b < 0x80 then utf8_valid bs
     else if 0xC2 \<le> b \<and> b \<le> 0xDF then
       (case bs of b1 # r \<Rightarrow> utf8_cont b1 \<and> utf8_valid r | _ \<Rightarrow> False)
     else if 0xE0 \<le> b \<and> b \<le> 0xEF then
       (case bs of b1 # b2 # r \<Rightarrow>
          utf8_cont b1 \<and> (b = 0xE0 \<longrightarrow> 0xA0 \<le> b1) \<and> (b = 0xED \<longrightarrow> b1 \<le> 0x9F) \<and>
          utf8_cont b2 \<and> utf8_valid r
        | _ \<Rightarrow> False)
     else if 0xF0 \<le> b \<and> b \<le> 0xF4 then
       (case bs of b1 # b2 # b3 # r \<Rightarrow>
          utf8_cont b1 \<and> (b = 0xF0 \<longrightarrow> 0x90 \<le> b1) \<and> (b = 0xF4 \<longrightarrow> b1 \<le> 0x8F) \<and>
          utf8_cont b2 \<and> utf8_cont b3 \<and> utf8_valid r
        | _ \<Rightarrow> False)
     else False)"

definition string_of :: "bytes \<Rightarrow> string" where
  "string_of bs = map (\<lambda>b. char_of (unat b)) bs"

definition from_utf8 :: "bytes \<Rightarrow> (string, DecodeError) result" where
  "from_utf8 bs = (if utf8_valid bs then Ok (string_of bs) else Err (Utf8Error bs))"

definition rust_string :: "string \<Rightarrow> bool" where
  "rust_string s \<longleftrightarrow> utf8_valid (as_bytes s)"

definition wire_string :: "string \<Rightarrow> bool" where
  "wire_string s \<longleftrightarrow> rust_string s \<and> s \<noteq> [] \<and> length s < 2 ^ 15"

lemma as_bytes_length [simp]: "length (as_bytes s) = length s"
  by (simp add: as_bytes_def)

lemma as_bytes_Nil_iff [simp]: "as_bytes s = [] \<longleftrightarrow> s = []"
  by (simp add: as_bytes_def)

lemma string_of_as_bytes [simp]: "string_of (as_bytes s) = s"
proof -
  have "char_of (unat (of_nat (of_char c) :: u8)) = c" for c
    by (simp add: unsigned_of_nat take_bit_nat_eq_self)
  then show ?thesis
    by (simp add: string_of_def as_bytes_def comp_def)
qed

lemma from_utf8_as_bytes [simp]: "rust_string s \<Longrightarrow> from_utf8 (as_bytes s) = Ok s"
  by (simp add: from_utf8_def rust_string_def)

lemma as_bytes_string_of [simp]: "as_bytes (string_of bs) = bs"
proof -
  have "unat b mod 256 = unat b" for b :: u8
    using unsigned_less [of b, where ?'a = nat] by simp
  then show ?thesis
    by (simp add: string_of_def as_bytes_def comp_def)
qed

lemma from_utf8_Ok: "from_utf8 bs = Ok s \<Longrightarrow> rust_string s \<and> as_bytes s = bs"
  by (auto simp: from_utf8_def rust_string_def split: if_splits)

lemma ascii_rust_string:
  assumes "\<forall>c \<in> set s. of_char c < (128::nat)"
  shows "rust_string s"
  using assms unfolding rust_string_def as_bytes_def
  by (induction s) (auto simp: word_less_nat_alt unsigned_of_nat take_bit_nat_eq_self)

section \<open>Strings\<close>

definition encode_str :: "string \<Rightarrow> bytes" where
  "encode_str s = encode_i16 (of_nat (length s)) @ as_bytes s"

definition encoded_size_str :: "string \<Rightarrow> u32" where
  "encoded_size_str s = 2 + of_nat (length s)"

definition encode_opt_string :: "string option \<Rightarrow> bytes" where
  "encode_opt_string v = (case v of Some s \<Rightarrow> encode_str s | None \<Rightarrow> encode_i16 0)"

definition encoded_size_opt_string :: "string option \<Rightarrow> u32" where
  "encoded_size_opt_string v = 2 + (case v of Some s \<Rightarrow> of_nat (length s) | None \<Rightarrow> 0)"

definition split_at :: "bytes \<Rightarrow> nat \<Rightarrow> (bytes \<times> bytes, DecodeError) result" where
  "split_at input n = (if n \<le> length input then Ok (take n input, drop n input) else Panic)"

definition decode_opt_string :: "string option decoder" where
  "decode_opt_string input =
     and_then (read_i16 input) (\<lambda>(input, len).
       if len = 0 then Ok (input, None)
       else and_then (split_at input (as_usize len)) (\<lambda>(bs, input).
            and_then (from_utf8 bs) (\<lambda>string. Ok (input, Some string))))"

definition wire_opt_string :: "string option \<Rightarrow> bool" where
  "wire_opt_string v = (case v of Some s \<Rightarrow> wire_string s | None \<Rightarrow> True)"

lemma as_usize_of_nat16: "n < 2 ^ 15 \<Longrightarrow> as_usize (of_nat n :: i16) = n"
  by (rule as_usize_of_nat) simp_all

lemma of_nat_len16_neq_0:
  assumes "0 < n" "n < 2 ^ 15"
  shows "(of_nat n :: i16) \<noteq> 0"
  using assms as_usize_of_nat16 [of n] by (auto simp: as_usize_def)

interpretation opt_string: codec encode_opt_string decode_opt_string wire_opt_string
proof
  fix x rest
  assume "wire_opt_string x"
  then show "decode_opt_string (encode_opt_string x @ rest) = Ok (rest, x)"
    by (cases x)
       (auto simp: encode_opt_string_def decode_opt_string_def wire_opt_string_def encode_str_def
         split_at_def wire_string_def round_trips as_usize_of_nat16 of_nat_len16_neq_0)
qed

lemma decode_opt_string_str [round_trips]:
  "wire_string s \<Longrightarrow> decode_opt_string (encode_str s @ rest) = Ok (rest, Some s)"
  using opt_string.dec_enc [of "Some s" rest]
  by (simp add: wire_opt_string_def encode_opt_string_def)

lemma decode_opt_string_empty [simp]:
  "decode_opt_string (encode_str [] @ rest) = Ok (rest, None)"
  by (simp add: encode_str_def decode_opt_string_def round_trips as_bytes_def)

interpretation str: sized encode_str encoded_size_str "\<lambda>_. True"
  by unfold_locales (simp add: encode_str_def encoded_size_str_def)

interpretation opt_string: sized encode_opt_string encoded_size_opt_string "\<lambda>_. True"
  by unfold_locales
     (simp add: encode_opt_string_def encoded_size_opt_string_def encode_str_def split: option.split)

lemma prefix_decoder_split_at [prefix_decoders]:
  assumes "\<And>bs. prefix_decoder (f bs)"
  shows "prefix_decoder (\<lambda>input. and_then (split_at input n) (\<lambda>(bs, input). f bs input))"
proof
  fix input rest x
  assume "and_then (split_at input n) (\<lambda>(bs, input). f bs input) = Ok (rest, x)"
  then have n: "n \<le> length input" and f: "f (take n input) (drop n input) = Ok (rest, x)"
    by (auto simp: and_then_Ok_iff split_at_def split: if_splits)
  obtain c where c: "drop n input = c @ rest" "\<And>s. f (take n input) (c @ s) = Ok (s, x)"
    using prefix_decoder.consumes [OF assms f] by blast
  show "\<exists>c. input = c @ rest \<and>
      (\<forall>s. and_then (split_at (c @ s) n) (\<lambda>(bs, input). f bs input) = Ok (s, x))"
    by (rule exI [of _ "take n input @ c"])
       (use n c in \<open>auto simp: split_at_def min_def\<close>, metis append_take_drop_id)
qed

lemma prefix_decoder_lift [prefix_decoders]:
  assumes "\<And>x. prefix_decoder (f x)"
  shows "prefix_decoder (\<lambda>input. and_then m (\<lambda>x. f x input))"
  using assms by (cases m) (auto intro: prefix_decoders)

interpretation opt_string: prefix_decoder decode_opt_string
  unfolding decode_opt_string_def by (intro prefix_decoders)

section \<open>Maps and vectors of strings\<close>

type_synonym string_map = "(string \<times> string) list"

definition encode_pair :: "string \<times> string \<Rightarrow> bytes" where
  "encode_pair p = encode_str (fst p) @ encode_str (snd p)"

definition encode_map :: "string_map \<Rightarrow> bytes" where
  "encode_map m = encode_u32 (of_nat (length m)) @ concat (map encode_pair m)"

definition encoded_size_map :: "string_map \<Rightarrow> u32" where
  "encoded_size_map m =
     4 + foldl (\<lambda>acc p. acc + encoded_size_str (fst p) + encoded_size_str (snd p)) 0 m"

primrec decode_map_loop :: "nat \<Rightarrow> string_map \<Rightarrow> string_map decoder" where
  "decode_map_loop 0 m input = Ok (input, m)"
| "decode_map_loop (Suc n) m input =
     and_then (decode_opt_string input) (\<lambda>(input, key).
     and_then (decode_opt_string input) (\<lambda>(input, value).
       decode_map_loop n
         (case (key, value) of (Some k, Some v) \<Rightarrow> AList.update k v m | _ \<Rightarrow> m) input))"

definition decode_map :: "string_map decoder" where
  "decode_map input =
     and_then (read_u32 input) (\<lambda>(input, num_properties).
       decode_map_loop (unat num_properties) [] input)"

definition encode_strings :: "string list \<Rightarrow> bytes" where
  "encode_strings xs = encode_u32 (of_nat (length xs)) @ concat (map encode_str xs)"

definition encoded_size_strings :: "string list \<Rightarrow> u32" where
  "encoded_size_strings xs = 4 + foldl (\<lambda>acc v. acc + encoded_size_str v) 0 xs"

primrec decode_strings_loop :: "nat \<Rightarrow> string list \<Rightarrow> string list decoder" where
  "decode_strings_loop 0 vec input = Ok (input, vec)"
| "decode_strings_loop (Suc n) vec input =
     and_then (decode_opt_string input) (\<lambda>(input, value).
       decode_strings_loop n (case value of Some v \<Rightarrow> vec @ [v] | None \<Rightarrow> vec) input)"

definition decode_strings :: "string list decoder" where
  "decode_strings input =
     and_then (read_u32 input) (\<lambda>(input, num_properties).
       decode_strings_loop (unat num_properties) [] input)"

definition wire_map :: "string_map \<Rightarrow> bool" where
  "wire_map m \<longleftrightarrow> distinct (map fst m) \<and> length m < 2 ^ 32 \<and>
     list_all (\<lambda>p. wire_string (fst p) \<and> wire_string (snd p)) m"

definition wire_strings :: "string list \<Rightarrow> bool" where
  "wire_strings xs \<longleftrightarrow> length xs < 2 ^ 32 \<and> list_all wire_string xs"

lemma unat_of_nat32 [simp]: "n < 2 ^ 32 \<Longrightarrow> unat (of_nat n :: u32) = n"
  by (simp add: unsigned_of_nat take_bit_nat_eq_self)

lemma decode_map_loop_pairs:
  "list_all (\<lambda>p. wire_string (fst p) \<and> wire_string (snd p)) ps \<Longrightarrow>
   decode_map_loop (length ps) m (concat (map encode_pair ps) @ rest) =
     Ok (rest, foldl (\<lambda>m (k, v). AList.update k v m) m ps)"
  by (induction ps arbitrary: m) (auto simp: encode_pair_def round_trips)

lemma decode_strings_loop_strs:
  "list_all wire_string xs \<Longrightarrow>
   decode_strings_loop (length xs) vec (concat (map encode_str xs) @ rest) = Ok (rest, vec @ xs)"
  by (induction xs arbitrary: vec) (auto simp: round_trips)

interpretation string_map: codec encode_map decode_map wire_map
  by unfold_locales
     (simp add: encode_map_def decode_map_def wire_map_def round_trips decode_map_loop_pairs
       foldl_update_distinct)

interpretation strings: codec encode_strings decode_strings wire_strings
  by unfold_locales
     (simp add: encode_strings_def decode_strings_def wire_strings_def round_trips
       decode_strings_loop_strs)

interpretation pair: sized encode_pair "\<lambda>p. encoded_size_str (fst p) + encoded_size_str (snd p)" "\<lambda>_. True"
  by unfold_locales (simp add: encode_pair_def str.size_enc [OF TrueI])

interpretation string_map: sized encode_map encoded_size_map "\<lambda>_. True"
  by unfold_locales
     (simp add: encode_map_def encoded_size_map_def add.assoc pair.fold_size_enc list.pred_True)

interpretation strings: sized encode_strings encoded_size_strings "\<lambda>_. True"
  by unfold_locales (simp add: encode_strings_def encoded_size_strings_def str.fold_size_enc list.pred_True)

lemma decode_map_loop_fun:
  "decode_map_loop 0 m = (\<lambda>input. Ok (input, m))"
  "decode_map_loop (Suc n) m = (\<lambda>input. and_then (decode_opt_string input) (\<lambda>(input, key).
     and_then (decode_opt_string input) (\<lambda>(input, value).
       decode_map_loop n
         (case (key, value) of (Some k, Some v) \<Rightarrow> AList.update k v m | _ \<Rightarrow> m) input)))"
  by auto

lemma decode_strings_loop_fun:
  "decode_strings_loop 0 vec = (\<lambda>input. Ok (input, vec))"
  "decode_strings_loop (Suc n) vec = (\<lambda>input. and_then (decode_opt_string input)
     (\<lambda>(input, value).
       decode_strings_loop n (case value of Some v \<Rightarrow> vec @ [v] | None \<Rightarrow> vec) input))"
  by auto

declare opt_string.prefix_decoder_axioms [prefix_decoders]

lemma prefix_decoder_map_loop [prefix_decoders]: "prefix_decoder (decode_map_loop n m)"
  by (induction n arbitrary: m; unfold decode_map_loop_fun; intro prefix_decoders)

lemma prefix_decoder_strings_loop [prefix_decoders]: "prefix_decoder (decode_strings_loop n vec)"
  by (induction n arbitrary: vec; unfold decode_strings_loop_fun; intro prefix_decoders)

interpretation string_map: prefix_decoder decode_map
  unfolding decode_map_def by (intro prefix_decoders)

interpretation strings: prefix_decoder decode_strings
  unfolding decode_strings_def by (intro prefix_decoders)

section \<open>Vectors of integers\<close>

definition encode_vec_u8 :: "u8 list \<Rightarrow> bytes" where
  "encode_vec_u8 xs = encode_i32 (of_nat (length xs)) @ xs"

definition encoded_size_vec_u8 :: "u8 list \<Rightarrow> u32" where
  "encoded_size_vec_u8 xs = 4 + of_nat (length xs)"

definition decode_vec_u8 :: "u8 list decoder" where
  "decode_vec_u8 input =
     and_then (read_i32 input) (\<lambda>(input, len).
       if as_usize len \<le> length input
       then Ok (drop (as_usize len) input, take (as_usize len) input) else Panic)"

definition encode_vec_u32 :: "u32 list \<Rightarrow> bytes" where
  "encode_vec_u32 xs = encode_i32 (of_nat (length xs)) @ concat (map encode_u32 xs)"

definition encoded_size_vec_u32 :: "u32 list \<Rightarrow> u32" where
  "encoded_size_vec_u32 xs = 4 + foldl (\<lambda>acc v. acc + encoded_size_u32 v) 0 xs"

definition decode_vec_u32 :: "u32 list decoder" where
  "decode_vec_u32 = read_vec read_u32"

definition encode_vec_u16 :: "u16 list \<Rightarrow> bytes" where
  "encode_vec_u16 xs = encode_i32 (of_nat (length xs)) @ concat (map encode_u16 xs)"

definition encoded_size_vec_u16 :: "u16 list \<Rightarrow> u32" where
  "encoded_size_vec_u16 xs = 4 + foldl (\<lambda>acc v. acc + encoded_size_u16 v) 0 xs"

definition decode_vec_u16 :: "u16 list decoder" where
  "decode_vec_u16 = read_vec read_u16"

definition encode_vec_u64 :: "u64 list \<Rightarrow> bytes" where
  "encode_vec_u64 xs = encode_i32 (of_nat (length xs)) @ concat (map encode_u64 xs)"

definition encoded_size_vec_u64 :: "u64 list \<Rightarrow> u32" where
  "encoded_size_vec_u64 xs = 4 + foldl (\<lambda>acc v. acc + encoded_size_u64 v) 0 xs"

definition decode_vec_u64 :: "u64 list decoder" where
  "decode_vec_u64 = read_vec read_u64"

definition vec_fits :: "'a list \<Rightarrow> bool" where
  "vec_fits xs \<longleftrightarrow> length xs < 2 ^ 31"

interpretation vec_u8: codec encode_vec_u8 decode_vec_u8 vec_fits
  by unfold_locales
     (simp add: encode_vec_u8_def decode_vec_u8_def vec_fits_def round_trips as_usize_of_nat32)

interpretation vec_u32: codec encode_vec_u32 decode_vec_u32 vec_fits
  by unfold_locales
     (simp add: encode_vec_u32_def decode_vec_u32_def vec_fits_def u32.read_vec_enc list.pred_True)

interpretation vec_u16: codec encode_vec_u16 decode_vec_u16 vec_fits
  by unfold_locales
     (simp add: encode_vec_u16_def decode_vec_u16_def vec_fits_def u16.read_vec_enc list.pred_True)

interpretation vec_u64: codec encode_vec_u64 decode_vec_u64 vec_fits
  by unfold_locales
     (simp add: encode_vec_u64_def decode_vec_u64_def vec_fits_def u64.read_vec_enc list.pred_True)

interpretation vec_u8: sized encode_vec_u8 encoded_size_vec_u8 "\<lambda>_. True"
  by unfold_locales (simp add: encode_vec_u8_def encoded_size_vec_u8_def)

interpretation vec_u32: sized encode_vec_u32 encoded_size_vec_u32 "\<lambda>_. True"
  by unfold_locales (simp add: encode_vec_u32_def encoded_size_vec_u32_def u32.fold_size_enc list.pred_True)

interpretation vec_u16: sized encode_vec_u16 encoded_size_vec_u16 "\<lambda>_. True"
  by unfold_locales (simp add: encode_vec_u16_def encoded_size_vec_u16_def u16.fold_size_enc list.pred_True)

interpretation vec_u64: sized encode_vec_u64 encoded_size_vec_u64 "\<lambda>_. True"
  by unfold_locales (simp add: encode_vec_u64_def encoded_size_vec_u64_def u64.fold_size_enc list.pred_True)

interpretation vec_u32: resumable decode_vec_u32
  unfolding decode_vec_u32_def by (intro resumables)

interpretation vec_u16: resumable decode_vec_u16
  unfolding decode_vec_u16_def by (intro resumables)

interpretation vec_u64: resumable decode_vec_u64
  unfolding decode_vec_u64_def by (intro resumables)

lemmas vec_round_trips [round_trips] =
  opt_string.dec_enc string_map.dec_enc strings.dec_enc
  vec_u8.dec_enc vec_u32.dec_enc vec_u16.dec_enc vec_u64.dec_enc

lemmas vec_sizes [size_simps] =
  str.size_enc [OF TrueI] opt_string.size_enc [OF TrueI] string_map.size_enc [OF TrueI] strings.size_enc [OF TrueI]
  vec_u8.size_enc [OF TrueI] vec_u32.size_enc [OF TrueI] vec_u16.size_enc [OF TrueI] vec_u64.size_enc [OF TrueI]

lemmas vec_resumables [resumables] =
  vec_u32.resumable_axioms vec_u16.resumable_axioms vec_u64.resumable_axioms

lemma decode_vec_u8_split:
  "decode_vec_u8 = (\<lambda>input. and_then (read_i32 input) (\<lambda>(input, len).
     and_then (split_at input (as_usize len)) (\<lambda>(bs, input). Ok (input, bs))))"
  by (auto simp: fun_eq_iff decode_vec_u8_def split_at_def intro!: and_then_cong)

interpretation vec_u8: prefix_decoder decode_vec_u8
  unfolding decode_vec_u8_split by (intro prefix_decoders)

lemmas codec_prefix_decoders [prefix_decoders] =
  string_map.prefix_decoder_axioms strings.prefix_decoder_axioms vec_u8.prefix_decoder_axioms
  vec_u32.prefix_decoder_axioms vec_u16.prefix_decoder_axioms vec_u64.prefix_decoder_axioms

end
