(* ===== verification/Types.thy ===== *)
theory Types
  imports Codec
begin

text \<open>
  The protocol constants (\<open>protocol.rs\<close>), the response codes and their wire form
  (\<open>response/mod.rs\<close>, \<open>response/shims.rs\<close>), and \<open>Header\<close> and \<open>PublishingError\<close> of
  \<open>types.rs\<close> with their codecs.  \<open>ResponseOk\<close> is the variant \<open>ResponseCode::Ok\<close>.
\<close>

section \<open>Command keys, response codes and versions\<close>

named_theorems command_keys \<open>values of the command keys\<close>

definition COMMAND_DECLARE_PUBLISHER :: u16 where [command_keys]: "COMMAND_DECLARE_PUBLISHER = 1"
definition COMMAND_PUBLISH :: u16 where [command_keys]: "COMMAND_PUBLISH = 2"
definition COMMAND_PUBLISH_CONFIRM :: u16 where [command_keys]: "COMMAND_PUBLISH_CONFIRM = 3"
definition COMMAND_PUBLISH_ERROR :: u16 where [command_keys]: "COMMAND_PUBLISH_ERROR = 4"
definition COMMAND_QUERY_PUBLISHER_SEQUENCE :: u16 where [command_keys]: "COMMAND_QUERY_PUBLISHER_SEQUENCE = 5"
definition COMMAND_DELETE_PUBLISHER :: u16 where [command_keys]: "COMMAND_DELETE_PUBLISHER = 6"
definition COMMAND_SUBSCRIBE :: u16 where [command_keys]: "COMMAND_SUBSCRIBE = 7"
definition COMMAND_DELIVER :: u16 where [command_keys]: "COMMAND_DELIVER = 8"
definition COMMAND_CREDIT :: u16 where [command_keys]: "COMMAND_CREDIT = 9"
definition COMMAND_STORE_OFFSET :: u16 where [command_keys]: "COMMAND_STORE_OFFSET = 10"
definition COMMAND_QUERY_OFFSET :: u16 where [command_keys]: "COMMAND_QUERY_OFFSET = 11"
definition COMMAND_UNSUBSCRIBE :: u16 where [command_keys]: "COMMAND_UNSUBSCRIBE = 12"
definition COMMAND_CREATE_STREAM :: u16 where [command_keys]: "COMMAND_CREATE_STREAM = 13"
definition COMMAND_DELETE_STREAM :: u16 where [command_keys]: "COMMAND_DELETE_STREAM = 14"
definition COMMAND_METADATA :: u16 where [command_keys]: "COMMAND_METADATA = 15"
definition COMMAND_METADATA_UPDATE :: u16 where [command_keys]: "COMMAND_METADATA_UPDATE = 16"
definition COMMAND_PEER_PROPERTIES :: u16 where [command_keys]: "COMMAND_PEER_PROPERTIES = 17"
definition COMMAND_SASL_HANDSHAKE :: u16 where [command_keys]: "COMMAND_SASL_HANDSHAKE = 18"
definition COMMAND_SASL_AUTHENTICATE :: u16 where [command_keys]: "COMMAND_SASL_AUTHENTICATE = 19"
definition COMMAND_TUNE :: u16 where [command_keys]: "COMMAND_TUNE = 20"
definition COMMAND_OPEN :: u16 where [command_keys]: "COMMAND_OPEN = 21"
definition COMMAND_CLOSE :: u16 where [command_keys]: "COMMAND_CLOSE = 22"
definition COMMAND_HEARTBEAT :: u16 where [command_keys]: "COMMAND_HEARTBEAT = 23"
definition COMMAND_ROUTE :: u16 where [command_keys]: "COMMAND_ROUTE = 24"
definition COMMAND_PARTITIONS :: u16 where [command_keys]: "COMMAND_PARTITIONS = 25"
definition COMMAND_CONSUMER_UPDATE :: u16 where [command_keys]: "COMMAND_CONSUMER_UPDATE = 26"
definition COMMAND_EXCHANGE_COMMAND_VERSIONS :: u16 where [command_keys]: "COMMAND_EXCHANGE_COMMAND_VERSIONS = 27"
definition COMMAND_STREAMS_STATS :: u16 where [command_keys]: "COMMAND_STREAMS_STATS = 28"
definition COMMAND_CREATE_SUPER_STREAM :: u16 where [command_keys]: "COMMAND_CREATE_SUPER_STREAM = 29"
definition COMMAND_DELETE_SUPER_STREAM :: u16 where [command_keys]: "COMMAND_DELETE_SUPER_STREAM = 30"
definition COMMAND_CONSUMER_UPDATE_REQUEST :: u16 where [command_keys]: "COMMAND_CONSUMER_UPDATE_REQUEST = 32794"

named_theorems response_codes \<open>values of the response codes\<close>

definition RESPONSE_CODE_OK :: u16 where
  [response_codes]: "RESPONSE_CODE_OK = 1"
definition RESPONSE_CODE_STREAM_DOES_NOT_EXIST :: u16 where
  [response_codes]: "RESPONSE_CODE_STREAM_DOES_NOT_EXIST = 2"
definition RESPONSE_CODE_SUBSCRIPTION_ID_ALREADY_EXISTS :: u16 where
  [response_codes]: "RESPONSE_CODE_SUBSCRIPTION_ID_ALREADY_EXISTS = 3"
definition RESPONSE_CODE_SUBSCRIPTION_ID_DOES_NOT_EXIST :: u16 where
  [response_codes]: "RESPONSE_CODE_SUBSCRIPTION_ID_DOES_NOT_EXIST = 4"
definition RESPONSE_CODE_STREAM_ALREADY_EXISTS :: u16 where
  [response_codes]: "RESPONSE_CODE_STREAM_ALREADY_EXISTS = 5"
definition RESPONSE_CODE_STREAM_NOT_AVAILABLE :: u16 where
  [response_codes]: "RESPONSE_CODE_STREAM_NOT_AVAILABLE = 6"
definition RESPONSE_CODE_SASL_MECHANISM_NOT_SUPPORTED :: u16 where
  [response_codes]: "RESPONSE_CODE_SASL_MECHANISM_NOT_SUPPORTED = 7"
definition RESPONSE_CODE_AUTHENTICATION_FAILURE :: u16 where
  [response_codes]: "RESPONSE_CODE_AUTHENTICATION_FAILURE = 8"
definition RESPONSE_CODE_SASL_ERROR :: u16 where
  [response_codes]: "RESPONSE_CODE_SASL_ERROR = 9"
definition RESPONSE_CODE_SASL_CHALLENGE :: u16 where
  [response_codes]: "RESPONSE_CODE_SASL_CHALLENGE = 10"
definition RESPONSE_CODE_AUTHENTICATION_FAILURE_LOOPBACK :: u16 where
  [response_codes]: "RESPONSE_CODE_AUTHENTICATION_FAILURE_LOOPBACK = 11"
definition RESPONSE_CODE_VIRTUAL_HOST_ACCESS_FAILURE :: u16 where
  [response_codes]: "RESPONSE_CODE_VIRTUAL_HOST_ACCESS_FAILURE = 12"
definition RESPONSE_CODE_UNKNOWN_FRAME :: u16 where
  [response_codes]: "RESPONSE_CODE_UNKNOWN_FRAME = 13"
definition RESPONSE_CODE_FRAME_TOO_LARGE :: u16 where
  [response_codes]: "RESPONSE_CODE_FRAME_TOO_LARGE = 14"
definition RESPONSE_CODE_INTERNAL_ERROR :: u16 where
  [response_codes]: "RESPONSE_CODE_INTERNAL_ERROR = 15"
definition RESPONSE_CODE_ACCESS_REFUSED :: u16 where
  [response_codes]: "RESPONSE_CODE_ACCESS_REFUSED = 16"
definition RESPONSE_CODE_PRECONDITION_FAILED :: u16 where
  [response_codes]: "RESPONSE_CODE_PRECONDITION_FAILED = 17"
definition RESPONSE_CODE_PUBLISHER_DOES_NOT_EXIST :: u16 where
  [response_codes]: "RESPONSE_CODE_PUBLISHER_DOES_NOT_EXIST = 18"
definition RESPONSE_CODE_OFFSET_NOT_FOUND :: u16 where
  [response_codes]: "RESPONSE_CODE_OFFSET_NOT_FOUND = 19"

definition PROTOCOL_VERSION :: u16 where "PROTOCOL_VERSION = 1"
definition PROTOCOL_VERSION_2 :: u16 where "PROTOCOL_VERSION_2 = 2"

section \<open>ResponseCode\<close>

datatype ResponseCode =
    ResponseOk
  | StreamDoesNotExist
  | SubscriptionIdAlreadyExists
  | SubscriptionIdDoesNotExist
  | StreamAlreadyExists
  | StreamNotAvailable
  | SaslMechanismNotSupported
  | AuthenticationFailure
  | SaslError
  | SaslChallange
  | AuthenticationFailureLoopback
  | VirtualHostAccessFailure
  | UnknownFrame
  | FrameTooLarge
  | InternalError
  | AccessRefused
  | PrecoditionFailed
  | PublisherDoesNotExist
  | OffsetNotFound

definition response_code_try_from :: "u16 \<Rightarrow> (ResponseCode, DecodeError) result" where
  "response_code_try_from value =
    (if value = RESPONSE_CODE_OK then Ok ResponseOk
     else if value = RESPONSE_CODE_STREAM_DOES_NOT_EXIST then Ok StreamDoesNotExist
     else if value = RESPONSE_CODE_SUBSCRIPTION_ID_ALREADY_EXISTS then Ok SubscriptionIdAlreadyExists
     else if value = RESPONSE_CODE_SUBSCRIPTION_ID_DOES_NOT_EXIST then Ok SubscriptionIdDoesNotExist
     else if value = RESPONSE_CODE_STREAM_ALREADY_EXISTS then Ok StreamAlreadyExists
     else if value = RESPONSE_CODE_STREAM_NOT_AVAILABLE then Ok StreamNotAvailable
     else if value = RESPONSE_CODE_SASL_MECHANISM_NOT_SUPPORTED then Ok SaslMechanismNotSupported
     else if value = RESPONSE_CODE_AUTHENTICATION_FAILURE then Ok AuthenticationFailure
     else if value = RESPONSE_CODE_SASL_ERROR then Ok SaslError
     else if value = RESPONSE_CODE_SASL_CHALLENGE then Ok SaslChallange
     else if value = RESPONSE_CODE_AUTHENTICATION_FAILURE_LOOPBACK then Ok AuthenticationFailureLoopback
     else if value = RESPONSE_CODE_VIRTUAL_HOST_ACCESS_FAILURE then Ok VirtualHostAccessFailure
     else if value = RESPONSE_CODE_UNKNOWN_FRAME then Ok UnknownFrame
     else if value = RESPONSE_CODE_FRAME_TOO_LARGE then Ok FrameTooLarge
     else if value = RESPONSE_CODE_INTERNAL_ERROR then Ok InternalError
     else if value = RESPONSE_CODE_ACCESS_REFUSED then Ok AccessRefused
     else if value = RESPONSE_CODE_PRECONDITION_FAILED then Ok PrecoditionFailed
     else if value = RESPONSE_CODE_PUBLISHER_DOES_NOT_EXIST then Ok PublisherDoesNotExist
     else if value = RESPONSE_CODE_OFFSET_NOT_FOUND then Ok OffsetNotFound
     else Err (UnknownResponseCode value))"

fun response_code_u16 :: "ResponseCode \<Rightarrow> u16" where
  "response_code_u16 ResponseOk = RESPONSE_CODE_OK"
| "response_code_u16 StreamDoesNotExist = RESPONSE_CODE_STREAM_DOES_NOT_EXIST"
| "response_code_u16 SubscriptionIdAlreadyExists = RESPONSE_CODE_SUBSCRIPTION_ID_ALREADY_EXISTS"
| "response_code_u16 SubscriptionIdDoesNotExist = RESPONSE_CODE_SUBSCRIPTION_ID_DOES_NOT_EXIST"
| "response_code_u16 StreamAlreadyExists = RESPONSE_CODE_STREAM_ALREADY_EXISTS"
| "response_code_u16 StreamNotAvailable = RESPONSE_CODE_STREAM_NOT_AVAILABLE"
| "response_code_u16 SaslMechanismNotSupported = RESPONSE_CODE_SASL_MECHANISM_NOT_SUPPORTED"
| "response_code_u16 AuthenticationFailure = RESPONSE_CODE_AUTHENTICATION_FAILURE"
| "response_code_u16 SaslError = RESPONSE_CODE_SASL_ERROR"
| "response_code_u16 SaslChallange = RESPONSE_CODE_SASL_CHALLENGE"
| "response_code_u16 AuthenticationFailureLoopback = RESPONSE_CODE_AUTHENTICATION_FAILURE_LOOPBACK"
| "response_code_u16 VirtualHostAccessFailure = RESPONSE_CODE_VIRTUAL_HOST_ACCESS_FAILURE"
| "response_code_u16 UnknownFrame = RESPONSE_CODE_UNKNOWN_FRAME"
| "response_code_u16 FrameTooLarge = RESPONSE_CODE_FRAME_TOO_LARGE"
| "response_code_u16 InternalError = RESPONSE_CODE_INTERNAL_ERROR"
| "response_code_u16 AccessRefused = RESPONSE_CODE_ACCESS_REFUSED"
| "response_code_u16 PrecoditionFailed = RESPONSE_CODE_PRECONDITION_FAILED"
| "response_code_u16 PublisherDoesNotExist = RESPONSE_CODE_PUBLISHER_DOES_NOT_EXIST"
| "response_code_u16 OffsetNotFound = RESPONSE_CODE_OFFSET_NOT_FOUND"

definition encode_response :: "ResponseCode \<Rightarrow> bytes" where
  "encode_response c = encode_u16 (response_code_u16 c)"

definition encoded_size_response :: "ResponseCode \<Rightarrow> u32" where
  "encoded_size_response c = 2"

definition decode_response :: "ResponseCode decoder" where
  "decode_response input =
     and_then (read_u16 input) (\<lambda>(input, code).
     and_then (response_code_try_from code) (\<lambda>c. Ok (input, c)))"

lemma response_code_try_from_u16 [simp]: "response_code_try_from (response_code_u16 c) = Ok c"
  by (cases c) (simp_all add: response_code_try_from_def response_codes)

lemma response_code_try_from_Ok:
  "response_code_try_from v = Ok c \<longleftrightarrow> v = response_code_u16 c"
  by (cases c; auto simp: response_code_try_from_def response_codes split: if_splits)

interpretation response_code: codec encode_response decode_response "\<lambda>_. True"
  by unfold_locales (simp add: encode_response_def decode_response_def round_trips)

interpretation response_code: sized encode_response encoded_size_response "\<lambda>_. True"
  by unfold_locales (simp add: encode_response_def encoded_size_response_def)

lemma resumable_lift [resumables]:
  assumes "\<And>x. resumable (f x)"
  shows "resumable (\<lambda>input. and_then m (\<lambda>x. f x input))"
  using assms by (cases m) (auto intro: resumables)

interpretation response_code: resumable decode_response
  unfolding decode_response_def by (intro resumables)

section \<open>Header\<close>

record Header =
  key :: u16
  version :: u16

definition extract_response_code :: "u16 \<Rightarrow> u16" where
  "extract_response_code code = code AND 0x7FFF"

definition encode_response_code :: "u16 \<Rightarrow> u16" where
  "encode_response_code code = code OR 0x8000"

definition encode_header :: "Header \<Rightarrow> bytes" where
  "encode_header h = encode_u16 (key h) @ encode_u16 (version h)"

definition encoded_size_header :: "Header \<Rightarrow> u32" where
  "encoded_size_header h = 2 + 2"

definition decode_header :: "Header decoder" where
  "decode_header input =
     and_then (read_u16 input) (\<lambda>(input, k).
     and_then (read_u16 input) (\<lambda>(input, v).
       Ok (input, \<lparr>key = extract_response_code k, version = v\<rparr>)))"

definition wf_header :: "Header \<Rightarrow> bool" where
  "wf_header h \<longleftrightarrow> extract_response_code (key h) = key h"

lemma extract_encode_response_code [simp]:
  "extract_response_code (encode_response_code c) = extract_response_code c"
  unfolding extract_response_code_def encode_response_code_def
  by (simp add: bit.conj_disj_distrib2)

lemma extract_response_code_small: "c < 0x8000 \<Longrightarrow> extract_response_code c = c"
proof -
  assume "c < 0x8000"
  then have "take_bit 15 (unat c) = unat c"
    by (simp add: take_bit_nat_eq_self_iff word_less_nat_alt)
  then have "take_bit 15 c = c"
    by (metis unsigned_take_bit_eq unsigned_word_eqI)
  moreover have "take_bit 15 c = c AND 0x7FFF"
    by (simp add: take_bit_eq_mask mask_eq_exp_minus_1)
  ultimately show ?thesis by (simp add: extract_response_code_def)
qed

interpretation header: codec encode_header decode_header wf_header
  by unfold_locales (simp add: encode_header_def decode_header_def wf_header_def round_trips)

interpretation header: sized encode_header encoded_size_header "\<lambda>_. True"
  by unfold_locales (simp add: encode_header_def encoded_size_header_def)

interpretation header: resumable decode_header
  unfolding decode_header_def by (intro resumables)

section \<open>PublishingError\<close>

record PublishingError =
  publishing_id :: u64
  error_code :: ResponseCode

definition encode_publishing_error :: "PublishingError \<Rightarrow> bytes" where
  "encode_publishing_error e = encode_u64 (publishing_id e) @ encode_response (error_code e)"

definition encoded_size_publishing_error :: "PublishingError \<Rightarrow> u32" where
  "encoded_size_publishing_error e = 8 + 2"

definition decode_publishing_error :: "PublishingError decoder" where
  "decode_publishing_error input =
     and_then (read_u64 input) (\<lambda>(input, i).
     and_then (decode_response input) (\<lambda>(input, code).
       Ok (input, \<lparr>publishing_id = i, error_code = code\<rparr>)))"

definition encode_publishing_errors :: "PublishingError list \<Rightarrow> bytes" where
  "encode_publishing_errors xs =
     encode_i32 (of_nat (length xs)) @ concat (map encode_publishing_error xs)"

definition encoded_size_publishing_errors :: "PublishingError list \<Rightarrow> u32" where
  "encoded_size_publishing_errors xs =
     4 + foldl (\<lambda>acc v. acc + encoded_size_publishing_error v) 0 xs"

definition decode_publishing_errors :: "PublishingError list decoder" where
  "decode_publishing_errors input =
     and_then (read_u32 input) (\<lambda>(input, num_properties).
       decode_n decode_publishing_error (unat num_properties) input)"

definition vec_fits32 :: "'a list \<Rightarrow> bool" where
  "vec_fits32 xs \<longleftrightarrow> length xs < 2 ^ 32"

lemmas response_code_round_trip [round_trips] = response_code.dec_enc [OF TrueI]
lemmas header_round_trip [round_trips] = header.dec_enc
lemmas types_sizes [size_simps] = response_code.size_enc [OF TrueI] header.size_enc [OF TrueI]
lemmas types_resumable [resumables] = response_code.resumable_axioms header.resumable_axioms
lemmas types_prefix_decoders [prefix_decoders] =
  response_code.prefix_decoder_axioms header.prefix_decoder_axioms

interpretation publishing_error:
  codec encode_publishing_error decode_publishing_error "\<lambda>_. True"
  by unfold_locales
     (simp add: encode_publishing_error_def decode_publishing_error_def round_trips)

interpretation publishing_error: sized encode_publishing_error encoded_size_publishing_error "\<lambda>_. True"
  by unfold_locales
     (simp add: encode_publishing_error_def encoded_size_publishing_error_def encode_response_def)

interpretation publishing_error: resumable decode_publishing_error
  unfolding decode_publishing_error_def by (intro resumables)

interpretation publishing_errors:
  codec encode_publishing_errors decode_publishing_errors vec_fits32
  by unfold_locales
     (simp add: encode_publishing_errors_def decode_publishing_errors_def vec_fits32_def
       round_trips publishing_error.decode_n_concat list.pred_True flip: encode_i32_u32)

interpretation publishing_errors: sized encode_publishing_errors encoded_size_publishing_errors "\<lambda>_. True"
  by unfold_locales
     (simp add: encode_publishing_errors_def encoded_size_publishing_errors_def
       publishing_error.fold_size_enc list.pred_True)

interpretation publishing_errors: resumable decode_publishing_errors
  unfolding decode_publishing_errors_def
  by (intro resumables publishing_error.resumable_axioms)

lemmas publishing_errors_facts [round_trips] = publishing_errors.dec_enc
lemmas publishing_errors_size [size_simps] = publishing_errors.size_enc [OF TrueI]
lemmas publishing_errors_resumable [resumables] = publishing_errors.resumable_axioms
lemmas publishing_errors_prefix_decoder [prefix_decoders] = publishing_errors.prefix_decoder_axioms

section \<open>Properties of response codes\<close>

lemma if_Ok_total:
  "(\<exists>c. m = Ok c) \<or> m = Err e \<Longrightarrow>
   (\<exists>c. (if b then Ok x else m) = Ok c) \<or> (if b then Ok x else m) = Err e"
  by auto

lemma response_code_try_from_total:
  "(\<exists>c. response_code_try_from n = Ok c) \<or> response_code_try_from n = Err (UnknownResponseCode n)"
  unfolding response_code_try_from_def by (intro if_Ok_total) simp

text \<open>Response codes and their numbers are in bijection: every code has its own number,
  which is read back as that code, and a number is refused exactly when no code has it.\<close>

theorem response_code_bijection:
  "response_code_try_from (response_code_u16 c) = Ok c \<and>
   (response_code_try_from n = Ok d \<longleftrightarrow> n = response_code_u16 d) \<and>
   (response_code_try_from n = Err (UnknownResponseCode n) \<longleftrightarrow> n \<notin> range response_code_u16)"
  using response_code_try_from_total [of n]
  by (auto simp: response_code_try_from_Ok)

end
