(* ===== verification/Commands_Connection.thy ===== *)
theory Commands_Connection
  imports Types
begin

text \<open>
  The commands that set up, tune and close a connection (\<open>protocol/src/commands\<close>): peer
  properties, SASL handshake and authentication, tune, open, close, heartbeat, exchange of
  command versions, and the generic response.  Every command has its record, its \<open>new\<close>,
  its encoder with the announced size, its decoder and its key; \<open>wf_\<close> predicates say
  which values the wire format can carry.  The encoders of the responses the client only
  decodes are those of the source's test modules.
\<close>

section \<open>Peer properties, SASL, tune, open and close\<close>

subsection \<open>PeerPropertiesCommand\<close>

record PeerPropertiesCommand =
  correlation_id :: u32
  client_properties :: string_map

definition new_PeerPropertiesCommand :: "u32 \<Rightarrow> string_map \<Rightarrow> PeerPropertiesCommand" where
  "new_PeerPropertiesCommand correlation_id' client_properties' =
     \<lparr>correlation_id = correlation_id', client_properties = client_properties'\<rparr>"

definition encode_PeerPropertiesCommand :: "PeerPropertiesCommand \<Rightarrow> bytes" where
  [codec_defs]: "encode_PeerPropertiesCommand r =
     encode_u32 (correlation_id r) @ encode_map (client_properties r)"

definition encoded_size_PeerPropertiesCommand :: "PeerPropertiesCommand \<Rightarrow> u32" where
  [codec_defs]: "encoded_size_PeerPropertiesCommand r =
     encoded_size_u32 (correlation_id r) + encoded_size_map (client_properties r)"

definition decode_PeerPropertiesCommand :: "PeerPropertiesCommand decoder" where
  [codec_defs]: "decode_PeerPropertiesCommand input =
     and_then (read_u32 input) (\<lambda>(input, correlation_id').
     and_then (decode_map input) (\<lambda>(input, client_properties').
       Ok (input, \<lparr>correlation_id = correlation_id', client_properties = client_properties'\<rparr>)))"

definition key_PeerPropertiesCommand :: "PeerPropertiesCommand \<Rightarrow> u16" where
  "key_PeerPropertiesCommand r = COMMAND_PEER_PROPERTIES"

definition wf_PeerPropertiesCommand :: "PeerPropertiesCommand \<Rightarrow> bool" where
  [codec_defs]: "wf_PeerPropertiesCommand r \<longleftrightarrow> wire_map (client_properties r)"

interpretation PeerPropertiesCommand: codec encode_PeerPropertiesCommand decode_PeerPropertiesCommand wf_PeerPropertiesCommand
  by unfold_locales (simp add: codec_defs round_trips)

lemmas PeerPropertiesCommand_round_trip [round_trips] = PeerPropertiesCommand.dec_enc

interpretation PeerPropertiesCommand: sized encode_PeerPropertiesCommand encoded_size_PeerPropertiesCommand "\<lambda>_. True"
  by unfold_locales (simp add: codec_defs size_simps)

lemmas PeerPropertiesCommand_size [size_simps] = PeerPropertiesCommand.size_enc [OF TrueI]

interpretation PeerPropertiesCommand: prefix_decoder decode_PeerPropertiesCommand
  unfolding decode_PeerPropertiesCommand_def by (intro prefix_decoders)

lemmas PeerPropertiesCommand_prefix_decoder [prefix_decoders] = PeerPropertiesCommand.prefix_decoder_axioms

subsection \<open>PeerPropertiesResponse\<close>

record PeerPropertiesResponse =
  correlation_id :: u32
  code :: ResponseCode
  server_properties :: string_map

definition new_PeerPropertiesResponse :: "u32 \<Rightarrow> ResponseCode \<Rightarrow> string_map \<Rightarrow> PeerPropertiesResponse" where
  "new_PeerPropertiesResponse correlation_id' code' server_properties' =
     \<lparr>correlation_id = correlation_id', code = code', server_properties = server_properties'\<rparr>"

definition encode_PeerPropertiesResponse :: "PeerPropertiesResponse \<Rightarrow> bytes" where
  [codec_defs]: "encode_PeerPropertiesResponse r =
     encode_u32 (correlation_id r) @ encode_response (code r) @ encode_map (server_properties r)"

definition decode_PeerPropertiesResponse :: "PeerPropertiesResponse decoder" where
  [codec_defs]: "decode_PeerPropertiesResponse input =
     and_then (read_u32 input) (\<lambda>(input, correlation_id').
     and_then (decode_response input) (\<lambda>(input, code').
     and_then (decode_map input) (\<lambda>(input, server_properties').
       Ok (input, \<lparr>correlation_id = correlation_id', code = code', server_properties = server_properties'\<rparr>))))"

definition wf_PeerPropertiesResponse :: "PeerPropertiesResponse \<Rightarrow> bool" where
  [codec_defs]: "wf_PeerPropertiesResponse r \<longleftrightarrow> wire_map (server_properties r)"

interpretation PeerPropertiesResponse: codec encode_PeerPropertiesResponse decode_PeerPropertiesResponse wf_PeerPropertiesResponse
  by unfold_locales (simp add: codec_defs round_trips)

lemmas PeerPropertiesResponse_round_trip [round_trips] = PeerPropertiesResponse.dec_enc

interpretation PeerPropertiesResponse: prefix_decoder decode_PeerPropertiesResponse
  unfolding decode_PeerPropertiesResponse_def by (intro prefix_decoders)

lemmas PeerPropertiesResponse_prefix_decoder [prefix_decoders] = PeerPropertiesResponse.prefix_decoder_axioms

subsection \<open>SaslHandshakeCommand\<close>

record SaslHandshakeCommand =
  correlation_id :: u32

definition new_SaslHandshakeCommand :: "u32 \<Rightarrow> SaslHandshakeCommand" where
  "new_SaslHandshakeCommand correlation_id' =
     \<lparr>correlation_id = correlation_id'\<rparr>"

definition encode_SaslHandshakeCommand :: "SaslHandshakeCommand \<Rightarrow> bytes" where
  [codec_defs]: "encode_SaslHandshakeCommand r =
     encode_u32 (correlation_id r)"

definition encoded_size_SaslHandshakeCommand :: "SaslHandshakeCommand \<Rightarrow> u32" where
  [codec_defs]: "encoded_size_SaslHandshakeCommand r =
     encoded_size_u32 (correlation_id r)"

definition decode_SaslHandshakeCommand :: "SaslHandshakeCommand decoder" where
  [codec_defs]: "decode_SaslHandshakeCommand input =
     and_then (read_u32 input) (\<lambda>(input, correlation_id').
       Ok (input, \<lparr>correlation_id = correlation_id'\<rparr>))"

definition key_SaslHandshakeCommand :: "SaslHandshakeCommand \<Rightarrow> u16" where
  "key_SaslHandshakeCommand r = COMMAND_SASL_HANDSHAKE"

interpretation SaslHandshakeCommand: codec encode_SaslHandshakeCommand decode_SaslHandshakeCommand "\<lambda>_. True"
  by unfold_locales (simp add: codec_defs round_trips)

lemmas SaslHandshakeCommand_round_trip [round_trips] = SaslHandshakeCommand.dec_enc [OF TrueI]

interpretation SaslHandshakeCommand: sized encode_SaslHandshakeCommand encoded_size_SaslHandshakeCommand "\<lambda>_. True"
  by unfold_locales (simp add: codec_defs size_simps)

lemmas SaslHandshakeCommand_size [size_simps] = SaslHandshakeCommand.size_enc [OF TrueI]

interpretation SaslHandshakeCommand: resumable decode_SaslHandshakeCommand
  unfolding decode_SaslHandshakeCommand_def by (intro resumables)

lemmas SaslHandshakeCommand_resumable [resumables] = SaslHandshakeCommand.resumable_axioms
lemmas SaslHandshakeCommand_prefix_decoder [prefix_decoders] = SaslHandshakeCommand.prefix_decoder_axioms

subsection \<open>SaslHandshakeResponse\<close>

record SaslHandshakeResponse =
  correlation_id :: u32
  code :: ResponseCode
  mechanisms :: "string list"

definition encode_SaslHandshakeResponse :: "SaslHandshakeResponse \<Rightarrow> bytes" where
  [codec_defs]: "encode_SaslHandshakeResponse r =
     encode_u32 (correlation_id r) @ encode_response (code r) @ encode_strings (mechanisms r)"

definition decode_SaslHandshakeResponse :: "SaslHandshakeResponse decoder" where
  [codec_defs]: "decode_SaslHandshakeResponse input =
     and_then (read_u32 input) (\<lambda>(input, correlation_id').
     and_then (decode_response input) (\<lambda>(input, code').
     and_then (decode_strings input) (\<lambda>(input, mechanisms').
       Ok (input, \<lparr>correlation_id = correlation_id', code = code', mechanisms = mechanisms'\<rparr>))))"

definition wf_SaslHandshakeResponse :: "SaslHandshakeResponse \<Rightarrow> bool" where
  [codec_defs]: "wf_SaslHandshakeResponse r \<longleftrightarrow> wire_strings (mechanisms r)"

interpretation SaslHandshakeResponse: codec encode_SaslHandshakeResponse decode_SaslHandshakeResponse wf_SaslHandshakeResponse
  by unfold_locales (simp add: codec_defs round_trips)

lemmas SaslHandshakeResponse_round_trip [round_trips] = SaslHandshakeResponse.dec_enc

interpretation SaslHandshakeResponse: prefix_decoder decode_SaslHandshakeResponse
  unfolding decode_SaslHandshakeResponse_def by (intro prefix_decoders)

lemmas SaslHandshakeResponse_prefix_decoder [prefix_decoders] = SaslHandshakeResponse.prefix_decoder_axioms

subsection \<open>SaslAuthenticateCommand\<close>

record SaslAuthenticateCommand =
  correlation_id :: u32
  mechanism :: string
  sasl_data :: "u8 list"

definition new_SaslAuthenticateCommand :: "u32 \<Rightarrow> string \<Rightarrow> u8 list \<Rightarrow> SaslAuthenticateCommand" where
  "new_SaslAuthenticateCommand correlation_id' mechanism' sasl_data' =
     \<lparr>correlation_id = correlation_id', mechanism = mechanism', sasl_data = sasl_data'\<rparr>"

definition encode_SaslAuthenticateCommand :: "SaslAuthenticateCommand \<Rightarrow> bytes" where
  [codec_defs]: "encode_SaslAuthenticateCommand r =
     encode_u32 (correlation_id r) @ encode_str (mechanism r) @ encode_vec_u8 (sasl_data r)"

definition encoded_size_SaslAuthenticateCommand :: "SaslAuthenticateCommand \<Rightarrow> u32" where
  [codec_defs]: "encoded_size_SaslAuthenticateCommand r =
     encoded_size_u32 (correlation_id r) + encoded_size_str (mechanism r) + encoded_size_vec_u8 (sasl_data r)"

definition decode_SaslAuthenticateCommand :: "SaslAuthenticateCommand decoder" where
  [codec_defs]: "decode_SaslAuthenticateCommand input =
     and_then (read_u32 input) (\<lambda>(input, correlation_id').
     and_then (decode_opt_string input) (\<lambda>(input, mechanism').
     and_then (decode_vec_u8 input) (\<lambda>(input, sasl_data').
     and_then (unwrap mechanism') (\<lambda>mechanism'.
       Ok (input, \<lparr>correlation_id = correlation_id', mechanism = mechanism', sasl_data = sasl_data'\<rparr>)))))"

definition key_SaslAuthenticateCommand :: "SaslAuthenticateCommand \<Rightarrow> u16" where
  "key_SaslAuthenticateCommand r = COMMAND_SASL_AUTHENTICATE"

definition wf_SaslAuthenticateCommand :: "SaslAuthenticateCommand \<Rightarrow> bool" where
  [codec_defs]: "wf_SaslAuthenticateCommand r \<longleftrightarrow> wire_string (mechanism r) \<and> vec_fits (sasl_data r)"

interpretation SaslAuthenticateCommand: codec encode_SaslAuthenticateCommand decode_SaslAuthenticateCommand wf_SaslAuthenticateCommand
  by unfold_locales (simp add: codec_defs round_trips)

lemmas SaslAuthenticateCommand_round_trip [round_trips] = SaslAuthenticateCommand.dec_enc

interpretation SaslAuthenticateCommand: sized encode_SaslAuthenticateCommand encoded_size_SaslAuthenticateCommand "\<lambda>_. True"
  by unfold_locales (simp add: codec_defs size_simps)

lemmas SaslAuthenticateCommand_size [size_simps] = SaslAuthenticateCommand.size_enc [OF TrueI]

interpretation SaslAuthenticateCommand: prefix_decoder decode_SaslAuthenticateCommand
  unfolding decode_SaslAuthenticateCommand_def by (intro prefix_decoders)

lemmas SaslAuthenticateCommand_prefix_decoder [prefix_decoders] = SaslAuthenticateCommand.prefix_decoder_axioms

subsection \<open>TunesCommand\<close>

record TunesCommand =
  max_frame_size :: u32
  heartbeat :: u32

definition new_TunesCommand :: "u32 \<Rightarrow> u32 \<Rightarrow> TunesCommand" where
  "new_TunesCommand max_frame_size' heartbeat' =
     \<lparr>max_frame_size = max_frame_size', heartbeat = heartbeat'\<rparr>"

definition encode_TunesCommand :: "TunesCommand \<Rightarrow> bytes" where
  [codec_defs]: "encode_TunesCommand r =
     encode_u32 (max_frame_size r) @ encode_u32 (heartbeat r)"

definition encoded_size_TunesCommand :: "TunesCommand \<Rightarrow> u32" where
  [codec_defs]: "encoded_size_TunesCommand r =
     encoded_size_u32 (heartbeat r) + encoded_size_u32 (max_frame_size r)"

definition decode_TunesCommand :: "TunesCommand decoder" where
  [codec_defs]: "decode_TunesCommand input =
     and_then (read_u32 input) (\<lambda>(input, max_frame_size').
     and_then (read_u32 input) (\<lambda>(input, heartbeat').
       Ok (input, \<lparr>max_frame_size = max_frame_size', heartbeat = heartbeat'\<rparr>)))"

definition key_TunesCommand :: "TunesCommand \<Rightarrow> u16" where
  "key_TunesCommand r = COMMAND_TUNE"

interpretation TunesCommand: codec encode_TunesCommand decode_TunesCommand "\<lambda>_. True"
  by unfold_locales (simp add: codec_defs round_trips)

lemmas TunesCommand_round_trip [round_trips] = TunesCommand.dec_enc [OF TrueI]

interpretation TunesCommand: sized encode_TunesCommand encoded_size_TunesCommand "\<lambda>_. True"
  by unfold_locales (simp add: codec_defs size_simps)

lemmas TunesCommand_size [size_simps] = TunesCommand.size_enc [OF TrueI]

interpretation TunesCommand: resumable decode_TunesCommand
  unfolding decode_TunesCommand_def by (intro resumables)

lemmas TunesCommand_resumable [resumables] = TunesCommand.resumable_axioms
lemmas TunesCommand_prefix_decoder [prefix_decoders] = TunesCommand.prefix_decoder_axioms

subsection \<open>OpenCommand\<close>

record OpenCommand =
  correlation_id :: u32
  virtual_host :: string

definition new_OpenCommand :: "u32 \<Rightarrow> string \<Rightarrow> OpenCommand" where
  "new_OpenCommand correlation_id' virtual_host' =
     \<lparr>correlation_id = correlation_id', virtual_host = virtual_host'\<rparr>"

definition encode_OpenCommand :: "OpenCommand \<Rightarrow> bytes" where
  [codec_defs]: "encode_OpenCommand r =
     encode_u32 (correlation_id r) @ encode_str (virtual_host r)"

definition encoded_size_OpenCommand :: "OpenCommand \<Rightarrow> u32" where
  [codec_defs]: "encoded_size_OpenCommand r =
     encoded_size_u32 (correlation_id r) + encoded_size_str (virtual_host r)"

definition decode_OpenCommand :: "OpenCommand decoder" where
  [codec_defs]: "decode_OpenCommand input =
     and_then (read_u32 input) (\<lambda>(input, correlation_id').
     and_then (decode_opt_string input) (\<lambda>(input, virtual_host').
     and_then (unwrap virtual_host') (\<lambda>virtual_host'.
       Ok (input, \<lparr>correlation_id = correlation_id', virtual_host = virtual_host'\<rparr>))))"

definition key_OpenCommand :: "OpenCommand \<Rightarrow> u16" where
  "key_OpenCommand r = COMMAND_OPEN"

definition wf_OpenCommand :: "OpenCommand \<Rightarrow> bool" where
  [codec_defs]: "wf_OpenCommand r \<longleftrightarrow> wire_string (virtual_host r)"

interpretation OpenCommand: codec encode_OpenCommand decode_OpenCommand wf_OpenCommand
  by unfold_locales (simp add: codec_defs round_trips)

lemmas OpenCommand_round_trip [round_trips] = OpenCommand.dec_enc

interpretation OpenCommand: sized encode_OpenCommand encoded_size_OpenCommand "\<lambda>_. True"
  by unfold_locales (simp add: codec_defs size_simps)

lemmas OpenCommand_size [size_simps] = OpenCommand.size_enc [OF TrueI]

interpretation OpenCommand: prefix_decoder decode_OpenCommand
  unfolding decode_OpenCommand_def by (intro prefix_decoders)

lemmas OpenCommand_prefix_decoder [prefix_decoders] = OpenCommand.prefix_decoder_axioms

subsection \<open>OpenResponse\<close>

record OpenResponse =
  correlation_id :: u32
  code :: ResponseCode
  connection_properties :: string_map

definition encode_OpenResponse :: "OpenResponse \<Rightarrow> bytes" where
  [codec_defs]: "encode_OpenResponse r =
     encode_u32 (correlation_id r) @ encode_response (code r) @ encode_map (connection_properties r)"

definition decode_OpenResponse :: "OpenResponse decoder" where
  [codec_defs]: "decode_OpenResponse input =
     and_then (read_u32 input) (\<lambda>(input, correlation_id').
     and_then (decode_response input) (\<lambda>(input, response_code).
     and_then (if response_code = ResponseOk then decode_map input else Ok (input, []))
       (\<lambda>(input, connection_properties').
       Ok (input, \<lparr>correlation_id = correlation_id', code = response_code,
                   connection_properties = connection_properties'\<rparr>))))"

definition wf_OpenResponse :: "OpenResponse \<Rightarrow> bool" where
  [codec_defs]: "wf_OpenResponse r \<longleftrightarrow> code r = ResponseOk \<and> wire_map (connection_properties r)"

interpretation OpenResponse: codec encode_OpenResponse decode_OpenResponse wf_OpenResponse
  by unfold_locales (simp add: codec_defs round_trips)

lemmas OpenResponse_round_trip [round_trips] = OpenResponse.dec_enc

text \<open>A refused open carries no properties: the decoder stops after the code.\<close>

lemma decode_OpenResponse_refused:
  "c \<noteq> ResponseOk \<Longrightarrow>
   decode_OpenResponse (encode_u32 i @ encode_response c @ rest) =
     Ok (rest, \<lparr>correlation_id = i, code = c, connection_properties = []\<rparr>)"
  by (simp add: codec_defs round_trips)

interpretation OpenResponse: prefix_decoder decode_OpenResponse
  unfolding decode_OpenResponse_def by (intro prefix_decoders)

lemmas OpenResponse_prefix_decoder [prefix_decoders] = OpenResponse.prefix_decoder_axioms

subsection \<open>CloseRequest\<close>

record CloseRequest =
  correlation_id :: u32
  closing_code :: ResponseCode
  closing_reason :: string

definition new_CloseRequest :: "u32 \<Rightarrow> ResponseCode \<Rightarrow> string \<Rightarrow> CloseRequest" where
  "new_CloseRequest correlation_id' closing_code' closing_reason' =
     \<lparr>correlation_id = correlation_id', closing_code = closing_code', closing_reason = closing_reason'\<rparr>"

definition encode_CloseRequest :: "CloseRequest \<Rightarrow> bytes" where
  [codec_defs]: "encode_CloseRequest r =
     encode_u32 (correlation_id r) @ encode_response (closing_code r) @ encode_str (closing_reason r)"

definition encoded_size_CloseRequest :: "CloseRequest \<Rightarrow> u32" where
  [codec_defs]: "encoded_size_CloseRequest r =
     encoded_size_u32 (correlation_id r) + encoded_size_response (closing_code r) + encoded_size_str (closing_reason r)"

definition decode_CloseRequest :: "CloseRequest decoder" where
  [codec_defs]: "decode_CloseRequest input =
     and_then (read_u32 input) (\<lambda>(input, correlation_id').
     and_then (decode_response input) (\<lambda>(input, closing_code').
     and_then (decode_opt_string input) (\<lambda>(input, closing_reason').
     and_then (unwrap closing_reason') (\<lambda>closing_reason'.
       Ok (input, \<lparr>correlation_id = correlation_id', closing_code = closing_code', closing_reason = closing_reason'\<rparr>)))))"

definition key_CloseRequest :: "CloseRequest \<Rightarrow> u16" where
  "key_CloseRequest r = COMMAND_CLOSE"

definition wf_CloseRequest :: "CloseRequest \<Rightarrow> bool" where
  [codec_defs]: "wf_CloseRequest r \<longleftrightarrow> wire_string (closing_reason r)"

interpretation CloseRequest: codec encode_CloseRequest decode_CloseRequest wf_CloseRequest
  by unfold_locales (simp add: codec_defs round_trips)

lemmas CloseRequest_round_trip [round_trips] = CloseRequest.dec_enc

interpretation CloseRequest: sized encode_CloseRequest encoded_size_CloseRequest "\<lambda>_. True"
  by unfold_locales (simp add: codec_defs size_simps)

lemmas CloseRequest_size [size_simps] = CloseRequest.size_enc [OF TrueI]

interpretation CloseRequest: prefix_decoder decode_CloseRequest
  unfolding decode_CloseRequest_def by (intro prefix_decoders)

lemmas CloseRequest_prefix_decoder [prefix_decoders] = CloseRequest.prefix_decoder_axioms

subsection \<open>CloseResponse\<close>

record CloseResponse =
  correlation_id :: u32
  response_code :: ResponseCode

definition new_CloseResponse :: "u32 \<Rightarrow> ResponseCode \<Rightarrow> CloseResponse" where
  "new_CloseResponse correlation_id' response_code' =
     \<lparr>correlation_id = correlation_id', response_code = response_code'\<rparr>"

definition encode_CloseResponse :: "CloseResponse \<Rightarrow> bytes" where
  [codec_defs]: "encode_CloseResponse r =
     encode_u32 (correlation_id r) @ encode_response (response_code r)"

definition encoded_size_CloseResponse :: "CloseResponse \<Rightarrow> u32" where
  [codec_defs]: "encoded_size_CloseResponse r =
     encoded_size_u32 (correlation_id r) + encoded_size_response (response_code r)"

definition decode_CloseResponse :: "CloseResponse decoder" where
  [codec_defs]: "decode_CloseResponse input =
     and_then (read_u32 input) (\<lambda>(input, correlation_id').
     and_then (decode_response input) (\<lambda>(input, response_code').
       Ok (input, \<lparr>correlation_id = correlation_id', response_code = response_code'\<rparr>)))"

interpretation CloseResponse: codec encode_CloseResponse decode_CloseResponse "\<lambda>_. True"
  by unfold_locales (simp add: codec_defs round_trips)

lemmas CloseResponse_round_trip [round_trips] = CloseResponse.dec_enc [OF TrueI]

interpretation CloseResponse: sized encode_CloseResponse encoded_size_CloseResponse "\<lambda>_. True"
  by unfold_locales (simp add: codec_defs size_simps)

lemmas CloseResponse_size [size_simps] = CloseResponse.size_enc [OF TrueI]

interpretation CloseResponse: resumable decode_CloseResponse
  unfolding decode_CloseResponse_def by (intro resumables)

lemmas CloseResponse_resumable [resumables] = CloseResponse.resumable_axioms
lemmas CloseResponse_prefix_decoder [prefix_decoders] = CloseResponse.prefix_decoder_axioms

subsection \<open>GenericResponse\<close>

record GenericResponse =
  correlation_id :: u32
  code :: ResponseCode

definition encode_GenericResponse :: "GenericResponse \<Rightarrow> bytes" where
  [codec_defs]: "encode_GenericResponse r =
     encode_u32 (correlation_id r) @ encode_response (code r)"

definition encoded_size_GenericResponse :: "GenericResponse \<Rightarrow> u32" where
  [codec_defs]: "encoded_size_GenericResponse r =
     encoded_size_u32 (correlation_id r) + encoded_size_response (code r)"

definition decode_GenericResponse :: "GenericResponse decoder" where
  [codec_defs]: "decode_GenericResponse input =
     and_then (read_u32 input) (\<lambda>(input, correlation_id').
     and_then (decode_response input) (\<lambda>(input, code').
       Ok (input, \<lparr>correlation_id = correlation_id', code = code'\<rparr>)))"

interpretation GenericResponse: codec encode_GenericResponse decode_GenericResponse "\<lambda>_. True"
  by unfold_locales (simp add: codec_defs round_trips)

lemmas GenericResponse_round_trip [round_trips] = GenericResponse.dec_enc [OF TrueI]

interpretation GenericResponse: sized encode_GenericResponse encoded_size_GenericResponse "\<lambda>_. True"
  by unfold_locales (simp add: codec_defs size_simps)

lemmas GenericResponse_size [size_simps] = GenericResponse.size_enc [OF TrueI]

interpretation GenericResponse: resumable decode_GenericResponse
  unfolding decode_GenericResponse_def by (intro resumables)

lemmas GenericResponse_resumable [resumables] = GenericResponse.resumable_axioms
lemmas GenericResponse_prefix_decoder [prefix_decoders] = GenericResponse.prefix_decoder_axioms

section \<open>Heartbeat\<close>

text \<open>The two empty structs are the unit type.\<close>

type_synonym HeartBeatCommand = unit
type_synonym HeartbeatResponse = unit

definition encode_HeartBeatCommand :: "HeartBeatCommand \<Rightarrow> bytes" where
  [codec_defs]: "encode_HeartBeatCommand r = []"

definition encoded_size_HeartBeatCommand :: "HeartBeatCommand \<Rightarrow> u32" where
  [codec_defs]: "encoded_size_HeartBeatCommand r = 0"

definition decode_HeartBeatCommand :: "HeartBeatCommand decoder" where
  [codec_defs]: "decode_HeartBeatCommand input = Ok (input, ())"

definition key_HeartBeatCommand :: "HeartBeatCommand \<Rightarrow> u16" where
  "key_HeartBeatCommand r = COMMAND_HEARTBEAT"

definition encode_HeartbeatResponse :: "HeartbeatResponse \<Rightarrow> bytes" where
  [codec_defs]: "encode_HeartbeatResponse r = []"

definition encoded_size_HeartbeatResponse :: "HeartbeatResponse \<Rightarrow> u32" where
  [codec_defs]: "encoded_size_HeartbeatResponse r = 0"

definition decode_HeartbeatResponse :: "HeartbeatResponse decoder" where
  [codec_defs]: "decode_HeartbeatResponse input = Ok (input, ())"

interpretation HeartBeatCommand: codec encode_HeartBeatCommand decode_HeartBeatCommand "\<lambda>_. True"
  by unfold_locales (simp add: codec_defs)

interpretation HeartBeatCommand: sized encode_HeartBeatCommand encoded_size_HeartBeatCommand "\<lambda>_. True"
  by unfold_locales (simp add: codec_defs)

interpretation HeartbeatResponse:
  codec encode_HeartbeatResponse decode_HeartbeatResponse "\<lambda>_. True"
  by unfold_locales (simp add: codec_defs)

interpretation HeartbeatResponse: sized encode_HeartbeatResponse encoded_size_HeartbeatResponse "\<lambda>_. True"
  by unfold_locales (simp add: codec_defs)

interpretation HeartbeatResponse: resumable decode_HeartbeatResponse
  unfolding decode_HeartbeatResponse_def by (intro resumables)

interpretation HeartBeatCommand: resumable decode_HeartBeatCommand
  unfolding decode_HeartBeatCommand_def by (intro resumables)

lemmas heartbeat_round_trips [round_trips] =
  HeartBeatCommand.dec_enc [OF TrueI] HeartbeatResponse.dec_enc [OF TrueI]
lemmas heartbeat_sizes [size_simps] = HeartBeatCommand.size_enc [OF TrueI] HeartbeatResponse.size_enc [OF TrueI]
lemmas heartbeat_resumables [resumables] =
  HeartBeatCommand.resumable_axioms HeartbeatResponse.resumable_axioms
lemmas heartbeat_prefix_decoders [prefix_decoders] =
  HeartBeatCommand.prefix_decoder_axioms HeartbeatResponse.prefix_decoder_axioms

section \<open>Exchange of command versions\<close>

datatype ExchangeCommandVersion = ExchangeCommandVersion u16 u16 u16

fun encode_ExchangeCommandVersion :: "ExchangeCommandVersion \<Rightarrow> bytes" where
  "encode_ExchangeCommandVersion (ExchangeCommandVersion k lo hi) =
     encode_u16 k @ encode_u16 lo @ encode_u16 hi"

fun encoded_size_ExchangeCommandVersion :: "ExchangeCommandVersion \<Rightarrow> u32" where
  "encoded_size_ExchangeCommandVersion (ExchangeCommandVersion k lo hi) =
     encoded_size_u16 k + encoded_size_u16 lo + encoded_size_u16 hi"

definition decode_ExchangeCommandVersion :: "ExchangeCommandVersion decoder" where
  "decode_ExchangeCommandVersion input =
     and_then (read_u16 input) (\<lambda>(input, k).
     and_then (read_u16 input) (\<lambda>(input, min_version).
     and_then (read_u16 input) (\<lambda>(input, max_version).
       Ok (input, ExchangeCommandVersion k min_version max_version))))"

definition encode_versions :: "ExchangeCommandVersion list \<Rightarrow> bytes" where
  "encode_versions xs =
     encode_u32 (of_nat (length xs)) @ concat (map encode_ExchangeCommandVersion xs)"

definition encoded_size_versions :: "ExchangeCommandVersion list \<Rightarrow> u32" where
  "encoded_size_versions xs =
     4 + foldl (\<lambda>acc v. acc + encoded_size_ExchangeCommandVersion v) 0 xs"

definition decode_versions :: "ExchangeCommandVersion list decoder" where
  "decode_versions = read_vec decode_ExchangeCommandVersion"

interpretation exchange_version:
  codec encode_ExchangeCommandVersion decode_ExchangeCommandVersion "\<lambda>_. True"
proof
  fix x rest
  show "decode_ExchangeCommandVersion (encode_ExchangeCommandVersion x @ rest) = Ok (rest, x)"
    by (cases x) (simp add: decode_ExchangeCommandVersion_def round_trips)
qed

interpretation exchange_version:
  sized encode_ExchangeCommandVersion encoded_size_ExchangeCommandVersion "\<lambda>_. True"
proof
  fix x
  show "encoded_size_ExchangeCommandVersion x = of_nat (length (encode_ExchangeCommandVersion x))"
    by (cases x) (simp add: size_simps)
qed

interpretation exchange_version: resumable decode_ExchangeCommandVersion
  unfolding decode_ExchangeCommandVersion_def by (intro resumables)

interpretation versions: codec encode_versions decode_versions vec_fits
  by unfold_locales
     (simp add: encode_versions_def decode_versions_def vec_fits_def exchange_version.read_vec_enc
       encode_i32_u32 list.pred_True)

interpretation versions: sized encode_versions encoded_size_versions "\<lambda>_. True"
  by unfold_locales
     (simp add: encode_versions_def encoded_size_versions_def exchange_version.fold_size_enc list.pred_True)

interpretation versions: resumable decode_versions
  unfolding decode_versions_def by (intro resumables exchange_version.resumable_axioms)

lemmas versions_round_trip [round_trips] = versions.dec_enc
lemmas versions_size [size_simps] = versions.size_enc [OF TrueI]
lemmas versions_resumable [resumables] = versions.resumable_axioms
lemmas versions_prefix_decoder [prefix_decoders] = versions.prefix_decoder_axioms

subsection \<open>ExchangeCommandVersionsRequest\<close>

record ExchangeCommandVersionsRequest =
  correlation_id :: u32
  commands :: "ExchangeCommandVersion list"

definition new_ExchangeCommandVersionsRequest :: "u32 \<Rightarrow> ExchangeCommandVersion list \<Rightarrow> ExchangeCommandVersionsRequest" where
  "new_ExchangeCommandVersionsRequest correlation_id' commands' =
     \<lparr>correlation_id = correlation_id', commands = commands'\<rparr>"

definition encode_ExchangeCommandVersionsRequest :: "ExchangeCommandVersionsRequest \<Rightarrow> bytes" where
  [codec_defs]: "encode_ExchangeCommandVersionsRequest r =
     encode_u32 (correlation_id r) @ encode_versions (commands r)"

definition encoded_size_ExchangeCommandVersionsRequest :: "ExchangeCommandVersionsRequest \<Rightarrow> u32" where
  [codec_defs]: "encoded_size_ExchangeCommandVersionsRequest r =
     encoded_size_u32 (correlation_id r) + encoded_size_versions (commands r)"

definition decode_ExchangeCommandVersionsRequest :: "ExchangeCommandVersionsRequest decoder" where
  [codec_defs]: "decode_ExchangeCommandVersionsRequest input =
     and_then (read_u32 input) (\<lambda>(input, correlation_id').
     and_then (decode_versions input) (\<lambda>(input, commands').
       Ok (input, \<lparr>correlation_id = correlation_id', commands = commands'\<rparr>)))"

definition key_ExchangeCommandVersionsRequest :: "ExchangeCommandVersionsRequest \<Rightarrow> u16" where
  "key_ExchangeCommandVersionsRequest r = COMMAND_EXCHANGE_COMMAND_VERSIONS"

definition wf_ExchangeCommandVersionsRequest :: "ExchangeCommandVersionsRequest \<Rightarrow> bool" where
  [codec_defs]: "wf_ExchangeCommandVersionsRequest r \<longleftrightarrow> vec_fits (commands r)"

interpretation ExchangeCommandVersionsRequest: codec encode_ExchangeCommandVersionsRequest decode_ExchangeCommandVersionsRequest wf_ExchangeCommandVersionsRequest
  by unfold_locales (simp add: codec_defs round_trips)

lemmas ExchangeCommandVersionsRequest_round_trip [round_trips] = ExchangeCommandVersionsRequest.dec_enc

interpretation ExchangeCommandVersionsRequest: sized encode_ExchangeCommandVersionsRequest encoded_size_ExchangeCommandVersionsRequest "\<lambda>_. True"
  by unfold_locales (simp add: codec_defs size_simps)

lemmas ExchangeCommandVersionsRequest_size [size_simps] = ExchangeCommandVersionsRequest.size_enc [OF TrueI]

interpretation ExchangeCommandVersionsRequest: resumable decode_ExchangeCommandVersionsRequest
  unfolding decode_ExchangeCommandVersionsRequest_def by (intro resumables)

lemmas ExchangeCommandVersionsRequest_resumable [resumables] = ExchangeCommandVersionsRequest.resumable_axioms
lemmas ExchangeCommandVersionsRequest_prefix_decoder [prefix_decoders] = ExchangeCommandVersionsRequest.prefix_decoder_axioms

subsection \<open>ExchangeCommandVersionsResponse\<close>

record ExchangeCommandVersionsResponse =
  correlation_id :: u32
  response_code :: ResponseCode
  commands :: "ExchangeCommandVersion list"

definition new_ExchangeCommandVersionsResponse :: "u32 \<Rightarrow> ResponseCode \<Rightarrow> ExchangeCommandVersion list \<Rightarrow> ExchangeCommandVersionsResponse" where
  "new_ExchangeCommandVersionsResponse correlation_id' response_code' commands' =
     \<lparr>correlation_id = correlation_id', response_code = response_code', commands = commands'\<rparr>"

definition encode_ExchangeCommandVersionsResponse :: "ExchangeCommandVersionsResponse \<Rightarrow> bytes" where
  [codec_defs]: "encode_ExchangeCommandVersionsResponse r =
     encode_u32 (correlation_id r) @ encode_response (response_code r) @ encode_versions (commands r)"

definition encoded_size_ExchangeCommandVersionsResponse :: "ExchangeCommandVersionsResponse \<Rightarrow> u32" where
  [codec_defs]: "encoded_size_ExchangeCommandVersionsResponse r =
     encoded_size_u32 (correlation_id r) + encoded_size_response (response_code r) + encoded_size_versions (commands r)"

definition decode_ExchangeCommandVersionsResponse :: "ExchangeCommandVersionsResponse decoder" where
  [codec_defs]: "decode_ExchangeCommandVersionsResponse input =
     and_then (read_u32 input) (\<lambda>(input, correlation_id').
     and_then (decode_response input) (\<lambda>(input, response_code').
     and_then (decode_versions input) (\<lambda>(input, commands').
       Ok (input, \<lparr>correlation_id = correlation_id', response_code = response_code', commands = commands'\<rparr>))))"

definition wf_ExchangeCommandVersionsResponse :: "ExchangeCommandVersionsResponse \<Rightarrow> bool" where
  [codec_defs]: "wf_ExchangeCommandVersionsResponse r \<longleftrightarrow> vec_fits (commands r)"

interpretation ExchangeCommandVersionsResponse: codec encode_ExchangeCommandVersionsResponse decode_ExchangeCommandVersionsResponse wf_ExchangeCommandVersionsResponse
  by unfold_locales (simp add: codec_defs round_trips)

lemmas ExchangeCommandVersionsResponse_round_trip [round_trips] = ExchangeCommandVersionsResponse.dec_enc

interpretation ExchangeCommandVersionsResponse: sized encode_ExchangeCommandVersionsResponse encoded_size_ExchangeCommandVersionsResponse "\<lambda>_. True"
  by unfold_locales (simp add: codec_defs size_simps)

lemmas ExchangeCommandVersionsResponse_size [size_simps] = ExchangeCommandVersionsResponse.size_enc [OF TrueI]

interpretation ExchangeCommandVersionsResponse: resumable decode_ExchangeCommandVersionsResponse
  unfolding decode_ExchangeCommandVersionsResponse_def by (intro resumables)

lemmas ExchangeCommandVersionsResponse_resumable [resumables] = ExchangeCommandVersionsResponse.resumable_axioms
lemmas ExchangeCommandVersionsResponse_prefix_decoder [prefix_decoders] = ExchangeCommandVersionsResponse.prefix_decoder_axioms

primrec key_version_in :: "ExchangeCommandVersion list \<Rightarrow> u16 \<Rightarrow> u16 \<times> u16" where
  "key_version_in [] key_command = (1, 1)"
| "key_version_in (i # rest) key_command =
    (case i of ExchangeCommandVersion match_key_command min_version max_version \<Rightarrow>
       if match_key_command = key_command then (min_version, max_version)
       else key_version_in rest key_command)"

definition key_version :: "ExchangeCommandVersionsResponse \<Rightarrow> u16 \<Rightarrow> u16 \<times> u16" where
  "key_version r key_command = key_version_in (commands r) key_command"

end
