(* ===== verification/Commands_Streams.thy ===== *)
theory Commands_Streams
  imports Types
begin

text \<open>
  The commands that manage streams and super streams (\<open>protocol/src/commands\<close>): create and
  delete, metadata queries and updates, super stream partitions and routes.
\<close>

section \<open>Create and delete\<close>

subsection \<open>CreateStreamCommand\<close>

record CreateStreamCommand =
  correlation_id :: u32
  stream_name :: string
  args :: string_map

definition new_CreateStreamCommand :: "u32 \<Rightarrow> string \<Rightarrow> string_map \<Rightarrow> CreateStreamCommand" where
  "new_CreateStreamCommand correlation_id' stream_name' args' =
     \<lparr>correlation_id = correlation_id', stream_name = stream_name', args = args'\<rparr>"

definition encode_CreateStreamCommand :: "CreateStreamCommand \<Rightarrow> bytes" where
  [codec_defs]: "encode_CreateStreamCommand r =
     encode_u32 (correlation_id r) @ encode_str (stream_name r) @ encode_map (args r)"

definition encoded_size_CreateStreamCommand :: "CreateStreamCommand \<Rightarrow> u32" where
  [codec_defs]: "encoded_size_CreateStreamCommand r =
     encoded_size_u32 (correlation_id r) + encoded_size_str (stream_name r) + encoded_size_map (args r)"

definition decode_CreateStreamCommand :: "CreateStreamCommand decoder" where
  [codec_defs]: "decode_CreateStreamCommand input =
     and_then (read_u32 input) (\<lambda>(input, correlation_id').
     and_then (decode_opt_string input) (\<lambda>(input, stream_name').
     and_then (decode_map input) (\<lambda>(input, args').
     and_then (unwrap stream_name') (\<lambda>stream_name'.
       Ok (input, \<lparr>correlation_id = correlation_id', stream_name = stream_name', args = args'\<rparr>)))))"

definition key_CreateStreamCommand :: "CreateStreamCommand \<Rightarrow> u16" where
  "key_CreateStreamCommand r = COMMAND_CREATE_STREAM"

definition wf_CreateStreamCommand :: "CreateStreamCommand \<Rightarrow> bool" where
  [codec_defs]: "wf_CreateStreamCommand r \<longleftrightarrow> wire_string (stream_name r) \<and> wire_map (args r)"

interpretation CreateStreamCommand: codec encode_CreateStreamCommand decode_CreateStreamCommand wf_CreateStreamCommand
  by unfold_locales (simp add: codec_defs round_trips)

lemmas CreateStreamCommand_round_trip [round_trips] = CreateStreamCommand.dec_enc

interpretation CreateStreamCommand: sized encode_CreateStreamCommand encoded_size_CreateStreamCommand "\<lambda>_. True"
  by unfold_locales (simp add: codec_defs size_simps)

lemmas CreateStreamCommand_size [size_simps] = CreateStreamCommand.size_enc [OF TrueI]

interpretation CreateStreamCommand: prefix_decoder decode_CreateStreamCommand
  unfolding decode_CreateStreamCommand_def by (intro prefix_decoders)

lemmas CreateStreamCommand_prefix_decoder [prefix_decoders] = CreateStreamCommand.prefix_decoder_axioms

subsection \<open>Delete\<close>

record Delete =
  correlation_id :: u32
  stream :: string

definition new_Delete :: "u32 \<Rightarrow> string \<Rightarrow> Delete" where
  "new_Delete correlation_id' stream' =
     \<lparr>correlation_id = correlation_id', stream = stream'\<rparr>"

definition encode_Delete :: "Delete \<Rightarrow> bytes" where
  [codec_defs]: "encode_Delete r =
     encode_u32 (correlation_id r) @ encode_str (stream r)"

definition encoded_size_Delete :: "Delete \<Rightarrow> u32" where
  [codec_defs]: "encoded_size_Delete r =
     encoded_size_u32 (correlation_id r) + encoded_size_str (stream r)"

definition decode_Delete :: "Delete decoder" where
  [codec_defs]: "decode_Delete input =
     and_then (read_u32 input) (\<lambda>(input, correlation_id').
     and_then (decode_opt_string input) (\<lambda>(input, stream').
     and_then (unwrap stream') (\<lambda>stream'.
       Ok (input, \<lparr>correlation_id = correlation_id', stream = stream'\<rparr>))))"

definition key_Delete :: "Delete \<Rightarrow> u16" where
  "key_Delete r = COMMAND_DELETE_STREAM"

definition wf_Delete :: "Delete \<Rightarrow> bool" where
  [codec_defs]: "wf_Delete r \<longleftrightarrow> wire_string (stream r)"

interpretation Delete: codec encode_Delete decode_Delete wf_Delete
  by unfold_locales (simp add: codec_defs round_trips)

lemmas Delete_round_trip [round_trips] = Delete.dec_enc

interpretation Delete: sized encode_Delete encoded_size_Delete "\<lambda>_. True"
  by unfold_locales (simp add: codec_defs size_simps)

lemmas Delete_size [size_simps] = Delete.size_enc [OF TrueI]

interpretation Delete: prefix_decoder decode_Delete
  unfolding decode_Delete_def by (intro prefix_decoders)

lemmas Delete_prefix_decoder [prefix_decoders] = Delete.prefix_decoder_axioms

subsection \<open>CreateSuperStreamCommand\<close>

record CreateSuperStreamCommand =
  correlation_id :: u32
  super_stream_name :: string
  partitions :: "string list"
  binding_keys :: "string list"
  args :: string_map

definition new_CreateSuperStreamCommand :: "u32 \<Rightarrow> string \<Rightarrow> string list \<Rightarrow> string list \<Rightarrow> string_map \<Rightarrow> CreateSuperStreamCommand" where
  "new_CreateSuperStreamCommand correlation_id' super_stream_name' partitions' binding_keys' args' =
     \<lparr>correlation_id = correlation_id', super_stream_name = super_stream_name', partitions = partitions', binding_keys = binding_keys', args = args'\<rparr>"

definition encode_CreateSuperStreamCommand :: "CreateSuperStreamCommand \<Rightarrow> bytes" where
  [codec_defs]: "encode_CreateSuperStreamCommand r =
     encode_u32 (correlation_id r) @ encode_str (super_stream_name r) @ encode_strings (partitions r) @ encode_strings (binding_keys r) @ encode_map (args r)"

definition encoded_size_CreateSuperStreamCommand :: "CreateSuperStreamCommand \<Rightarrow> u32" where
  [codec_defs]: "encoded_size_CreateSuperStreamCommand r =
     encoded_size_u32 (correlation_id r) + encoded_size_str (super_stream_name r) + encoded_size_strings (partitions r) + encoded_size_strings (binding_keys r) + encoded_size_map (args r)"

definition decode_CreateSuperStreamCommand :: "CreateSuperStreamCommand decoder" where
  [codec_defs]: "decode_CreateSuperStreamCommand input =
     and_then (read_u32 input) (\<lambda>(input, correlation_id').
     and_then (decode_opt_string input) (\<lambda>(input, super_stream_name').
     and_then (decode_strings input) (\<lambda>(input, partitions').
     and_then (decode_strings input) (\<lambda>(input, binding_keys').
     and_then (decode_map input) (\<lambda>(input, args').
     and_then (unwrap super_stream_name') (\<lambda>super_stream_name'.
       Ok (input, \<lparr>correlation_id = correlation_id', super_stream_name = super_stream_name', partitions = partitions', binding_keys = binding_keys', args = args'\<rparr>)))))))"

definition key_CreateSuperStreamCommand :: "CreateSuperStreamCommand \<Rightarrow> u16" where
  "key_CreateSuperStreamCommand r = COMMAND_CREATE_SUPER_STREAM"

definition wf_CreateSuperStreamCommand :: "CreateSuperStreamCommand \<Rightarrow> bool" where
  [codec_defs]: "wf_CreateSuperStreamCommand r \<longleftrightarrow> wire_string (super_stream_name r) \<and> wire_strings (partitions r) \<and> wire_strings (binding_keys r) \<and> wire_map (args r)"

interpretation CreateSuperStreamCommand: codec encode_CreateSuperStreamCommand decode_CreateSuperStreamCommand wf_CreateSuperStreamCommand
  by unfold_locales (simp add: codec_defs round_trips)

lemmas CreateSuperStreamCommand_round_trip [round_trips] = CreateSuperStreamCommand.dec_enc

interpretation CreateSuperStreamCommand: sized encode_CreateSuperStreamCommand encoded_size_CreateSuperStreamCommand "\<lambda>_. True"
  by unfold_locales (simp add: codec_defs size_simps)

lemmas CreateSuperStreamCommand_size [size_simps] = CreateSuperStreamCommand.size_enc [OF TrueI]

interpretation CreateSuperStreamCommand: prefix_decoder decode_CreateSuperStreamCommand
  unfolding decode_CreateSuperStreamCommand_def by (intro prefix_decoders)

lemmas CreateSuperStreamCommand_prefix_decoder [prefix_decoders] = CreateSuperStreamCommand.prefix_decoder_axioms

subsection \<open>DeleteSuperStreamCommand\<close>

record DeleteSuperStreamCommand =
  correlation_id :: u32
  super_stream_name :: string

definition new_DeleteSuperStreamCommand :: "u32 \<Rightarrow> string \<Rightarrow> DeleteSuperStreamCommand" where
  "new_DeleteSuperStreamCommand correlation_id' super_stream_name' =
     \<lparr>correlation_id = correlation_id', super_stream_name = super_stream_name'\<rparr>"

definition encode_DeleteSuperStreamCommand :: "DeleteSuperStreamCommand \<Rightarrow> bytes" where
  [codec_defs]: "encode_DeleteSuperStreamCommand r =
     encode_u32 (correlation_id r) @ encode_str (super_stream_name r)"

definition encoded_size_DeleteSuperStreamCommand :: "DeleteSuperStreamCommand \<Rightarrow> u32" where
  [codec_defs]: "encoded_size_DeleteSuperStreamCommand r =
     encoded_size_u32 (correlation_id r) + encoded_size_str (super_stream_name r)"

definition decode_DeleteSuperStreamCommand :: "DeleteSuperStreamCommand decoder" where
  [codec_defs]: "decode_DeleteSuperStreamCommand input =
     and_then (read_u32 input) (\<lambda>(input, correlation_id').
     and_then (decode_opt_string input) (\<lambda>(input, super_stream_name').
     and_then (unwrap super_stream_name') (\<lambda>super_stream_name'.
       Ok (input, \<lparr>correlation_id = correlation_id', super_stream_name = super_stream_name'\<rparr>))))"

definition key_DeleteSuperStreamCommand :: "DeleteSuperStreamCommand \<Rightarrow> u16" where
  "key_DeleteSuperStreamCommand r = COMMAND_DELETE_SUPER_STREAM"

definition wf_DeleteSuperStreamCommand :: "DeleteSuperStreamCommand \<Rightarrow> bool" where
  [codec_defs]: "wf_DeleteSuperStreamCommand r \<longleftrightarrow> wire_string (super_stream_name r)"

interpretation DeleteSuperStreamCommand: codec encode_DeleteSuperStreamCommand decode_DeleteSuperStreamCommand wf_DeleteSuperStreamCommand
  by unfold_locales (simp add: codec_defs round_trips)

lemmas DeleteSuperStreamCommand_round_trip [round_trips] = DeleteSuperStreamCommand.dec_enc

interpretation DeleteSuperStreamCommand: sized encode_DeleteSuperStreamCommand encoded_size_DeleteSuperStreamCommand "\<lambda>_. True"
  by unfold_locales (simp add: codec_defs size_simps)

lemmas DeleteSuperStreamCommand_size [size_simps] = DeleteSuperStreamCommand.size_enc [OF TrueI]

interpretation DeleteSuperStreamCommand: prefix_decoder decode_DeleteSuperStreamCommand
  unfolding decode_DeleteSuperStreamCommand_def by (intro prefix_decoders)

lemmas DeleteSuperStreamCommand_prefix_decoder [prefix_decoders] = DeleteSuperStreamCommand.prefix_decoder_axioms

section \<open>Super stream partitions and routes\<close>

subsection \<open>SuperStreamPartitionsRequest\<close>

record SuperStreamPartitionsRequest =
  correlation_id :: u32
  super_stream :: string

definition new_SuperStreamPartitionsRequest :: "u32 \<Rightarrow> string \<Rightarrow> SuperStreamPartitionsRequest" where
  "new_SuperStreamPartitionsRequest correlation_id' super_stream' =
     \<lparr>correlation_id = correlation_id', super_stream = super_stream'\<rparr>"

definition encode_SuperStreamPartitionsRequest :: "SuperStreamPartitionsRequest \<Rightarrow> bytes" where
  [codec_defs]: "encode_SuperStreamPartitionsRequest r =
     encode_u32 (correlation_id r) @ encode_str (super_stream r)"

definition encoded_size_SuperStreamPartitionsRequest :: "SuperStreamPartitionsRequest \<Rightarrow> u32" where
  [codec_defs]: "encoded_size_SuperStreamPartitionsRequest r =
     encoded_size_u32 (correlation_id r) + encoded_size_str (super_stream r)"

definition decode_SuperStreamPartitionsRequest :: "SuperStreamPartitionsRequest decoder" where
  [codec_defs]: "decode_SuperStreamPartitionsRequest input =
     and_then (read_u32 input) (\<lambda>(input, correlation_id').
     and_then (decode_opt_string input) (\<lambda>(input, super_stream').
     and_then (unwrap super_stream') (\<lambda>super_stream'.
       Ok (input, \<lparr>correlation_id = correlation_id', super_stream = super_stream'\<rparr>))))"

definition key_SuperStreamPartitionsRequest :: "SuperStreamPartitionsRequest \<Rightarrow> u16" where
  "key_SuperStreamPartitionsRequest r = COMMAND_PARTITIONS"

definition wf_SuperStreamPartitionsRequest :: "SuperStreamPartitionsRequest \<Rightarrow> bool" where
  [codec_defs]: "wf_SuperStreamPartitionsRequest r \<longleftrightarrow> wire_string (super_stream r)"

interpretation SuperStreamPartitionsRequest: codec encode_SuperStreamPartitionsRequest decode_SuperStreamPartitionsRequest wf_SuperStreamPartitionsRequest
  by unfold_locales (simp add: codec_defs round_trips)

lemmas SuperStreamPartitionsRequest_round_trip [round_trips] = SuperStreamPartitionsRequest.dec_enc

interpretation SuperStreamPartitionsRequest: sized encode_SuperStreamPartitionsRequest encoded_size_SuperStreamPartitionsRequest "\<lambda>_. True"
  by unfold_locales (simp add: codec_defs size_simps)

lemmas SuperStreamPartitionsRequest_size [size_simps] = SuperStreamPartitionsRequest.size_enc [OF TrueI]

interpretation SuperStreamPartitionsRequest: prefix_decoder decode_SuperStreamPartitionsRequest
  unfolding decode_SuperStreamPartitionsRequest_def by (intro prefix_decoders)

lemmas SuperStreamPartitionsRequest_prefix_decoder [prefix_decoders] = SuperStreamPartitionsRequest.prefix_decoder_axioms

subsection \<open>SuperStreamPartitionsResponse\<close>

record SuperStreamPartitionsResponse =
  correlation_id :: u32
  response_code :: ResponseCode
  streams :: "string list"

definition new_SuperStreamPartitionsResponse :: "u32 \<Rightarrow> string list \<Rightarrow> ResponseCode \<Rightarrow> SuperStreamPartitionsResponse" where
  "new_SuperStreamPartitionsResponse correlation_id' streams' response_code' =
     \<lparr>correlation_id = correlation_id', response_code = response_code', streams = streams'\<rparr>"

definition encode_SuperStreamPartitionsResponse :: "SuperStreamPartitionsResponse \<Rightarrow> bytes" where
  [codec_defs]: "encode_SuperStreamPartitionsResponse r =
     encode_u32 (correlation_id r) @ encode_response (response_code r) @ encode_strings (streams r)"

definition encoded_size_SuperStreamPartitionsResponse :: "SuperStreamPartitionsResponse \<Rightarrow> u32" where
  [codec_defs]: "encoded_size_SuperStreamPartitionsResponse r =
     encoded_size_u32 (correlation_id r) + encoded_size_response (response_code r) + encoded_size_strings (streams r)"

definition decode_SuperStreamPartitionsResponse :: "SuperStreamPartitionsResponse decoder" where
  [codec_defs]: "decode_SuperStreamPartitionsResponse input =
     and_then (read_u32 input) (\<lambda>(input, correlation_id').
     and_then (decode_response input) (\<lambda>(input, response_code').
     and_then (decode_strings input) (\<lambda>(input, streams').
       Ok (input, \<lparr>correlation_id = correlation_id', response_code = response_code', streams = streams'\<rparr>))))"

definition wf_SuperStreamPartitionsResponse :: "SuperStreamPartitionsResponse \<Rightarrow> bool" where
  [codec_defs]: "wf_SuperStreamPartitionsResponse r \<longleftrightarrow> wire_strings (streams r)"

interpretation SuperStreamPartitionsResponse: codec encode_SuperStreamPartitionsResponse decode_SuperStreamPartitionsResponse wf_SuperStreamPartitionsResponse
  by unfold_locales (simp add: codec_defs round_trips)

lemmas SuperStreamPartitionsResponse_round_trip [round_trips] = SuperStreamPartitionsResponse.dec_enc

interpretation SuperStreamPartitionsResponse: sized encode_SuperStreamPartitionsResponse encoded_size_SuperStreamPartitionsResponse "\<lambda>_. True"
  by unfold_locales (simp add: codec_defs size_simps)

lemmas SuperStreamPartitionsResponse_size [size_simps] = SuperStreamPartitionsResponse.size_enc [OF TrueI]

interpretation SuperStreamPartitionsResponse: prefix_decoder decode_SuperStreamPartitionsResponse
  unfolding decode_SuperStreamPartitionsResponse_def by (intro prefix_decoders)

lemmas SuperStreamPartitionsResponse_prefix_decoder [prefix_decoders] = SuperStreamPartitionsResponse.prefix_decoder_axioms

subsection \<open>SuperStreamRouteRequest\<close>

record SuperStreamRouteRequest =
  correlation_id :: u32
  routing_key :: string
  super_stream :: string

definition new_SuperStreamRouteRequest :: "u32 \<Rightarrow> string \<Rightarrow> string \<Rightarrow> SuperStreamRouteRequest" where
  "new_SuperStreamRouteRequest correlation_id' routing_key' super_stream' =
     \<lparr>correlation_id = correlation_id', routing_key = routing_key', super_stream = super_stream'\<rparr>"

definition encode_SuperStreamRouteRequest :: "SuperStreamRouteRequest \<Rightarrow> bytes" where
  [codec_defs]: "encode_SuperStreamRouteRequest r =
     encode_u32 (correlation_id r) @ encode_str (routing_key r) @ encode_str (super_stream r)"

definition encoded_size_SuperStreamRouteRequest :: "SuperStreamRouteRequest \<Rightarrow> u32" where
  [codec_defs]: "encoded_size_SuperStreamRouteRequest r =
     encoded_size_u32 (correlation_id r) + encoded_size_str (routing_key r) + encoded_size_str (super_stream r)"

definition decode_SuperStreamRouteRequest :: "SuperStreamRouteRequest decoder" where
  [codec_defs]: "decode_SuperStreamRouteRequest input =
     and_then (read_u32 input) (\<lambda>(input, correlation_id').
     and_then (decode_opt_string input) (\<lambda>(input, routing_key').
     and_then (decode_opt_string input) (\<lambda>(input, super_stream').
     and_then (unwrap routing_key') (\<lambda>routing_key'.
     and_then (unwrap super_stream') (\<lambda>super_stream'.
       Ok (input, \<lparr>correlation_id = correlation_id', routing_key = routing_key', super_stream = super_stream'\<rparr>))))))"

definition key_SuperStreamRouteRequest :: "SuperStreamRouteRequest \<Rightarrow> u16" where
  "key_SuperStreamRouteRequest r = COMMAND_ROUTE"

definition wf_SuperStreamRouteRequest :: "SuperStreamRouteRequest \<Rightarrow> bool" where
  [codec_defs]: "wf_SuperStreamRouteRequest r \<longleftrightarrow> wire_string (routing_key r) \<and> wire_string (super_stream r)"

interpretation SuperStreamRouteRequest: codec encode_SuperStreamRouteRequest decode_SuperStreamRouteRequest wf_SuperStreamRouteRequest
  by unfold_locales (simp add: codec_defs round_trips)

lemmas SuperStreamRouteRequest_round_trip [round_trips] = SuperStreamRouteRequest.dec_enc

interpretation SuperStreamRouteRequest: sized encode_SuperStreamRouteRequest encoded_size_SuperStreamRouteRequest "\<lambda>_. True"
  by unfold_locales (simp add: codec_defs size_simps)

lemmas SuperStreamRouteRequest_size [size_simps] = SuperStreamRouteRequest.size_enc [OF TrueI]

interpretation SuperStreamRouteRequest: prefix_decoder decode_SuperStreamRouteRequest
  unfolding decode_SuperStreamRouteRequest_def by (intro prefix_decoders)

lemmas SuperStreamRouteRequest_prefix_decoder [prefix_decoders] = SuperStreamRouteRequest.prefix_decoder_axioms

subsection \<open>SuperStreamRouteResponse\<close>

record SuperStreamRouteResponse =
  correlation_id :: u32
  response_code :: ResponseCode
  streams :: "string list"

definition new_SuperStreamRouteResponse :: "u32 \<Rightarrow> string list \<Rightarrow> ResponseCode \<Rightarrow> SuperStreamRouteResponse" where
  "new_SuperStreamRouteResponse correlation_id' streams' response_code' =
     \<lparr>correlation_id = correlation_id', response_code = response_code', streams = streams'\<rparr>"

definition encode_SuperStreamRouteResponse :: "SuperStreamRouteResponse \<Rightarrow> bytes" where
  [codec_defs]: "encode_SuperStreamRouteResponse r =
     encode_u32 (correlation_id r) @ encode_response (response_code r) @ encode_strings (streams r)"

definition encoded_size_SuperStreamRouteResponse :: "SuperStreamRouteResponse \<Rightarrow> u32" where
  [codec_defs]: "encoded_size_SuperStreamRouteResponse r =
     encoded_size_u32 (correlation_id r) + encoded_size_strings (streams r) + encoded_size_response (response_code r)"

definition decode_SuperStreamRouteResponse :: "SuperStreamRouteResponse decoder" where
  [codec_defs]: "decode_SuperStreamRouteResponse input =
     and_then (read_u32 input) (\<lambda>(input, correlation_id').
     and_then (decode_response input) (\<lambda>(input, response_code').
     and_then (decode_strings input) (\<lambda>(input, streams').
       Ok (input, \<lparr>correlation_id = correlation_id', response_code = response_code', streams = streams'\<rparr>))))"

definition wf_SuperStreamRouteResponse :: "SuperStreamRouteResponse \<Rightarrow> bool" where
  [codec_defs]: "wf_SuperStreamRouteResponse r \<longleftrightarrow> wire_strings (streams r)"

interpretation SuperStreamRouteResponse: codec encode_SuperStreamRouteResponse decode_SuperStreamRouteResponse wf_SuperStreamRouteResponse
  by unfold_locales (simp add: codec_defs round_trips)

lemmas SuperStreamRouteResponse_round_trip [round_trips] = SuperStreamRouteResponse.dec_enc

interpretation SuperStreamRouteResponse: sized encode_SuperStreamRouteResponse encoded_size_SuperStreamRouteResponse "\<lambda>_. True"
  by unfold_locales (simp add: codec_defs size_simps)

lemmas SuperStreamRouteResponse_size [size_simps] = SuperStreamRouteResponse.size_enc [OF TrueI]

interpretation SuperStreamRouteResponse: prefix_decoder decode_SuperStreamRouteResponse
  unfolding decode_SuperStreamRouteResponse_def by (intro prefix_decoders)

lemmas SuperStreamRouteResponse_prefix_decoder [prefix_decoders] = SuperStreamRouteResponse.prefix_decoder_axioms

section \<open>Metadata\<close>

subsection \<open>MetadataCommand\<close>

record MetadataCommand =
  correlation_id :: u32
  streams :: "string list"

definition new_MetadataCommand :: "u32 \<Rightarrow> string list \<Rightarrow> MetadataCommand" where
  "new_MetadataCommand correlation_id' streams' =
     \<lparr>correlation_id = correlation_id', streams = streams'\<rparr>"

definition encode_MetadataCommand :: "MetadataCommand \<Rightarrow> bytes" where
  [codec_defs]: "encode_MetadataCommand r =
     encode_u32 (correlation_id r) @ encode_strings (streams r)"

definition encoded_size_MetadataCommand :: "MetadataCommand \<Rightarrow> u32" where
  [codec_defs]: "encoded_size_MetadataCommand r =
     encoded_size_u32 (correlation_id r) + encoded_size_strings (streams r)"

definition decode_MetadataCommand :: "MetadataCommand decoder" where
  [codec_defs]: "decode_MetadataCommand input =
     and_then (read_u32 input) (\<lambda>(input, correlation_id').
     and_then (decode_strings input) (\<lambda>(input, streams').
       Ok (input, \<lparr>correlation_id = correlation_id', streams = streams'\<rparr>)))"

definition key_MetadataCommand :: "MetadataCommand \<Rightarrow> u16" where
  "key_MetadataCommand r = COMMAND_METADATA"

definition wf_MetadataCommand :: "MetadataCommand \<Rightarrow> bool" where
  [codec_defs]: "wf_MetadataCommand r \<longleftrightarrow> wire_strings (streams r)"

interpretation MetadataCommand: codec encode_MetadataCommand decode_MetadataCommand wf_MetadataCommand
  by unfold_locales (simp add: codec_defs round_trips)

lemmas MetadataCommand_round_trip [round_trips] = MetadataCommand.dec_enc

interpretation MetadataCommand: sized encode_MetadataCommand encoded_size_MetadataCommand "\<lambda>_. True"
  by unfold_locales (simp add: codec_defs size_simps)

lemmas MetadataCommand_size [size_simps] = MetadataCommand.size_enc [OF TrueI]

interpretation MetadataCommand: prefix_decoder decode_MetadataCommand
  unfolding decode_MetadataCommand_def by (intro prefix_decoders)

lemmas MetadataCommand_prefix_decoder [prefix_decoders] = MetadataCommand.prefix_decoder_axioms

subsection \<open>Broker\<close>

record Broker =
  reference :: u16
  host :: string
  port :: u32

definition encode_Broker :: "Broker \<Rightarrow> bytes" where
  [codec_defs]: "encode_Broker r =
     encode_u16 (reference r) @ encode_str (host r) @ encode_u32 (port r)"

definition encoded_size_Broker :: "Broker \<Rightarrow> u32" where
  [codec_defs]: "encoded_size_Broker r =
     encoded_size_u16 (reference r) + encoded_size_u32 (port r) + encoded_size_str (host r)"

definition decode_Broker :: "Broker decoder" where
  [codec_defs]: "decode_Broker input =
     and_then (read_u16 input) (\<lambda>(input, reference').
     and_then (decode_opt_string input) (\<lambda>(input, host').
     and_then (read_u32 input) (\<lambda>(input, port').
     and_then (unwrap host') (\<lambda>host'.
       Ok (input, \<lparr>reference = reference', host = host', port = port'\<rparr>)))))"

definition wf_Broker :: "Broker \<Rightarrow> bool" where
  [codec_defs]: "wf_Broker r \<longleftrightarrow> wire_string (host r)"

interpretation Broker: codec encode_Broker decode_Broker wf_Broker
  by unfold_locales (simp add: codec_defs round_trips)

lemmas Broker_round_trip [round_trips] = Broker.dec_enc

interpretation Broker: sized encode_Broker encoded_size_Broker "\<lambda>_. True"
  by unfold_locales (simp add: codec_defs size_simps)

lemmas Broker_size [size_simps] = Broker.size_enc [OF TrueI]

interpretation Broker: prefix_decoder decode_Broker
  unfolding decode_Broker_def by (intro prefix_decoders)

lemmas Broker_prefix_decoder [prefix_decoders] = Broker.prefix_decoder_axioms

subsection \<open>StreamMetadata\<close>

record StreamMetadata =
  stream_name :: string
  code :: ResponseCode
  leader_reference :: u16
  replicas_references :: "u16 list"

definition encode_StreamMetadata :: "StreamMetadata \<Rightarrow> bytes" where
  [codec_defs]: "encode_StreamMetadata r =
     encode_str (stream_name r) @ encode_response (code r) @ encode_u16 (leader_reference r) @ encode_vec_u16 (replicas_references r)"

definition encoded_size_StreamMetadata :: "StreamMetadata \<Rightarrow> u32" where
  [codec_defs]: "encoded_size_StreamMetadata r =
     encoded_size_str (stream_name r) + encoded_size_response (code r) + encoded_size_u16 (leader_reference r) + encoded_size_vec_u16 (replicas_references r)"

definition decode_StreamMetadata :: "StreamMetadata decoder" where
  [codec_defs]: "decode_StreamMetadata input =
     and_then (decode_opt_string input) (\<lambda>(input, stream_name').
     and_then (decode_response input) (\<lambda>(input, code').
     and_then (read_u16 input) (\<lambda>(input, leader_reference').
     and_then (decode_vec_u16 input) (\<lambda>(input, replicas_references').
     and_then (unwrap stream_name') (\<lambda>stream_name'.
       Ok (input, \<lparr>stream_name = stream_name', code = code', leader_reference = leader_reference', replicas_references = replicas_references'\<rparr>))))))"

definition wf_StreamMetadata :: "StreamMetadata \<Rightarrow> bool" where
  [codec_defs]: "wf_StreamMetadata r \<longleftrightarrow> wire_string (stream_name r) \<and> vec_fits (replicas_references r)"

interpretation StreamMetadata: codec encode_StreamMetadata decode_StreamMetadata wf_StreamMetadata
  by unfold_locales (simp add: codec_defs round_trips)

lemmas StreamMetadata_round_trip [round_trips] = StreamMetadata.dec_enc

interpretation StreamMetadata: sized encode_StreamMetadata encoded_size_StreamMetadata "\<lambda>_. True"
  by unfold_locales (simp add: codec_defs size_simps)

lemmas StreamMetadata_size [size_simps] = StreamMetadata.size_enc [OF TrueI]

interpretation StreamMetadata: prefix_decoder decode_StreamMetadata
  unfolding decode_StreamMetadata_def by (intro prefix_decoders)

lemmas StreamMetadata_prefix_decoder [prefix_decoders] = StreamMetadata.prefix_decoder_axioms

subsection \<open>Vectors of brokers and of stream metadata\<close>

definition encode_brokers :: "Broker list \<Rightarrow> bytes" where
  "encode_brokers xs = encode_i32 (of_nat (length xs)) @ concat (map encode_Broker xs)"

definition encoded_size_brokers :: "Broker list \<Rightarrow> u32" where
  "encoded_size_brokers xs = 4 + foldl (\<lambda>acc v. acc + encoded_size_Broker v) 0 xs"

definition decode_brokers :: "Broker list decoder" where
  "decode_brokers = read_vec decode_Broker"

definition wf_brokers :: "Broker list \<Rightarrow> bool" where
  "wf_brokers xs \<longleftrightarrow> vec_fits xs \<and> list_all wf_Broker xs"

interpretation brokers: codec encode_brokers decode_brokers wf_brokers
  by unfold_locales
     (simp add: encode_brokers_def decode_brokers_def wf_brokers_def vec_fits_def
       Broker.read_vec_enc)

interpretation brokers: sized encode_brokers encoded_size_brokers "\<lambda>_. True"
  by unfold_locales
     (simp add: encode_brokers_def encoded_size_brokers_def Broker.fold_size_enc list.pred_True)

interpretation brokers: prefix_decoder decode_brokers
  unfolding decode_brokers_def by (intro prefix_decoders)

lemmas brokers_round_trip [round_trips] = brokers.dec_enc
lemmas brokers_size [size_simps] = brokers.size_enc [OF TrueI]
lemmas brokers_prefix_decoder [prefix_decoders] = brokers.prefix_decoder_axioms

definition encode_stream_metadata :: "StreamMetadata list \<Rightarrow> bytes" where
  "encode_stream_metadata xs = encode_i32 (of_nat (length xs)) @ concat (map encode_StreamMetadata xs)"

definition encoded_size_stream_metadata :: "StreamMetadata list \<Rightarrow> u32" where
  "encoded_size_stream_metadata xs = 4 + foldl (\<lambda>acc v. acc + encoded_size_StreamMetadata v) 0 xs"

definition decode_stream_metadata :: "StreamMetadata list decoder" where
  "decode_stream_metadata = read_vec decode_StreamMetadata"

definition wf_stream_metadata :: "StreamMetadata list \<Rightarrow> bool" where
  "wf_stream_metadata xs \<longleftrightarrow> vec_fits xs \<and> list_all wf_StreamMetadata xs"

interpretation stream_metadata: codec encode_stream_metadata decode_stream_metadata wf_stream_metadata
  by unfold_locales
     (simp add: encode_stream_metadata_def decode_stream_metadata_def wf_stream_metadata_def vec_fits_def
       StreamMetadata.read_vec_enc)

interpretation stream_metadata: sized encode_stream_metadata encoded_size_stream_metadata "\<lambda>_. True"
  by unfold_locales
     (simp add: encode_stream_metadata_def encoded_size_stream_metadata_def StreamMetadata.fold_size_enc list.pred_True)

interpretation stream_metadata: prefix_decoder decode_stream_metadata
  unfolding decode_stream_metadata_def by (intro prefix_decoders)

lemmas stream_metadata_round_trip [round_trips] = stream_metadata.dec_enc
lemmas stream_metadata_size [size_simps] = stream_metadata.size_enc [OF TrueI]
lemmas stream_metadata_prefix_decoder [prefix_decoders] = stream_metadata.prefix_decoder_axioms

subsection \<open>MetadataResponse\<close>

record MetadataResponse =
  correlation_id :: u32
  brokers :: "Broker list"
  stream_metadata :: "StreamMetadata list"

definition encode_MetadataResponse :: "MetadataResponse \<Rightarrow> bytes" where
  [codec_defs]: "encode_MetadataResponse r =
     encode_u32 (correlation_id r) @ encode_brokers (brokers r) @ encode_stream_metadata (stream_metadata r)"

definition encoded_size_MetadataResponse :: "MetadataResponse \<Rightarrow> u32" where
  [codec_defs]: "encoded_size_MetadataResponse r =
     0"

definition decode_MetadataResponse :: "MetadataResponse decoder" where
  [codec_defs]: "decode_MetadataResponse input =
     and_then (read_u32 input) (\<lambda>(input, correlation_id').
     and_then (decode_brokers input) (\<lambda>(input, brokers').
     and_then (decode_stream_metadata input) (\<lambda>(input, stream_metadata').
       Ok (input, \<lparr>correlation_id = correlation_id', brokers = brokers', stream_metadata = stream_metadata'\<rparr>))))"

definition wf_MetadataResponse :: "MetadataResponse \<Rightarrow> bool" where
  [codec_defs]: "wf_MetadataResponse r \<longleftrightarrow> wf_brokers (brokers r) \<and> wf_stream_metadata (stream_metadata r)"

interpretation MetadataResponse: codec encode_MetadataResponse decode_MetadataResponse wf_MetadataResponse
  by unfold_locales (simp add: codec_defs round_trips)

lemmas MetadataResponse_round_trip [round_trips] = MetadataResponse.dec_enc

interpretation MetadataResponse: prefix_decoder decode_MetadataResponse
  unfolding decode_MetadataResponse_def by (intro prefix_decoders)

lemmas MetadataResponse_prefix_decoder [prefix_decoders] = MetadataResponse.prefix_decoder_axioms

subsection \<open>MetadataUpdateCommand\<close>

record MetadataUpdateCommand =
  code :: ResponseCode
  stream :: string

definition encode_MetadataUpdateCommand :: "MetadataUpdateCommand \<Rightarrow> bytes" where
  [codec_defs]: "encode_MetadataUpdateCommand r =
     encode_response (code r) @ encode_str (stream r)"

definition encoded_size_MetadataUpdateCommand :: "MetadataUpdateCommand \<Rightarrow> u32" where
  [codec_defs]: "encoded_size_MetadataUpdateCommand r =
     0"

definition decode_MetadataUpdateCommand :: "MetadataUpdateCommand decoder" where
  [codec_defs]: "decode_MetadataUpdateCommand input =
     and_then (decode_response input) (\<lambda>(input, code').
     and_then (decode_opt_string input) (\<lambda>(input, stream').
     and_then (unwrap stream') (\<lambda>stream'.
       Ok (input, \<lparr>code = code', stream = stream'\<rparr>))))"

definition key_MetadataUpdateCommand :: "MetadataUpdateCommand \<Rightarrow> u16" where
  "key_MetadataUpdateCommand r = COMMAND_METADATA_UPDATE"

definition wf_MetadataUpdateCommand :: "MetadataUpdateCommand \<Rightarrow> bool" where
  [codec_defs]: "wf_MetadataUpdateCommand r \<longleftrightarrow> wire_string (stream r)"

interpretation MetadataUpdateCommand: codec encode_MetadataUpdateCommand decode_MetadataUpdateCommand wf_MetadataUpdateCommand
  by unfold_locales (simp add: codec_defs round_trips)

lemmas MetadataUpdateCommand_round_trip [round_trips] = MetadataUpdateCommand.dec_enc

interpretation MetadataUpdateCommand: prefix_decoder decode_MetadataUpdateCommand
  unfolding decode_MetadataUpdateCommand_def by (intro prefix_decoders)

lemmas MetadataUpdateCommand_prefix_decoder [prefix_decoders] = MetadataUpdateCommand.prefix_decoder_axioms

end
