(* ===== verification/Commands_Clients.thy ===== *)
theory Commands_Clients
  imports Types
begin

text \<open>
  The commands of publishers and consumers that carry no message (\<open>protocol/src/commands\<close>):
  declaring and deleting a publisher, confirms and errors, publisher sequences, subscriptions,
  credits, consumer updates and stored offsets.  The three encoders that reject a reference of
  256 bytes or more before writing anything return a \<^typ>\<open>(bytes, EncodeError) result\<close>.
\<close>

section \<open>Publishers\<close>

subsection \<open>DeclarePublisherCommand\<close>

record DeclarePublisherCommand =
  correlation_id :: u32
  publisher_id :: u8
  publisher_reference :: "string option"
  stream_name :: string

definition new_DeclarePublisherCommand :: "u32 \<Rightarrow> u8 \<Rightarrow> string option \<Rightarrow> string \<Rightarrow> DeclarePublisherCommand" where
  "new_DeclarePublisherCommand correlation_id' publisher_id' publisher_reference' stream_name' =
     \<lparr>correlation_id = correlation_id', publisher_id = publisher_id', publisher_reference = publisher_reference', stream_name = stream_name'\<rparr>"

definition encode_DeclarePublisherCommand :: "DeclarePublisherCommand \<Rightarrow> bytes" where
  [codec_defs]: "encode_DeclarePublisherCommand r =
     encode_u32 (correlation_id r) @ encode_u8 (publisher_id r) @ encode_opt_string (publisher_reference r) @ encode_str (stream_name r)"

definition encoded_size_DeclarePublisherCommand :: "DeclarePublisherCommand \<Rightarrow> u32" where
  [codec_defs]: "encoded_size_DeclarePublisherCommand r =
     encoded_size_u32 (correlation_id r) + encoded_size_u8 (publisher_id r) + encoded_size_opt_string (publisher_reference r) + encoded_size_str (stream_name r)"

definition decode_DeclarePublisherCommand :: "DeclarePublisherCommand decoder" where
  [codec_defs]: "decode_DeclarePublisherCommand input =
     and_then (read_u32 input) (\<lambda>(input, correlation_id').
     and_then (read_u8 input) (\<lambda>(input, publisher_id').
     and_then (decode_opt_string input) (\<lambda>(input, publisher_reference').
     and_then (decode_opt_string input) (\<lambda>(input, stream_name').
     and_then (unwrap stream_name') (\<lambda>stream_name'.
       Ok (input, \<lparr>correlation_id = correlation_id', publisher_id = publisher_id', publisher_reference = publisher_reference', stream_name = stream_name'\<rparr>))))))"

definition key_DeclarePublisherCommand :: "DeclarePublisherCommand \<Rightarrow> u16" where
  "key_DeclarePublisherCommand r = COMMAND_DECLARE_PUBLISHER"

definition wf_DeclarePublisherCommand :: "DeclarePublisherCommand \<Rightarrow> bool" where
  [codec_defs]: "wf_DeclarePublisherCommand r \<longleftrightarrow> wire_opt_string (publisher_reference r) \<and> wire_string (stream_name r)"

interpretation DeclarePublisherCommand: codec encode_DeclarePublisherCommand decode_DeclarePublisherCommand wf_DeclarePublisherCommand
  by unfold_locales (simp add: codec_defs round_trips)

lemmas DeclarePublisherCommand_round_trip [round_trips] = DeclarePublisherCommand.dec_enc

interpretation DeclarePublisherCommand: sized encode_DeclarePublisherCommand encoded_size_DeclarePublisherCommand "\<lambda>_. True"
  by unfold_locales (simp add: codec_defs size_simps)

lemmas DeclarePublisherCommand_size [size_simps] = DeclarePublisherCommand.size_enc [OF TrueI]

interpretation DeclarePublisherCommand: prefix_decoder decode_DeclarePublisherCommand
  unfolding decode_DeclarePublisherCommand_def by (intro prefix_decoders)

lemmas DeclarePublisherCommand_prefix_decoder [prefix_decoders] = DeclarePublisherCommand.prefix_decoder_axioms

subsection \<open>DeletePublisherCommand\<close>

record DeletePublisherCommand =
  correlation_id :: u32
  publisher_id :: u8

definition new_DeletePublisherCommand :: "u32 \<Rightarrow> u8 \<Rightarrow> DeletePublisherCommand" where
  "new_DeletePublisherCommand correlation_id' publisher_id' =
     \<lparr>correlation_id = correlation_id', publisher_id = publisher_id'\<rparr>"

definition encode_DeletePublisherCommand :: "DeletePublisherCommand \<Rightarrow> bytes" where
  [codec_defs]: "encode_DeletePublisherCommand r =
     encode_u32 (correlation_id r) @ encode_u8 (publisher_id r)"

definition encoded_size_DeletePublisherCommand :: "DeletePublisherCommand \<Rightarrow> u32" where
  [codec_defs]: "encoded_size_DeletePublisherCommand r =
     encoded_size_u32 (correlation_id r) + encoded_size_u8 (publisher_id r)"

definition decode_DeletePublisherCommand :: "DeletePublisherCommand decoder" where
  [codec_defs]: "decode_DeletePublisherCommand input =
     and_then (read_u32 input) (\<lambda>(input, correlation_id').
     and_then (read_u8 input) (\<lambda>(input, publisher_id').
       Ok (input, \<lparr>correlation_id = correlation_id', publisher_id = publisher_id'\<rparr>)))"

definition key_DeletePublisherCommand :: "DeletePublisherCommand \<Rightarrow> u16" where
  "key_DeletePublisherCommand r = COMMAND_DELETE_PUBLISHER"

interpretation DeletePublisherCommand: codec encode_DeletePublisherCommand decode_DeletePublisherCommand "\<lambda>_. True"
  by unfold_locales (simp add: codec_defs round_trips)

lemmas DeletePublisherCommand_round_trip [round_trips] = DeletePublisherCommand.dec_enc [OF TrueI]

interpretation DeletePublisherCommand: sized encode_DeletePublisherCommand encoded_size_DeletePublisherCommand "\<lambda>_. True"
  by unfold_locales (simp add: codec_defs size_simps)

lemmas DeletePublisherCommand_size [size_simps] = DeletePublisherCommand.size_enc [OF TrueI]

interpretation DeletePublisherCommand: resumable decode_DeletePublisherCommand
  unfolding decode_DeletePublisherCommand_def by (intro resumables)

lemmas DeletePublisherCommand_resumable [resumables] = DeletePublisherCommand.resumable_axioms
lemmas DeletePublisherCommand_prefix_decoder [prefix_decoders] = DeletePublisherCommand.prefix_decoder_axioms

subsection \<open>PublishConfirm\<close>

record PublishConfirm =
  publisher_id :: u8
  publishing_ids :: "u64 list"

definition new_PublishConfirm :: "u8 \<Rightarrow> u64 list \<Rightarrow> PublishConfirm" where
  "new_PublishConfirm publisher_id' publishing_ids' =
     \<lparr>publisher_id = publisher_id', publishing_ids = publishing_ids'\<rparr>"

definition encode_PublishConfirm :: "PublishConfirm \<Rightarrow> bytes" where
  [codec_defs]: "encode_PublishConfirm r =
     encode_u8 (publisher_id r) @ encode_vec_u64 (publishing_ids r)"

definition encoded_size_PublishConfirm :: "PublishConfirm \<Rightarrow> u32" where
  [codec_defs]: "encoded_size_PublishConfirm r =
     encoded_size_u8 (publisher_id r) + encoded_size_vec_u64 (publishing_ids r)"

definition decode_PublishConfirm :: "PublishConfirm decoder" where
  [codec_defs]: "decode_PublishConfirm input =
     and_then (read_u8 input) (\<lambda>(input, publisher_id').
     and_then (decode_vec_u64 input) (\<lambda>(input, publishing_ids').
       Ok (input, \<lparr>publisher_id = publisher_id', publishing_ids = publishing_ids'\<rparr>)))"

definition key_PublishConfirm :: "PublishConfirm \<Rightarrow> u16" where
  "key_PublishConfirm r = COMMAND_PUBLISH_CONFIRM"

definition wf_PublishConfirm :: "PublishConfirm \<Rightarrow> bool" where
  [codec_defs]: "wf_PublishConfirm r \<longleftrightarrow> vec_fits (publishing_ids r)"

interpretation PublishConfirm: codec encode_PublishConfirm decode_PublishConfirm wf_PublishConfirm
  by unfold_locales (simp add: codec_defs round_trips)

lemmas PublishConfirm_round_trip [round_trips] = PublishConfirm.dec_enc

interpretation PublishConfirm: sized encode_PublishConfirm encoded_size_PublishConfirm "\<lambda>_. True"
  by unfold_locales (simp add: codec_defs size_simps)

lemmas PublishConfirm_size [size_simps] = PublishConfirm.size_enc [OF TrueI]

interpretation PublishConfirm: resumable decode_PublishConfirm
  unfolding decode_PublishConfirm_def by (intro resumables)

lemmas PublishConfirm_resumable [resumables] = PublishConfirm.resumable_axioms
lemmas PublishConfirm_prefix_decoder [prefix_decoders] = PublishConfirm.prefix_decoder_axioms

subsection \<open>PublishErrorResponse\<close>

record PublishErrorResponse =
  publisher_id :: u8
  publishing_errors :: "PublishingError list"

definition new_PublishErrorResponse :: "u8 \<Rightarrow> PublishingError list \<Rightarrow> PublishErrorResponse" where
  "new_PublishErrorResponse publisher_id' publishing_errors' =
     \<lparr>publisher_id = publisher_id', publishing_errors = publishing_errors'\<rparr>"

definition encode_PublishErrorResponse :: "PublishErrorResponse \<Rightarrow> bytes" where
  [codec_defs]: "encode_PublishErrorResponse r =
     encode_u8 (publisher_id r) @ encode_publishing_errors (publishing_errors r)"

definition encoded_size_PublishErrorResponse :: "PublishErrorResponse \<Rightarrow> u32" where
  [codec_defs]: "encoded_size_PublishErrorResponse r =
     encoded_size_u8 (publisher_id r) + encoded_size_publishing_errors (publishing_errors r) + encoded_size_u8 (publisher_id r)"

definition decode_PublishErrorResponse :: "PublishErrorResponse decoder" where
  [codec_defs]: "decode_PublishErrorResponse input =
     and_then (read_u8 input) (\<lambda>(input, publisher_id').
     and_then (decode_publishing_errors input) (\<lambda>(input, publishing_errors').
       Ok (input, \<lparr>publisher_id = publisher_id', publishing_errors = publishing_errors'\<rparr>)))"

definition key_PublishErrorResponse :: "PublishErrorResponse \<Rightarrow> u16" where
  "key_PublishErrorResponse r = COMMAND_PUBLISH_ERROR"

definition wf_PublishErrorResponse :: "PublishErrorResponse \<Rightarrow> bool" where
  [codec_defs]: "wf_PublishErrorResponse r \<longleftrightarrow> vec_fits32 (publishing_errors r)"

interpretation PublishErrorResponse: codec encode_PublishErrorResponse decode_PublishErrorResponse wf_PublishErrorResponse
  by unfold_locales (simp add: codec_defs round_trips)

lemmas PublishErrorResponse_round_trip [round_trips] = PublishErrorResponse.dec_enc

interpretation PublishErrorResponse: resumable decode_PublishErrorResponse
  unfolding decode_PublishErrorResponse_def by (intro resumables)

lemmas PublishErrorResponse_resumable [resumables] = PublishErrorResponse.resumable_axioms
lemmas PublishErrorResponse_prefix_decoder [prefix_decoders] = PublishErrorResponse.prefix_decoder_axioms

section \<open>Publisher sequences\<close>

lemma prefix_decoder_case_option [prefix_decoders]:
  assumes "\<And>x. prefix_decoder (f x)" "prefix_decoder g"
  shows "prefix_decoder (\<lambda>input. case v of Some x \<Rightarrow> f x input | None \<Rightarrow> g input)"
  using assms by (cases v) simp_all

subsection \<open>QueryPublisherRequest\<close>

record QueryPublisherRequest =
  correlation_id :: u32
  publisher_reference :: string
  stream :: string

definition new_QueryPublisherRequest :: "u32 \<Rightarrow> string \<Rightarrow> string \<Rightarrow> QueryPublisherRequest" where
  "new_QueryPublisherRequest correlation_id' publisher_reference' stream' =
     \<lparr>correlation_id = correlation_id', publisher_reference = publisher_reference', stream = stream'\<rparr>"

definition encode_QueryPublisherRequest :: "QueryPublisherRequest \<Rightarrow> (bytes, EncodeError) result" where
  [codec_defs]: "encode_QueryPublisherRequest r =
     (if length (publisher_reference r) \<ge> 256 then Err (MaxSizeError (length (publisher_reference r)))
      else Ok (encode_u32 (correlation_id r) @ encode_str (publisher_reference r) @ encode_str (stream r)))"

definition encoded_size_QueryPublisherRequest :: "QueryPublisherRequest \<Rightarrow> u32" where
  [codec_defs]: "encoded_size_QueryPublisherRequest r =
     encoded_size_u32 (correlation_id r) + encoded_size_str (stream r) + encoded_size_str (publisher_reference r)"

definition decode_QueryPublisherRequest :: "QueryPublisherRequest decoder" where
  [codec_defs]: "decode_QueryPublisherRequest input =
     and_then (read_u32 input) (\<lambda>(input, correlation_id').
     and_then (decode_opt_string input) (\<lambda>(input, opt_publisher_reference).
       case opt_publisher_reference of
         Some publisher_reference' \<Rightarrow>
           if length publisher_reference' \<le> 255
           then and_then (decode_opt_string input) (\<lambda>(input, opt_stream).
                and_then (unwrap opt_stream) (\<lambda>stream'.
                  Ok (input, \<lparr>correlation_id = correlation_id', publisher_reference = publisher_reference',
                              stream = stream'\<rparr>)))
           else Err (MismatchSize (length publisher_reference'))
       | None \<Rightarrow> Err Empty))"

definition key_QueryPublisherRequest :: "QueryPublisherRequest \<Rightarrow> u16" where
  "key_QueryPublisherRequest r = COMMAND_QUERY_PUBLISHER_SEQUENCE"

definition wf_QueryPublisherRequest :: "QueryPublisherRequest \<Rightarrow> bool" where
  [codec_defs]: "wf_QueryPublisherRequest r \<longleftrightarrow> wire_string (publisher_reference r) \<and> wire_string (stream r)"

lemma encode_QueryPublisherRequest_Ok_iff:
  "(\<exists>bs. encode_QueryPublisherRequest r = Ok bs) \<longleftrightarrow> length (publisher_reference r) < 256"
  by (auto simp: encode_QueryPublisherRequest_def)

lemma QueryPublisherRequest_round_trip [round_trips]:
  "wf_QueryPublisherRequest r \<Longrightarrow> encode_QueryPublisherRequest r = Ok bs \<Longrightarrow> decode_QueryPublisherRequest (bs @ rest) = Ok (rest, r)"
  by (auto simp: codec_defs round_trips split: if_splits)

lemma QueryPublisherRequest_size:
  "encode_QueryPublisherRequest r = Ok bs \<Longrightarrow> encoded_size_QueryPublisherRequest r = of_nat (length bs)"
  by (auto simp: codec_defs size_simps algebra_simps split: if_splits)

lemma prefix_decoder_QueryPublisherRequest [prefix_decoders]: "prefix_decoder decode_QueryPublisherRequest"
  unfolding decode_QueryPublisherRequest_def
  by (intro prefix_decoders)

interpretation QueryPublisherRequest: prefix_decoder decode_QueryPublisherRequest
  by (rule prefix_decoder_QueryPublisherRequest)

subsection \<open>QueryPublisherResponse\<close>

record QueryPublisherResponse =
  correlation_id :: u32
  response_code :: ResponseCode
  sequence :: u64

definition new_QueryPublisherResponse :: "u32 \<Rightarrow> ResponseCode \<Rightarrow> u64 \<Rightarrow> QueryPublisherResponse" where
  "new_QueryPublisherResponse correlation_id' response_code' sequence' =
     \<lparr>correlation_id = correlation_id', response_code = response_code', sequence = sequence'\<rparr>"

definition encode_QueryPublisherResponse :: "QueryPublisherResponse \<Rightarrow> bytes" where
  [codec_defs]: "encode_QueryPublisherResponse r =
     encode_u32 (correlation_id r) @ encode_response (response_code r) @ encode_u64 (sequence r)"

definition encoded_size_QueryPublisherResponse :: "QueryPublisherResponse \<Rightarrow> u32" where
  [codec_defs]: "encoded_size_QueryPublisherResponse r =
     encoded_size_u64 (sequence r) + encoded_size_u32 (correlation_id r) + encoded_size_response (response_code r)"

definition decode_QueryPublisherResponse :: "QueryPublisherResponse decoder" where
  [codec_defs]: "decode_QueryPublisherResponse input =
     and_then (read_u32 input) (\<lambda>(input, correlation_id').
     and_then (decode_response input) (\<lambda>(input, response_code').
     and_then (read_u64 input) (\<lambda>(input, sequence').
       Ok (input, \<lparr>correlation_id = correlation_id', response_code = response_code', sequence = sequence'\<rparr>))))"

interpretation QueryPublisherResponse: codec encode_QueryPublisherResponse decode_QueryPublisherResponse "\<lambda>_. True"
  by unfold_locales (simp add: codec_defs round_trips)

lemmas QueryPublisherResponse_round_trip [round_trips] = QueryPublisherResponse.dec_enc [OF TrueI]

interpretation QueryPublisherResponse: sized encode_QueryPublisherResponse encoded_size_QueryPublisherResponse "\<lambda>_. True"
  by unfold_locales (simp add: codec_defs size_simps)

lemmas QueryPublisherResponse_size [size_simps] = QueryPublisherResponse.size_enc [OF TrueI]

interpretation QueryPublisherResponse: resumable decode_QueryPublisherResponse
  unfolding decode_QueryPublisherResponse_def by (intro resumables)

lemmas QueryPublisherResponse_resumable [resumables] = QueryPublisherResponse.resumable_axioms
lemmas QueryPublisherResponse_prefix_decoder [prefix_decoders] = QueryPublisherResponse.prefix_decoder_axioms

section \<open>Stored offsets\<close>

subsection \<open>QueryOffsetRequest\<close>

record QueryOffsetRequest =
  correlation_id :: u32
  reference :: string
  stream :: string

definition new_QueryOffsetRequest :: "u32 \<Rightarrow> string \<Rightarrow> string \<Rightarrow> QueryOffsetRequest" where
  "new_QueryOffsetRequest correlation_id' reference' stream' =
     \<lparr>correlation_id = correlation_id', reference = reference', stream = stream'\<rparr>"

definition encode_QueryOffsetRequest :: "QueryOffsetRequest \<Rightarrow> (bytes, EncodeError) result" where
  [codec_defs]: "encode_QueryOffsetRequest r =
     (if length (reference r) \<ge> 256 then Err (MaxSizeError (length (reference r)))
      else Ok (encode_u32 (correlation_id r) @ encode_str (reference r) @ encode_str (stream r)))"

definition encoded_size_QueryOffsetRequest :: "QueryOffsetRequest \<Rightarrow> u32" where
  [codec_defs]: "encoded_size_QueryOffsetRequest r =
     encoded_size_u32 (correlation_id r) + encoded_size_str (stream r) + encoded_size_str (reference r)"

definition decode_QueryOffsetRequest :: "QueryOffsetRequest decoder" where
  [codec_defs]: "decode_QueryOffsetRequest input =
     and_then (read_u32 input) (\<lambda>(input, correlation_id').
     and_then (decode_opt_string input) (\<lambda>(input, opt_reference).
       case opt_reference of
         Some reference' \<Rightarrow>
           if length reference' \<le> 255
           then and_then (decode_opt_string input) (\<lambda>(input, opt_stream).
                and_then (unwrap opt_stream) (\<lambda>stream'.
                  Ok (input, \<lparr>correlation_id = correlation_id', reference = reference',
                              stream = stream'\<rparr>)))
           else Err (MismatchSize (length reference'))
       | None \<Rightarrow> Err Empty))"

definition key_QueryOffsetRequest :: "QueryOffsetRequest \<Rightarrow> u16" where
  "key_QueryOffsetRequest r = COMMAND_QUERY_OFFSET"

definition wf_QueryOffsetRequest :: "QueryOffsetRequest \<Rightarrow> bool" where
  [codec_defs]: "wf_QueryOffsetRequest r \<longleftrightarrow> wire_string (reference r) \<and> wire_string (stream r)"

lemma encode_QueryOffsetRequest_Ok_iff:
  "(\<exists>bs. encode_QueryOffsetRequest r = Ok bs) \<longleftrightarrow> length (reference r) < 256"
  by (auto simp: encode_QueryOffsetRequest_def)

lemma QueryOffsetRequest_round_trip [round_trips]:
  "wf_QueryOffsetRequest r \<Longrightarrow> encode_QueryOffsetRequest r = Ok bs \<Longrightarrow> decode_QueryOffsetRequest (bs @ rest) = Ok (rest, r)"
  by (auto simp: codec_defs round_trips split: if_splits)

lemma QueryOffsetRequest_size:
  "encode_QueryOffsetRequest r = Ok bs \<Longrightarrow> encoded_size_QueryOffsetRequest r = of_nat (length bs)"
  by (auto simp: codec_defs size_simps algebra_simps split: if_splits)

lemma prefix_decoder_QueryOffsetRequest [prefix_decoders]: "prefix_decoder decode_QueryOffsetRequest"
  unfolding decode_QueryOffsetRequest_def
  by (intro prefix_decoders)

interpretation QueryOffsetRequest: prefix_decoder decode_QueryOffsetRequest
  by (rule prefix_decoder_QueryOffsetRequest)

subsection \<open>QueryOffsetResponse\<close>

record QueryOffsetResponse =
  correlation_id :: u32
  response_code :: ResponseCode
  offset :: u64

definition new_QueryOffsetResponse :: "u32 \<Rightarrow> ResponseCode \<Rightarrow> u64 \<Rightarrow> QueryOffsetResponse" where
  "new_QueryOffsetResponse correlation_id' response_code' offset' =
     \<lparr>correlation_id = correlation_id', response_code = response_code', offset = offset'\<rparr>"

definition encode_QueryOffsetResponse :: "QueryOffsetResponse \<Rightarrow> bytes" where
  [codec_defs]: "encode_QueryOffsetResponse r =
     encode_u32 (correlation_id r) @ encode_response (response_code r) @ encode_u64 (offset r)"

definition encoded_size_QueryOffsetResponse :: "QueryOffsetResponse \<Rightarrow> u32" where
  [codec_defs]: "encoded_size_QueryOffsetResponse r =
     encoded_size_u64 (offset r) + encoded_size_u32 (correlation_id r) + encoded_size_response (response_code r)"

definition decode_QueryOffsetResponse :: "QueryOffsetResponse decoder" where
  [codec_defs]: "decode_QueryOffsetResponse input =
     and_then (read_u32 input) (\<lambda>(input, correlation_id').
     and_then (decode_response input) (\<lambda>(input, response_code').
     and_then (read_u64 input) (\<lambda>(input, offset').
       Ok (input, \<lparr>correlation_id = correlation_id', response_code = response_code', offset = offset'\<rparr>))))"

interpretation QueryOffsetResponse: codec encode_QueryOffsetResponse decode_QueryOffsetResponse "\<lambda>_. True"
  by unfold_locales (simp add: codec_defs round_trips)

lemmas QueryOffsetResponse_round_trip [round_trips] = QueryOffsetResponse.dec_enc [OF TrueI]

interpretation QueryOffsetResponse: sized encode_QueryOffsetResponse encoded_size_QueryOffsetResponse "\<lambda>_. True"
  by unfold_locales (simp add: codec_defs size_simps)

lemmas QueryOffsetResponse_size [size_simps] = QueryOffsetResponse.size_enc [OF TrueI]

interpretation QueryOffsetResponse: resumable decode_QueryOffsetResponse
  unfolding decode_QueryOffsetResponse_def by (intro resumables)

lemmas QueryOffsetResponse_resumable [resumables] = QueryOffsetResponse.resumable_axioms
lemmas QueryOffsetResponse_prefix_decoder [prefix_decoders] = QueryOffsetResponse.prefix_decoder_axioms

subsection \<open>StoreOffset\<close>

record StoreOffset =
  reference :: string
  stream :: string
  offset :: u64

definition new_StoreOffset :: "string \<Rightarrow> string \<Rightarrow> u64 \<Rightarrow> StoreOffset" where
  "new_StoreOffset reference' stream' offset' =
     \<lparr>reference = reference', stream = stream', offset = offset'\<rparr>"

definition encode_StoreOffset :: "StoreOffset \<Rightarrow> (bytes, EncodeError) result" where
  [codec_defs]: "encode_StoreOffset r =
     (if length (reference r) \<ge> 256 then Err (MaxSizeError (length (reference r)))
      else Ok (encode_str (reference r) @ encode_str (stream r) @ encode_u64 (offset r)))"

definition encoded_size_StoreOffset :: "StoreOffset \<Rightarrow> u32" where
  [codec_defs]: "encoded_size_StoreOffset r =
     encoded_size_str (reference r) + encoded_size_str (stream r) + encoded_size_u64 (offset r)"

definition decode_StoreOffset :: "StoreOffset decoder" where
  [codec_defs]: "decode_StoreOffset input =
     and_then (decode_opt_string input) (\<lambda>(input, opt_reference).
     and_then (decode_opt_string input) (\<lambda>(input, opt_stream).
       case opt_reference of
         Some reference' \<Rightarrow>
          (case opt_stream of
             Some stream' \<Rightarrow>
               if length reference' \<le> 255
               then and_then (read_u64 input) (\<lambda>(input, offset').
                      Ok (input, \<lparr>reference = reference', stream = stream', offset = offset'\<rparr>))
               else Err (MismatchSize (length reference'))
           | None \<Rightarrow> Err Empty)
       | None \<Rightarrow> Err Empty))"

definition key_StoreOffset :: "StoreOffset \<Rightarrow> u16" where
  "key_StoreOffset r = COMMAND_STORE_OFFSET"

definition wf_StoreOffset :: "StoreOffset \<Rightarrow> bool" where
  [codec_defs]: "wf_StoreOffset r \<longleftrightarrow> wire_string (reference r) \<and> wire_string (stream r)"

lemma encode_StoreOffset_Ok_iff:
  "(\<exists>bs. encode_StoreOffset r = Ok bs) \<longleftrightarrow> length (reference r) < 256"
  by (auto simp: encode_StoreOffset_def)

lemma StoreOffset_round_trip [round_trips]:
  "wf_StoreOffset r \<Longrightarrow> encode_StoreOffset r = Ok bs \<Longrightarrow> decode_StoreOffset (bs @ rest) = Ok (rest, r)"
  by (auto simp: codec_defs round_trips split: if_splits)

lemma StoreOffset_size:
  "encode_StoreOffset r = Ok bs \<Longrightarrow> encoded_size_StoreOffset r = of_nat (length bs)"
  by (auto simp: codec_defs size_simps algebra_simps split: if_splits)

lemma prefix_decoder_StoreOffset [prefix_decoders]: "prefix_decoder decode_StoreOffset"
  unfolding decode_StoreOffset_def
  by (intro prefix_decoders)

interpretation StoreOffset: prefix_decoder decode_StoreOffset
  by (rule prefix_decoder_StoreOffset)

section \<open>Subscriptions\<close>

subsection \<open>OffsetSpecification\<close>

datatype OffsetSpecification = First | Last | Next | Offset u64 | Timestamp i64

fun get_type :: "OffsetSpecification \<Rightarrow> u16" where
  "get_type First = 1"
| "get_type Last = 2"
| "get_type Next = 3"
| "get_type (Offset _) = 4"
| "get_type (Timestamp _) = 5"

definition encoded_size_OffsetSpecification :: "OffsetSpecification \<Rightarrow> u32" where
  "encoded_size_OffsetSpecification s = encoded_size_u16 (get_type s) +
     (case s of Offset off \<Rightarrow> encoded_size_u64 off
      | Timestamp ts \<Rightarrow> encoded_size_i64 ts | _ \<Rightarrow> 0)"

definition encode_OffsetSpecification :: "OffsetSpecification \<Rightarrow> bytes" where
  "encode_OffsetSpecification s = encode_u16 (get_type s) @
     (case s of Offset off \<Rightarrow> encode_u64 off
      | Timestamp ts \<Rightarrow> encode_i64 ts | _ \<Rightarrow> [])"

definition decode_OffsetSpecification :: "OffsetSpecification decoder" where
  "decode_OffsetSpecification input =
     and_then (read_u16 input) (\<lambda>(input, offset_type).
       if offset_type = 1 then Ok (input, First)
       else if offset_type = 2 then Ok (input, Last)
       else if offset_type = 3 then Ok (input, Next)
       else if offset_type = 4 then
         and_then (read_u64 input) (\<lambda>(input, offset). Ok (input, Offset offset))
       else if offset_type = 5 then
         and_then (read_i64 input) (\<lambda>(input, timestamp). Ok (input, Timestamp timestamp))
       else Panic)"

interpretation offset_spec:
  codec encode_OffsetSpecification decode_OffsetSpecification "\<lambda>_. True"
proof
  fix x rest
  show "decode_OffsetSpecification (encode_OffsetSpecification x @ rest) = Ok (rest, x)"
    by (cases x)
       (simp_all add: encode_OffsetSpecification_def decode_OffsetSpecification_def round_trips)
qed

interpretation offset_spec: sized encode_OffsetSpecification encoded_size_OffsetSpecification "\<lambda>_. True"
proof
  fix x
  show "encoded_size_OffsetSpecification x = of_nat (length (encode_OffsetSpecification x))"
    by (cases x)
       (simp_all add: encode_OffsetSpecification_def encoded_size_OffsetSpecification_def size_simps)
qed

interpretation offset_spec: resumable decode_OffsetSpecification
  unfolding decode_OffsetSpecification_def by (intro resumables)

lemmas offset_spec_round_trip [round_trips] = offset_spec.dec_enc [OF TrueI]
lemmas offset_spec_size [size_simps] = offset_spec.size_enc [OF TrueI]
lemmas offset_spec_resumable [resumables] = offset_spec.resumable_axioms
lemmas offset_spec_prefix_decoder [prefix_decoders] = offset_spec.prefix_decoder_axioms

subsection \<open>SubscribeCommand\<close>

record SubscribeCommand =
  correlation_id :: u32
  subscription_id :: u8
  stream_name :: string
  offset_specification :: OffsetSpecification
  credit :: u16
  properties :: string_map

definition new_SubscribeCommand :: "u32 \<Rightarrow> u8 \<Rightarrow> string \<Rightarrow> OffsetSpecification \<Rightarrow> u16 \<Rightarrow> string_map \<Rightarrow> SubscribeCommand" where
  "new_SubscribeCommand correlation_id' subscription_id' stream_name' offset_specification' credit' properties' =
     \<lparr>correlation_id = correlation_id', subscription_id = subscription_id', stream_name = stream_name', offset_specification = offset_specification', credit = credit', properties = properties'\<rparr>"

definition encode_SubscribeCommand :: "SubscribeCommand \<Rightarrow> bytes" where
  [codec_defs]: "encode_SubscribeCommand r =
     encode_u32 (correlation_id r) @ encode_u8 (subscription_id r) @ encode_str (stream_name r) @ encode_OffsetSpecification (offset_specification r) @ encode_u16 (credit r) @ encode_map (properties r)"

definition encoded_size_SubscribeCommand :: "SubscribeCommand \<Rightarrow> u32" where
  [codec_defs]: "encoded_size_SubscribeCommand r =
     encoded_size_u32 (correlation_id r) + encoded_size_u8 (subscription_id r) + encoded_size_str (stream_name r) + encoded_size_OffsetSpecification (offset_specification r) + encoded_size_u16 (credit r) + encoded_size_map (properties r)"

definition decode_SubscribeCommand :: "SubscribeCommand decoder" where
  [codec_defs]: "decode_SubscribeCommand input =
     and_then (read_u32 input) (\<lambda>(input, correlation_id').
     and_then (read_u8 input) (\<lambda>(input, subscription_id').
     and_then (decode_opt_string input) (\<lambda>(input, stream_name').
     and_then (decode_OffsetSpecification input) (\<lambda>(input, offset_specification').
     and_then (read_u16 input) (\<lambda>(input, credit').
     and_then (decode_map input) (\<lambda>(input, properties').
     and_then (unwrap stream_name') (\<lambda>stream_name'.
       Ok (input, \<lparr>correlation_id = correlation_id', subscription_id = subscription_id', stream_name = stream_name', offset_specification = offset_specification', credit = credit', properties = properties'\<rparr>))))))))"

definition key_SubscribeCommand :: "SubscribeCommand \<Rightarrow> u16" where
  "key_SubscribeCommand r = COMMAND_SUBSCRIBE"

definition wf_SubscribeCommand :: "SubscribeCommand \<Rightarrow> bool" where
  [codec_defs]: "wf_SubscribeCommand r \<longleftrightarrow> wire_string (stream_name r) \<and> wire_map (properties r)"

interpretation SubscribeCommand: codec encode_SubscribeCommand decode_SubscribeCommand wf_SubscribeCommand
  by unfold_locales (simp add: codec_defs round_trips)

lemmas SubscribeCommand_round_trip [round_trips] = SubscribeCommand.dec_enc

interpretation SubscribeCommand: sized encode_SubscribeCommand encoded_size_SubscribeCommand "\<lambda>_. True"
  by unfold_locales (simp add: codec_defs size_simps)

lemmas SubscribeCommand_size [size_simps] = SubscribeCommand.size_enc [OF TrueI]

interpretation SubscribeCommand: prefix_decoder decode_SubscribeCommand
  unfolding decode_SubscribeCommand_def by (intro prefix_decoders)

lemmas SubscribeCommand_prefix_decoder [prefix_decoders] = SubscribeCommand.prefix_decoder_axioms

subsection \<open>UnSubscribeCommand\<close>

record UnSubscribeCommand =
  correlation_id :: u32
  subscription_id :: u8

definition new_UnSubscribeCommand :: "u32 \<Rightarrow> u8 \<Rightarrow> UnSubscribeCommand" where
  "new_UnSubscribeCommand correlation_id' subscription_id' =
     \<lparr>correlation_id = correlation_id', subscription_id = subscription_id'\<rparr>"

definition encode_UnSubscribeCommand :: "UnSubscribeCommand \<Rightarrow> bytes" where
  [codec_defs]: "encode_UnSubscribeCommand r =
     encode_u32 (correlation_id r) @ encode_u8 (subscription_id r)"

definition encoded_size_UnSubscribeCommand :: "UnSubscribeCommand \<Rightarrow> u32" where
  [codec_defs]: "encoded_size_UnSubscribeCommand r =
     encoded_size_u32 (correlation_id r) + encoded_size_u8 (subscription_id r)"

definition decode_UnSubscribeCommand :: "UnSubscribeCommand decoder" where
  [codec_defs]: "decode_UnSubscribeCommand input =
     and_then (read_u32 input) (\<lambda>(input, correlation_id').
     and_then (read_u8 input) (\<lambda>(input, subscription_id').
       Ok (input, \<lparr>correlation_id = correlation_id', subscription_id = subscription_id'\<rparr>)))"

definition key_UnSubscribeCommand :: "UnSubscribeCommand \<Rightarrow> u16" where
  "key_UnSubscribeCommand r = COMMAND_UNSUBSCRIBE"

interpretation UnSubscribeCommand: codec encode_UnSubscribeCommand decode_UnSubscribeCommand "\<lambda>_. True"
  by unfold_locales (simp add: codec_defs round_trips)

lemmas UnSubscribeCommand_round_trip [round_trips] = UnSubscribeCommand.dec_enc [OF TrueI]

interpretation UnSubscribeCommand: sized encode_UnSubscribeCommand encoded_size_UnSubscribeCommand "\<lambda>_. True"
  by unfold_locales (simp add: codec_defs size_simps)

lemmas UnSubscribeCommand_size [size_simps] = UnSubscribeCommand.size_enc [OF TrueI]

interpretation UnSubscribeCommand: resumable decode_UnSubscribeCommand
  unfolding decode_UnSubscribeCommand_def by (intro resumables)

lemmas UnSubscribeCommand_resumable [resumables] = UnSubscribeCommand.resumable_axioms
lemmas UnSubscribeCommand_prefix_decoder [prefix_decoders] = UnSubscribeCommand.prefix_decoder_axioms

subsection \<open>CreditCommand\<close>

record CreditCommand =
  subscription_id :: u8
  credit :: u16

definition new_CreditCommand :: "u8 \<Rightarrow> u16 \<Rightarrow> CreditCommand" where
  "new_CreditCommand subscription_id' credit' =
     \<lparr>subscription_id = subscription_id', credit = credit'\<rparr>"

definition encode_CreditCommand :: "CreditCommand \<Rightarrow> bytes" where
  [codec_defs]: "encode_CreditCommand r =
     encode_u8 (subscription_id r) @ encode_u16 (credit r)"

definition encoded_size_CreditCommand :: "CreditCommand \<Rightarrow> u32" where
  [codec_defs]: "encoded_size_CreditCommand r =
     encoded_size_u8 (subscription_id r) + encoded_size_u16 (credit r)"

definition decode_CreditCommand :: "CreditCommand decoder" where
  [codec_defs]: "decode_CreditCommand input =
     and_then (read_u8 input) (\<lambda>(input, subscription_id').
     and_then (read_u16 input) (\<lambda>(input, credit').
       Ok (input, \<lparr>subscription_id = subscription_id', credit = credit'\<rparr>)))"

definition key_CreditCommand :: "CreditCommand \<Rightarrow> u16" where
  "key_CreditCommand r = COMMAND_CREDIT"

interpretation CreditCommand: codec encode_CreditCommand decode_CreditCommand "\<lambda>_. True"
  by unfold_locales (simp add: codec_defs round_trips)

lemmas CreditCommand_round_trip [round_trips] = CreditCommand.dec_enc [OF TrueI]

interpretation CreditCommand: sized encode_CreditCommand encoded_size_CreditCommand "\<lambda>_. True"
  by unfold_locales (simp add: codec_defs size_simps)

lemmas CreditCommand_size [size_simps] = CreditCommand.size_enc [OF TrueI]

interpretation CreditCommand: resumable decode_CreditCommand
  unfolding decode_CreditCommand_def by (intro resumables)

lemmas CreditCommand_resumable [resumables] = CreditCommand.resumable_axioms
lemmas CreditCommand_prefix_decoder [prefix_decoders] = CreditCommand.prefix_decoder_axioms

subsection \<open>CreditResponse\<close>

record CreditResponse =
  code :: ResponseCode
  subscription_id :: u8

definition encode_CreditResponse :: "CreditResponse \<Rightarrow> bytes" where
  [codec_defs]: "encode_CreditResponse r =
     encode_response (code r) @ encode_u8 (subscription_id r)"

definition encoded_size_CreditResponse :: "CreditResponse \<Rightarrow> u32" where
  [codec_defs]: "encoded_size_CreditResponse r =
     0"

definition decode_CreditResponse :: "CreditResponse decoder" where
  [codec_defs]: "decode_CreditResponse input =
     and_then (decode_response input) (\<lambda>(input, code').
     and_then (read_u8 input) (\<lambda>(input, subscription_id').
       Ok (input, \<lparr>code = code', subscription_id = subscription_id'\<rparr>)))"

interpretation CreditResponse: codec encode_CreditResponse decode_CreditResponse "\<lambda>_. True"
  by unfold_locales (simp add: codec_defs round_trips)

lemmas CreditResponse_round_trip [round_trips] = CreditResponse.dec_enc [OF TrueI]

interpretation CreditResponse: resumable decode_CreditResponse
  unfolding decode_CreditResponse_def by (intro resumables)

lemmas CreditResponse_resumable [resumables] = CreditResponse.resumable_axioms
lemmas CreditResponse_prefix_decoder [prefix_decoders] = CreditResponse.prefix_decoder_axioms

subsection \<open>ConsumerUpdateCommand\<close>

record ConsumerUpdateCommand =
  correlation_id :: u32
  subscription_id :: u8
  active :: u8

definition new_ConsumerUpdateCommand :: "u32 \<Rightarrow> u8 \<Rightarrow> u8 \<Rightarrow> ConsumerUpdateCommand" where
  "new_ConsumerUpdateCommand correlation_id' subscription_id' active' =
     \<lparr>correlation_id = correlation_id', subscription_id = subscription_id', active = active'\<rparr>"

definition encode_ConsumerUpdateCommand :: "ConsumerUpdateCommand \<Rightarrow> bytes" where
  [codec_defs]: "encode_ConsumerUpdateCommand r =
     encode_u32 (correlation_id r) @ encode_u8 (subscription_id r) @ encode_u8 (active r)"

definition encoded_size_ConsumerUpdateCommand :: "ConsumerUpdateCommand \<Rightarrow> u32" where
  [codec_defs]: "encoded_size_ConsumerUpdateCommand r =
     encoded_size_u32 (correlation_id r) + encoded_size_u8 (subscription_id r) + encoded_size_u8 (active r)"

definition decode_ConsumerUpdateCommand :: "ConsumerUpdateCommand decoder" where
  [codec_defs]: "decode_ConsumerUpdateCommand input =
     and_then (read_u32 input) (\<lambda>(input, correlation_id').
     and_then (read_u8 input) (\<lambda>(input, subscription_id').
     and_then (read_u8 input) (\<lambda>(input, active').
       Ok (input, \<lparr>correlation_id = correlation_id', subscription_id = subscription_id', active = active'\<rparr>))))"

definition key_ConsumerUpdateCommand :: "ConsumerUpdateCommand \<Rightarrow> u16" where
  "key_ConsumerUpdateCommand r = COMMAND_CONSUMER_UPDATE"

interpretation ConsumerUpdateCommand: codec encode_ConsumerUpdateCommand decode_ConsumerUpdateCommand "\<lambda>_. True"
  by unfold_locales (simp add: codec_defs round_trips)

lemmas ConsumerUpdateCommand_round_trip [round_trips] = ConsumerUpdateCommand.dec_enc [OF TrueI]

interpretation ConsumerUpdateCommand: sized encode_ConsumerUpdateCommand encoded_size_ConsumerUpdateCommand "\<lambda>_. True"
  by unfold_locales (simp add: codec_defs size_simps)

lemmas ConsumerUpdateCommand_size [size_simps] = ConsumerUpdateCommand.size_enc [OF TrueI]

interpretation ConsumerUpdateCommand: resumable decode_ConsumerUpdateCommand
  unfolding decode_ConsumerUpdateCommand_def by (intro resumables)

lemmas ConsumerUpdateCommand_resumable [resumables] = ConsumerUpdateCommand.resumable_axioms
lemmas ConsumerUpdateCommand_prefix_decoder [prefix_decoders] = ConsumerUpdateCommand.prefix_decoder_axioms

subsection \<open>ConsumerUpdateRequestCommand\<close>

record ConsumerUpdateRequestCommand =
  correlation_id :: u32
  response_code :: u16
  offset_specification :: OffsetSpecification

definition new_ConsumerUpdateRequestCommand :: "u32 \<Rightarrow> u16 \<Rightarrow> OffsetSpecification \<Rightarrow> ConsumerUpdateRequestCommand" where
  "new_ConsumerUpdateRequestCommand correlation_id' response_code' offset_specification' =
     \<lparr>correlation_id = correlation_id', response_code = response_code', offset_specification = offset_specification'\<rparr>"

definition encode_ConsumerUpdateRequestCommand :: "ConsumerUpdateRequestCommand \<Rightarrow> bytes" where
  [codec_defs]: "encode_ConsumerUpdateRequestCommand r =
     encode_u32 (correlation_id r) @ encode_u16 (response_code r) @ encode_OffsetSpecification (offset_specification r)"

definition encoded_size_ConsumerUpdateRequestCommand :: "ConsumerUpdateRequestCommand \<Rightarrow> u32" where
  [codec_defs]: "encoded_size_ConsumerUpdateRequestCommand r =
     encoded_size_u32 (correlation_id r) + encoded_size_u16 (response_code r) + encoded_size_OffsetSpecification (offset_specification r)"

definition decode_ConsumerUpdateRequestCommand :: "ConsumerUpdateRequestCommand decoder" where
  [codec_defs]: "decode_ConsumerUpdateRequestCommand input =
     and_then (read_u32 input) (\<lambda>(input, correlation_id').
     and_then (read_u16 input) (\<lambda>(input, response_code').
     and_then (decode_OffsetSpecification input) (\<lambda>(input, offset_specification').
       Ok (input, \<lparr>correlation_id = correlation_id', response_code = response_code', offset_specification = offset_specification'\<rparr>))))"

definition key_ConsumerUpdateRequestCommand :: "ConsumerUpdateRequestCommand \<Rightarrow> u16" where
  "key_ConsumerUpdateRequestCommand r = COMMAND_CONSUMER_UPDATE_REQUEST"

interpretation ConsumerUpdateRequestCommand: codec encode_ConsumerUpdateRequestCommand decode_ConsumerUpdateRequestCommand "\<lambda>_. True"
  by unfold_locales (simp add: codec_defs round_trips)

lemmas ConsumerUpdateRequestCommand_round_trip [round_trips] = ConsumerUpdateRequestCommand.dec_enc [OF TrueI]

interpretation ConsumerUpdateRequestCommand: sized encode_ConsumerUpdateRequestCommand encoded_size_ConsumerUpdateRequestCommand "\<lambda>_. True"
  by unfold_locales (simp add: codec_defs size_simps)

lemmas ConsumerUpdateRequestCommand_size [size_simps] = ConsumerUpdateRequestCommand.size_enc [OF TrueI]

interpretation ConsumerUpdateRequestCommand: resumable decode_ConsumerUpdateRequestCommand
  unfolding decode_ConsumerUpdateRequestCommand_def by (intro resumables)

lemmas ConsumerUpdateRequestCommand_resumable [resumables] = ConsumerUpdateRequestCommand.resumable_axioms
lemmas ConsumerUpdateRequestCommand_prefix_decoder [prefix_decoders] = ConsumerUpdateRequestCommand.prefix_decoder_axioms

end
