(* ===== verification/Amqp_Primitives.thy ===== *)
theory Amqp_Primitives
  imports Types
begin

text \<open>
  AMQP 1.0 primitive types (\<open>protocol/src/message/amqp\<close>): the type codes
  (\<open>codec/constants.rs\<close>), the decode errors (\<open>error.rs\<close>) and the scalar types with their
  encoders and decoders (\<open>types/primitives/simple.rs\<close>, \<open>types/symbol.rs\<close>,
  \<open>types/descriptor.rs\<close>).

  All AMQP decoders are reached through \<open>Message::decode\<close>, which converts an
  \<open>AmqpDecodeError\<close> to a \<open>DecodeError\<close>; the model applies that conversion
  (\<open>from_amqp\<close>) where the error is made.  The \<open>target\<close> of \<open>InvalidTypeCodeFor\<close> is the
  unqualified name of the Rust type.

  The crates \<open>chrono\<close> and \<open>uuid\<close> are parameters: the record \<open>externals\<close> holds the four
  functions the code calls, over type variables for their values.  Floating point numbers are
  their bit patterns, which is all the codec looks at.
\<close>

section \<open>Type codes\<close>

datatype TypeCode =
    Described
  | Null
  | Boolean
  | BooleanTrue
  | BooleanFalse
  | UInt0
  | ULong0
  | UByte
  | UShort
  | UInt
  | ULong
  | Byte
  | Short
  | Int
  | Long
  | UIntSmall
  | ULongSmall
  | IntSmall
  | LongSmall
  | Float
  | Double
  | Char
  | Timestamp
  | Uuid
  | Binary8
  | Binary32
  | String8
  | String32
  | Symbol8
  | Symbol32
  | List0
  | List8
  | List32
  | Map8
  | Map32
  | Array8
  | Array32

fun type_code_u8 :: "TypeCode \<Rightarrow> u8" where
  "type_code_u8 TypeCode.Described = 0x00"
| "type_code_u8 TypeCode.Null = 0x40"
| "type_code_u8 TypeCode.Boolean = 0x56"
| "type_code_u8 TypeCode.BooleanTrue = 0x41"
| "type_code_u8 TypeCode.BooleanFalse = 0x42"
| "type_code_u8 TypeCode.UInt0 = 0x43"
| "type_code_u8 TypeCode.ULong0 = 0x44"
| "type_code_u8 TypeCode.UByte = 0x50"
| "type_code_u8 TypeCode.UShort = 0x60"
| "type_code_u8 TypeCode.UInt = 0x70"
| "type_code_u8 TypeCode.ULong = 0x80"
| "type_code_u8 TypeCode.Byte = 0x51"
| "type_code_u8 TypeCode.Short = 0x61"
| "type_code_u8 TypeCode.Int = 0x71"
| "type_code_u8 TypeCode.Long = 0x81"
| "type_code_u8 TypeCode.UIntSmall = 0x52"
| "type_code_u8 TypeCode.ULongSmall = 0x53"
| "type_code_u8 TypeCode.IntSmall = 0x54"
| "type_code_u8 TypeCode.LongSmall = 0x55"
| "type_code_u8 TypeCode.Float = 0x72"
| "type_code_u8 TypeCode.Double = 0x82"
| "type_code_u8 TypeCode.Char = 0x73"
| "type_code_u8 TypeCode.Timestamp = 0x83"
| "type_code_u8 TypeCode.Uuid = 0x98"
| "type_code_u8 TypeCode.Binary8 = 0xa0"
| "type_code_u8 TypeCode.Binary32 = 0xb0"
| "type_code_u8 TypeCode.String8 = 0xa1"
| "type_code_u8 TypeCode.String32 = 0xb1"
| "type_code_u8 TypeCode.Symbol8 = 0xa3"
| "type_code_u8 TypeCode.Symbol32 = 0xb3"
| "type_code_u8 TypeCode.List0 = 0x45"
| "type_code_u8 TypeCode.List8 = 0xc0"
| "type_code_u8 TypeCode.List32 = 0xd0"
| "type_code_u8 TypeCode.Map8 = 0xc1"
| "type_code_u8 TypeCode.Map32 = 0xd1"
| "type_code_u8 TypeCode.Array8 = 0xe0"
| "type_code_u8 TypeCode.Array32 = 0xf0"

definition type_code_try_from :: "u8 \<Rightarrow> TypeCode option" where
  "type_code_try_from b =
    (if b = 0x00 then Some TypeCode.Described
     else if b = 0x40 then Some TypeCode.Null
     else if b = 0x56 then Some TypeCode.Boolean
     else if b = 0x41 then Some TypeCode.BooleanTrue
     else if b = 0x42 then Some TypeCode.BooleanFalse
     else if b = 0x43 then Some TypeCode.UInt0
     else if b = 0x44 then Some TypeCode.ULong0
     else if b = 0x50 then Some TypeCode.UByte
     else if b = 0x60 then Some TypeCode.UShort
     else if b = 0x70 then Some TypeCode.UInt
     else if b = 0x80 then Some TypeCode.ULong
     else if b = 0x51 then Some TypeCode.Byte
     else if b = 0x61 then Some TypeCode.Short
     else if b = 0x71 then Some TypeCode.Int
     else if b = 0x81 then Some TypeCode.Long
     else if b = 0x52 then Some TypeCode.UIntSmall
     else if b = 0x53 then Some TypeCode.ULongSmall
     else if b = 0x54 then Some TypeCode.IntSmall
     else if b = 0x55 then Some TypeCode.LongSmall
     else if b = 0x72 then Some TypeCode.Float
     else if b = 0x82 then Some TypeCode.Double
     else if b = 0x73 then Some TypeCode.Char
     else if b = 0x83 then Some TypeCode.Timestamp
     else if b = 0x98 then Some TypeCode.Uuid
     else if b = 0xa0 then Some TypeCode.Binary8
     else if b = 0xb0 then Some TypeCode.Binary32
     else if b = 0xa1 then Some TypeCode.String8
     else if b = 0xb1 then Some TypeCode.String32
     else if b = 0xa3 then Some TypeCode.Symbol8
     else if b = 0xb3 then Some TypeCode.Symbol32
     else if b = 0x45 then Some TypeCode.List0
     else if b = 0xc0 then Some TypeCode.List8
     else if b = 0xd0 then Some TypeCode.List32
     else if b = 0xc1 then Some TypeCode.Map8
     else if b = 0xd1 then Some TypeCode.Map32
     else if b = 0xe0 then Some TypeCode.Array8
     else if b = 0xf0 then Some TypeCode.Array32
     else None)"

lemma type_code_try_from_u8 [simp]: "type_code_try_from (type_code_u8 c) = Some c"
  by (cases c) (simp_all add: type_code_try_from_def)

lemma type_code_try_from_Some: "type_code_try_from b = Some c \<Longrightarrow> b = type_code_u8 c"
  by (auto simp: type_code_try_from_def split: if_splits)

fun type_code_debug :: "TypeCode \<Rightarrow> string" where
  "type_code_debug TypeCode.Described = ''Described''"
| "type_code_debug TypeCode.Null = ''Null''"
| "type_code_debug TypeCode.Boolean = ''Boolean''"
| "type_code_debug TypeCode.BooleanTrue = ''BooleanTrue''"
| "type_code_debug TypeCode.BooleanFalse = ''BooleanFalse''"
| "type_code_debug TypeCode.UInt0 = ''UInt0''"
| "type_code_debug TypeCode.ULong0 = ''ULong0''"
| "type_code_debug TypeCode.UByte = ''UByte''"
| "type_code_debug TypeCode.UShort = ''UShort''"
| "type_code_debug TypeCode.UInt = ''UInt''"
| "type_code_debug TypeCode.ULong = ''ULong''"
| "type_code_debug TypeCode.Byte = ''Byte''"
| "type_code_debug TypeCode.Short = ''Short''"
| "type_code_debug TypeCode.Int = ''Int''"
| "type_code_debug TypeCode.Long = ''Long''"
| "type_code_debug TypeCode.UIntSmall = ''UIntSmall''"
| "type_code_debug TypeCode.ULongSmall = ''ULongSmall''"
| "type_code_debug TypeCode.IntSmall = ''IntSmall''"
| "type_code_debug TypeCode.LongSmall = ''LongSmall''"
| "type_code_debug TypeCode.Float = ''Float''"
| "type_code_debug TypeCode.Double = ''Double''"
| "type_code_debug TypeCode.Char = ''Char''"
| "type_code_debug TypeCode.Timestamp = ''Timestamp''"
| "type_code_debug TypeCode.Uuid = ''Uuid''"
| "type_code_debug TypeCode.Binary8 = ''Binary8''"
| "type_code_debug TypeCode.Binary32 = ''Binary32''"
| "type_code_debug TypeCode.String8 = ''String8''"
| "type_code_debug TypeCode.String32 = ''String32''"
| "type_code_debug TypeCode.Symbol8 = ''Symbol8''"
| "type_code_debug TypeCode.Symbol32 = ''Symbol32''"
| "type_code_debug TypeCode.List0 = ''List0''"
| "type_code_debug TypeCode.List8 = ''List8''"
| "type_code_debug TypeCode.List32 = ''List32''"
| "type_code_debug TypeCode.Map8 = ''Map8''"
| "type_code_debug TypeCode.Map32 = ''Map32''"
| "type_code_debug TypeCode.Array8 = ''Array8''"
| "type_code_debug TypeCode.Array32 = ''Array32''"

section \<open>Errors\<close>

datatype AmqpDecodeError =
    InvalidTypeCode u8
  | InvalidTypeCodeFor string TypeCode
  | AmqpMessageParse string
  | AmqpIncomplete nat
  | AmqpUtf8Error bytes
  | UuidError string

fun from_amqp :: "AmqpDecodeError \<Rightarrow> DecodeError" where
  "from_amqp (InvalidTypeCode code) = InvalidFormatCode code"
| "from_amqp (AmqpMessageParse err) = MessageParse err"
| "from_amqp (AmqpIncomplete n) = Incomplete n"
| "from_amqp (AmqpUtf8Error bs) = Utf8Error bs"
| "from_amqp (UuidError err) = MessageParse err"
| "from_amqp (InvalidTypeCodeFor target code) =
     MessageParse (''Invalid type code '' @ type_code_debug code @ '' for '' @ target)"

definition encode_TypeCode :: "TypeCode \<Rightarrow> bytes" where
  "encode_TypeCode c = encode_u8 (type_code_u8 c)"

definition decode_TypeCode :: "TypeCode decoder" where
  "decode_TypeCode input =
     and_then (read_u8 input) (\<lambda>(input, code).
       case type_code_try_from code of
         Some c \<Rightarrow> Ok (input, c)
       | None \<Rightarrow> Err (from_amqp (InvalidTypeCode code)))"

definition invalid_type_code :: "string \<Rightarrow> TypeCode \<Rightarrow> (bytes \<times> 'a, DecodeError) result" where
  "invalid_type_code target code = Err (from_amqp (InvalidTypeCodeFor target code))"

lemma decode_TypeCode_append [simp]:
  "decode_TypeCode (encode_TypeCode c @ rest) = Ok (rest, c)"
  by (simp add: encode_TypeCode_def decode_TypeCode_def round_trips)

lemma decode_TypeCode_Ok:
  "decode_TypeCode input = Ok (rest, c) \<longleftrightarrow> input = encode_TypeCode c @ rest"
proof
  assume "decode_TypeCode input = Ok (rest, c)"
  then show "input = encode_TypeCode c @ rest"
    by (cases input)
       (auto simp: decode_TypeCode_def read_u8_def check_len_def encode_TypeCode_def encode_u8_def
         split: option.splits dest: type_code_try_from_Some)
qed simp

lemma encode_TypeCode_length [simp]: "length (encode_TypeCode c) = 1"
  by (simp add: encode_TypeCode_def)

lemma resumable_case_option [resumables]:
  assumes "\<And>x. resumable (f x)" "resumable g"
  shows "resumable (\<lambda>input. case v of Some x \<Rightarrow> f x input | None \<Rightarrow> g input)"
  using assms by (cases v) simp_all

interpretation type_code: resumable decode_TypeCode
  unfolding decode_TypeCode_def by (intro resumables)

lemmas type_code_resumable [resumables] = type_code.resumable_axioms

section \<open>External crates\<close>

text \<open>Decimal rendering of a number, for the text of an error.\<close>

fun show_nat :: "nat \<Rightarrow> string" where
  "show_nat n = (if n < 10 then [char_of (48 + n)]
                 else show_nat (n div 10) @ [char_of (48 + n mod 10)])"

declare show_nat.simps [simp del]

definition show_int :: "int \<Rightarrow> string" where
  "show_int i = (if i < 0 then ''-'' @ show_nat (nat (- i)) else show_nat (nat i))"

record ('t, 'u) externals =
  timestamp_millis_opt :: "i64 \<Rightarrow> 't option"
  timestamp_millis :: "'t \<Rightarrow> i64"
  uuid_from_slice :: "bytes \<Rightarrow> (string, 'u) sum"
  uuid_as_bytes :: "'u \<Rightarrow> bytes"

text \<open>An instance: a timestamp is its milliseconds and a UUID its sixteen bytes.\<close>

definition byte_externals :: "(i64, bytes) externals" where
  "byte_externals =
     \<lparr>timestamp_millis_opt = Some, timestamp_millis = id,
      uuid_from_slice = (\<lambda>bs. if length bs = 16 then Inr bs else Inl ''invalid length''),
      uuid_as_bytes = id\<rparr>"

section \<open>Scalar types\<close>

named_theorems amqp_defs \<open>definitions of the AMQP encoders and decoders\<close>
declare invalid_type_code_def [amqp_defs]

definition map_second :: "('a \<Rightarrow> 'b) \<Rightarrow> ('s \<times> 'a, 'e) result \<Rightarrow> ('s \<times> 'b, 'e) result" where
  "map_second mapper r = and_then r (\<lambda>(fst', snd'). Ok (fst', mapper snd'))"

lemma map_second_simps [simp]:
  "map_second f (Ok (r, x)) = Ok (r, f x)" "map_second f (Err e) = Err e"
  "map_second f Panic = Panic"
  by (simp_all add: map_second_def)

lemma map_second_Ok_iff:
  "map_second f m = Ok (r, y) \<longleftrightarrow> (\<exists>x. m = Ok (r, x) \<and> y = f x)"
  by (cases m) auto

lemma prefix_decoder_map_second [prefix_decoders]:
  "prefix_decoder d \<Longrightarrow> prefix_decoder (\<lambda>input. map_second f (d input))"
  unfolding map_second_def by (intro prefix_decoders)

definition encode_Boolean :: "bool \<Rightarrow> bytes" where
  [amqp_defs]: "encode_Boolean b =
     encode_TypeCode (if b then TypeCode.BooleanTrue else TypeCode.BooleanFalse)"

definition encoded_size_Boolean :: "bool \<Rightarrow> u32" where
  [amqp_defs]: "encoded_size_Boolean b = 1"

definition decode_Boolean :: "bool decoder" where
  [amqp_defs]: "decode_Boolean input =
     and_then (decode_TypeCode input) (\<lambda>(input, code).
       if code = TypeCode.Boolean then map_second (\<lambda>boolean. boolean \<noteq> 0) (read_u8 input)
       else if code = TypeCode.BooleanTrue then Ok (input, True)
       else if code = TypeCode.BooleanFalse then Ok (input, False)
       else invalid_type_code ''bool'' code)"

definition encode_UByte :: "u8 \<Rightarrow> bytes" where
  [amqp_defs]: "encode_UByte x = encode_TypeCode TypeCode.UByte @ encode_u8 x"

definition encoded_size_UByte :: "u8 \<Rightarrow> u32" where
  [amqp_defs]: "encoded_size_UByte x = 2"

definition decode_UByte :: "u8 decoder" where
  [amqp_defs]: "decode_UByte input =
     and_then (decode_TypeCode input) (\<lambda>(input, code).
       if code = TypeCode.UByte then read_u8 input else invalid_type_code ''u8'' code)"

definition encode_UShort :: "u16 \<Rightarrow> bytes" where
  [amqp_defs]: "encode_UShort x = encode_TypeCode TypeCode.UShort @ encode_u16 x"

definition encoded_size_UShort :: "u16 \<Rightarrow> u32" where
  [amqp_defs]: "encoded_size_UShort x = 3"

definition decode_UShort :: "u16 decoder" where
  [amqp_defs]: "decode_UShort input =
     and_then (decode_TypeCode input) (\<lambda>(input, code).
       if code = TypeCode.UShort then read_u16 input else invalid_type_code ''u16'' code)"

definition encode_UInt :: "u32 \<Rightarrow> bytes" where
  [amqp_defs]: "encode_UInt x =
     (if x = 0 then encode_TypeCode TypeCode.UInt0
      else if x > 255 then encode_TypeCode TypeCode.UInt @ encode_u32 x
      else encode_TypeCode TypeCode.UIntSmall @ encode_u8 (ucast x))"

definition encoded_size_UInt :: "u32 \<Rightarrow> u32" where
  [amqp_defs]: "encoded_size_UInt x = (if x = 0 then 1 else if x > 255 then 5 else 2)"

definition decode_UInt :: "u32 decoder" where
  [amqp_defs]: "decode_UInt input =
     and_then (decode_TypeCode input) (\<lambda>(input, code).
       if code = TypeCode.UInt0 then Ok (input, 0)
       else if code = TypeCode.UIntSmall then map_second ucast (read_u8 input)
       else if code = TypeCode.UInt then read_u32 input
       else invalid_type_code ''u32'' code)"

definition encode_ULong :: "u64 \<Rightarrow> bytes" where
  [amqp_defs]: "encode_ULong x =
     (if x = 0 then encode_TypeCode TypeCode.ULong0
      else if x > 255 then encode_TypeCode TypeCode.ULong @ encode_u64 x
      else encode_TypeCode TypeCode.ULongSmall @ encode_u8 (ucast x))"

definition encoded_size_ULong :: "u64 \<Rightarrow> u32" where
  [amqp_defs]: "encoded_size_ULong x = (if x = 0 then 1 else if x > 255 then 9 else 2)"

definition decode_ULong :: "u64 decoder" where
  [amqp_defs]: "decode_ULong input =
     and_then (decode_TypeCode input) (\<lambda>(input, code).
       if code = TypeCode.ULong then read_u64 input
       else if code = TypeCode.ULongSmall then map_second ucast (read_u8 input)
       else if code = TypeCode.ULong0 then Ok (input, 0)
       else invalid_type_code ''u64'' code)"

definition encode_Byte :: "i8 \<Rightarrow> bytes" where
  [amqp_defs]: "encode_Byte x = encode_TypeCode TypeCode.Byte @ encode_i8 x"

definition encoded_size_Byte :: "i8 \<Rightarrow> u32" where
  [amqp_defs]: "encoded_size_Byte x = 2"

definition decode_Byte :: "i8 decoder" where
  [amqp_defs]: "decode_Byte input =
     and_then (decode_TypeCode input) (\<lambda>(input, code).
       if code = TypeCode.Byte then read_i8 input else invalid_type_code ''i8'' code)"

definition encode_Short :: "i16 \<Rightarrow> bytes" where
  [amqp_defs]: "encode_Short x = encode_TypeCode TypeCode.Short @ encode_i16 x"

definition encoded_size_Short :: "i16 \<Rightarrow> u32" where
  [amqp_defs]: "encoded_size_Short x = 3"

definition decode_Short :: "i16 decoder" where
  [amqp_defs]: "decode_Short input =
     and_then (decode_TypeCode input) (\<lambda>(input, code).
       if code = TypeCode.Short then read_i16 input else invalid_type_code ''i16'' code)"

definition encode_Int :: "i32 \<Rightarrow> bytes" where
  [amqp_defs]: "encode_Int x =
     (if sint x > 127 \<or> sint x < - 128
      then encode_TypeCode TypeCode.Int @ encode_i32 x
      else encode_TypeCode TypeCode.IntSmall @ encode_i8 (ucast x))"

definition encoded_size_Int :: "i32 \<Rightarrow> u32" where
  [amqp_defs]: "encoded_size_Int x = (if sint x > 127 \<or> sint x < - 128 then 5 else 2)"

definition decode_Int :: "i32 decoder" where
  [amqp_defs]: "decode_Int input =
     and_then (decode_TypeCode input) (\<lambda>(input, code).
       if code = TypeCode.Int then read_i32 input
       else if code = TypeCode.IntSmall then map_second ucast (read_u8 input)
       else invalid_type_code ''i32'' code)"

definition encode_Long :: "i64 \<Rightarrow> bytes" where
  [amqp_defs]: "encode_Long x =
     (if sint x > 127 \<or> sint x < - 128
      then encode_TypeCode TypeCode.Long @ encode_i64 x
      else encode_TypeCode TypeCode.LongSmall @ encode_i8 (ucast x))"

definition encoded_size_Long :: "i64 \<Rightarrow> u32" where
  [amqp_defs]: "encoded_size_Long x = (if sint x > 127 \<or> sint x < - 128 then 9 else 3)"

definition decode_Long :: "i64 decoder" where
  [amqp_defs]: "decode_Long input =
     and_then (decode_TypeCode input) (\<lambda>(input, code).
       if code = TypeCode.Long then read_i64 input
       else if code = TypeCode.LongSmall then map_second scast (read_i8 input)
       else invalid_type_code ''i64'' code)"

definition encode_Float :: "32 word \<Rightarrow> bytes" where
  [amqp_defs]: "encode_Float x = encode_TypeCode TypeCode.Float @ be_bytes 4 x"

definition encoded_size_Float :: "32 word \<Rightarrow> u32" where
  [amqp_defs]: "encoded_size_Float x = 5"

definition decode_Float :: "32 word decoder" where
  [amqp_defs]: "decode_Float input =
     and_then (decode_TypeCode input) (\<lambda>(input, code).
       if code = TypeCode.Float then read_f32 input else invalid_type_code ''Float'' code)"

definition encode_Double :: "64 word \<Rightarrow> bytes" where
  [amqp_defs]: "encode_Double x = encode_TypeCode TypeCode.Double @ be_bytes 8 x"

definition encoded_size_Double :: "64 word \<Rightarrow> u32" where
  [amqp_defs]: "encoded_size_Double x = 9"

definition decode_Double :: "64 word decoder" where
  [amqp_defs]: "decode_Double input =
     and_then (decode_TypeCode input) (\<lambda>(input, code).
       if code = TypeCode.Double then read_f64 input else invalid_type_code ''Double'' code)"

text \<open>A Rust \<open>char\<close> is a Unicode scalar value.\<close>

definition char_from_u32 :: "u32 \<Rightarrow> u32 option" where
  "char_from_u32 c = (if c < 0xD800 \<or> 0xE000 \<le> c \<and> c \<le> 0x10FFFF then Some c else None)"

definition encode_Char :: "u32 \<Rightarrow> bytes" where
  [amqp_defs]: "encode_Char c = encode_TypeCode TypeCode.Char @ encode_u32 c"

definition encoded_size_Char :: "u32 \<Rightarrow> u32" where
  [amqp_defs]: "encoded_size_Char c = 5"

definition decode_Char :: "u32 decoder" where
  [amqp_defs]: "decode_Char input =
     and_then (decode_TypeCode input) (\<lambda>(input, code).
       if code = TypeCode.Char then
         and_then (read_u32 input) (\<lambda>(input, c).
           case char_from_u32 c of
             Some c \<Rightarrow> Ok (input, c)
           | None \<Rightarrow> invalid_type_code ''char'' code)
       else invalid_type_code ''char'' code)"

definition encode_Uuid :: "('t, 'u) externals \<Rightarrow> 'u \<Rightarrow> bytes" where
  [amqp_defs]: "encode_Uuid X u = encode_TypeCode TypeCode.Uuid @ uuid_as_bytes X u"

definition encoded_size_Uuid :: "'u \<Rightarrow> u32" where
  [amqp_defs]: "encoded_size_Uuid u = 1 + 16"

definition decode_Uuid :: "('t, 'u) externals \<Rightarrow> 'u decoder" where
  [amqp_defs]: "decode_Uuid X input =
     and_then (decode_TypeCode input) (\<lambda>(input, code).
       if code = TypeCode.Uuid then
         and_then (read_exact input 16) (\<lambda>(input, bs).
           case uuid_from_slice X bs of
             Inr u \<Rightarrow> Ok (input, u)
           | Inl err \<Rightarrow> Err (from_amqp (UuidError err)))
       else invalid_type_code ''Uuid'' code)"

definition encode_Timestamp :: "('t, 'u) externals \<Rightarrow> 't \<Rightarrow> bytes" where
  [amqp_defs]: "encode_Timestamp X t =
     encode_TypeCode TypeCode.Timestamp @ encode_i64 (timestamp_millis X t)"

definition encoded_size_Timestamp :: "'t \<Rightarrow> u32" where
  [amqp_defs]: "encoded_size_Timestamp t = 1 + 8"

definition decode_Timestamp :: "('t, 'u) externals \<Rightarrow> 't decoder" where
  [amqp_defs]: "decode_Timestamp X input =
     and_then (decode_TypeCode input) (\<lambda>(input, code).
       if code = TypeCode.Timestamp then
         and_then (read_i64 input) (\<lambda>(input, millis).
           case timestamp_millis_opt X millis of
             Some t \<Rightarrow> Ok (input, t)
           | None \<Rightarrow> Err (from_amqp (AmqpMessageParse
               (''Invalid timestmap millis '' @ show_int (sint millis)))))
       else invalid_type_code ''Timestamp'' code)"

section \<open>Variable-width types\<close>

definition encode_Binary :: "bytes \<Rightarrow> bytes" where
  [amqp_defs]: "encode_Binary bs =
     (let len = of_nat (length bs) :: u32 in
      (if len > 255 then encode_TypeCode TypeCode.Binary32 @ encode_u32 len
       else encode_TypeCode TypeCode.Binary8 @ encode_u8 (ucast len)) @ bs)"

definition encoded_size_Binary :: "bytes \<Rightarrow> u32" where
  [amqp_defs]: "encoded_size_Binary bs =
     (let len = of_nat (length bs) in (if len > 255 then 5 else 2) + len)"

definition decode_Binary :: "bytes decoder" where
  [amqp_defs]: "decode_Binary input =
     and_then (decode_TypeCode input) (\<lambda>(input, code).
       if code = TypeCode.Binary8 then
         and_then (read_u8 input) (\<lambda>(input, len). read_exact input (unat len))
       else if code = TypeCode.Binary32 then
         and_then (read_u32 input) (\<lambda>(input, len). read_exact input (unat len))
       else invalid_type_code ''Vec<u8>'' code)"

definition encode_Str :: "string \<Rightarrow> bytes" where
  [amqp_defs]: "encode_Str s =
     (if length s > 255
      then encode_TypeCode TypeCode.String32 @ encode_u32 (of_nat (length s))
      else encode_TypeCode TypeCode.String8 @ encode_u8 (of_nat (length s))) @ as_bytes s"

definition encoded_size_Str :: "string \<Rightarrow> u32" where
  [amqp_defs]: "encoded_size_Str s =
     (let len = of_nat (length s) in (if len > 255 then 5 else 2) + len)"

definition decode_Str :: "string decoder" where
  [amqp_defs]: "decode_Str input =
     and_then (decode_TypeCode input) (\<lambda>(input, code).
       if code = TypeCode.String8 then
         and_then (read_u8 input) (\<lambda>(input, len).
         and_then (read_exact input (unat len)) (\<lambda>(input, bs).
         and_then (from_utf8 bs) (\<lambda>s. Ok (input, s))))
       else if code = TypeCode.String32 then
         and_then (read_u32 input) (\<lambda>(input, len).
         and_then (read_exact input (unat len)) (\<lambda>(input, bs).
         and_then (from_utf8 bs) (\<lambda>s. Ok (input, s))))
       else invalid_type_code ''String'' code)"

definition encode_Symbol :: "string \<Rightarrow> bytes" where
  [amqp_defs]: "encode_Symbol s =
     (if length s > 255
      then encode_TypeCode TypeCode.Symbol32 @ encode_u32 (of_nat (length s))
      else encode_TypeCode TypeCode.Symbol8 @ encode_u8 (of_nat (length s))) @ as_bytes s"

definition encoded_size_Symbol :: "string \<Rightarrow> u32" where
  [amqp_defs]: "encoded_size_Symbol s =
     (let len = of_nat (length s) in (if len > 255 then 5 else 2) + len)"

definition decode_Symbol :: "string decoder" where
  [amqp_defs]: "decode_Symbol input =
     and_then (decode_TypeCode input) (\<lambda>(input, code).
       if code = TypeCode.Symbol8 then
         and_then (read_u8 input) (\<lambda>(input, len).
         and_then (read_exact input (unat len)) (\<lambda>(input, bs).
         and_then (from_utf8 bs) (\<lambda>s. Ok (input, s))))
       else if code = TypeCode.Symbol32 then
         and_then (read_u32 input) (\<lambda>(input, len).
         and_then (read_exact input (unat len)) (\<lambda>(input, bs).
         and_then (from_utf8 bs) (\<lambda>s. Ok (input, s))))
       else invalid_type_code ''Symbol'' code)"

text \<open>\<open>Option<T>\<close>: an absent value is the null type code.\<close>

definition encode_Option :: "('a \<Rightarrow> bytes) \<Rightarrow> 'a option \<Rightarrow> bytes" where
  "encode_Option enc v = (case v of Some x \<Rightarrow> enc x | None \<Rightarrow> encode_TypeCode TypeCode.Null)"

definition encoded_size_Option :: "('a \<Rightarrow> u32) \<Rightarrow> 'a option \<Rightarrow> u32" where
  "encoded_size_Option size_of v = (case v of Some x \<Rightarrow> size_of x | None \<Rightarrow> 1)"

definition decode_Option :: "'a decoder \<Rightarrow> 'a option decoder" where
  "decode_Option dec input =
     and_then (decode_TypeCode input) (\<lambda>(remaining, code).
       if code = TypeCode.Null then Ok (remaining, None) else map_second Some (dec input))"

section \<open>The scalar types satisfy the contracts\<close>

lemma ucast_u8_u32: "x \<le> 255 \<Longrightarrow> ucast (ucast (x :: u32) :: u8) = x"
  by (rule unsigned_word_eqI [where ?'a = nat])
     (simp add: unsigned_ucast_eq unsigned_take_bit_eq take_bit_nat_eq_self word_le_nat_alt)

lemma ucast_u8_u64: "x \<le> 255 \<Longrightarrow> ucast (ucast (x :: u64) :: u8) = x"
  by (rule unsigned_word_eqI [where ?'a = nat])
     (simp add: unsigned_ucast_eq unsigned_take_bit_eq take_bit_nat_eq_self word_le_nat_alt)

lemma ucast_of_int8:
  "8 \<le> LENGTH('a) \<Longrightarrow> (ucast (word_of_int k :: 'a::len word) :: u8) = word_of_int k"
  by transfer simp

lemma ucast_small_Int:
  fixes x :: i32
  assumes "0 \<le> sint x" "sint x \<le> 127"
  shows "ucast (ucast x :: u8) = x"
proof -
  define k where "k = sint x"
  have x: "x = word_of_int k" by (simp add: k_def)
  have "take_bit 8 k = k" "0 \<le> k" using assms by (simp_all add: k_def take_bit_int_eq_self_iff)
  then show ?thesis
    unfolding x by (simp add: ucast_of_int8 unsigned_of_int)
qed

lemma scast_small_Long:
  fixes x :: i64
  assumes "- 128 \<le> sint x" "sint x \<le> 127"
  shows "scast (ucast x :: u8) = x"
proof -
  define k where "k = sint x"
  have x: "x = word_of_int k" by (simp add: k_def)
  have "signed_take_bit 7 k = k"
    using assms by (simp add: k_def signed_take_bit_int_eq_self_iff)
  then have "sint (word_of_int k :: u8) = k" by (simp add: signed_of_int)
  then show ?thesis by (simp add: scast_eq x ucast_of_int8)
qed

text \<open>A decoder that uses up at least one byte whenever it succeeds.\<close>

locale progressing =
  fixes dec :: "'a decoder"
  assumes progress: "dec input = Ok (rest, x) \<Longrightarrow> length rest < length input"
begin

lemma progress_le: "dec input = Ok (rest, x) \<Longrightarrow> length rest \<le> length input"
  using progress by fastforce

lemma progress_map: "map_second f (dec input) = Ok (rest, y) \<Longrightarrow> length rest < length input"
  by (auto simp: map_second_Ok_iff progress)

end

lemma read_be_length: "read_be n input = Ok (rest, x) \<Longrightarrow> length input = length rest + n"
  by (auto simp: read_be_def check_len_def and_then_Ok_iff split: if_splits)

lemma read_exact_length: "read_exact input n = Ok (rest, x) \<Longrightarrow> length input = length rest + n"
  by (auto simp: read_exact_def check_len_def and_then_Ok_iff split: if_splits)

lemma decode_TypeCode_length: "decode_TypeCode input = Ok (rest, c) \<Longrightarrow> length input = length rest + 1"
  by (simp add: decode_TypeCode_Ok)

lemmas read_lengths = read_be_length read_exact_length decode_TypeCode_length

lemma read_exact_append [simp]: "n = length bs \<Longrightarrow> read_exact (bs @ rest) n = Ok (rest, bs)"
  by (simp add: read_exact_def check_len_def)

definition wf_Int :: "i32 \<Rightarrow> bool" where
  "wf_Int x \<longleftrightarrow> \<not> (- 128 \<le> sint x \<and> sint x < 0)"

definition wf_Char :: "u32 \<Rightarrow> bool" where
  "wf_Char c \<longleftrightarrow> char_from_u32 c = Some c"

definition wf_Uuid :: "('t, 'u) externals \<Rightarrow> 'u \<Rightarrow> bool" where
  "wf_Uuid X u \<longleftrightarrow>
     length (uuid_as_bytes X u) = 16 \<and> uuid_from_slice X (uuid_as_bytes X u) = Inr u"

definition wf_Timestamp :: "('t, 'u) externals \<Rightarrow> 't \<Rightarrow> bool" where
  "wf_Timestamp X t \<longleftrightarrow> timestamp_millis_opt X (timestamp_millis X t) = Some t"

definition wf_Binary :: "bytes \<Rightarrow> bool" where
  "wf_Binary bs \<longleftrightarrow> length bs < 2 ^ 32"

definition wf_Str :: "string \<Rightarrow> bool" where
  "wf_Str s \<longleftrightarrow> rust_string s \<and> length s < 2 ^ 32"

definition wide_Long :: "i64 \<Rightarrow> bool" where
  "wide_Long x \<longleftrightarrow> sint x > 127 \<or> sint x < - 128"

lemma of_nat_u32_le_255: "n < 2 ^ 32 \<Longrightarrow> (of_nat n :: u32) > 255 \<longleftrightarrow> n > 255"
  by (simp add: word_less_nat_alt)

lemma of_nat_u8: "n \<le> 255 \<Longrightarrow> unat (of_nat n :: u8) = n"
  by (simp add: unsigned_of_nat take_bit_nat_eq_self)

lemma ucast_of_nat_u8: "(ucast (of_nat n :: u32) :: u8) = of_nat n"
  by transfer simp

lemma encode_i8_u8: "encode_i8 x = encode_u8 x"
  by (simp add: encode_int_defs)

lemma case_sum_Ok_iff:
  "(case s of Inl e \<Rightarrow> Err (f e) | Inr u \<Rightarrow> Ok (i, u)) = Ok (r, x) \<longleftrightarrow> s = Inr x \<and> i = r"
  by (cases s) auto

interpretation Boolean: codec encode_Boolean decode_Boolean "\<lambda>_. True"
  by unfold_locales (simp add: amqp_defs round_trips)

interpretation Boolean: progressing decode_Boolean
  by unfold_locales
     (auto simp: amqp_defs and_then_Ok_iff map_second_Ok_iff read_defs read_byte_be case_sum_Ok_iff
       split: if_splits option.splits dest!: read_lengths)

interpretation Boolean: sized encode_Boolean encoded_size_Boolean "\<lambda>_. True"
  by unfold_locales (simp add: amqp_defs)

interpretation UByte: codec encode_UByte decode_UByte "\<lambda>_. True"
  by unfold_locales (simp add: amqp_defs round_trips)

interpretation UByte: progressing decode_UByte
  by unfold_locales
     (auto simp: amqp_defs and_then_Ok_iff map_second_Ok_iff read_defs read_byte_be case_sum_Ok_iff
       split: if_splits option.splits dest!: read_lengths)

interpretation UByte: sized encode_UByte encoded_size_UByte "\<lambda>_. True"
  by unfold_locales (simp add: amqp_defs)

interpretation UShort: codec encode_UShort decode_UShort "\<lambda>_. True"
  by unfold_locales (simp add: amqp_defs round_trips)

interpretation UShort: progressing decode_UShort
  by unfold_locales
     (auto simp: amqp_defs and_then_Ok_iff map_second_Ok_iff read_defs read_byte_be case_sum_Ok_iff
       split: if_splits option.splits dest!: read_lengths)

interpretation UShort: sized encode_UShort encoded_size_UShort "\<lambda>_. True"
  by unfold_locales (simp add: amqp_defs)

interpretation UInt: codec encode_UInt decode_UInt "\<lambda>_. True"
  by unfold_locales (simp add: amqp_defs round_trips ucast_u8_u32 not_less)

interpretation UInt: progressing decode_UInt
  by unfold_locales
     (auto simp: amqp_defs and_then_Ok_iff map_second_Ok_iff read_defs read_byte_be case_sum_Ok_iff
       split: if_splits option.splits dest!: read_lengths)

interpretation UInt: sized encode_UInt encoded_size_UInt "\<lambda>_. True"
  by unfold_locales (simp add: amqp_defs)

interpretation ULong: codec encode_ULong decode_ULong "\<lambda>_. True"
  by unfold_locales (simp add: amqp_defs round_trips ucast_u8_u64 not_less)

interpretation ULong: progressing decode_ULong
  by unfold_locales
     (auto simp: amqp_defs and_then_Ok_iff map_second_Ok_iff read_defs read_byte_be case_sum_Ok_iff
       split: if_splits option.splits dest!: read_lengths)

interpretation ULong: sized encode_ULong encoded_size_ULong "\<lambda>_. True"
  by unfold_locales (simp add: amqp_defs)

interpretation Byte: codec encode_Byte decode_Byte "\<lambda>_. True"
  by unfold_locales (simp add: amqp_defs round_trips)

interpretation Byte: progressing decode_Byte
  by unfold_locales
     (auto simp: amqp_defs and_then_Ok_iff map_second_Ok_iff read_defs read_byte_be case_sum_Ok_iff
       split: if_splits option.splits dest!: read_lengths)

interpretation Byte: sized encode_Byte encoded_size_Byte "\<lambda>_. True"
  by unfold_locales (simp add: amqp_defs)

interpretation Short: codec encode_Short decode_Short "\<lambda>_. True"
  by unfold_locales (simp add: amqp_defs round_trips)

interpretation Short: progressing decode_Short
  by unfold_locales
     (auto simp: amqp_defs and_then_Ok_iff map_second_Ok_iff read_defs read_byte_be case_sum_Ok_iff
       split: if_splits option.splits dest!: read_lengths)

interpretation Short: sized encode_Short encoded_size_Short "\<lambda>_. True"
  by unfold_locales (simp add: amqp_defs)

interpretation Int: codec encode_Int decode_Int wf_Int
  by unfold_locales (auto simp: amqp_defs round_trips encode_i8_u8 wf_Int_def ucast_small_Int)

interpretation Int: progressing decode_Int
  by unfold_locales
     (auto simp: amqp_defs and_then_Ok_iff map_second_Ok_iff read_defs read_byte_be case_sum_Ok_iff
       split: if_splits option.splits dest!: read_lengths)

interpretation Int: sized encode_Int encoded_size_Int "\<lambda>_. True"
  by unfold_locales (simp add: amqp_defs)

interpretation Long: codec encode_Long decode_Long "\<lambda>_. True"
  by unfold_locales (auto simp: amqp_defs round_trips scast_small_Long not_less)

interpretation Long: progressing decode_Long
  by unfold_locales
     (auto simp: amqp_defs and_then_Ok_iff map_second_Ok_iff read_defs read_byte_be case_sum_Ok_iff
       split: if_splits option.splits dest!: read_lengths)

interpretation Long: sized encode_Long encoded_size_Long wide_Long
  by unfold_locales (auto simp: amqp_defs wide_Long_def)

interpretation Float: codec encode_Float decode_Float "\<lambda>_. True"
  by unfold_locales (simp add: amqp_defs round_trips read_defs read_be_append)

interpretation Float: progressing decode_Float
  by unfold_locales
     (auto simp: amqp_defs and_then_Ok_iff map_second_Ok_iff read_defs read_byte_be case_sum_Ok_iff
       split: if_splits option.splits dest!: read_lengths)

interpretation Float: sized encode_Float encoded_size_Float "\<lambda>_. True"
  by unfold_locales (simp add: amqp_defs)

interpretation Double: codec encode_Double decode_Double "\<lambda>_. True"
  by unfold_locales (simp add: amqp_defs round_trips read_defs read_be_append)

interpretation Double: progressing decode_Double
  by unfold_locales
     (auto simp: amqp_defs and_then_Ok_iff map_second_Ok_iff read_defs read_byte_be case_sum_Ok_iff
       split: if_splits option.splits dest!: read_lengths)

interpretation Double: sized encode_Double encoded_size_Double "\<lambda>_. True"
  by unfold_locales (simp add: amqp_defs)

interpretation Char: codec encode_Char decode_Char wf_Char
  by unfold_locales (simp add: amqp_defs round_trips wf_Char_def)

interpretation Char: progressing decode_Char
  by unfold_locales
     (auto simp: amqp_defs and_then_Ok_iff map_second_Ok_iff read_defs read_byte_be case_sum_Ok_iff
       split: if_splits option.splits dest!: read_lengths)

interpretation Char: sized encode_Char encoded_size_Char "\<lambda>_. True"
  by unfold_locales (simp add: amqp_defs)

interpretation Uuid: codec "encode_Uuid X" "decode_Uuid X" "wf_Uuid X" for X
  by unfold_locales (simp add: amqp_defs round_trips wf_Uuid_def)

interpretation Uuid: progressing "decode_Uuid X" for X
  by unfold_locales
     (auto simp: amqp_defs and_then_Ok_iff map_second_Ok_iff read_defs read_byte_be case_sum_Ok_iff
       split: if_splits option.splits dest!: read_lengths)

interpretation Uuid: sized "encode_Uuid X" encoded_size_Uuid "\<lambda>u. length (uuid_as_bytes X u) = 16" for X
  by unfold_locales (simp add: amqp_defs)

interpretation Timestamp: codec "encode_Timestamp X" "decode_Timestamp X" "wf_Timestamp X" for X
  by unfold_locales (simp add: amqp_defs round_trips wf_Timestamp_def)

interpretation Timestamp: progressing "decode_Timestamp X" for X
  by unfold_locales
     (auto simp: amqp_defs and_then_Ok_iff map_second_Ok_iff read_defs read_byte_be case_sum_Ok_iff
       split: if_splits option.splits dest!: read_lengths)

interpretation Timestamp: sized "encode_Timestamp X" encoded_size_Timestamp "\<lambda>_. True" for X
  by unfold_locales (simp add: amqp_defs)

interpretation Binary: codec encode_Binary decode_Binary wf_Binary
  by unfold_locales (simp add: amqp_defs round_trips wf_Binary_def Let_def of_nat_u32_le_255 of_nat_u8 ucast_of_nat_u8 not_less)

interpretation Binary: progressing decode_Binary
  by unfold_locales
     (auto simp: amqp_defs and_then_Ok_iff map_second_Ok_iff read_defs read_byte_be case_sum_Ok_iff
       split: if_splits option.splits dest!: read_lengths)

interpretation Binary: sized encode_Binary encoded_size_Binary wf_Binary
  by unfold_locales (simp add: amqp_defs wf_Binary_def Let_def of_nat_u32_le_255 not_less)

interpretation Str: codec encode_Str decode_Str wf_Str
  by unfold_locales (simp add: amqp_defs round_trips wf_Str_def of_nat_u8 not_less)

interpretation Str: progressing decode_Str
  by unfold_locales
     (auto simp: amqp_defs and_then_Ok_iff map_second_Ok_iff read_defs read_byte_be case_sum_Ok_iff
       split: if_splits option.splits dest!: read_lengths)

interpretation Str: sized encode_Str encoded_size_Str "\<lambda>s. length s < 2 ^ 32"
  by unfold_locales (simp add: amqp_defs Let_def of_nat_u32_le_255 not_less)

interpretation Symbol: codec encode_Symbol decode_Symbol wf_Str
  by unfold_locales (simp add: amqp_defs round_trips wf_Str_def of_nat_u8 not_less)

interpretation Symbol: progressing decode_Symbol
  by unfold_locales
     (auto simp: amqp_defs and_then_Ok_iff map_second_Ok_iff read_defs read_byte_be case_sum_Ok_iff
       split: if_splits option.splits dest!: read_lengths)

interpretation Symbol: sized encode_Symbol encoded_size_Symbol "\<lambda>s. length s < 2 ^ 32"
  by unfold_locales (simp add: amqp_defs Let_def of_nat_u32_le_255 not_less)

lemmas scalar_round_trips [round_trips] =
  Boolean.dec_enc [OF TrueI]
  UByte.dec_enc [OF TrueI]
  UShort.dec_enc [OF TrueI]
  UInt.dec_enc [OF TrueI]
  ULong.dec_enc [OF TrueI]
  Byte.dec_enc [OF TrueI]
  Short.dec_enc [OF TrueI]
  Int.dec_enc
  Long.dec_enc [OF TrueI]
  Float.dec_enc [OF TrueI]
  Double.dec_enc [OF TrueI]
  Char.dec_enc
  Uuid.dec_enc
  Timestamp.dec_enc
  Binary.dec_enc
  Str.dec_enc
  Symbol.dec_enc

lemmas scalar_sizes =
  Boolean.size_enc [OF TrueI]
  UByte.size_enc [OF TrueI]
  UShort.size_enc [OF TrueI]
  UInt.size_enc [OF TrueI]
  ULong.size_enc [OF TrueI]
  Byte.size_enc [OF TrueI]
  Short.size_enc [OF TrueI]
  Int.size_enc [OF TrueI]
  Long.size_enc
  Float.size_enc [OF TrueI]
  Double.size_enc [OF TrueI]
  Char.size_enc [OF TrueI]
  Uuid.size_enc
  Timestamp.size_enc [OF TrueI]
  Binary.size_enc
  Str.size_enc
  Symbol.size_enc

lemmas scalar_progress =
  Boolean.progress UByte.progress UShort.progress UInt.progress ULong.progress Byte.progress Short.progress Int.progress Long.progress Float.progress Double.progress Char.progress Uuid.progress Timestamp.progress Binary.progress Str.progress Symbol.progress

section \<open>Properties of AMQP integers\<close>

text \<open>A negative \<open>Int\<close> that fits one byte does not survive: it is written as a signed
  byte and read as an unsigned one, so 256 is added to it.\<close>

theorem small_negative_int_changes:
  assumes "- 128 \<le> sint x" "sint x < 0"
  shows "decode_Int (encode_Int x @ rest) = Ok (rest, x + 256)"
proof -
  have "ucast (ucast x :: u8) = x + 256"
  proof -
    define k where "k = sint x"
    have x: "x = word_of_int k" by (simp add: k_def)
    have "take_bit 8 k = k + 256" "0 \<le> k + 256"
      using assms mod_pos_pos_trivial [of "k + 256" 256] by (simp_all add: k_def take_bit_eq_mod)
    then show ?thesis
      unfolding x by (simp add: ucast_of_int8 unsigned_of_int of_nat_nat)
  qed
  with assms show ?thesis
    by (simp add: amqp_defs round_trips encode_i8_u8)
qed

theorem small_negative_int_changes_witness:
  "decode_Int (encode_Int (- 1) @ []) = Ok ([], - 1 + 256)"
  by (rule small_negative_int_changes) simp_all

end
