(* ===== verification/Amqp_Types.thy ===== *)
theory Amqp_Types
  imports Amqp_Primitives
begin

text \<open>
  AMQP types (\<open>protocol/src/message/amqp/types\<close>): \<open>SimpleValue\<close>, \<open>Option<T>\<close>, \<open>MessageId\<close>,
  \<open>AnnonationKey\<close>, \<open>Descriptor\<close>, and the list and map containers.  \<open>wf_\<close> predicates say
  which values decode back to themselves, \<open>fits_\<close> predicates for which values the announced
  size is the number of bytes written.
\<close>

section \<open>SimpleValue\<close>

datatype ('t, 'u) SimpleValue =
    Null
  | Boolean bool
  | Ubyte u8
  | Ushort u16
  | Uint u32
  | Ulong u64
  | Byte i8
  | Short i16
  | Int i32
  | Long i64
  | Float "32 word"
  | Double "64 word"
  | Char u32
  | Timestamp 't
  | Uuid 'u
  | Binary bytes
  | String string
  | Symbol string

fun encoded_size_SimpleValue :: "('t, 'u) SimpleValue \<Rightarrow> u32" where
  "encoded_size_SimpleValue SimpleValue.Null = 1"
| "encoded_size_SimpleValue (SimpleValue.Boolean x) = encoded_size_Boolean x"
| "encoded_size_SimpleValue (SimpleValue.Ubyte x) = encoded_size_UByte x"
| "encoded_size_SimpleValue (SimpleValue.Ushort x) = encoded_size_UShort x"
| "encoded_size_SimpleValue (SimpleValue.Uint x) = encoded_size_UInt x"
| "encoded_size_SimpleValue (SimpleValue.Ulong x) = encoded_size_ULong x"
| "encoded_size_SimpleValue (SimpleValue.Byte x) = encoded_size_Byte x"
| "encoded_size_SimpleValue (SimpleValue.Short x) = encoded_size_Short x"
| "encoded_size_SimpleValue (SimpleValue.Int x) = encoded_size_Int x"
| "encoded_size_SimpleValue (SimpleValue.Long x) = encoded_size_Long x"
| "encoded_size_SimpleValue (SimpleValue.Float x) = encoded_size_Float x"
| "encoded_size_SimpleValue (SimpleValue.Double x) = encoded_size_Double x"
| "encoded_size_SimpleValue (SimpleValue.Char x) = encoded_size_Char x"
| "encoded_size_SimpleValue (SimpleValue.Timestamp x) = encoded_size_Timestamp x"
| "encoded_size_SimpleValue (SimpleValue.Uuid x) = encoded_size_Uuid x"
| "encoded_size_SimpleValue (SimpleValue.Binary x) = encoded_size_Binary x"
| "encoded_size_SimpleValue (SimpleValue.String x) = encoded_size_Str x"
| "encoded_size_SimpleValue (SimpleValue.Symbol x) = encoded_size_Symbol x"

fun encode_SimpleValue :: "('t, 'u) externals \<Rightarrow> ('t, 'u) SimpleValue \<Rightarrow> bytes" where
  "encode_SimpleValue X SimpleValue.Null = encode_TypeCode TypeCode.Null"
| "encode_SimpleValue X (SimpleValue.Boolean x) = encode_Boolean x"
| "encode_SimpleValue X (SimpleValue.Ubyte x) = encode_UByte x"
| "encode_SimpleValue X (SimpleValue.Ushort x) = encode_UShort x"
| "encode_SimpleValue X (SimpleValue.Uint x) = encode_UInt x"
| "encode_SimpleValue X (SimpleValue.Ulong x) = encode_ULong x"
| "encode_SimpleValue X (SimpleValue.Byte x) = encode_Byte x"
| "encode_SimpleValue X (SimpleValue.Short x) = encode_Short x"
| "encode_SimpleValue X (SimpleValue.Int x) = encode_Int x"
| "encode_SimpleValue X (SimpleValue.Long x) = encode_Long x"
| "encode_SimpleValue X (SimpleValue.Float x) = encode_Float x"
| "encode_SimpleValue X (SimpleValue.Double x) = encode_Double x"
| "encode_SimpleValue X (SimpleValue.Char x) = encode_Char x"
| "encode_SimpleValue X (SimpleValue.Timestamp x) = encode_Timestamp X x"
| "encode_SimpleValue X (SimpleValue.Uuid x) = encode_Uuid X x"
| "encode_SimpleValue X (SimpleValue.Binary x) = encode_Binary x"
| "encode_SimpleValue X (SimpleValue.String x) = encode_Str x"
| "encode_SimpleValue X (SimpleValue.Symbol x) = encode_Symbol x"

definition decode_SimpleValue :: "('t, 'u) externals \<Rightarrow> ('t, 'u) SimpleValue decoder" where
  "decode_SimpleValue X input =
     and_then (decode_TypeCode input) (\<lambda>(remaining, code).
       if code = TypeCode.Null then Ok (remaining, SimpleValue.Null)
       else if code = TypeCode.Boolean \<or> code = TypeCode.BooleanFalse \<or> code = TypeCode.BooleanTrue
       then map_second SimpleValue.Boolean (decode_Boolean input)
       else if code = TypeCode.UInt0 \<or> code = TypeCode.UIntSmall \<or> code = TypeCode.UInt
       then map_second SimpleValue.Uint (decode_UInt input)
       else if code = TypeCode.ULong0 \<or> code = TypeCode.ULongSmall \<or> code = TypeCode.ULong
       then map_second SimpleValue.Ulong (decode_ULong input)
       else if code = TypeCode.UByte
       then map_second SimpleValue.Ubyte (decode_UByte input)
       else if code = TypeCode.UShort
       then map_second SimpleValue.Ushort (decode_UShort input)
       else if code = TypeCode.Byte
       then map_second SimpleValue.Byte (decode_Byte input)
       else if code = TypeCode.Short
       then map_second SimpleValue.Short (decode_Short input)
       else if code = TypeCode.IntSmall \<or> code = TypeCode.Int
       then map_second SimpleValue.Int (decode_Int input)
       else if code = TypeCode.LongSmall \<or> code = TypeCode.Long
       then map_second SimpleValue.Long (decode_Long input)
       else if code = TypeCode.Float
       then map_second SimpleValue.Float (decode_Float input)
       else if code = TypeCode.Double
       then map_second SimpleValue.Double (decode_Double input)
       else if code = TypeCode.Char
       then map_second SimpleValue.Char (decode_Char input)
       else if code = TypeCode.Timestamp
       then map_second SimpleValue.Timestamp (decode_Timestamp X input)
       else if code = TypeCode.Uuid
       then map_second SimpleValue.Uuid (decode_Uuid X input)
       else if code = TypeCode.Binary8 \<or> code = TypeCode.Binary32
       then map_second SimpleValue.Binary (decode_Binary input)
       else if code = TypeCode.String8 \<or> code = TypeCode.String32
       then map_second SimpleValue.String (decode_Str input)
       else if code = TypeCode.Symbol8 \<or> code = TypeCode.Symbol32
       then map_second SimpleValue.Symbol (decode_Symbol input)
       else invalid_type_code ''SimpleValue'' code)"

fun wf_SimpleValue :: "('t, 'u) externals \<Rightarrow> ('t, 'u) SimpleValue \<Rightarrow> bool" where
  "wf_SimpleValue X (SimpleValue.Int x) = (wf_Int x)"
| "wf_SimpleValue X (SimpleValue.Char x) = (wf_Char x)"
| "wf_SimpleValue X (SimpleValue.Timestamp x) = (wf_Timestamp X x)"
| "wf_SimpleValue X (SimpleValue.Uuid x) = (wf_Uuid X x)"
| "wf_SimpleValue X (SimpleValue.Binary x) = (wf_Binary x)"
| "wf_SimpleValue X (SimpleValue.String x) = (wf_Str x)"
| "wf_SimpleValue X (SimpleValue.Symbol x) = (wf_Str x)"
| "wf_SimpleValue X _ = True"

fun fits_SimpleValue :: "('t, 'u) externals \<Rightarrow> ('t, 'u) SimpleValue \<Rightarrow> bool" where
  "fits_SimpleValue X (SimpleValue.Long x) = (wide_Long x)"
| "fits_SimpleValue X (SimpleValue.Uuid x) = (length (uuid_as_bytes X x) = 16)"
| "fits_SimpleValue X (SimpleValue.Binary x) = (wf_Binary x)"
| "fits_SimpleValue X (SimpleValue.String x) = (length x < 2 ^ 32)"
| "fits_SimpleValue X (SimpleValue.Symbol x) = (length x < 2 ^ 32)"
| "fits_SimpleValue X _ = True"

text \<open>The type code each scalar encoding starts with.\<close>

definition starts_with :: "TypeCode set \<Rightarrow> bytes \<Rightarrow> bool" where
  "starts_with codes bs \<longleftrightarrow> (\<exists>c \<in> codes. \<exists>r. bs = encode_TypeCode c @ r)"

lemma starts_with_decode:
  "starts_with codes bs \<Longrightarrow>
   \<exists>c \<in> codes. \<exists>r. decode_TypeCode (bs @ rest) = Ok (r @ rest, c)"
  by (fastforce simp: starts_with_def)

lemma starts_with_mono: "starts_with A bs \<Longrightarrow> A \<subseteq> B \<Longrightarrow> starts_with B bs"
  by (auto simp: starts_with_def)

lemma starts_with_TypeCode [simp]:
  "c \<in> A \<Longrightarrow> starts_with A (encode_TypeCode c @ r)" "c \<in> A \<Longrightarrow> starts_with A (encode_TypeCode c)"
  by (auto simp: starts_with_def)

lemma scalar_starts_with:
  "starts_with {TypeCode.Boolean, TypeCode.BooleanFalse, TypeCode.BooleanTrue} (encode_Boolean x_Boolean)"
  "starts_with {TypeCode.UInt0, TypeCode.UIntSmall, TypeCode.UInt} (encode_UInt x_UInt)"
  "starts_with {TypeCode.ULong0, TypeCode.ULongSmall, TypeCode.ULong} (encode_ULong x_ULong)"
  "starts_with {TypeCode.UByte} (encode_UByte x_UByte)"
  "starts_with {TypeCode.UShort} (encode_UShort x_UShort)"
  "starts_with {TypeCode.Byte} (encode_Byte x_Byte)"
  "starts_with {TypeCode.Short} (encode_Short x_Short)"
  "starts_with {TypeCode.IntSmall, TypeCode.Int} (encode_Int x_Int)"
  "starts_with {TypeCode.LongSmall, TypeCode.Long} (encode_Long x_Long)"
  "starts_with {TypeCode.Float} (encode_Float x_Float)"
  "starts_with {TypeCode.Double} (encode_Double x_Double)"
  "starts_with {TypeCode.Char} (encode_Char x_Char)"
  "starts_with {TypeCode.Timestamp} (encode_Timestamp X x_Timestamp)"
  "starts_with {TypeCode.Uuid} (encode_Uuid X x_Uuid)"
  "starts_with {TypeCode.Binary8, TypeCode.Binary32} (encode_Binary x_Binary)"
  "starts_with {TypeCode.String8, TypeCode.String32} (encode_Str x_Str)"
  "starts_with {TypeCode.Symbol8, TypeCode.Symbol32} (encode_Symbol x_Symbol)"
  by (simp_all add: amqp_defs Let_def)

lemma decode_SimpleValue_dispatch:
  "starts_with {TypeCode.Boolean, TypeCode.BooleanFalse, TypeCode.BooleanTrue} bs \<Longrightarrow>
   decode_SimpleValue X (bs @ rest) = map_second SimpleValue.Boolean (decode_Boolean (bs @ rest))"
  "starts_with {TypeCode.UInt0, TypeCode.UIntSmall, TypeCode.UInt} bs \<Longrightarrow>
   decode_SimpleValue X (bs @ rest) = map_second SimpleValue.Uint (decode_UInt (bs @ rest))"
  "starts_with {TypeCode.ULong0, TypeCode.ULongSmall, TypeCode.ULong} bs \<Longrightarrow>
   decode_SimpleValue X (bs @ rest) = map_second SimpleValue.Ulong (decode_ULong (bs @ rest))"
  "starts_with {TypeCode.UByte} bs \<Longrightarrow>
   decode_SimpleValue X (bs @ rest) = map_second SimpleValue.Ubyte (decode_UByte (bs @ rest))"
  "starts_with {TypeCode.UShort} bs \<Longrightarrow>
   decode_SimpleValue X (bs @ rest) = map_second SimpleValue.Ushort (decode_UShort (bs @ rest))"
  "starts_with {TypeCode.Byte} bs \<Longrightarrow>
   decode_SimpleValue X (bs @ rest) = map_second SimpleValue.Byte (decode_Byte (bs @ rest))"
  "starts_with {TypeCode.Short} bs \<Longrightarrow>
   decode_SimpleValue X (bs @ rest) = map_second SimpleValue.Short (decode_Short (bs @ rest))"
  "starts_with {TypeCode.IntSmall, TypeCode.Int} bs \<Longrightarrow>
   decode_SimpleValue X (bs @ rest) = map_second SimpleValue.Int (decode_Int (bs @ rest))"
  "starts_with {TypeCode.LongSmall, TypeCode.Long} bs \<Longrightarrow>
   decode_SimpleValue X (bs @ rest) = map_second SimpleValue.Long (decode_Long (bs @ rest))"
  "starts_with {TypeCode.Float} bs \<Longrightarrow>
   decode_SimpleValue X (bs @ rest) = map_second SimpleValue.Float (decode_Float (bs @ rest))"
  "starts_with {TypeCode.Double} bs \<Longrightarrow>
   decode_SimpleValue X (bs @ rest) = map_second SimpleValue.Double (decode_Double (bs @ rest))"
  "starts_with {TypeCode.Char} bs \<Longrightarrow>
   decode_SimpleValue X (bs @ rest) = map_second SimpleValue.Char (decode_Char (bs @ rest))"
  "starts_with {TypeCode.Timestamp} bs \<Longrightarrow>
   decode_SimpleValue X (bs @ rest) = map_second SimpleValue.Timestamp (decode_Timestamp X (bs @ rest))"
  "starts_with {TypeCode.Uuid} bs \<Longrightarrow>
   decode_SimpleValue X (bs @ rest) = map_second SimpleValue.Uuid (decode_Uuid X (bs @ rest))"
  "starts_with {TypeCode.Binary8, TypeCode.Binary32} bs \<Longrightarrow>
   decode_SimpleValue X (bs @ rest) = map_second SimpleValue.Binary (decode_Binary (bs @ rest))"
  "starts_with {TypeCode.String8, TypeCode.String32} bs \<Longrightarrow>
   decode_SimpleValue X (bs @ rest) = map_second SimpleValue.String (decode_Str (bs @ rest))"
  "starts_with {TypeCode.Symbol8, TypeCode.Symbol32} bs \<Longrightarrow>
   decode_SimpleValue X (bs @ rest) = map_second SimpleValue.Symbol (decode_Symbol (bs @ rest))"
  by (auto simp: starts_with_def decode_SimpleValue_def)

interpretation SimpleValue:
  codec "encode_SimpleValue X" "decode_SimpleValue X" "wf_SimpleValue X" for X
proof
  fix v rest
  assume "wf_SimpleValue X v"
  then show "decode_SimpleValue X (encode_SimpleValue X v @ rest) = Ok (rest, v)"
    by (cases v)
       (simp_all add: decode_SimpleValue_dispatch scalar_starts_with round_trips,
        simp add: decode_SimpleValue_def)
qed

interpretation SimpleValue: progressing "decode_SimpleValue X" for X
  by unfold_locales
     (auto simp: decode_SimpleValue_def and_then_Ok_iff map_second_Ok_iff invalid_type_code_def
       split: if_splits dest: scalar_progress decode_TypeCode_length)

lemma fits_SimpleValue_size:
  "fits_SimpleValue X v \<Longrightarrow> encoded_size_SimpleValue v = of_nat (length (encode_SimpleValue X v))"
  by (cases v) (simp_all add: scalar_sizes)

interpretation SimpleValue:
  sized "encode_SimpleValue X" encoded_size_SimpleValue "fits_SimpleValue X" for X
  by unfold_locales (rule fits_SimpleValue_size)

section \<open>Optional values\<close>

text \<open>A codec whose encodings never start with the null type code also codes the optional
  values: this is what \<open>Option<T>\<close> relies on.\<close>

locale tagged = codec +
  fixes codes :: "TypeCode set"
  assumes enc_starts_with: "starts_with codes (enc x)" and not_null: "TypeCode.Null \<notin> codes"
begin

lemma decode_Option_Some:
  assumes "wf x"
  shows "decode_Option dec (enc x @ rest) = Ok (rest, Some x)"
proof -
  obtain c r where "c \<in> codes" "enc x = encode_TypeCode c @ r"
    using enc_starts_with [of x] by (auto simp: starts_with_def)
  with assms not_null show ?thesis
    using dec_enc [of x rest] by (auto simp: decode_Option_def)
qed

end

sublocale tagged \<subseteq> opt: codec "encode_Option enc" "decode_Option dec" "pred_option wf"
proof
  fix v rest
  assume "pred_option wf v"
  then show "decode_Option dec (encode_Option enc v @ rest) = Ok (rest, v)"
    by (cases v) (simp_all add: encode_Option_def decode_Option_Some, simp add: decode_Option_def)
qed

context sized
begin

lemma opt_size:
  "pred_option fits v \<Longrightarrow> encoded_size_Option size_of v = of_nat (length (encode_Option enc v))"
  by (cases v) (simp_all add: encode_Option_def encoded_size_Option_def size_enc)

end

context progressing
begin

lemma opt_progress: "decode_Option dec input = Ok (rest, x) \<Longrightarrow> length rest < length input"
  by (auto simp: decode_Option_def and_then_Ok_iff map_second_Ok_iff
      split: if_splits dest: progress decode_TypeCode_length)

end

interpretation Boolean: tagged encode_Boolean decode_Boolean "\<lambda>_. True"
  "{TypeCode.Boolean, TypeCode.BooleanFalse, TypeCode.BooleanTrue}"
  by unfold_locales (simp_all add: scalar_starts_with)

interpretation UByte: tagged encode_UByte decode_UByte "\<lambda>_. True" "{TypeCode.UByte}"
  by unfold_locales (simp_all add: scalar_starts_with)

interpretation UInt: tagged encode_UInt decode_UInt "\<lambda>_. True"
  "{TypeCode.UInt0, TypeCode.UIntSmall, TypeCode.UInt}"
  by unfold_locales (simp_all add: scalar_starts_with)

interpretation Binary: tagged encode_Binary decode_Binary wf_Binary
  "{TypeCode.Binary8, TypeCode.Binary32}"
  by unfold_locales (simp_all add: scalar_starts_with)

interpretation Str: tagged encode_Str decode_Str wf_Str "{TypeCode.String8, TypeCode.String32}"
  by unfold_locales (simp_all add: scalar_starts_with)

interpretation Symbol: tagged encode_Symbol decode_Symbol wf_Str
  "{TypeCode.Symbol8, TypeCode.Symbol32}"
  by unfold_locales (simp_all add: scalar_starts_with)

interpretation Timestamp: tagged "encode_Timestamp X" "decode_Timestamp X" "wf_Timestamp X"
  "{TypeCode.Timestamp}" for X
  by unfold_locales (simp_all add: scalar_starts_with)

section \<open>MessageId and annotation keys\<close>

datatype ('t, 'u) MessageId =
    ULong u64
  | Long i64
  | Uuid 'u
  | Binary bytes
  | String string

fun encoded_size_MessageId :: "('t, 'u) MessageId \<Rightarrow> u32" where
  "encoded_size_MessageId (MessageId.ULong i) = encoded_size_ULong i"
| "encoded_size_MessageId (MessageId.Uuid i) = encoded_size_Uuid i"
| "encoded_size_MessageId (MessageId.Binary i) = encoded_size_Binary i"
| "encoded_size_MessageId (MessageId.String i) = encoded_size_Str i"
| "encoded_size_MessageId (MessageId.Long i) = encoded_size_Long i"

fun encode_MessageId :: "('t, 'u) externals \<Rightarrow> ('t, 'u) MessageId \<Rightarrow> bytes" where
  "encode_MessageId X (MessageId.ULong i) = encode_ULong i"
| "encode_MessageId X (MessageId.Uuid i) = encode_Uuid X i"
| "encode_MessageId X (MessageId.Binary i) = encode_Binary i"
| "encode_MessageId X (MessageId.String i) = encode_Str i"
| "encode_MessageId X (MessageId.Long i) = encode_Long i"

definition decode_MessageId :: "('t, 'u) externals \<Rightarrow> ('t, 'u) MessageId decoder" where
  "decode_MessageId X input =
     and_then (decode_TypeCode input) (\<lambda>(_, code).
       if code = TypeCode.ULong0 \<or> code = TypeCode.ULong \<or> code = TypeCode.ULongSmall
       then map_second MessageId.ULong (decode_ULong input)
       else if code = TypeCode.Long \<or> code = TypeCode.LongSmall
       then map_second MessageId.Long (decode_Long input)
       else if code = TypeCode.Uuid then map_second MessageId.Uuid (decode_Uuid X input)
       else if code = TypeCode.Binary8 \<or> code = TypeCode.Binary32
       then map_second MessageId.Binary (decode_Binary input)
       else if code = TypeCode.String8 \<or> code = TypeCode.String32
       then map_second MessageId.String (decode_Str input)
       else invalid_type_code ''MessageId'' code)"

fun wf_MessageId :: "('t, 'u) externals \<Rightarrow> ('t, 'u) MessageId \<Rightarrow> bool" where
  "wf_MessageId X (MessageId.Uuid i) = wf_Uuid X i"
| "wf_MessageId X (MessageId.Binary i) = wf_Binary i"
| "wf_MessageId X (MessageId.String i) = wf_Str i"
| "wf_MessageId X _ = True"

fun fits_MessageId :: "('t, 'u) externals \<Rightarrow> ('t, 'u) MessageId \<Rightarrow> bool" where
  "fits_MessageId X (MessageId.Uuid i) = (length (uuid_as_bytes X i) = 16)"
| "fits_MessageId X (MessageId.Binary i) = wf_Binary i"
| "fits_MessageId X (MessageId.String i) = (length i < 2 ^ 32)"
| "fits_MessageId X (MessageId.Long i) = wide_Long i"
| "fits_MessageId X (MessageId.ULong i) = True"

definition message_id_codes :: "TypeCode set" where
  "message_id_codes =
     {TypeCode.ULong0, TypeCode.ULongSmall, TypeCode.ULong, TypeCode.LongSmall, TypeCode.Long,
      TypeCode.Uuid, TypeCode.Binary8, TypeCode.Binary32, TypeCode.String8, TypeCode.String32}"

lemma decode_MessageId_dispatch:
  "starts_with {TypeCode.ULong0, TypeCode.ULongSmall, TypeCode.ULong} bs \<Longrightarrow>
   decode_MessageId X (bs @ rest) = map_second MessageId.ULong (decode_ULong (bs @ rest))"
  "starts_with {TypeCode.LongSmall, TypeCode.Long} bs \<Longrightarrow>
   decode_MessageId X (bs @ rest) = map_second MessageId.Long (decode_Long (bs @ rest))"
  "starts_with {TypeCode.Uuid} bs \<Longrightarrow>
   decode_MessageId X (bs @ rest) = map_second MessageId.Uuid (decode_Uuid X (bs @ rest))"
  "starts_with {TypeCode.Binary8, TypeCode.Binary32} bs \<Longrightarrow>
   decode_MessageId X (bs @ rest) = map_second MessageId.Binary (decode_Binary (bs @ rest))"
  "starts_with {TypeCode.String8, TypeCode.String32} bs \<Longrightarrow>
   decode_MessageId X (bs @ rest) = map_second MessageId.String (decode_Str (bs @ rest))"
  by (auto simp: starts_with_def decode_MessageId_def)

lemma encode_MessageId_starts_with: "starts_with message_id_codes (encode_MessageId X i)"
  unfolding message_id_codes_def
  by (cases i) (auto intro: scalar_starts_with [THEN starts_with_mono])

interpretation MessageId:
  tagged "encode_MessageId X" "decode_MessageId X" "wf_MessageId X" message_id_codes for X
proof
  fix i rest
  assume "wf_MessageId X i"
  then show "decode_MessageId X (encode_MessageId X i @ rest) = Ok (rest, i)"
    by (cases i) (simp_all add: decode_MessageId_dispatch scalar_starts_with round_trips)
qed (simp_all add: encode_MessageId_starts_with, simp add: message_id_codes_def)

lemma fits_MessageId_size:
  "fits_MessageId X i \<Longrightarrow> encoded_size_MessageId i = of_nat (length (encode_MessageId X i))"
  by (cases i) (simp_all add: scalar_sizes)

interpretation MessageId: sized "encode_MessageId X" encoded_size_MessageId "fits_MessageId X" for X
  by unfold_locales (rule fits_MessageId_size)

interpretation MessageId: progressing "decode_MessageId X" for X
  by unfold_locales
     (auto simp: decode_MessageId_def and_then_Ok_iff map_second_Ok_iff invalid_type_code_def
       split: if_splits dest: scalar_progress)

datatype AnnonationKey = Symbol string | ULong u64 | Long i64

fun encoded_size_AnnonationKey :: "AnnonationKey \<Rightarrow> u32" where
  "encoded_size_AnnonationKey (AnnonationKey.Symbol s) = encoded_size_Symbol s"
| "encoded_size_AnnonationKey (AnnonationKey.ULong l) = encoded_size_ULong l"
| "encoded_size_AnnonationKey (AnnonationKey.Long l) = encoded_size_Long l"

fun encode_AnnonationKey :: "AnnonationKey \<Rightarrow> bytes" where
  "encode_AnnonationKey (AnnonationKey.Symbol s) = encode_Symbol s"
| "encode_AnnonationKey (AnnonationKey.ULong l) = encode_ULong l"
| "encode_AnnonationKey (AnnonationKey.Long l) = encode_Long l"

definition decode_AnnonationKey :: "AnnonationKey decoder" where
  "decode_AnnonationKey input =
     and_then (decode_TypeCode input) (\<lambda>(_, code).
       if code = TypeCode.Symbol8 \<or> code = TypeCode.Symbol32
       then map_second AnnonationKey.Symbol (decode_Symbol input)
       else if code = TypeCode.ULong \<or> code = TypeCode.ULong0 \<or> code = TypeCode.ULongSmall
       then map_second AnnonationKey.ULong (decode_ULong input)
       else if code = TypeCode.Long \<or> code = TypeCode.LongSmall
       then map_second AnnonationKey.Long (decode_Long input)
       else invalid_type_code ''AnnonationKey'' code)"

fun wf_AnnonationKey :: "AnnonationKey \<Rightarrow> bool" where
  "wf_AnnonationKey (AnnonationKey.Symbol s) = wf_Str s"
| "wf_AnnonationKey _ = True"

fun fits_AnnonationKey :: "AnnonationKey \<Rightarrow> bool" where
  "fits_AnnonationKey (AnnonationKey.Symbol s) = (length s < 2 ^ 32)"
| "fits_AnnonationKey (AnnonationKey.ULong l) = True"
| "fits_AnnonationKey (AnnonationKey.Long l) = wide_Long l"

lemma decode_AnnonationKey_dispatch:
  "starts_with {TypeCode.Symbol8, TypeCode.Symbol32} bs \<Longrightarrow>
   decode_AnnonationKey (bs @ rest) = map_second AnnonationKey.Symbol (decode_Symbol (bs @ rest))"
  "starts_with {TypeCode.ULong0, TypeCode.ULongSmall, TypeCode.ULong} bs \<Longrightarrow>
   decode_AnnonationKey (bs @ rest) = map_second AnnonationKey.ULong (decode_ULong (bs @ rest))"
  "starts_with {TypeCode.LongSmall, TypeCode.Long} bs \<Longrightarrow>
   decode_AnnonationKey (bs @ rest) = map_second AnnonationKey.Long (decode_Long (bs @ rest))"
  by (auto simp: starts_with_def decode_AnnonationKey_def)

interpretation AnnonationKey: codec encode_AnnonationKey decode_AnnonationKey wf_AnnonationKey
proof
  fix k rest
  assume "wf_AnnonationKey k"
  then show "decode_AnnonationKey (encode_AnnonationKey k @ rest) = Ok (rest, k)"
    by (cases k) (simp_all add: decode_AnnonationKey_dispatch scalar_starts_with round_trips)
qed

lemma fits_AnnonationKey_size:
  "fits_AnnonationKey k \<Longrightarrow> encoded_size_AnnonationKey k = of_nat (length (encode_AnnonationKey k))"
  by (cases k) (simp_all add: scalar_sizes)

interpretation AnnonationKey:
  sized encode_AnnonationKey encoded_size_AnnonationKey fits_AnnonationKey
  by unfold_locales (rule fits_AnnonationKey_size)

interpretation AnnonationKey: progressing decode_AnnonationKey
  by unfold_locales
     (auto simp: decode_AnnonationKey_def and_then_Ok_iff map_second_Ok_iff invalid_type_code_def
       split: if_splits dest: scalar_progress)

section \<open>Descriptors\<close>

text \<open>The encoder of a descriptor writes the \<open>Described\<close> code itself.\<close>

datatype Descriptor = Ulong u64 | Symbol string

fun encoded_size_Descriptor :: "Descriptor \<Rightarrow> u32" where
  "encoded_size_Descriptor (Descriptor.Ulong v) = 1 + encoded_size_ULong v"
| "encoded_size_Descriptor (Descriptor.Symbol v) = 1 + encoded_size_Symbol v"

fun encode_Descriptor :: "Descriptor \<Rightarrow> bytes" where
  "encode_Descriptor (Descriptor.Ulong v) = encode_TypeCode TypeCode.Described @ encode_ULong v"
| "encode_Descriptor (Descriptor.Symbol v) = encode_TypeCode TypeCode.Described @ encode_Symbol v"

definition decode_Descriptor :: "Descriptor decoder" where
  "decode_Descriptor input =
     and_then (decode_TypeCode input) (\<lambda>(input, code).
       if code = TypeCode.Described then
         and_then (decode_TypeCode input) (\<lambda>(remaining, code).
           if code = TypeCode.ULong \<or> code = TypeCode.ULongSmall
           then map_second Descriptor.Ulong (decode_ULong input)
           else if code = TypeCode.ULong0 then Ok (remaining, Descriptor.Ulong 0)
           else if code = TypeCode.Symbol8 \<or> code = TypeCode.Symbol32
           then map_second Descriptor.Symbol (decode_Symbol input)
           else invalid_type_code ''Descriptor'' code)
       else invalid_type_code ''Descriptor'' code)"

fun wf_Descriptor :: "Descriptor \<Rightarrow> bool" where
  "wf_Descriptor (Descriptor.Ulong v) = True"
| "wf_Descriptor (Descriptor.Symbol v) = wf_Str v"

fun fits_Descriptor :: "Descriptor \<Rightarrow> bool" where
  "fits_Descriptor (Descriptor.Ulong v) = True"
| "fits_Descriptor (Descriptor.Symbol v) = (length v < 2 ^ 32)"

lemma decode_ULong_zero [simp]: "decode_ULong (encode_TypeCode TypeCode.ULong0 @ rest) = Ok (rest, 0)"
  by (simp add: decode_ULong_def)

lemma decode_Descriptor_dispatch:
  "starts_with {TypeCode.ULong0, TypeCode.ULongSmall, TypeCode.ULong} bs \<Longrightarrow>
   decode_Descriptor (encode_TypeCode TypeCode.Described @ bs @ rest) =
     map_second Descriptor.Ulong (decode_ULong (bs @ rest))"
  "starts_with {TypeCode.Symbol8, TypeCode.Symbol32} bs \<Longrightarrow>
   decode_Descriptor (encode_TypeCode TypeCode.Described @ bs @ rest) =
     map_second Descriptor.Symbol (decode_Symbol (bs @ rest))"
  by (auto simp: starts_with_def decode_Descriptor_def)

interpretation Descriptor: codec encode_Descriptor decode_Descriptor wf_Descriptor
proof
  fix d rest
  assume "wf_Descriptor d"
  then show "decode_Descriptor (encode_Descriptor d @ rest) = Ok (rest, d)"
    by (cases d) (simp_all add: decode_Descriptor_dispatch scalar_starts_with round_trips)
qed

lemma fits_Descriptor_size:
  "fits_Descriptor d \<Longrightarrow> encoded_size_Descriptor d = of_nat (length (encode_Descriptor d))"
  by (cases d) (simp_all add: scalar_sizes)

interpretation Descriptor: sized encode_Descriptor encoded_size_Descriptor fits_Descriptor
  by unfold_locales (rule fits_Descriptor_size)

interpretation Descriptor: progressing decode_Descriptor
  by unfold_locales
     (auto simp: decode_Descriptor_def and_then_Ok_iff map_second_Ok_iff invalid_type_code_def
       split: if_splits dest!: scalar_progress decode_TypeCode_length)

section \<open>Lists\<close>

text \<open>\<open>List\<close> and \<open>Map\<close> are generic here in how their elements are measured, written and read;
  \<open>Value\<close> below and the message sections instantiate them.\<close>

definition content_size_List :: "('a \<Rightarrow> u32) \<Rightarrow> 'a list \<Rightarrow> u32" where
  "content_size_List sz xs = foldl (\<lambda>acc item. acc + sz item) 0 xs"

definition encoded_size_List :: "('a \<Rightarrow> u32) \<Rightarrow> 'a list \<Rightarrow> u32" where
  "encoded_size_List sz xs =
     (let content_size = content_size_List sz xs in
      (if content_size + 1 > 255 then 9 else 3) + content_size)"

definition encode_List :: "('a \<Rightarrow> u32) \<Rightarrow> ('a \<Rightarrow> bytes) \<Rightarrow> 'a list \<Rightarrow> bytes" where
  "encode_List sz enc xs =
     (let content_size = content_size_List sz xs in
      (if content_size + 1 > 255
       then encode_TypeCode TypeCode.List8 @ encode_u32 (content_size + 4) @
            encode_u32 (of_nat (length xs))
       else encode_TypeCode TypeCode.List8 @ encode_u8 (ucast (content_size + 1)) @
            encode_u8 (of_nat (length xs))) @
      concat (map enc xs))"

definition decode_List :: "'a decoder \<Rightarrow> 'a list decoder" where
  "decode_List dec input =
     and_then (decode_TypeCode input) (\<lambda>(input, code).
       if code = TypeCode.List0 then Ok (input, [])
       else if code = TypeCode.List8 then
         and_then (read_u8 input) (\<lambda>(input, _).
         and_then (read_u8 input) (\<lambda>(input, count). decode_n dec (unat count) input))
       else if code = TypeCode.List32 then
         and_then (read_u32 input) (\<lambda>(input, _).
         and_then (read_u32 input) (\<lambda>(input, count). decode_n dec (unat count) input))
       else invalid_type_code ''List'' code)"

text \<open>The large form of a list is written with the code of the small one, so only short
  contents survive.\<close>

definition short_List :: "('a \<Rightarrow> u32) \<Rightarrow> 'a list \<Rightarrow> bool" where
  "short_List sz xs \<longleftrightarrow> \<not> content_size_List sz xs + 1 > 255 \<and> length xs \<le> 255"

lemma encode_List_starts_with: "starts_with {TypeCode.List8} (encode_List sz enc xs)"
  by (simp add: encode_List_def Let_def)

context codec
begin

lemma decode_List_enc:
  "list_all wf xs \<Longrightarrow> short_List sz xs \<Longrightarrow>
   decode_List dec (encode_List sz enc xs @ rest) = Ok (rest, xs)"
  by (simp add: decode_List_def encode_List_def short_List_def Let_def round_trips
      of_nat_u8 decode_n_concat)

end

section \<open>Maps\<close>

definition content_size_Map :: "('k \<Rightarrow> u32) \<Rightarrow> ('v \<Rightarrow> u32) \<Rightarrow> ('k \<times> 'v) list \<Rightarrow> u32" where
  "content_size_Map szk szv m = foldl (\<lambda>acc p. acc + szk (fst p) + szv (snd p)) 0 m"

definition encoded_size_Map :: "('k \<Rightarrow> u32) \<Rightarrow> ('v \<Rightarrow> u32) \<Rightarrow> ('k \<times> 'v) list \<Rightarrow> u32" where
  "encoded_size_Map szk szv m =
     (let content_size = content_size_Map szk szv m in
      content_size + (if content_size + 1 > 255 then 9 else 3))"

definition encode_Map ::
  "('k \<Rightarrow> u32) \<Rightarrow> ('v \<Rightarrow> u32) \<Rightarrow> ('k \<Rightarrow> bytes) \<Rightarrow> ('v \<Rightarrow> bytes) \<Rightarrow> ('k \<times> 'v) list \<Rightarrow> bytes" where
  "encode_Map szk szv enck encv m =
     (let count = length m * 2; content_size = content_size_Map szk szv m in
      (if content_size + 1 > 255
       then encode_TypeCode TypeCode.Map32 @ encode_u32 (content_size + 4) @
            encode_u32 (of_nat count)
       else encode_TypeCode TypeCode.Map8 @ encode_u8 (ucast (content_size + 1)) @
            encode_u8 (of_nat count)) @
      concat (map (\<lambda>p. enck (fst p) @ encv (snd p)) m))"

text \<open>Insertion into a hash map whose key equality is equality of \<open>canon\<close>; the old key stays.\<close>

fun insert_by :: "('k \<Rightarrow> 'c) \<Rightarrow> 'k \<Rightarrow> 'v \<Rightarrow> ('k \<times> 'v) list \<Rightarrow> ('k \<times> 'v) list" where
  "insert_by canon k v [] = [(k, v)]"
| "insert_by canon k v ((k', v') # m) =
     (if canon k' = canon k then (k', v) # m else (k', v') # insert_by canon k v m)"

text \<open>The loop \<open>while count > 0 { count -= 2; ... }\<close>: an odd count wraps around.  Every turn
  reads at least two bytes, so the length of the input bounds the number of turns.  The result
  \<open>stuck\<close> stands for a loop that runs out of turns; it is a parameter, so that \<open>decode_entries_turns\<close> can
  show that it never comes out.\<close>

primrec decode_entries :: "('k \<times> 'v) list decoded \<Rightarrow> nat \<Rightarrow> ('k \<Rightarrow> 'c) \<Rightarrow> ('k \<Rightarrow> bool) \<Rightarrow> 'k decoder \<Rightarrow> 'v decoder \<Rightarrow>
    u32 \<Rightarrow> ('k \<times> 'v) list \<Rightarrow> ('k \<times> 'v) list decoder" where
  "decode_entries stuck 0 canon hashable deck decv count m input = stuck"
| "decode_entries stuck (Suc n) canon hashable deck decv count m input =
    (if count > 0 then
       and_then (deck input) (\<lambda>(input, key).
       and_then (decv input) (\<lambda>(input, value).
         if hashable key
         then decode_entries stuck n canon hashable deck decv (count - 2)
                (insert_by canon key value m) input
         else Panic))
     else Ok (input, m))"

definition decode_Map :: "('k \<Rightarrow> 'c) \<Rightarrow> ('k \<Rightarrow> bool) \<Rightarrow> 'k decoder \<Rightarrow> 'v decoder \<Rightarrow>
    ('k \<times> 'v) list decoder" where
  "decode_Map canon hashable deck decv input =
     and_then (decode_TypeCode input) (\<lambda>(input, code).
       if code = TypeCode.Map8 then
         and_then (read_u8 input) (\<lambda>(input, _).
         and_then (read_u8 input) (\<lambda>(input, count).
           decode_entries Panic (Suc (length input)) canon hashable deck decv (ucast count) [] input))
       else if code = TypeCode.Map32 then
         and_then (read_u32 input) (\<lambda>(input, _).
         and_then (read_u32 input) (\<lambda>(input, count).
           decode_entries Panic (Suc (length input)) canon hashable deck decv count [] input))
       else invalid_type_code ''Map'' code)"

definition wf_Map :: "('k \<Rightarrow> 'c) \<Rightarrow> ('k \<Rightarrow> bool) \<Rightarrow> ('k \<Rightarrow> u32) \<Rightarrow> ('v \<Rightarrow> u32) \<Rightarrow>
    ('k \<times> 'v) list \<Rightarrow> bool" where
  "wf_Map canon hashable szk szv m \<longleftrightarrow>
     distinct (map (canon \<circ> fst) m) \<and> list_all (hashable \<circ> fst) m \<and>
     length m * 2 < (if content_size_Map szk szv m + 1 > 255 then 2 ^ 32 else 2 ^ 8)"

lemma encode_Map_starts_with:
  "starts_with {TypeCode.Map8, TypeCode.Map32} (encode_Map szk szv enck encv m)"
  by (simp add: encode_Map_def Let_def)

lemma insert_by_new:
  "canon k \<notin> (canon \<circ> fst) ` set m \<Longrightarrow> insert_by canon k v m = m @ [(k, v)]"
  by (induction m) (auto simp: image_iff)

lemma insert_by_lookup:
  "\<exists>k'. canon k' = canon k \<and> (k', v) \<in> set (insert_by canon k v m)"
  by (induction m) (auto split: if_splits)

locale map_codec = key: codec enck deck wfk + val: codec encv decv wfv +
  prog: progressing deck
  for enck :: "'k \<Rightarrow> bytes" and deck wfk and encv :: "'v \<Rightarrow> bytes" and decv wfv
begin

lemma enck_nonempty: "wfk k \<Longrightarrow> enck k \<noteq> []"
  using prog.progress [OF key.dec_enc [of k "[]"]] by auto

lemma length_entries:
  "list_all (\<lambda>p. wfk (fst p) \<and> wfv (snd p)) ps \<Longrightarrow>
   length ps \<le> length (concat (map (\<lambda>p. enck (fst p) @ encv (snd p)) ps))"
  by (induction ps) (auto dest!: enck_nonempty simp: neq_Nil_conv)

lemma decode_entries_enc:
  assumes "list_all (\<lambda>p. wfk (fst p) \<and> wfv (snd p)) ps" "list_all (hashable \<circ> fst) ps"
    and "distinct (map (canon \<circ> fst) (m @ ps))" "length ps * 2 < 2 ^ 32" "length ps < n"
  shows "decode_entries stuck n canon hashable deck decv (of_nat (length ps * 2)) m
      (concat (map (\<lambda>p. enck (fst p) @ encv (snd p)) ps) @ rest) = Ok (rest, m @ ps)"
  using assms
proof (induction ps arbitrary: m n)
  case Nil
  then obtain n' where "n = Suc n'" by (cases n) auto
  then show ?case by simp
next
  case (Cons p ps)
  then obtain n' where n: "n = Suc n'" by (cases n) auto
  have "unat (of_nat (length (p # ps) * 2) :: u32) = length (p # ps) * 2"
    using Cons.prems(4) by (intro unat_of_nat32)
  then have pos: "(of_nat (length (p # ps) * 2) :: u32) > 0"
    by (simp add: word_less_nat_alt del: of_nat_mult)
  have step: "(of_nat (Suc (Suc k)) :: u32) - 2 = of_nat k" for k
    by simp
  have new: "insert_by canon (fst p) (snd p) m = m @ [p]"
    using Cons.prems(3) by (subst insert_by_new) auto
  show ?case
    using Cons.prems Cons.IH [of "m @ [p]" n'] pos
    by (simp add: n key.dec_enc val.dec_enc new step del: of_nat_mult of_nat_Suc)
qed

lemma decode_Map_enc:
  assumes "list_all (\<lambda>p. wfk (fst p) \<and> wfv (snd p)) m" "wf_Map canon hashable szk szv m"
  shows "decode_Map canon hashable deck decv (encode_Map szk szv enck encv m @ rest) = Ok (rest, m)"
proof -
  let ?es = "concat (map (\<lambda>p. enck (fst p) @ encv (snd p)) m)"
  have "decode_entries Panic (Suc (length (?es @ rest))) canon hashable deck decv
      (of_nat (length m * 2)) [] (?es @ rest) = Ok (rest, m)"
    using assms length_entries [OF assms(1)]
    by (subst decode_entries_enc) (auto simp: wf_Map_def split: if_splits)
  moreover have "(ucast (of_nat k :: u8) :: u32) = of_nat k" if "k < 2 ^ 8" for k
    using that by (simp add: unsigned_of_nat take_bit_nat_eq_self)
  ultimately show ?thesis
    using assms(2)
    by (auto simp: decode_Map_def encode_Map_def Let_def round_trips wf_Map_def
        simp del: of_nat_mult decode_entries.simps split: if_splits)
qed

end

end
