(* ===== verification/Amqp_Values.thy ===== *)
theory Amqp_Values
  imports Amqp_Types
begin

text \<open>
  The recursive \<open>Value\<close> of \<open>types/primitives/value.rs\<close> with its collections and described
  values.  \<open>Value::decode\<close> calls itself through \<open>List::decode\<close>, \<open>Map::decode\<close> and
  \<open>DescribedValue::decode\<close>.  \<open>decode_Value_step\<close> is the body of \<open>Value::decode\<close> with the recursive
  call as its argument, and \<open>decode_Value_nested\<close> nests it a number of times, with an arbitrary decoder
  \<open>stuck\<close> below.  One more nesting than the input has bytes is enough: \<open>stuck\<close> is never asked, and the
  decoder so obtained is the only function that satisfies the recursive equation of the code.
\<close>

section \<open>Values, encoded\<close>

datatype ('t, 'u) Value =
    Simple "('t, 'u) SimpleValue"
  | Collection "('t, 'u) CollectionValue"
  | Described "('t, 'u) DescribedValue"
and ('t, 'u) CollectionValue =
    List "('t, 'u) Value list"
  | Map "(('t, 'u) Value \<times> ('t, 'u) Value) list"
and ('t, 'u) DescribedValue =
    DescribedValue Descriptor "('t, 'u) Value"

lemma size_fst_less [termination_simp]:
  "p \<in> set m \<Longrightarrow> f (fst p) < Suc (size_list (size_prod f g) m)"
  by (induction m) (auto simp: prod.size_gen(1) split: prod.splits)

lemma size_snd_less [termination_simp]:
  "p \<in> set m \<Longrightarrow> g (snd p) < Suc (size_list (size_prod f g) m)"
  by (induction m) (auto simp: prod.size_gen(1) split: prod.splits)

lemma content_size_List_cong:
  "(\<And>x. x \<in> set xs \<Longrightarrow> sz x = sz' x) \<Longrightarrow> content_size_List sz xs = content_size_List sz' xs"
  unfolding content_size_List_def by (rule foldl_cong) auto

lemma content_size_Map_cong:
  "(\<And>p. p \<in> set m \<Longrightarrow> szk (fst p) = szk' (fst p) \<and> szv (snd p) = szv' (snd p)) \<Longrightarrow>
   content_size_Map szk szv m = content_size_Map szk' szv' m"
  unfolding content_size_Map_def by (rule foldl_cong) auto

lemma encoded_size_List_cong [fundef_cong]:
  "xs = ys \<Longrightarrow> (\<And>x. x \<in> set ys \<Longrightarrow> sz x = sz' x) \<Longrightarrow>
   encoded_size_List sz xs = encoded_size_List sz' ys"
  unfolding encoded_size_List_def using content_size_List_cong [of ys sz sz'] by simp

lemma encoded_size_Map_cong [fundef_cong]:
  "m = m' \<Longrightarrow> (\<And>p. p \<in> set m' \<Longrightarrow> szk (fst p) = szk' (fst p)) \<Longrightarrow>
   (\<And>p. p \<in> set m' \<Longrightarrow> szv (snd p) = szv' (snd p)) \<Longrightarrow>
   encoded_size_Map szk szv m = encoded_size_Map szk' szv' m'"
  unfolding encoded_size_Map_def using content_size_Map_cong [of m' szk szk' szv szv'] by simp

lemma encode_List_cong [fundef_cong]:
  assumes "xs = ys" "\<And>x. x \<in> set ys \<Longrightarrow> sz x = sz' x" "\<And>x. x \<in> set ys \<Longrightarrow> enc x = enc' x"
  shows "encode_List sz enc xs = encode_List sz' enc' ys"
proof -
  have items: "map enc ys = map enc' ys" using assms(3) by simp
  have sizes: "content_size_List sz ys = content_size_List sz' ys"
    using assms(2) by (rule content_size_List_cong)
  show ?thesis unfolding encode_List_def assms(1) items sizes ..
qed

lemma encode_Map_cong [fundef_cong]:
  assumes "m = m'" "\<And>p. p \<in> set m' \<Longrightarrow> szk (fst p) = szk' (fst p)"
    "\<And>p. p \<in> set m' \<Longrightarrow> szv (snd p) = szv' (snd p)"
    "\<And>p. p \<in> set m' \<Longrightarrow> enck (fst p) = enck' (fst p)"
    "\<And>p. p \<in> set m' \<Longrightarrow> encv (snd p) = encv' (snd p)"
  shows "encode_Map szk szv enck encv m = encode_Map szk' szv' enck' encv' m'"
proof -
  have sizes: "content_size_Map szk szv m' = content_size_Map szk' szv' m'"
    using assms(2,3) by (intro content_size_Map_cong) blast
  have entries: "map (\<lambda>p. enck (fst p) @ encv (snd p)) m' =
      map (\<lambda>p. enck' (fst p) @ encv' (snd p)) m'"
    using assms(4,5) by simp
  show ?thesis unfolding encode_Map_def assms(1) sizes entries ..
qed

fun encoded_size_Value :: "('t, 'u) Value \<Rightarrow> u32"
  and encoded_size_CollectionValue :: "('t, 'u) CollectionValue \<Rightarrow> u32"
  and encoded_size_DescribedValue :: "('t, 'u) DescribedValue \<Rightarrow> u32" where
  "encoded_size_Value (Value.Simple simple) = encoded_size_SimpleValue simple"
| "encoded_size_Value (Value.Collection collection) = encoded_size_CollectionValue collection"
| "encoded_size_Value (Value.Described described) = encoded_size_DescribedValue described"
| "encoded_size_CollectionValue (List xs) = encoded_size_List encoded_size_Value xs"
| "encoded_size_CollectionValue (Map m) = encoded_size_Map encoded_size_Value encoded_size_Value m"
| "encoded_size_DescribedValue (DescribedValue descriptor val) =
     1 + encoded_size_Descriptor descriptor + encoded_size_Value val"

fun encode_Value :: "('t, 'u) externals \<Rightarrow> ('t, 'u) Value \<Rightarrow> bytes"
  and encode_CollectionValue :: "('t, 'u) externals \<Rightarrow> ('t, 'u) CollectionValue \<Rightarrow> bytes"
  and encode_DescribedValue :: "('t, 'u) externals \<Rightarrow> ('t, 'u) DescribedValue \<Rightarrow> bytes" where
  "encode_Value X (Value.Simple simple) = encode_SimpleValue X simple"
| "encode_Value X (Value.Collection collection) = encode_CollectionValue X collection"
| "encode_Value X (Value.Described described) = encode_DescribedValue X described"
| "encode_CollectionValue X (List xs) = encode_List encoded_size_Value (encode_Value X) xs"
| "encode_CollectionValue X (Map m) =
     encode_Map encoded_size_Value encoded_size_Value (encode_Value X) (encode_Value X) m"
| "encode_DescribedValue X (DescribedValue descriptor val) =
     encode_TypeCode TypeCode.Described @ encode_Descriptor descriptor @ encode_Value X val"

section \<open>Keys of a map of values\<close>

text \<open>\<open>OrderedFloat\<close> identifies all NaNs, and the two zeros; \<open>canon\<close> picks one bit pattern of
  each class, so that two keys are equal exactly when their canonical forms are.  Hashing a map
  is \<open>unimplemented!()\<close>.\<close>

definition canon_f32 :: "32 word \<Rightarrow> 32 word" where
  "canon_f32 w = (if w AND 0x7F800000 = 0x7F800000 \<and> w AND 0x007FFFFF \<noteq> 0 then 0x7FC00000
                  else if w = 0x80000000 then 0 else w)"

definition canon_f64 :: "64 word \<Rightarrow> 64 word" where
  "canon_f64 w =
     (if w AND 0x7FF0000000000000 = 0x7FF0000000000000 \<and> w AND 0x000FFFFFFFFFFFFF \<noteq> 0
      then 0x7FF8000000000000 else if w = 0x8000000000000000 then 0 else w)"

fun canon_SimpleValue :: "('t, 'u) SimpleValue \<Rightarrow> ('t, 'u) SimpleValue" where
  "canon_SimpleValue (SimpleValue.Float f) = SimpleValue.Float (canon_f32 f)"
| "canon_SimpleValue (SimpleValue.Double d) = SimpleValue.Double (canon_f64 d)"
| "canon_SimpleValue v = v"

fun canon_Value :: "('t, 'u) Value \<Rightarrow> ('t, 'u) Value" where
  "canon_Value (Value.Simple v) = Value.Simple (canon_SimpleValue v)"
| "canon_Value (Value.Collection (List xs)) = Value.Collection (List (map canon_Value xs))"
| "canon_Value (Value.Collection (Map m)) = Value.Collection (Map m)"
| "canon_Value (Value.Described (DescribedValue d v)) =
     Value.Described (DescribedValue d (canon_Value v))"

fun hashable_Value :: "('t, 'u) Value \<Rightarrow> bool" where
  "hashable_Value (Value.Simple v) = True"
| "hashable_Value (Value.Collection (List xs)) = (\<forall>v \<in> set xs. hashable_Value v)"
| "hashable_Value (Value.Collection (Map m)) = False"
| "hashable_Value (Value.Described (DescribedValue d v)) = hashable_Value v"

section \<open>Values, decoded\<close>

definition decode_DescribedValue :: "('t, 'u) Value decoder \<Rightarrow> ('t, 'u) DescribedValue decoder" where
  "decode_DescribedValue decode_value input =
     and_then (decode_TypeCode input) (\<lambda>(input, code).
       if code = TypeCode.Described then
         and_then (decode_Descriptor input) (\<lambda>(input, descriptor).
         and_then (decode_value input) (\<lambda>(input, val).
           Ok (input, DescribedValue descriptor val)))
       else invalid_type_code ''DescribedValue'' code)"

definition decode_CollectionValue ::
  "('t, 'u) Value decoder \<Rightarrow> ('t, 'u) CollectionValue decoder" where
  "decode_CollectionValue decode_value input =
     and_then (decode_TypeCode input) (\<lambda>(_, code).
       if code = TypeCode.List0 \<or> code = TypeCode.List8 \<or> code = TypeCode.List32
       then map_second List (decode_List decode_value input)
       else if code = TypeCode.Map8 \<or> code = TypeCode.Map32
       then map_second Map (decode_Map canon_Value hashable_Value decode_value decode_value input)
       else invalid_type_code ''CollectionValue'' code)"

definition decode_Value_step ::
  "('t, 'u) externals \<Rightarrow> ('t, 'u) Value decoder \<Rightarrow> ('t, 'u) Value decoder" where
  "decode_Value_step X decode_value input =
     and_then (decode_TypeCode input) (\<lambda>(_, code).
       if code = TypeCode.Described
       then map_second Value.Described (decode_DescribedValue decode_value input)
       else if code = TypeCode.List0 \<or> code = TypeCode.List8 \<or> code = TypeCode.List32 \<or>
               code = TypeCode.Map8 \<or> code = TypeCode.Map32 \<or>
               code = TypeCode.Array8 \<or> code = TypeCode.Array32
       then map_second Value.Collection (decode_CollectionValue decode_value input)
       else map_second Value.Simple (decode_SimpleValue X input))"

primrec decode_Value_nested ::
  "('t, 'u) Value decoder \<Rightarrow> nat \<Rightarrow> ('t, 'u) externals \<Rightarrow> ('t, 'u) Value decoder" where
  "decode_Value_nested stuck 0 X input = stuck input"
| "decode_Value_nested stuck (Suc n) X input =
     decode_Value_step X (decode_Value_nested stuck n X) input"

abbreviation decode_Value_fuel :: "nat \<Rightarrow> ('t, 'u) externals \<Rightarrow> ('t, 'u) Value decoder" where
  "decode_Value_fuel \<equiv> decode_Value_nested (\<lambda>_. Panic)"

definition decode_Value :: "('t, 'u) externals \<Rightarrow> ('t, 'u) Value decoder" where
  "decode_Value X input = decode_Value_fuel (Suc (length input)) X input"

section \<open>Progress and fuel\<close>

context progressing
begin

lemma decode_n_shorter: "decode_n dec n input = Ok (rest, xs) \<Longrightarrow> length rest \<le> length input"
proof (induction n arbitrary: input rest xs)
  case (Suc n)
  then obtain i x ys where "dec input = Ok (i, x)" "decode_n dec n i = Ok (rest, ys)"
    by (auto simp: and_then_Ok_iff)
  then show ?case using Suc.IH progress by fastforce
qed simp

lemma decode_List_progress: "decode_List dec input = Ok (rest, xs) \<Longrightarrow> length rest < length input"
  by (auto simp: decode_List_def and_then_Ok_iff invalid_type_code_def read_defs read_byte_be
      split: if_splits dest!: read_lengths decode_n_shorter)

lemma decode_n_agree:
  "(\<And>i. length i \<le> length input \<Longrightarrow> dec i = dec' i) \<Longrightarrow>
   decode_n dec n input = decode_n dec' n input"
proof (induction n arbitrary: input)
  case (Suc n)
  have "decode_n dec n i = decode_n dec' n i" if "dec input = Ok (i, x)" for i x
    using Suc progress_le [OF that] by (intro Suc.IH) auto
  then show ?case using Suc.prems [of input] by (auto intro!: and_then_cong)
qed simp

lemma decode_List_agree:
  assumes "\<And>i. length i < length input \<Longrightarrow> dec i = dec' i"
  shows "decode_List dec input = decode_List dec' input"
proof -
  have "decode_n dec n i = decode_n dec' n i" if "length i < length input" for n i
    using that assms by (intro decode_n_agree) auto
  then show ?thesis
    unfolding decode_List_def
    by (auto intro!: and_then_cong simp: read_defs read_byte_be dest!: read_lengths)
qed

end

lemma decode_entries_shorter:
  assumes "progressing deck" "progressing decv"
  shows "decode_entries Panic n canon hashable deck decv count m input = Ok (rest, m') \<Longrightarrow>
    length rest \<le> length input"
proof (induction n arbitrary: count m input)
  case (Suc n)
  then show ?case
    using progressing.progress [OF assms(1)] progressing.progress [OF assms(2)]
    by (fastforce simp: and_then_Ok_iff split: if_splits)
qed simp

lemma decode_Map_progress:
  assumes "progressing deck" "progressing decv"
  shows "decode_Map canon hashable deck decv input = Ok (rest, m) \<Longrightarrow> length rest < length input"
  by (auto simp: decode_Map_def and_then_Ok_iff invalid_type_code_def read_defs read_byte_be
      simp del: decode_entries.simps
      split: if_splits dest!: read_lengths decode_entries_shorter [OF assms])

text \<open>The entry loop never runs out of turns: with one more than the bytes left it makes no
  difference how many are allowed, nor what running out of them would give.\<close>

lemma decode_entries_turns:
  assumes "progressing deck" "progressing decv"
    and "\<And>i. length i \<le> length input \<Longrightarrow> deck i = deck' i"
    and "\<And>i. length i \<le> length input \<Longrightarrow> decv i = decv' i"
  shows "length input < n \<Longrightarrow> length input < n' \<Longrightarrow>
    decode_entries stuck n canon hashable deck decv count m input =
    decode_entries stuck' n' canon hashable deck' decv' count m input"
  using assms(3,4)
proof (induction n arbitrary: n' count m input)
  case (Suc n)
  then obtain k where k: "n' = Suc k" by (cases n') auto
  have "decode_entries stuck n canon hashable deck decv c e j =
        decode_entries stuck' k canon hashable deck' decv' c e j"
    if "deck input = Ok (i, x)" "decv i = Ok (j, y)" for i x j y c e
    using progressing.progress [OF assms(1) that(1)] progressing.progress [OF assms(2) that(2)]
      Suc.prems k by (intro Suc.IH) auto
  moreover have "decv i = decv' i" if "deck input = Ok (i, x)" for i x
    using progressing.progress [OF assms(1) that] Suc.prems by auto
  ultimately show ?case
    using Suc.prems(3) [of input] by (auto simp: k intro!: and_then_cong)
qed simp

lemma decode_Map_agree:
  assumes "progressing dec" "\<And>i. length i < length input \<Longrightarrow> dec i = dec' i"
  shows "decode_Map canon hashable dec dec input = decode_Map canon hashable dec' dec' input"
proof -
  have "decode_entries Panic (Suc (length i)) canon hashable dec dec c e i =
        decode_entries Panic (Suc (length i)) canon hashable dec' dec' c e i"
    if "length i < length input" for i c e
    using that assms by (intro decode_entries_turns) auto
  then show ?thesis
    unfolding decode_Map_def
    by (auto intro!: and_then_cong simp: read_defs read_byte_be simp del: decode_entries.simps
        dest!: read_lengths)
qed

lemma progressing_Value_fuel: "progressing (decode_Value_fuel n X)"
proof (induction n)
  case 0
  show ?case by unfold_locales simp
next
  case (Suc n)
  show ?case
    by unfold_locales
       (auto simp: decode_Value_step_def and_then_Ok_iff map_second_Ok_iff invalid_type_code_def
         decode_DescribedValue_def
         decode_CollectionValue_def split: if_splits
         dest!: progressing.progress [OF Suc] progressing.decode_List_progress [OF Suc]
           decode_Map_progress [OF Suc Suc]
           Descriptor.progress SimpleValue.progress decode_TypeCode_length)
qed

interpretation Value_fuel: progressing "decode_Value_fuel n X" for n X
  by (rule progressing_Value_fuel)

interpretation Value: progressing "decode_Value X" for X
  unfolding decode_Value_def by unfold_locales (rule Value_fuel.progress)

lemma decode_DescribedValue_agree:
  assumes "\<And>i. length i < length input \<Longrightarrow> dec i = dec' i"
  shows "decode_DescribedValue dec input = decode_DescribedValue dec' input"
  unfolding decode_DescribedValue_def
  by (auto intro!: and_then_cong simp: assms dest!: decode_TypeCode_length Descriptor.progress)

lemma decode_CollectionValue_agree:
  assumes "progressing dec" "\<And>i. length i < length input \<Longrightarrow> dec i = dec' i"
  shows "decode_CollectionValue dec input = decode_CollectionValue dec' input"
proof -
  have lists: "decode_List dec input = decode_List dec' input"
    using assms by (rule progressing.decode_List_agree)
  have maps: "decode_Map canon_Value hashable_Value dec dec input =
      decode_Map canon_Value hashable_Value dec' dec' input"
    using assms by (rule decode_Map_agree)
  show ?thesis unfolding decode_CollectionValue_def lists maps ..
qed

lemma decode_Value_step_agree:
  assumes "progressing dec" "\<And>i. length i < length input \<Longrightarrow> dec i = dec' i"
  shows "decode_Value_step X dec input = decode_Value_step X dec' input"
proof -
  have described: "decode_DescribedValue dec input = decode_DescribedValue dec' input"
    using assms(2) by (rule decode_DescribedValue_agree)
  have collection: "decode_CollectionValue dec input = decode_CollectionValue dec' input"
    using assms by (rule decode_CollectionValue_agree)
  show ?thesis unfolding decode_Value_step_def described collection ..
qed

text \<open>More nestings than bytes are all the same, whatever is below them.\<close>

lemma decode_Value_nested_agree:
  "length input < n \<Longrightarrow> length input < k \<Longrightarrow>
   decode_Value_fuel n X input = decode_Value_nested stuck k X input"
proof (induction n arbitrary: k input)
  case (Suc n)
  then obtain k' where k: "k = Suc k'" by (cases k) auto
  have "decode_Value_fuel n X i = decode_Value_nested stuck k' X i" if "length i < length input" for i
    using that Suc.prems k by (intro Suc.IH) auto
  then show ?case
    unfolding k decode_Value_nested.simps by (rule decode_Value_step_agree [OF progressing_Value_fuel])
qed simp

lemma decode_Value_nested_enough:
  "length input < n \<Longrightarrow> decode_Value_nested stuck n X input = decode_Value X input"
  unfolding decode_Value_def by (rule decode_Value_nested_agree [symmetric]) auto

lemma decode_Value_unfold: "decode_Value X input = decode_Value_step X (decode_Value X) input"
proof -
  have "decode_Value_step X (decode_Value_fuel (length input) X) input =
      decode_Value_step X (decode_Value X) input"
    by (rule decode_Value_step_agree [OF progressing_Value_fuel]) (rule decode_Value_nested_enough)
  then show ?thesis by (simp add: decode_Value_def)
qed

lemma decode_Value_unique:
  assumes "\<And>input. decode input = decode_Value_step X decode input"
  shows "decode = decode_Value X"
proof
  show "decode input = decode_Value X input" for input
  proof (induction input rule: length_induct)
    case (1 input)
    then have "decode_Value_step X (decode_Value X) input = decode_Value_step X decode input"
      by (intro decode_Value_step_agree [OF Value.progressing_axioms]) auto
    with assms [of input] show ?case by (simp add: decode_Value_unfold [symmetric])
  qed
qed

section \<open>Round trip\<close>

fun wf_Value :: "('t, 'u) externals \<Rightarrow> ('t, 'u) Value \<Rightarrow> bool" where
  "wf_Value X (Value.Simple v) = wf_SimpleValue X v"
| "wf_Value X (Value.Collection (List xs)) =
     ((\<forall>v \<in> set xs. wf_Value X v) \<and> short_List encoded_size_Value xs)"
| "wf_Value X (Value.Collection (Map m)) =
     ((\<forall>p \<in> set m. wf_Value X (fst p) \<and> wf_Value X (snd p)) \<and>
      wf_Map canon_Value hashable_Value encoded_size_Value encoded_size_Value m)"
| "wf_Value X (Value.Described (DescribedValue d v)) = (wf_Descriptor d \<and> wf_Value X v)"

lemma encode_item_length:
  "v \<in> set xs \<Longrightarrow> length (enc v) < length (encode_List sz enc xs)"
proof -
  assume "v \<in> set xs"
  then have "length (enc v) \<le> length (concat (map enc xs))"
    by (induction xs) auto
  then show ?thesis by (simp add: encode_List_def Let_def)
qed

lemma encode_entry_length:
  "p \<in> set m \<Longrightarrow> length (enck (fst p) @ encv (snd p)) < length (encode_Map szk szv enck encv m)"
proof -
  assume "p \<in> set m"
  then have "length (enck (fst p) @ encv (snd p)) \<le>
      length (concat (map (\<lambda>p. enck (fst p) @ encv (snd p)) m))"
    by (induction m) auto
  then show ?thesis by (simp add: encode_Map_def Let_def)
qed

lemma decode_Value_fuel_dispatch:
  "starts_with {TypeCode.Described} bs \<Longrightarrow>
   decode_Value_fuel (Suc n) X (bs @ rest) =
     map_second Value.Described (decode_DescribedValue (decode_Value_fuel n X) (bs @ rest))"
  "starts_with {TypeCode.List8} bs \<Longrightarrow>
   decode_Value_fuel (Suc n) X (bs @ rest) =
     map_second (Value.Collection \<circ> List) (decode_List (decode_Value_fuel n X) (bs @ rest))"
  "starts_with {TypeCode.Map8, TypeCode.Map32} bs \<Longrightarrow>
   decode_Value_fuel (Suc n) X (bs @ rest) =
     map_second (Value.Collection \<circ> Map) (decode_Map canon_Value hashable_Value
       (decode_Value_fuel n X) (decode_Value_fuel n X) (bs @ rest))"
  by (auto simp: decode_Value_step_def starts_with_def decode_CollectionValue_def map_second_def
      intro!: and_then_cong)

definition simple_codes :: "TypeCode set" where
  "simple_codes = - {TypeCode.Described, TypeCode.List0, TypeCode.List8, TypeCode.List32,
     TypeCode.Map8, TypeCode.Map32, TypeCode.Array8, TypeCode.Array32}"

lemma encode_SimpleValue_starts_with: "starts_with simple_codes (encode_SimpleValue X v)"
  unfolding simple_codes_def
  by (cases v) (auto intro: scalar_starts_with [THEN starts_with_mono])

lemma decode_Value_fuel_simple:
  assumes "starts_with simple_codes bs"
  shows "decode_Value_fuel (Suc n) X (bs @ rest) =
    map_second Value.Simple (decode_SimpleValue X (bs @ rest))"
proof -
  obtain c r where "c \<in> simple_codes" "bs = encode_TypeCode c @ r"
    using assms by (auto simp: starts_with_def)
  then show ?thesis by (simp add: decode_Value_step_def simple_codes_def)
qed

lemma decode_Value_fuel_enc:
  "wf_Value X v \<Longrightarrow> length (encode_Value X v) < n \<Longrightarrow>
   decode_Value_fuel n X (encode_Value X v @ rest) = Ok (rest, v)"
proof (induction X v arbitrary: n rest rule: wf_Value.induct)
  case (1 X v)
  then obtain k where "n = Suc k" by (cases n) auto
  with 1 show ?case
    by (simp add: decode_Value_fuel_simple encode_SimpleValue_starts_with SimpleValue.dec_enc
        del: decode_Value_nested.simps)
next
  case (2 X xs)
  then obtain k where n: "n = Suc k" by (cases n) auto
  have "codec (encode_Value X) (decode_Value_fuel k X) (\<lambda>v. v \<in> set xs)"
    using 2 encode_item_length [of _ xs "encode_Value X" encoded_size_Value] n
    by unfold_locales (fastforce intro!: "2.IH")
  from codec.decode_List_enc [OF this, of xs encoded_size_Value rest] show ?case
    using 2 by (simp add: n decode_Value_fuel_dispatch encode_List_starts_with list_all_iff
        del: decode_Value_nested.simps)
next
  case (3 X m)
  then obtain k where n: "n = Suc k" by (cases n) auto
  have len: "length (encode_Value X (fst p)) < k" "length (encode_Value X (snd p)) < k"
    if "p \<in> set m" for p
    using encode_entry_length [OF that, of "encode_Value X" "encode_Value X"
        encoded_size_Value encoded_size_Value] "3.prems" n by auto
  have "map_codec (encode_Value X) (decode_Value_fuel k X) (\<lambda>v. v \<in> fst ` set m)
      (encode_Value X) (decode_Value_fuel k X) (\<lambda>v. v \<in> snd ` set m)"
    using 3 len by (unfold_locales) (auto intro!: "3.IH" dest: Value_fuel.progress)
  from map_codec.decode_Map_enc [OF this, of m canon_Value hashable_Value encoded_size_Value
      encoded_size_Value rest] show ?case
    using 3 by (simp add: n decode_Value_fuel_dispatch encode_Map_starts_with list_all_iff
        del: decode_Value_nested.simps)
next
  case (4 X d v)
  then obtain k where n: "n = Suc k" by (cases n) auto
  have "decode_Value_fuel k X (encode_Value X v @ rest) = Ok (rest, v)"
    using 4 n by (intro "4.IH") auto
  then show ?case
    using 4 by (simp add: n decode_Value_step_def decode_DescribedValue_def Descriptor.dec_enc)
qed

interpretation Value: codec "encode_Value X" "decode_Value X" "wf_Value X" for X
  by unfold_locales (auto simp: decode_Value_def intro!: decode_Value_fuel_enc
      simp del: decode_Value_nested.simps)

section \<open>Announced sizes\<close>

context sized
begin

lemma size_List:
  "list_all fits xs \<Longrightarrow> encoded_size_List size_of xs = of_nat (length (encode_List size_of enc xs))"
  using fold_size_enc [of xs 0]
  by (simp add: encoded_size_List_def encode_List_def content_size_List_def Let_def)

end

lemma size_Map:
  assumes "sized enck szk fitk" "sized encv szv fitv"
    and "list_all (\<lambda>p. fitk (fst p) \<and> fitv (snd p)) m"
  shows "encoded_size_Map szk szv m = of_nat (length (encode_Map szk szv enck encv m))"
proof -
  have "sized (\<lambda>p. enck (fst p) @ encv (snd p)) (\<lambda>p. szk (fst p) + szv (snd p))
      (\<lambda>p. fitk (fst p) \<and> fitv (snd p))"
    by unfold_locales (simp add: sized.size_enc [OF assms(1)] sized.size_enc [OF assms(2)])
  from sized.fold_size_enc [OF this assms(3), of 0]
  have "content_size_Map szk szv m =
      of_nat (length (concat (map (\<lambda>p. enck (fst p) @ encv (snd p)) m)))"
    by (simp add: content_size_Map_def add.assoc)
  then show ?thesis
    by (simp add: encoded_size_Map_def encode_Map_def Let_def)
qed

fun fits_Value :: "('t, 'u) externals \<Rightarrow> ('t, 'u) Value \<Rightarrow> bool" where
  "fits_Value X (Value.Simple v) = fits_SimpleValue X v"
| "fits_Value X (Value.Collection (List xs)) = (\<forall>v \<in> set xs. fits_Value X v)"
| "fits_Value X (Value.Collection (Map m)) =
     (\<forall>p \<in> set m. fits_Value X (fst p) \<and> fits_Value X (snd p))"
| "fits_Value X (Value.Described (DescribedValue d v)) = (fits_Descriptor d \<and> fits_Value X v)"

lemma fits_Value_size:
  "fits_Value X v \<Longrightarrow> encoded_size_Value v = of_nat (length (encode_Value X v))"
proof (induction X v rule: fits_Value.induct)
  case (1 X v)
  then show ?case by (simp add: SimpleValue.size_enc)
next
  case (2 X xs)
  have "sized (encode_Value X) encoded_size_Value (\<lambda>v. v \<in> set xs)"
    using 2 by unfold_locales auto
  then show ?case by (simp add: sized.size_List list_all_iff)
next
  case (3 X m)
  have "sized (encode_Value X) encoded_size_Value (\<lambda>v. v \<in> fst ` set m)"
    "sized (encode_Value X) encoded_size_Value (\<lambda>v. v \<in> snd ` set m)"
    using 3 by (unfold_locales; auto)+
  then show ?case by (simp add: size_Map list_all_iff)
next
  case (4 X d v)
  then show ?case by (simp add: Descriptor.size_enc)
qed

interpretation Value: sized "encode_Value X" encoded_size_Value "fits_Value X" for X
  by unfold_locales (rule fits_Value_size)

section \<open>Properties of AMQP values\<close>

text \<open>Every AMQP value that the short forms can carry, nested lists, maps and described
  values included, is decoded back from its encoding, whatever bytes follow.\<close>

theorem value_round_trip:
  assumes "wf_Value X v"
  shows "decode_Value X (encode_Value X v @ rest) = Ok (rest, v)"
  using assms by (rule Value.dec_enc)

definition sample_value :: "(i64, bytes) Value" where
  "sample_value = Value.Collection (List
     [Value.Simple (SimpleValue.Uint 7), Value.Simple SimpleValue.Null,
      Value.Described (DescribedValue (Descriptor.Ulong 3)
        (Value.Collection (List [Value.Simple (SimpleValue.Boolean True)])))])"

lemma sample_value_wf: "wf_Value byte_externals sample_value"
  by (simp add: sample_value_def short_List_def content_size_List_def encoded_size_List_def
      Let_def amqp_defs)

theorem value_round_trip_witness:
  "decode_Value byte_externals (encode_Value byte_externals sample_value @ [1, 2]) =
     Ok ([1, 2], sample_value)"
  by (rule value_round_trip [OF sample_value_wf])

text \<open>C27.  \<open>Value::decode\<close> terminates on every input, well formed or not: more nestings than there
  are bytes give the same result whatever decoder stands at the bottom of them, so the bottom is
  never reached; the recursive equation of the code therefore determines the decoder, it has this
  one solution and no other; and the loop over the entries of a map never needs more turns than
  there are bytes, whatever running out of them would give.\<close>

theorem value_decoder_terminates:
  fixes X :: "('t, 'u) externals"
  shows "(length input < n \<longrightarrow> decode_Value_nested stuck n X input = decode_Value X input) \<and>
    decode_Value X input = decode_Value_step X (decode_Value X) input \<and>
    ((\<forall>i. decode i = decode_Value_step X decode i) \<longrightarrow> decode = decode_Value X) \<and>
    (length input < n \<longrightarrow>
      decode_entries out_of_turns n canon_Value hashable_Value (decode_Value X) (decode_Value X) num m input =
      decode_entries Panic (Suc (length input)) canon_Value hashable_Value (decode_Value X) (decode_Value X)
        num m input)"
proof (intro conjI impI)
  show "decode_Value_nested stuck n X input = decode_Value X input" if "length input < n"
    using that by (rule decode_Value_nested_enough)
  show "decode_Value X input = decode_Value_step X (decode_Value X) input"
    by (rule decode_Value_unfold)
  show "decode = decode_Value X" if "\<forall>i. decode i = decode_Value_step X decode i"
    using that by (intro decode_Value_unique) auto
qed (rule decode_entries_turns [OF Value.progressing_axioms Value.progressing_axioms]; simp)

text \<open>An input that nests: a list in a described value in a list.  With \<open>Panic\<close> or with an error at the
  bottom, thirty nestings give the value; two nestings reach the bottom.\<close>

theorem value_decoder_terminates_witness:
  "decode_Value_nested (\<lambda>_. Err Empty) 30 byte_externals (encode_Value byte_externals sample_value) =
     decode_Value byte_externals (encode_Value byte_externals sample_value) \<and>
   decode_Value byte_externals (encode_Value byte_externals sample_value) = Ok ([], sample_value) \<and>
   decode_Value_nested (\<lambda>_. Err Empty) 2 byte_externals (encode_Value byte_externals sample_value) =
     Err Empty"
proof (intro conjI)
  have "length (encode_Value byte_externals sample_value) < 30" by code_simp
  then show "decode_Value_nested (\<lambda>_. Err Empty) 30 byte_externals
      (encode_Value byte_externals sample_value) =
     decode_Value byte_externals (encode_Value byte_externals sample_value)"
    using value_decoder_terminates [THEN conjunct1] by blast
  show "decode_Value byte_externals (encode_Value byte_externals sample_value) = Ok ([], sample_value)"
    by (rule Value.dec_enc_exact) (rule sample_value_wf)
  show "decode_Value_nested (\<lambda>_. Err Empty) 2 byte_externals (encode_Value byte_externals sample_value) =
     Err Empty"
    by code_simp
qed

lemma content_size_replicate:
  "content_size_List sz (replicate n v) = of_nat n * sz v"
proof -
  have "foldl (\<lambda>acc item. acc + sz item) a (replicate n v) = a + of_nat n * sz v" for a
    by (induction n arbitrary: a) (simp_all add: algebra_simps)
  then show ?thesis by (simp add: content_size_List_def)
qed

lemma ucast_drop_bit_0:
  fixes w :: u32
  assumes "w < 2 ^ 16" "16 \<le> k"
  shows "drop_bit k w = 0"
proof -
  have "unat w < 2 ^ 16" using assms(1) by (simp add: word_less_nat_alt)
  also have "(2 :: nat) ^ 16 \<le> 2 ^ k" using assms(2) by (rule power_increasing) simp
  finally have "unat (drop_bit k w) = 0"
    by (subst unsigned_drop_bit_eq)
       (simp add: drop_bit_eq_div [where ?'a = nat] le_less_trans [OF take_bit_nat_less_eq_self])
  then show ?thesis by (simp only: unsigned_eq_0_iff)
qed

lemma encode_u32_short:
  assumes "w < 2 ^ 16"
  shows "\<exists>r. encode_u32 w = 0 # 0 # r"
  using ucast_drop_bit_0 [OF assms, of 24] ucast_drop_bit_0 [OF assms, of 16]
  by (simp add: encode_u32_def numeral_eq_Suc)

text \<open>A list whose content needs the long form is written with the type code of the
  short form and 32-bit sizes: the decoder takes the two leading zero bytes as size and count
  and returns the empty list, leaving the rest of the encoding as input.\<close>

theorem large_list_decodes_empty:
  assumes "255 < content_size_List encoded_size_Value xs + 1"
    and "content_size_List encoded_size_Value xs + 4 < 2 ^ 16"
  shows "\<exists>rest'. decode_Value X (encode_Value X (Value.Collection (List xs)) @ rest) =
    Ok (rest', Value.Collection (List []))"
proof -
  obtain r where r: "encode_u32 (content_size_List encoded_size_Value xs + 4) = 0 # 0 # r"
    using encode_u32_short [OF assms(2)] by blast
  obtain r' where "encode_Value X (Value.Collection (List xs)) @ rest =
      encode_TypeCode TypeCode.List8 @ 0 # 0 # r'"
    using assms(1) r by (simp add: encode_List_def Let_def)
  then show ?thesis
    by (simp add: decode_Value_def decode_Value_step_def decode_CollectionValue_def decode_List_def
        read_u8_def check_len_def)
qed

theorem large_list_decodes_empty_witness:
  "\<exists>rest'. decode_Value byte_externals
      (encode_Value byte_externals (Value.Collection (List
        (replicate 255 (Value.Simple SimpleValue.Null)))) @ []) =
    Ok (rest', Value.Collection (List []))"
  by (rule large_list_decodes_empty)
     (simp_all add: content_size_replicate)

end
