(* ===== verification/Amqp_Message.thy ===== *)
theory Amqp_Message
  imports Amqp_Values
begin

text \<open>
  AMQP messages (\<open>protocol/src/message\<close>): \<open>Header\<close>, \<open>Properties\<close>, \<open>MessageBody\<close>,
  \<open>MessageSection\<close> and \<open>Message\<close> of \<open>amqp/\<close> (here \<open>AmqpHeader\<close>, \<open>AmqpMessage\<close>), and the
  wrapper \<open>Message\<close> of \<open>message/mod.rs\<close> with its publishing id.

  A message is a sequence of sections.  \<open>sections_of\<close> lists the sections the encoder writes, in
  its order, and the decoder is shown to fold them back into the message.
\<close>

section \<open>Section descriptors\<close>

definition MESSAGE_HEADER :: Descriptor where "MESSAGE_HEADER = Descriptor.Ulong 112"
definition MESSAGE_DELIVERY_ANNOTATIONS :: Descriptor where "MESSAGE_DELIVERY_ANNOTATIONS = Descriptor.Ulong 113"
definition MESSAGE_ANNOTATIONS :: Descriptor where "MESSAGE_ANNOTATIONS = Descriptor.Ulong 114"
definition MESSAGE_PROPERTIES :: Descriptor where "MESSAGE_PROPERTIES = Descriptor.Ulong 115"
definition MESSAGE_APPLICATION_PROPERTIES :: Descriptor where "MESSAGE_APPLICATION_PROPERTIES = Descriptor.Ulong 116"
definition MESSAGE_BODY_DATA :: Descriptor where "MESSAGE_BODY_DATA = Descriptor.Ulong 117"
definition MESSAGE_BODY_SEQUENCE :: Descriptor where "MESSAGE_BODY_SEQUENCE = Descriptor.Ulong 118"
definition MESSAGE_BODY_VALUE :: Descriptor where "MESSAGE_BODY_VALUE = Descriptor.Ulong 119"
definition MESSAGE_FOOTER :: Descriptor where "MESSAGE_FOOTER = Descriptor.Ulong 120"

lemmas section_descriptors = MESSAGE_HEADER_def MESSAGE_DELIVERY_ANNOTATIONS_def
  MESSAGE_ANNOTATIONS_def MESSAGE_PROPERTIES_def MESSAGE_APPLICATION_PROPERTIES_def
  MESSAGE_BODY_DATA_def MESSAGE_BODY_SEQUENCE_def MESSAGE_BODY_VALUE_def MESSAGE_FOOTER_def

lemma section_descriptors_wf [simp]:
  "wf_Descriptor MESSAGE_HEADER" "wf_Descriptor MESSAGE_DELIVERY_ANNOTATIONS"
  "wf_Descriptor MESSAGE_ANNOTATIONS" "wf_Descriptor MESSAGE_PROPERTIES"
  "wf_Descriptor MESSAGE_APPLICATION_PROPERTIES" "wf_Descriptor MESSAGE_BODY_DATA"
  "wf_Descriptor MESSAGE_BODY_SEQUENCE" "wf_Descriptor MESSAGE_BODY_VALUE"
  "wf_Descriptor MESSAGE_FOOTER"
  by (simp_all add: section_descriptors)

lemma section_descriptors_fit [simp]:
  "fits_Descriptor MESSAGE_HEADER" "fits_Descriptor MESSAGE_DELIVERY_ANNOTATIONS"
  "fits_Descriptor MESSAGE_ANNOTATIONS" "fits_Descriptor MESSAGE_PROPERTIES"
  "fits_Descriptor MESSAGE_APPLICATION_PROPERTIES" "fits_Descriptor MESSAGE_BODY_DATA"
  "fits_Descriptor MESSAGE_BODY_SEQUENCE" "fits_Descriptor MESSAGE_BODY_VALUE"
  "fits_Descriptor MESSAGE_FOOTER"
  by (simp_all add: section_descriptors)

section \<open>Lists with named fields\<close>

primrec decode_fields ::
  "(bytes \<Rightarrow> nat \<Rightarrow> 'a \<Rightarrow> 'a decoded) \<Rightarrow> nat \<Rightarrow> nat \<Rightarrow> bytes \<Rightarrow> 'a \<Rightarrow> 'a decoded" where
  "decode_fields f 0 idx input dest = Ok (input, dest)"
| "decode_fields f (Suc n) idx input dest =
     and_then (f input idx dest) (\<lambda>(input, dest). decode_fields f n (Suc idx) input dest)"

definition decode_with_fields ::
  "(bytes \<Rightarrow> nat \<Rightarrow> 'a \<Rightarrow> 'a decoded) \<Rightarrow> bytes \<Rightarrow> 'a \<Rightarrow> 'a decoded" where
  "decode_with_fields f input dest =
     and_then (decode_TypeCode input) (\<lambda>(input, code).
       if code = TypeCode.List0 then Ok (input, dest)
       else if code = TypeCode.List8 then
         and_then (read_u8 input) (\<lambda>(input, _).
         and_then (read_u8 input) (\<lambda>(input, count). decode_fields f (unat count) 0 input dest))
       else if code = TypeCode.List32 then
         and_then (read_u32 input) (\<lambda>(input, _).
         and_then (read_u32 input) (\<lambda>(input, count). decode_fields f (unat count) 0 input dest))
       else Err (from_amqp (AmqpMessageParse
              (''Invalid type code '' @ type_code_debug code @ '' for list''))))"

section \<open>Header\<close>

record AmqpHeader =
  durable :: bool
  priority :: u8
  ttl :: "u32 option"
  first_acquirer :: bool
  delivery_count :: u32

definition default_AmqpHeader :: AmqpHeader where
  "default_AmqpHeader =
     \<lparr>durable = False, priority = 4, ttl = None, first_acquirer = False, delivery_count = 0\<rparr>"

definition content_size_AmqpHeader :: "AmqpHeader \<Rightarrow> u32" where
  "content_size_AmqpHeader h =
     encoded_size_Boolean (durable h) + encoded_size_UByte (priority h) +
     encoded_size_Option encoded_size_UInt (ttl h) + encoded_size_Boolean (first_acquirer h) +
     encoded_size_UInt (delivery_count h)"

definition encoded_size_AmqpHeader :: "AmqpHeader \<Rightarrow> u32" where
  "encoded_size_AmqpHeader h =
     (let sz = content_size_AmqpHeader h + encoded_size_Descriptor MESSAGE_HEADER in
      (if sz > 255 then 9 else 3) + sz)"

definition encode_AmqpHeader :: "AmqpHeader \<Rightarrow> bytes" where
  "encode_AmqpHeader h =
     encode_Descriptor MESSAGE_HEADER @
     (let content_size = content_size_AmqpHeader h in
      if content_size + encoded_size_Descriptor MESSAGE_HEADER > 255
      then encode_TypeCode TypeCode.List8 @ encode_u32 (content_size + 4) @ encode_u32 5
      else encode_TypeCode TypeCode.List8 @ encode_u8 (ucast (content_size + 4)) @ encode_u8 5) @
     encode_Boolean (durable h) @ encode_UByte (priority h) @
     encode_Option encode_UInt (ttl h) @ encode_Boolean (first_acquirer h) @
     encode_UInt (delivery_count h)"

definition list_decoder_header :: "bytes \<Rightarrow> nat \<Rightarrow> AmqpHeader \<Rightarrow> AmqpHeader decoded" where
  "list_decoder_header input idx dest =
    (if idx = 0 then and_then (decode_Option decode_Boolean input)
       (\<lambda>(input, v). Ok (input, dest\<lparr>durable := case_option False id v\<rparr>))
     else if idx = 1 then and_then (decode_Option decode_UByte input)
       (\<lambda>(input, v). Ok (input, dest\<lparr>priority := case_option 4 id v\<rparr>))
     else if idx = 2 then and_then (decode_Option decode_UInt input)
       (\<lambda>(input, v). Ok (input, dest\<lparr>ttl := v\<rparr>))
     else if idx = 3 then and_then (decode_Option decode_Boolean input)
       (\<lambda>(input, v). Ok (input, dest\<lparr>first_acquirer := case_option False id v\<rparr>))
     else if idx = 4 then and_then (decode_Option decode_UInt input)
       (\<lambda>(input, v). Ok (input, dest\<lparr>delivery_count := case_option 4 id v\<rparr>))
     else Ok (input, dest))"

text \<open>A delivery count that is left out as null is read as 4, the default of the priority; the default
  header has 0, as has the standard.\<close>

lemma absent_delivery_count:
  "list_decoder_header (encode_Option encode_UInt None @ rest) 4 default_AmqpHeader =
     Ok (rest, default_AmqpHeader\<lparr>delivery_count := 4\<rparr>)"
  "delivery_count default_AmqpHeader = 0"
  using UInt.opt.dec_enc [of None rest]
  by (simp_all add: list_decoder_header_def default_AmqpHeader_def)

text \<open>The debug rendering of a descriptor, without the escapes of its string.\<close>

definition show_descriptor :: "Descriptor \<Rightarrow> string" where
  "show_descriptor d =
    (case d of Descriptor.Ulong v \<Rightarrow> ''Ulong('' @ show_nat (unat v) @ '')''
     | Descriptor.Symbol s \<Rightarrow> ''Symbol(Symbol('' @ [CHR 0x22] @ s @ [CHR 0x22] @ ''))'')"

definition decode_AmqpHeader :: "AmqpHeader decoder" where
  "decode_AmqpHeader input =
     and_then (decode_Descriptor input) (\<lambda>(input, descriptor).
       if descriptor = MESSAGE_HEADER
       then decode_with_fields list_decoder_header input default_AmqpHeader
       else Err (from_amqp (AmqpMessageParse
              (''Invalid descriptor for header '' @ show_descriptor descriptor))))"

lemma decode_fields_Suc_numeral [simp]:
  "decode_fields f (numeral k) idx input dest =
     and_then (f input idx dest)
       (\<lambda>(input, dest). decode_fields f (pred_numeral k) (Suc idx) input dest)"
  by (simp add: numeral_eq_Suc)

lemma header_short: "\<not> content_size_AmqpHeader h + encoded_size_Descriptor MESSAGE_HEADER > 255"
  by (auto simp: content_size_AmqpHeader_def amqp_defs encoded_size_Option_def section_descriptors
      split: option.splits)

interpretation AmqpHeader: codec encode_AmqpHeader decode_AmqpHeader "\<lambda>_. True"
proof
  fix h rest
  show "decode_AmqpHeader (encode_AmqpHeader h @ rest) = Ok (rest, h)"
    using header_short [of h]
    by (simp add: encode_AmqpHeader_def decode_AmqpHeader_def decode_with_fields_def Let_def
        round_trips Descriptor.dec_enc list_decoder_header_def Boolean.decode_Option_Some
        UByte.decode_Option_Some UInt.decode_Option_Some UInt.opt.dec_enc option.pred_True
        default_AmqpHeader_def)
qed

interpretation AmqpHeader: sized encode_AmqpHeader encoded_size_AmqpHeader "\<lambda>_. True"
proof
  fix h
  show "encoded_size_AmqpHeader h = of_nat (length (encode_AmqpHeader h))"
    using header_short [of h]
    by (simp add: encode_AmqpHeader_def encoded_size_AmqpHeader_def content_size_AmqpHeader_def
        Let_def scalar_sizes UInt.opt_size option.pred_True Descriptor.size_enc)
qed

section \<open>Properties\<close>

record ('t, 'u) Properties =
  message_id :: "('t, 'u) MessageId option"
  user_id :: "bytes option"
  to :: "string option"
  subject :: "string option"
  reply_to :: "string option"
  correlation_id :: "('t, 'u) MessageId option"
  content_type :: "string option"
  content_encoding :: "string option"
  absolute_expiry_time :: "'t option"
  creation_time :: "'t option"
  group_id :: "string option"
  group_sequence :: "u32 option"
  reply_to_group_id :: "string option"

definition default_Properties :: "('t, 'u) Properties" where
  "default_Properties = \<lparr>message_id = None, user_id = None, to = None, subject = None, reply_to = None, correlation_id = None, content_type = None, content_encoding = None, absolute_expiry_time = None, creation_time = None, group_id = None, group_sequence = None, reply_to_group_id = None\<rparr>"

definition content_size_Properties :: "('t, 'u) Properties \<Rightarrow> u32" where
  "content_size_Properties p =
     encoded_size_Option encoded_size_MessageId (message_id p) +
     encoded_size_Option encoded_size_Binary (user_id p) +
     encoded_size_Option encoded_size_Str (to p) +
     encoded_size_Option encoded_size_Str (subject p) +
     encoded_size_Option encoded_size_Str (reply_to p) +
     encoded_size_Option encoded_size_MessageId (correlation_id p) +
     encoded_size_Option encoded_size_Symbol (content_type p) +
     encoded_size_Option encoded_size_Symbol (content_encoding p) +
     encoded_size_Option encoded_size_Timestamp (absolute_expiry_time p) +
     encoded_size_Option encoded_size_Timestamp (creation_time p) +
     encoded_size_Option encoded_size_Str (group_id p) +
     encoded_size_Option encoded_size_UInt (group_sequence p) +
     encoded_size_Option encoded_size_Str (reply_to_group_id p)"

definition encoded_size_Properties :: "('t, 'u) Properties \<Rightarrow> u32" where
  "encoded_size_Properties p =
     (let sz = encoded_size_Descriptor MESSAGE_PROPERTIES + content_size_Properties p in
      (if sz > 255 then 9 else 3) + sz)"

definition encode_Properties_fields :: "('t, 'u) externals \<Rightarrow> ('t, 'u) Properties \<Rightarrow> bytes" where
  "encode_Properties_fields X p =
     encode_Option (encode_MessageId X) (message_id p) @
     encode_Option encode_Binary (user_id p) @
     encode_Option encode_Str (to p) @
     encode_Option encode_Str (subject p) @
     encode_Option encode_Str (reply_to p) @
     encode_Option (encode_MessageId X) (correlation_id p) @
     encode_Option encode_Symbol (content_type p) @
     encode_Option encode_Symbol (content_encoding p) @
     encode_Option (encode_Timestamp X) (absolute_expiry_time p) @
     encode_Option (encode_Timestamp X) (creation_time p) @
     encode_Option encode_Str (group_id p) @
     encode_Option encode_UInt (group_sequence p) @
     encode_Option encode_Str (reply_to_group_id p)"

definition encode_Properties :: "('t, 'u) externals \<Rightarrow> ('t, 'u) Properties \<Rightarrow> bytes" where
  "encode_Properties X p =
     encode_Descriptor MESSAGE_PROPERTIES @
     (let content_size = content_size_Properties p in
      if content_size + 1 > 255
      then encode_TypeCode TypeCode.List8 @ encode_u32 (content_size + 4) @ encode_u32 13
      else encode_TypeCode TypeCode.List8 @ encode_u8 (ucast (content_size + 1)) @ encode_u8 13) @
     encode_Properties_fields X p"

definition list_decoder_properties :: "('t, 'u) externals \<Rightarrow> bytes \<Rightarrow> nat \<Rightarrow>
    ('t, 'u) Properties \<Rightarrow> ('t, 'u) Properties decoded" where
  "list_decoder_properties X input idx dest =
    (if idx = 0 then and_then (decode_Option (decode_MessageId X) input)
       (\<lambda>(input, v). Ok (input, dest\<lparr>message_id := v\<rparr>))
     else if idx = 1 then and_then (decode_Option decode_Binary input)
       (\<lambda>(input, v). Ok (input, dest\<lparr>user_id := v\<rparr>))
     else if idx = 2 then and_then (decode_Option decode_Str input)
       (\<lambda>(input, v). Ok (input, dest\<lparr>to := v\<rparr>))
     else if idx = 3 then and_then (decode_Option decode_Str input)
       (\<lambda>(input, v). Ok (input, dest\<lparr>subject := v\<rparr>))
     else if idx = 4 then and_then (decode_Option decode_Str input)
       (\<lambda>(input, v). Ok (input, dest\<lparr>reply_to := v\<rparr>))
     else if idx = 5 then and_then (decode_Option (decode_MessageId X) input)
       (\<lambda>(input, v). Ok (input, dest\<lparr>correlation_id := v\<rparr>))
     else if idx = 6 then and_then (decode_Option decode_Symbol input)
       (\<lambda>(input, v). Ok (input, dest\<lparr>content_type := v\<rparr>))
     else if idx = 7 then and_then (decode_Option decode_Symbol input)
       (\<lambda>(input, v). Ok (input, dest\<lparr>content_encoding := v\<rparr>))
     else if idx = 8 then and_then (decode_Option (decode_Timestamp X) input)
       (\<lambda>(input, v). Ok (input, dest\<lparr>absolute_expiry_time := v\<rparr>))
     else if idx = 9 then and_then (decode_Option (decode_Timestamp X) input)
       (\<lambda>(input, v). Ok (input, dest\<lparr>creation_time := v\<rparr>))
     else if idx = 10 then and_then (decode_Option decode_Str input)
       (\<lambda>(input, v). Ok (input, dest\<lparr>group_id := v\<rparr>))
     else if idx = 11 then and_then (decode_Option decode_UInt input)
       (\<lambda>(input, v). Ok (input, dest\<lparr>group_sequence := v\<rparr>))
     else if idx = 12 then and_then (decode_Option decode_Str input)
       (\<lambda>(input, v). Ok (input, dest\<lparr>reply_to_group_id := v\<rparr>))
     else Ok (input, dest))"

definition decode_Properties :: "('t, 'u) externals \<Rightarrow> ('t, 'u) Properties decoder" where
  "decode_Properties X input =
     and_then (decode_Descriptor input) (\<lambda>(input, descriptor).
       if descriptor = MESSAGE_PROPERTIES
       then decode_with_fields (list_decoder_properties X) input default_Properties
       else Err (from_amqp (AmqpMessageParse
              (''Invalid descriptor for properties '' @ show_descriptor descriptor))))"

text \<open>As for lists, the large form is written with the code of the small one.\<close>

definition wf_Properties :: "('t, 'u) externals \<Rightarrow> ('t, 'u) Properties \<Rightarrow> bool" where
  "wf_Properties X p \<longleftrightarrow> \<not> content_size_Properties p + 1 > 255 \<and>
     pred_option (wf_MessageId X) (message_id p) \<and>
     pred_option wf_Binary (user_id p) \<and>
     pred_option wf_Str (to p) \<and>
     pred_option wf_Str (subject p) \<and>
     pred_option wf_Str (reply_to p) \<and>
     pred_option (wf_MessageId X) (correlation_id p) \<and>
     pred_option wf_Str (content_type p) \<and>
     pred_option wf_Str (content_encoding p) \<and>
     pred_option (wf_Timestamp X) (absolute_expiry_time p) \<and>
     pred_option (wf_Timestamp X) (creation_time p) \<and>
     pred_option wf_Str (group_id p) \<and>
     pred_option wf_Str (reply_to_group_id p)"

definition fits_Properties :: "('t, 'u) externals \<Rightarrow> ('t, 'u) Properties \<Rightarrow> bool" where
  "fits_Properties X p \<longleftrightarrow>
     (content_size_Properties p + 1 > 255 \<longleftrightarrow>
      encoded_size_Descriptor MESSAGE_PROPERTIES + content_size_Properties p > 255) \<and>
     pred_option (fits_MessageId X) (message_id p) \<and>
     pred_option wf_Binary (user_id p) \<and>
     pred_option (\<lambda>s. length s < 2 ^ 32) (to p) \<and>
     pred_option (\<lambda>s. length s < 2 ^ 32) (subject p) \<and>
     pred_option (\<lambda>s. length s < 2 ^ 32) (reply_to p) \<and>
     pred_option (fits_MessageId X) (correlation_id p) \<and>
     pred_option (\<lambda>s. length s < 2 ^ 32) (content_type p) \<and>
     pred_option (\<lambda>s. length s < 2 ^ 32) (content_encoding p) \<and>
     pred_option (\<lambda>s. length s < 2 ^ 32) (group_id p) \<and>
     pred_option (\<lambda>s. length s < 2 ^ 32) (reply_to_group_id p)"

interpretation Properties: codec "encode_Properties X" "decode_Properties X" "wf_Properties X" for X
proof
  fix p :: "('a, 'b) Properties" and rest
  assume "wf_Properties X p"
  then show "decode_Properties X (encode_Properties X p @ rest) = Ok (rest, p)"
    by (simp add: encode_Properties_def encode_Properties_fields_def decode_Properties_def
        decode_with_fields_def wf_Properties_def Let_def round_trips Descriptor.dec_enc
        list_decoder_properties_def MessageId.opt.dec_enc Binary.opt.dec_enc Str.opt.dec_enc
        Symbol.opt.dec_enc Timestamp.opt.dec_enc UInt.opt.dec_enc option.pred_True
        default_Properties_def)
qed

interpretation Properties:
  sized "encode_Properties X" encoded_size_Properties "fits_Properties X" for X
proof
  fix p :: "('a, 'b) Properties"
  assume fits: "fits_Properties X p"
  then have "content_size_Properties p = of_nat (length (encode_Properties_fields X p))"
    by (simp add: content_size_Properties_def encode_Properties_fields_def fits_Properties_def
        MessageId.opt_size [of X] Binary.opt_size Str.opt_size Symbol.opt_size
        Timestamp.opt_size [of _ X] UInt.opt_size option.pred_True)
  then show "encoded_size_Properties p = of_nat (length (encode_Properties X p))"
    using fits
    by (simp add: encode_Properties_def encoded_size_Properties_def fits_Properties_def Let_def
        Descriptor.size_enc)
qed

section \<open>Annotations and application properties\<close>

type_synonym ('t, 'u) Annotations = "(AnnonationKey \<times> ('t, 'u) Value) list"
type_synonym ('t, 'u) ApplicationProperties = "(string \<times> ('t, 'u) SimpleValue) list"

definition encoded_size_Annotations :: "('t, 'u) Annotations \<Rightarrow> u32" where
  "encoded_size_Annotations m = encoded_size_Map encoded_size_AnnonationKey encoded_size_Value m"

definition encode_Annotations :: "('t, 'u) externals \<Rightarrow> ('t, 'u) Annotations \<Rightarrow> bytes" where
  "encode_Annotations X m =
     encode_Map encoded_size_AnnonationKey encoded_size_Value encode_AnnonationKey (encode_Value X) m"

definition decode_Annotations :: "('t, 'u) externals \<Rightarrow> ('t, 'u) Annotations decoder" where
  "decode_Annotations X input =
     decode_Map (\<lambda>k. k) (\<lambda>_. True) decode_AnnonationKey (decode_Value X) input"

definition put_Annotations ::
  "AnnonationKey \<Rightarrow> ('t, 'u) Value \<Rightarrow> ('t, 'u) Annotations \<Rightarrow> ('t, 'u) Annotations" where
  "put_Annotations k v m = insert_by (\<lambda>k. k) k v m"

definition encoded_size_ApplicationProperties :: "('t, 'u) ApplicationProperties \<Rightarrow> u32" where
  "encoded_size_ApplicationProperties m =
     encoded_size_Map encoded_size_Str encoded_size_SimpleValue m"

definition encode_ApplicationProperties ::
  "('t, 'u) externals \<Rightarrow> ('t, 'u) ApplicationProperties \<Rightarrow> bytes" where
  "encode_ApplicationProperties X m =
     encode_Map encoded_size_Str encoded_size_SimpleValue encode_Str (encode_SimpleValue X) m"

definition decode_ApplicationProperties ::
  "('t, 'u) externals \<Rightarrow> ('t, 'u) ApplicationProperties decoder" where
  "decode_ApplicationProperties X input =
     decode_Map (\<lambda>k. k) (\<lambda>_. True) decode_Str (decode_SimpleValue X) input"

definition wf_Annotations :: "('t, 'u) externals \<Rightarrow> ('t, 'u) Annotations \<Rightarrow> bool" where
  "wf_Annotations X m \<longleftrightarrow>
     wf_Map (\<lambda>k. k) (\<lambda>_. True) encoded_size_AnnonationKey encoded_size_Value m \<and>
     list_all (\<lambda>p. wf_AnnonationKey (fst p) \<and> wf_Value X (snd p)) m"

definition wf_ApplicationProperties ::
  "('t, 'u) externals \<Rightarrow> ('t, 'u) ApplicationProperties \<Rightarrow> bool" where
  "wf_ApplicationProperties X m \<longleftrightarrow>
     wf_Map (\<lambda>k. k) (\<lambda>_. True) encoded_size_Str encoded_size_SimpleValue m \<and>
     list_all (\<lambda>p. wf_Str (fst p) \<and> wf_SimpleValue X (snd p)) m"

definition fits_Annotations :: "('t, 'u) externals \<Rightarrow> ('t, 'u) Annotations \<Rightarrow> bool" where
  "fits_Annotations X m = list_all (\<lambda>p. fits_AnnonationKey (fst p) \<and> fits_Value X (snd p)) m"

definition fits_ApplicationProperties ::
  "('t, 'u) externals \<Rightarrow> ('t, 'u) ApplicationProperties \<Rightarrow> bool" where
  "fits_ApplicationProperties X m =
     list_all (\<lambda>p. length (fst p) < 2 ^ 32 \<and> fits_SimpleValue X (snd p)) m"

interpretation annotation_map:
  map_codec encode_AnnonationKey decode_AnnonationKey wf_AnnonationKey
    "encode_Value X" "decode_Value X" "wf_Value X" for X
  by unfold_locales

interpretation property_map:
  map_codec encode_Str decode_Str wf_Str
    "encode_SimpleValue X" "decode_SimpleValue X" "wf_SimpleValue X" for X
  by unfold_locales

interpretation Annotations:
  codec "encode_Annotations X" "decode_Annotations X" "wf_Annotations X" for X
  by unfold_locales
     (simp add: encode_Annotations_def decode_Annotations_def wf_Annotations_def
       annotation_map.decode_Map_enc)

interpretation ApplicationProperties:
  codec "encode_ApplicationProperties X" "decode_ApplicationProperties X"
    "wf_ApplicationProperties X" for X
  by unfold_locales
     (simp add: encode_ApplicationProperties_def decode_ApplicationProperties_def
       wf_ApplicationProperties_def property_map.decode_Map_enc)

interpretation Annotations:
  sized "encode_Annotations X" encoded_size_Annotations "fits_Annotations X" for X
  unfolding encode_Annotations_def encoded_size_Annotations_def fits_Annotations_def
  by unfold_locales
     (rule size_Map [OF AnnonationKey.sized_axioms Value.sized_axioms])

interpretation ApplicationProperties:
  sized "encode_ApplicationProperties X" encoded_size_ApplicationProperties
    "fits_ApplicationProperties X" for X
  unfolding encode_ApplicationProperties_def encoded_size_ApplicationProperties_def
    fits_ApplicationProperties_def
  by unfold_locales (rule size_Map [OF Str.sized_axioms SimpleValue.sized_axioms])

section \<open>Sections\<close>

datatype ('t, 'u) MessageSection =
    Header AmqpHeader
  | DeliveryAnnotations "('t, 'u) Annotations"
  | MessageAnnotations "('t, 'u) Annotations"
  | ApplicationProperties "('t, 'u) ApplicationProperties"
  | Data bytes
  | AmqpSequence "('t, 'u) Value list"
  | AmqpValue "('t, 'u) Value"
  | Footer "('t, 'u) Annotations"
  | Properties "('t, 'u) Properties"

definition decode_MessageSection :: "('t, 'u) externals \<Rightarrow> ('t, 'u) MessageSection decoder" where
  "decode_MessageSection X input =
     and_then (decode_Descriptor input) (\<lambda>(remaining, described).
       if described = MESSAGE_HEADER
       then map_second MessageSection.Header (decode_AmqpHeader input)
       else if described = MESSAGE_BODY_DATA
       then map_second MessageSection.Data (decode_Binary remaining)
       else if described = MESSAGE_PROPERTIES
       then map_second MessageSection.Properties (decode_Properties X input)
       else if described = MESSAGE_BODY_VALUE
       then map_second MessageSection.AmqpValue (decode_Value X remaining)
       else if described = MESSAGE_APPLICATION_PROPERTIES
       then map_second MessageSection.ApplicationProperties
              (decode_ApplicationProperties X remaining)
       else if described = MESSAGE_ANNOTATIONS
       then map_second MessageSection.MessageAnnotations (decode_Annotations X remaining)
       else if described = MESSAGE_BODY_SEQUENCE
       then map_second MessageSection.AmqpSequence (decode_List (decode_Value X) remaining)
       else if described = MESSAGE_DELIVERY_ANNOTATIONS
       then map_second MessageSection.DeliveryAnnotations (decode_Annotations X remaining)
       else if described = MESSAGE_FOOTER
       then map_second MessageSection.Footer (decode_Annotations X remaining)
       else Err (from_amqp (AmqpMessageParse
              (''Invalid section '' @ show_descriptor described))))"

text \<open>What the encoder of a message writes for each section.\<close>

fun encode_section :: "('t, 'u) externals \<Rightarrow> ('t, 'u) MessageSection \<Rightarrow> bytes" where
  "encode_section X (MessageSection.Header h) = encode_AmqpHeader h"
| "encode_section X (MessageSection.DeliveryAnnotations m) =
     encode_Descriptor MESSAGE_DELIVERY_ANNOTATIONS @ encode_Annotations X m"
| "encode_section X (MessageSection.MessageAnnotations m) =
     encode_Descriptor MESSAGE_ANNOTATIONS @ encode_Annotations X m"
| "encode_section X (MessageSection.ApplicationProperties m) =
     encode_Descriptor MESSAGE_APPLICATION_PROPERTIES @ encode_ApplicationProperties X m"
| "encode_section X (MessageSection.Data d) = encode_Descriptor MESSAGE_BODY_DATA @ encode_Binary d"
| "encode_section X (MessageSection.AmqpSequence xs) =
     encode_Descriptor MESSAGE_BODY_SEQUENCE @ encode_List encoded_size_Value (encode_Value X) xs"
| "encode_section X (MessageSection.AmqpValue v) =
     encode_Descriptor MESSAGE_BODY_VALUE @ encode_Value X v"
| "encode_section X (MessageSection.Footer m) =
     encode_Descriptor MESSAGE_FOOTER @ encode_Annotations X m"
| "encode_section X (MessageSection.Properties p) = encode_Properties X p"

definition wf_Sequence :: "('t, 'u) externals \<Rightarrow> ('t, 'u) Value list \<Rightarrow> bool" where
  "wf_Sequence X xs \<longleftrightarrow> list_all (wf_Value X) xs \<and> short_List encoded_size_Value xs"

fun wf_section :: "('t, 'u) externals \<Rightarrow> ('t, 'u) MessageSection \<Rightarrow> bool" where
  "wf_section X (MessageSection.Header h) = True"
| "wf_section X (MessageSection.DeliveryAnnotations m) = wf_Annotations X m"
| "wf_section X (MessageSection.MessageAnnotations m) = wf_Annotations X m"
| "wf_section X (MessageSection.ApplicationProperties m) = wf_ApplicationProperties X m"
| "wf_section X (MessageSection.Data d) = wf_Binary d"
| "wf_section X (MessageSection.AmqpSequence xs) = wf_Sequence X xs"
| "wf_section X (MessageSection.AmqpValue v) = wf_Value X v"
| "wf_section X (MessageSection.Footer m) = wf_Annotations X m"
| "wf_section X (MessageSection.Properties p) = wf_Properties X p"

lemma decode_Descriptor_header:
  "decode_Descriptor (encode_AmqpHeader h @ rest) =
     Ok (drop (length (encode_Descriptor MESSAGE_HEADER)) (encode_AmqpHeader h) @ rest, MESSAGE_HEADER)"
  by (simp add: encode_AmqpHeader_def Descriptor.dec_enc)

lemma decode_Descriptor_properties:
  "decode_Descriptor (encode_Properties X p @ rest) =
     Ok (drop (length (encode_Descriptor MESSAGE_PROPERTIES)) (encode_Properties X p) @ rest,
         MESSAGE_PROPERTIES)"
  by (simp add: encode_Properties_def Descriptor.dec_enc)

interpretation sect:
  codec "encode_section X" "decode_MessageSection X" "wf_section X" for X
proof
  fix s rest
  assume "wf_section X s"
  then show "decode_MessageSection X (encode_section X s @ rest) = Ok (rest, s)"
    by (cases s)
       (simp_all add: decode_MessageSection_def Descriptor.dec_enc decode_Descriptor_header
         decode_Descriptor_properties AmqpHeader.dec_enc Properties.dec_enc Annotations.dec_enc
         ApplicationProperties.dec_enc round_trips Value.dec_enc Value.decode_List_enc
         wf_Sequence_def section_descriptors del: encode_Descriptor.simps)
qed

section \<open>Body and message\<close>

definition option_list :: "'a option \<Rightarrow> 'a list" where
  "option_list v = (case v of Some x \<Rightarrow> [x] | None \<Rightarrow> [])"


record ('t, 'u) MessageBody =
  data :: "bytes list"
  sequence :: "('t, 'u) Value list list"
  body_value :: "('t, 'u) Value option"

definition default_MessageBody :: "('t, 'u) MessageBody" where
  "default_MessageBody = \<lparr>data = [], sequence = [], body_value = None\<rparr>"

definition set_data :: "bytes \<Rightarrow> ('t, 'u) MessageBody \<Rightarrow> ('t, 'u) MessageBody" where
  "set_data d b = b\<lparr>data := [d]\<rparr>"

definition body_data :: "('t, 'u) MessageBody \<Rightarrow> bytes option" where
  "body_data b = (case data b of d # _ \<Rightarrow> Some d | [] \<Rightarrow> None)"

definition encoded_size_MessageBody :: "('t, 'u) MessageBody \<Rightarrow> u32" where
  "encoded_size_MessageBody b =
     (let sz = foldl (\<lambda>a d. a + encoded_size_Binary d + encoded_size_Descriptor MESSAGE_BODY_DATA)
                 0 (data b);
          sz = sz + foldl (\<lambda>a s. a + encoded_size_List encoded_size_Value s +
                 encoded_size_Descriptor MESSAGE_BODY_SEQUENCE) 0 (sequence b)
      in case body_value b of
           Some v \<Rightarrow> sz + encoded_size_Value v + encoded_size_Descriptor MESSAGE_BODY_VALUE
         | None \<Rightarrow> sz)"

definition encode_MessageBody :: "('t, 'u) externals \<Rightarrow> ('t, 'u) MessageBody \<Rightarrow> bytes" where
  "encode_MessageBody X b =
     concat (map (\<lambda>d. encode_Descriptor MESSAGE_BODY_DATA @ encode_Binary d) (data b)) @
     concat (map (\<lambda>s. encode_Descriptor MESSAGE_BODY_SEQUENCE @
       encode_List encoded_size_Value (encode_Value X) s) (sequence b)) @
     (case body_value b of
        Some v \<Rightarrow> encode_Descriptor MESSAGE_BODY_VALUE @ encode_Value X v
      | None \<Rightarrow> [])"

record ('t, 'u) AmqpMessage =
  header :: "AmqpHeader option"
  delivery_annotations :: "('t, 'u) Annotations option"
  message_annotations :: "('t, 'u) Annotations option"
  properties :: "('t, 'u) Properties option"
  application_properties :: "('t, 'u) ApplicationProperties option"
  footer :: "('t, 'u) Annotations option"
  body :: "('t, 'u) MessageBody"

definition default_AmqpMessage :: "('t, 'u) AmqpMessage" where
  "default_AmqpMessage =
     \<lparr>header = None, delivery_annotations = None, message_annotations = None, properties = None,
      application_properties = None, footer = None, body = default_MessageBody\<rparr>"

definition encoded_size_AmqpMessage :: "('t, 'u) AmqpMessage \<Rightarrow> u32" where
  "encoded_size_AmqpMessage m =
     encoded_size_MessageBody (body m) +
     (case header m of Some h \<Rightarrow> encoded_size_AmqpHeader h | None \<Rightarrow> 0) +
     (case delivery_annotations m of
        Some da \<Rightarrow> encoded_size_Annotations da + encoded_size_Descriptor MESSAGE_DELIVERY_ANNOTATIONS
      | None \<Rightarrow> 0) +
     (case message_annotations m of
        Some ma \<Rightarrow> encoded_size_Annotations ma + encoded_size_Descriptor MESSAGE_ANNOTATIONS
      | None \<Rightarrow> 0) +
     (case properties m of Some p \<Rightarrow> encoded_size_Properties p | None \<Rightarrow> 0) +
     (case application_properties m of
        Some ap \<Rightarrow> encoded_size_ApplicationProperties ap +
                   encoded_size_Descriptor MESSAGE_APPLICATION_PROPERTIES
      | None \<Rightarrow> 0) +
     (case footer m of
        Some f \<Rightarrow> encoded_size_Annotations f + encoded_size_Descriptor MESSAGE_FOOTER
      | None \<Rightarrow> 0)"

definition encode_AmqpMessage :: "('t, 'u) externals \<Rightarrow> ('t, 'u) AmqpMessage \<Rightarrow> bytes" where
  "encode_AmqpMessage X m =
     (case header m of Some h \<Rightarrow> encode_AmqpHeader h | None \<Rightarrow> []) @
     (case delivery_annotations m of
        Some da \<Rightarrow> encode_Descriptor MESSAGE_DELIVERY_ANNOTATIONS @ encode_Annotations X da
      | None \<Rightarrow> []) @
     (case message_annotations m of
        Some ma \<Rightarrow> encode_Descriptor MESSAGE_ANNOTATIONS @ encode_Annotations X ma
      | None \<Rightarrow> []) @
     (case properties m of Some p \<Rightarrow> encode_Properties X p | None \<Rightarrow> []) @
     (case application_properties m of
        Some ap \<Rightarrow> encode_Descriptor MESSAGE_APPLICATION_PROPERTIES @
                   encode_ApplicationProperties X ap
      | None \<Rightarrow> []) @
     encode_MessageBody X (body m) @
     (case footer m of
        Some f \<Rightarrow> encode_Descriptor MESSAGE_FOOTER @ encode_Annotations X f
      | None \<Rightarrow> [])"

fun apply_section ::
  "('t, 'u) AmqpMessage \<Rightarrow> ('t, 'u) MessageSection \<Rightarrow> ('t, 'u) AmqpMessage" where
  "apply_section m (MessageSection.Header v) = m\<lparr>header := Some v\<rparr>"
| "apply_section m (MessageSection.DeliveryAnnotations v) = m\<lparr>delivery_annotations := Some v\<rparr>"
| "apply_section m (MessageSection.MessageAnnotations v) = m\<lparr>message_annotations := Some v\<rparr>"
| "apply_section m (MessageSection.ApplicationProperties v) = m\<lparr>application_properties := Some v\<rparr>"
| "apply_section m (MessageSection.Footer v) = m\<lparr>footer := Some v\<rparr>"
| "apply_section m (MessageSection.Properties v) = m\<lparr>properties := Some v\<rparr>"
| "apply_section m (MessageSection.AmqpSequence v) =
     m\<lparr>body := (body m)\<lparr>sequence := sequence (body m) @ [v]\<rparr>\<rparr>"
| "apply_section m (MessageSection.AmqpValue v) = m\<lparr>body := (body m)\<lparr>body_value := Some v\<rparr>\<rparr>"
| "apply_section m (MessageSection.Data v) =
     m\<lparr>body := (body m)\<lparr>data := data (body m) @ [v]\<rparr>\<rparr>"

definition shortening :: "(bytes \<Rightarrow> nat \<Rightarrow> 'a \<Rightarrow> 'a decoded) \<Rightarrow> bool" where
  "shortening f \<longleftrightarrow> (\<forall>i idx d r d'. f i idx d = Ok (r, d') \<longrightarrow> length r \<le> length i)"

lemma decode_fields_shorter:
  assumes "shortening f"
  shows "decode_fields f n idx input dest = Ok (rest, x) \<Longrightarrow> length rest \<le> length input"
proof (induction n arbitrary: idx input dest)
  case (Suc n)
  then obtain i d where "f input idx dest = Ok (i, d)" "decode_fields f n (Suc idx) i d = Ok (rest, x)"
    by (auto simp: and_then_Ok_iff)
  then show ?case using assms Suc.IH unfolding shortening_def by fastforce
qed simp

lemma decode_with_fields_shorter:
  assumes "shortening f"
  shows "decode_with_fields f input dest = Ok (rest, x) \<Longrightarrow> length rest < length input"
  by (auto simp: decode_with_fields_def and_then_Ok_iff read_defs read_byte_be
      split: if_splits dest!: read_lengths decode_fields_shorter [OF assms])

lemma list_decoder_header_shorter:
  "shortening list_decoder_header"
  unfolding shortening_def
  by (auto simp: list_decoder_header_def and_then_Ok_iff split: if_splits
      dest!: Boolean.opt_progress UByte.opt_progress UInt.opt_progress)

lemma list_decoder_properties_shorter:
  "shortening (list_decoder_properties X)"
  unfolding shortening_def
  by (auto simp: list_decoder_properties_def and_then_Ok_iff split: if_splits
      dest!: MessageId.opt_progress Binary.opt_progress Str.opt_progress Symbol.opt_progress
        Timestamp.opt_progress UInt.opt_progress)

interpretation AmqpHeader: progressing decode_AmqpHeader
  by unfold_locales
     (auto simp: decode_AmqpHeader_def and_then_Ok_iff split: if_splits
       dest!: Descriptor.progress
         decode_with_fields_shorter [OF list_decoder_header_shorter])

interpretation Properties: progressing "decode_Properties X" for X
  by unfold_locales
     (auto simp: decode_Properties_def and_then_Ok_iff split: if_splits
       dest!: Descriptor.progress decode_with_fields_shorter [OF list_decoder_properties_shorter])

lemma decode_Annotations_progress:
  "decode_Annotations X input = Ok (rest, m) \<Longrightarrow> length rest < length input"
  unfolding decode_Annotations_def
  by (rule decode_Map_progress [OF AnnonationKey.progressing_axioms Value.progressing_axioms])

lemma decode_ApplicationProperties_progress:
  "decode_ApplicationProperties X input = Ok (rest, m) \<Longrightarrow> length rest < length input"
  unfolding decode_ApplicationProperties_def
  by (rule decode_Map_progress [OF Str.progressing_axioms SimpleValue.progressing_axioms])

interpretation sect: progressing "decode_MessageSection X" for X
  by unfold_locales
     (auto simp: decode_MessageSection_def and_then_Ok_iff map_second_Ok_iff split: if_splits
       dest!: Descriptor.progress AmqpHeader.progress Properties.progress Binary.progress
         Value.progress Value.decode_List_progress decode_Annotations_progress
         decode_ApplicationProperties_progress)

text \<open>The section loop; it ends because every section uses up at least one byte.\<close>

function decode_sections :: "('t, 'u) externals \<Rightarrow> ('t, 'u) AmqpMessage \<Rightarrow>
    ('t, 'u) AmqpMessage decoder" where
  "decode_sections X m input =
    (if input = [] then Ok (input, m)
     else and_then (decode_MessageSection X input) (\<lambda>(inner, sec).
            decode_sections X (apply_section m sec) inner))"
  by pat_completeness auto

termination
  by (relation "measure (\<lambda>(X, m, input). length input)") (auto dest: sect.progress)

declare decode_sections.simps [simp del]

definition decode_AmqpMessage :: "('t, 'u) externals \<Rightarrow> ('t, 'u) AmqpMessage decoder" where
  "decode_AmqpMessage X input = decode_sections X default_AmqpMessage input"

section \<open>Round trip of messages\<close>

definition sections_of :: "('t, 'u) AmqpMessage \<Rightarrow> ('t, 'u) MessageSection list" where
  "sections_of m =
     map MessageSection.Header (option_list (header m)) @
     map MessageSection.DeliveryAnnotations (option_list (delivery_annotations m)) @
     map MessageSection.MessageAnnotations (option_list (message_annotations m)) @
     map MessageSection.Properties (option_list (properties m)) @
     map MessageSection.ApplicationProperties (option_list (application_properties m)) @
     map MessageSection.Data (data (body m)) @
     map MessageSection.AmqpSequence (sequence (body m)) @
     map MessageSection.AmqpValue (option_list (body_value (body m))) @
     map MessageSection.Footer (option_list (footer m))"

definition wf_AmqpMessage :: "('t, 'u) externals \<Rightarrow> ('t, 'u) AmqpMessage \<Rightarrow> bool" where
  "wf_AmqpMessage X m \<longleftrightarrow> list_all (wf_section X) (sections_of m)"

lemma encode_AmqpMessage_sections:
  "encode_AmqpMessage X m = concat (map (encode_section X) (sections_of m))"
  by (simp add: encode_AmqpMessage_def encode_MessageBody_def sections_of_def comp_def
      option_list_def split: option.splits)

text \<open>Sections that decode are taken off the front of the input.\<close>

lemma decode_sections_append:
  "list_all (wf_section X) ss \<Longrightarrow>
   decode_sections X m (concat (map (encode_section X) ss) @ rest) =
     decode_sections X (foldl apply_section m ss) rest"
proof (induction ss arbitrary: m)
  case (Cons s ss)
  have "encode_section X s \<noteq> []"
    using Cons.prems(1) sect.progress [OF sect.dec_enc_exact [of X s]] by auto
  then show ?case
    using Cons by (subst decode_sections.simps) (simp add: sect.dec_enc)
qed simp

lemma decode_sections_Nil [simp]: "decode_sections X m [] = Ok ([], m)"
  by (simp add: decode_sections.simps)

lemma fold_Data:
  "foldl apply_section m (map MessageSection.Data ds) =
     m\<lparr>body := (body m)\<lparr>data := data (body m) @ ds\<rparr>\<rparr>"
  by (induction ds arbitrary: m) simp_all

lemma fold_Sequence:
  "foldl apply_section m (map MessageSection.AmqpSequence ss) =
     m\<lparr>body := (body m)\<lparr>sequence := sequence (body m) @ ss\<rparr>\<rparr>"
  by (induction ss arbitrary: m) simp_all

lemma fold_sections_of: "foldl apply_section default_AmqpMessage (sections_of m) = m"
  by (cases m) (auto simp: sections_of_def fold_Data fold_Sequence default_AmqpMessage_def
      default_MessageBody_def option_list_def split: option.splits)

lemma decode_AmqpMessage_enc:
  "wf_AmqpMessage X m \<Longrightarrow> decode_AmqpMessage X (encode_AmqpMessage X m) = Ok ([], m)"
  by (simp add: decode_AmqpMessage_def encode_AmqpMessage_sections wf_AmqpMessage_def
      decode_sections_append [where rest = "[]", simplified] fold_sections_of)

section \<open>Announced sizes of messages\<close>

fun fits_section :: "('t, 'u) externals \<Rightarrow> ('t, 'u) MessageSection \<Rightarrow> bool" where
  "fits_section X (MessageSection.Header h) = True"
| "fits_section X (MessageSection.DeliveryAnnotations m) = fits_Annotations X m"
| "fits_section X (MessageSection.MessageAnnotations m) = fits_Annotations X m"
| "fits_section X (MessageSection.ApplicationProperties m) = fits_ApplicationProperties X m"
| "fits_section X (MessageSection.Data d) = wf_Binary d"
| "fits_section X (MessageSection.AmqpSequence xs) = list_all (fits_Value X) xs"
| "fits_section X (MessageSection.AmqpValue v) = fits_Value X v"
| "fits_section X (MessageSection.Footer m) = fits_Annotations X m"
| "fits_section X (MessageSection.Properties p) = fits_Properties X p"

definition fits_AmqpMessage :: "('t, 'u) externals \<Rightarrow> ('t, 'u) AmqpMessage \<Rightarrow> bool" where
  "fits_AmqpMessage X m \<longleftrightarrow> list_all (fits_section X) (sections_of m)"

lemma fold_size_sections:
  assumes "\<And>x. x \<in> set xs \<Longrightarrow> sz x = of_nat (length (enc x))" "fits_Descriptor d"
  shows "foldl (\<lambda>a x. a + sz x + encoded_size_Descriptor d) 0 xs =
    of_nat (length (concat (map (\<lambda>x. encode_Descriptor d @ enc x) xs)))"
proof -
  have "sized (\<lambda>x. encode_Descriptor d @ enc x) (\<lambda>x. sz x + encoded_size_Descriptor d)
      (\<lambda>x. x \<in> set xs)"
    using assms by unfold_locales (simp add: Descriptor.size_enc)
  from sized.fold_size_enc [OF this, of xs 0] show ?thesis
    by (simp add: list_all_iff add.assoc)
qed

lemma size_MessageBody:
  assumes "list_all wf_Binary (data b)" "list_all (list_all (fits_Value X)) (sequence b)"
    and "pred_option (fits_Value X) (body_value b)"
  shows "encoded_size_MessageBody b = of_nat (length (encode_MessageBody X b))"
proof -
  have "foldl (\<lambda>a d. a + encoded_size_Binary d + encoded_size_Descriptor MESSAGE_BODY_DATA) 0 (data b) =
      of_nat (length (concat (map (\<lambda>d. encode_Descriptor MESSAGE_BODY_DATA @ encode_Binary d) (data b))))"
    using assms(1) by (intro fold_size_sections) (auto simp: list_all_iff Binary.size_enc)
  moreover have "foldl (\<lambda>a s. a + encoded_size_List encoded_size_Value s +
        encoded_size_Descriptor MESSAGE_BODY_SEQUENCE) 0 (sequence b) =
      of_nat (length (concat (map (\<lambda>s. encode_Descriptor MESSAGE_BODY_SEQUENCE @
        encode_List encoded_size_Value (encode_Value X) s) (sequence b))))"
    using assms(2) by (intro fold_size_sections) (auto simp: list_all_iff Value.size_List)
  ultimately show ?thesis
    using assms(3)
    by (auto simp: encoded_size_MessageBody_def encode_MessageBody_def Let_def Value.size_enc
        Descriptor.size_enc split: option.splits)
qed

interpretation AmqpMessage:
  sized "encode_AmqpMessage X" encoded_size_AmqpMessage "fits_AmqpMessage X" for X
proof
  fix m :: "('a, 'b) AmqpMessage"
  assume fits: "fits_AmqpMessage X m"
  then have "encoded_size_MessageBody (body m) = of_nat (length (encode_MessageBody X (body m)))"
    by (intro size_MessageBody)
       (simp_all add: fits_AmqpMessage_def sections_of_def list.pred_map comp_def option_list_def
         split: option.splits)
  with fits show "encoded_size_AmqpMessage m = of_nat (length (encode_AmqpMessage X m))"
    by (auto simp: encoded_size_AmqpMessage_def encode_AmqpMessage_def fits_AmqpMessage_def
        sections_of_def option_list_def AmqpHeader.size_enc Annotations.size_enc
        ApplicationProperties.size_enc Properties.size_enc Descriptor.size_enc
        split: option.splits)
qed

section \<open>The client's message (message/mod.rs)\<close>

record ('t, 'u) Message =
  publishing_id :: "u64 option"
  message :: "('t, 'u) AmqpMessage"

definition encoded_size_Message :: "('t, 'u) Message \<Rightarrow> u32" where
  "encoded_size_Message m = encoded_size_AmqpMessage (message m)"

definition encode_Message :: "('t, 'u) externals \<Rightarrow> ('t, 'u) Message \<Rightarrow> bytes" where
  "encode_Message X m = encode_AmqpMessage X (message m)"

definition decode_Message :: "('t, 'u) externals \<Rightarrow> ('t, 'u) Message decoder" where
  "decode_Message X input =
     map_second (\<lambda>m. \<lparr>publishing_id = None, message = m\<rparr>) (decode_AmqpMessage X input)"

definition wf_Message :: "('t, 'u) externals \<Rightarrow> ('t, 'u) Message \<Rightarrow> bool" where
  "wf_Message X m \<longleftrightarrow> publishing_id m = None \<and> wf_AmqpMessage X (message m)"

definition fits_Message :: "('t, 'u) externals \<Rightarrow> ('t, 'u) Message \<Rightarrow> bool" where
  "fits_Message X m \<longleftrightarrow> fits_AmqpMessage X (message m)"

interpretation Message: sized "encode_Message X" encoded_size_Message "fits_Message X" for X
  unfolding encode_Message_def encoded_size_Message_def fits_Message_def
  by unfold_locales (rule AmqpMessage.size_enc)

lemma decode_Message_enc:
  "wf_Message X m \<Longrightarrow> decode_Message X (encode_Message X m) = Ok ([], m)"
  by (simp add: decode_Message_def encode_Message_def wf_Message_def decode_AmqpMessage_enc)

section \<open>Properties of messages\<close>

text \<open>C12.  A message decodes from its encoding to itself: every section present comes back with
  its content, data and sequence sections in their order, and no section appears that was not
  there.  This holds for the messages that the written forms can carry (\<open>wf_Message\<close>): without a
  publishing id, which is not part of the encoding; with properties below 255 bytes and lists that
  fit the short form, whose long forms are written with the type code of the short one; without
  integers of type \<open>Int\<close> between -128 and -1; and with strings, maps, timestamps and identifiers that fit
  their encodings.\<close>

theorem message_round_trip:
  assumes "wf_Message X m"
  shows "decode_Message X (encode_Message X m) = Ok ([], m)"
  using assms by (rule decode_Message_enc)

definition sample_message :: "(i64, bytes) Message" where
  "sample_message =
     \<lparr>publishing_id = None, message = default_AmqpMessage
       \<lparr>header := Some default_AmqpHeader,
        body := set_data [104, 105] default_MessageBody\<rparr>\<rparr>"

lemma sample_message_wf:
  "wf_Message byte_externals sample_message" "fits_Message byte_externals sample_message"
  by (simp_all add: sample_message_def wf_Message_def wf_AmqpMessage_def fits_Message_def
      fits_AmqpMessage_def sections_of_def option_list_def default_AmqpMessage_def
      default_MessageBody_def set_data_def wf_Binary_def)

theorem message_round_trip_witness:
  "decode_Message byte_externals (encode_Message byte_externals sample_message) =
     Ok ([], sample_message)"
  by (rule message_round_trip [OF sample_message_wf(1)])

text \<open>The size a message announces is the size of its encoding, for messages without small
  \<open>Long\<close> values and with properties on one side of both thresholds.\<close>

theorem message_announced_size:
  assumes "fits_Message X m"
  shows "encoded_size_Message m = of_nat (length (encode_Message X m))"
  using assms by (rule Message.size_enc)

theorem message_announced_size_witness:
  "encoded_size_Message sample_message =
     of_nat (length (encode_Message byte_externals sample_message))"
  by (rule message_announced_size [OF sample_message_wf(2)])

end
