(* ===== verification/Commands_Messages.thy ===== *)
theory Commands_Messages
  imports Amqp_Message
begin

text \<open>
  The commands that carry messages: \<open>PublishedMessage\<close> (\<open>types.rs\<close>, \<open>codec\<close>), \<open>PublishCommand\<close>
  (\<open>commands/publish.rs\<close>, both protocol versions) and \<open>DeliverCommand\<close> (\<open>commands/deliver.rs\<close>).
  A message travels as a length-prefixed byte vector that is then parsed on its own.
\<close>

section \<open>Messages as byte vectors\<close>

lemma concat_map_u8 [simp]: "concat (map encode_u8 bs) = bs"
  by (induction bs) (simp_all add: encode_u8_def)

lemma read_bytes_enc:
  "length bs < 2 ^ 31 \<Longrightarrow>
   read_vec read_u8 (encode_u32 (of_nat (length bs)) @ bs @ rest) = Ok (rest, bs)"
  using u8.read_vec_enc [of bs rest] by (simp add: encode_i32_u32 list.pred_True)

lemma resumable_case_prod [resumables]:
  assumes "\<And>a b. resumable (f a b)"
  shows "resumable (\<lambda>input. case p of (a, b) \<Rightarrow> f a b input)"
  using assms by (cases p) simp

lemma prefix_decoder_case_prod [prefix_decoders]:
  assumes "\<And>a b. prefix_decoder (f a b)"
  shows "prefix_decoder (\<lambda>input. case p of (a, b) \<Rightarrow> f a b input)"
  using assms by (cases p) simp

definition encode_sized_message :: "('t, 'u) externals \<Rightarrow> ('t, 'u) Message \<Rightarrow> bytes" where
  "encode_sized_message X m = encode_u32 (encoded_size_Message m) @ encode_Message X m"

definition decode_sized_message :: "('t, 'u) externals \<Rightarrow> ('t, 'u) Message decoder" where
  "decode_sized_message X input =
     and_then (read_vec read_u8 input) (\<lambda>(input, result).
     and_then (decode_Message X result) (\<lambda>(_, message). Ok (input, message)))"

definition wf_sized_message :: "('t, 'u) externals \<Rightarrow> ('t, 'u) Message \<Rightarrow> bool" where
  "wf_sized_message X m \<longleftrightarrow>
     wf_Message X m \<and> fits_Message X m \<and> length (encode_Message X m) < 2 ^ 31"

lemma read_message_enc:
  "wf_sized_message X m \<Longrightarrow>
   read_vec read_u8 (encode_u32 (encoded_size_Message m) @ encode_Message X m @ rest) =
     Ok (rest, encode_Message X m)"
  by (simp add: wf_sized_message_def Message.size_enc [of X] read_bytes_enc)

lemma decode_wf_message:
  "wf_sized_message X m \<Longrightarrow> decode_Message X (encode_Message X m) = Ok ([], m)"
  by (simp add: wf_sized_message_def decode_Message_enc)

interpretation sized_message:
  codec "encode_sized_message X" "decode_sized_message X" "wf_sized_message X" for X
  by unfold_locales
     (simp add: encode_sized_message_def decode_sized_message_def read_message_enc
       decode_wf_message)

interpretation sized_message:
  sized "encode_sized_message X" "\<lambda>m. 4 + encoded_size_Message m" "fits_Message X" for X
  by unfold_locales (simp add: encode_sized_message_def Message.size_enc)

interpretation sized_message: resumable "decode_sized_message X" for X
  unfolding decode_sized_message_def by (intro resumables)

section \<open>PublishedMessage\<close>

record ('t, 'u) PublishedMessage =
  publishing_id :: u64
  message :: "('t, 'u) Message"
  filter_value :: "string option"

definition new_PublishedMessage ::
  "u64 \<Rightarrow> ('t, 'u) Message \<Rightarrow> string option \<Rightarrow> ('t, 'u) PublishedMessage" where
  "new_PublishedMessage publishing_id' message' filter_value' =
     \<lparr>publishing_id = publishing_id', message = message', filter_value = filter_value'\<rparr>"

definition encoded_size_PublishedMessage :: "('t, 'u) PublishedMessage \<Rightarrow> u32" where
  "encoded_size_PublishedMessage m =
     encoded_size_u64 (publishing_id m) + 4 + encoded_size_Message (message m)"

definition encode_PublishedMessage ::
  "('t, 'u) externals \<Rightarrow> ('t, 'u) PublishedMessage \<Rightarrow> bytes" where
  "encode_PublishedMessage X m =
     encode_u64 (publishing_id m) @ encode_u32 (encoded_size_Message (message m)) @
     encode_Message X (message m)"

definition encoded_size_version_2_PublishedMessage :: "('t, 'u) PublishedMessage \<Rightarrow> u32" where
  "encoded_size_version_2_PublishedMessage m =
     encoded_size_u64 (publishing_id m) + encoded_size_opt_string (filter_value m) + 4 +
     encoded_size_Message (message m)"

definition encode_version_2_PublishedMessage ::
  "('t, 'u) externals \<Rightarrow> ('t, 'u) PublishedMessage \<Rightarrow> bytes" where
  "encode_version_2_PublishedMessage X m =
     encode_u64 (publishing_id m) @ encode_opt_string (filter_value m) @
     encode_u32 (encoded_size_Message (message m)) @ encode_Message X (message m)"

definition decode_PublishedMessage :: "('t, 'u) externals \<Rightarrow> ('t, 'u) PublishedMessage decoder" where
  "decode_PublishedMessage X input =
     and_then (read_u64 input) (\<lambda>(input, publishing_id').
     and_then (read_vec read_u8 input) (\<lambda>(input, body').
     and_then (decode_Message X body') (\<lambda>(_, message').
       Ok (input, new_PublishedMessage publishing_id' message' None))))"

definition decode_version_2_PublishedMessage ::
  "('t, 'u) externals \<Rightarrow> ('t, 'u) PublishedMessage decoder" where
  "decode_version_2_PublishedMessage X input =
     and_then (read_u64 input) (\<lambda>(input, publishing_id').
     and_then (read_vec read_u8 input) (\<lambda>(input, body').
     and_then (decode_opt_string input) (\<lambda>(input, filter_value').
     and_then (decode_Message X body') (\<lambda>(_, message').
       Ok (input, new_PublishedMessage publishing_id' message' filter_value')))))"

definition wf_PublishedMessage :: "('t, 'u) externals \<Rightarrow> ('t, 'u) PublishedMessage \<Rightarrow> bool" where
  "wf_PublishedMessage X m \<longleftrightarrow> wf_sized_message X (message m) \<and> filter_value m = None"

definition fits_PublishedMessage :: "('t, 'u) externals \<Rightarrow> ('t, 'u) PublishedMessage \<Rightarrow> bool" where
  "fits_PublishedMessage X m \<longleftrightarrow> fits_Message X (message m)"

interpretation PublishedMessage:
  codec "encode_PublishedMessage X" "decode_PublishedMessage X" "wf_PublishedMessage X" for X
  by unfold_locales
     (simp add: encode_PublishedMessage_def decode_PublishedMessage_def wf_PublishedMessage_def
       round_trips read_message_enc decode_wf_message new_PublishedMessage_def)

interpretation PublishedMessage:
  sized "encode_PublishedMessage X" encoded_size_PublishedMessage "fits_PublishedMessage X" for X
  by unfold_locales
     (simp add: encode_PublishedMessage_def encoded_size_PublishedMessage_def
       fits_PublishedMessage_def Message.size_enc size_simps)

interpretation PublishedMessage_2:
  sized "encode_version_2_PublishedMessage X" encoded_size_version_2_PublishedMessage
    "fits_PublishedMessage X" for X
  by unfold_locales
     (simp add: encode_version_2_PublishedMessage_def encoded_size_version_2_PublishedMessage_def
       fits_PublishedMessage_def Message.size_enc size_simps)

interpretation PublishedMessage: resumable "decode_PublishedMessage X" for X
  unfolding decode_PublishedMessage_def by (intro resumables)

section \<open>Vec<PublishedMessage>\<close>

definition encoded_size_published :: "('t, 'u) PublishedMessage list \<Rightarrow> u32" where
  "encoded_size_published xs = 4 + foldl (\<lambda>acc v. acc + encoded_size_PublishedMessage v) 0 xs"

definition encode_published ::
  "('t, 'u) externals \<Rightarrow> ('t, 'u) PublishedMessage list \<Rightarrow> bytes" where
  "encode_published X xs =
     encode_u32 (of_nat (length xs)) @ concat (map (encode_PublishedMessage X) xs)"

definition encoded_size_version_2_published :: "('t, 'u) PublishedMessage list \<Rightarrow> u32" where
  "encoded_size_version_2_published xs =
     4 + foldl (\<lambda>acc v. acc + encoded_size_version_2_PublishedMessage v) 0 xs"

definition encode_version_2_published ::
  "('t, 'u) externals \<Rightarrow> ('t, 'u) PublishedMessage list \<Rightarrow> bytes" where
  "encode_version_2_published X xs =
     encode_u32 (of_nat (length xs)) @ concat (map (encode_version_2_PublishedMessage X) xs)"

definition decode_published :: "('t, 'u) externals \<Rightarrow> ('t, 'u) PublishedMessage list decoder" where
  "decode_published X input =
     and_then (read_u32 input) (\<lambda>(input, len).
       decode_n (decode_PublishedMessage X) (unat len) input)"

section \<open>PublishCommand\<close>

record ('t, 'u) PublishCommand =
  publisher_id :: u8
  published_messages :: "('t, 'u) PublishedMessage list"
  version :: u16

definition new_PublishCommand ::
  "u8 \<Rightarrow> ('t, 'u) PublishedMessage list \<Rightarrow> u16 \<Rightarrow> ('t, 'u) PublishCommand" where
  "new_PublishCommand publisher_id' published_messages' version' =
     \<lparr>publisher_id = publisher_id', published_messages = published_messages',
      version = version'\<rparr>"

definition encoded_size_PublishCommand :: "('t, 'u) PublishCommand \<Rightarrow> u32" where
  "encoded_size_PublishCommand r =
    (if version r = PROTOCOL_VERSION_2
     then encoded_size_u8 (publisher_id r) + encoded_size_version_2_published (published_messages r)
     else encoded_size_u8 (publisher_id r) + encoded_size_published (published_messages r))"

definition encode_PublishCommand :: "('t, 'u) externals \<Rightarrow> ('t, 'u) PublishCommand \<Rightarrow> bytes" where
  "encode_PublishCommand X r =
     encode_u8 (publisher_id r) @
     (if version r = PROTOCOL_VERSION_2
      then encode_version_2_published X (published_messages r)
      else encode_published X (published_messages r))"

definition key_PublishCommand :: "('t, 'u) PublishCommand \<Rightarrow> u16" where
  "key_PublishCommand r = COMMAND_PUBLISH"

definition decode_PublishCommand :: "('t, 'u) externals \<Rightarrow> ('t, 'u) PublishCommand decoder" where
  "decode_PublishCommand X input =
     and_then (read_u8 input) (\<lambda>(input, publisher_id').
     and_then (decode_published X input) (\<lambda>(input, published_messages').
       Ok (input, \<lparr>publisher_id = publisher_id', published_messages = published_messages',
                   version = 1\<rparr>)))"

definition wf_PublishCommand :: "('t, 'u) externals \<Rightarrow> ('t, 'u) PublishCommand \<Rightarrow> bool" where
  "wf_PublishCommand X r \<longleftrightarrow> version r = 1 \<and> vec_fits32 (published_messages r) \<and>
     list_all (wf_PublishedMessage X) (published_messages r)"

definition fits_PublishCommand :: "('t, 'u) externals \<Rightarrow> ('t, 'u) PublishCommand \<Rightarrow> bool" where
  "fits_PublishCommand X r \<longleftrightarrow> list_all (fits_PublishedMessage X) (published_messages r)"

interpretation PublishCommand:
  codec "encode_PublishCommand X" "decode_PublishCommand X" "wf_PublishCommand X" for X
  by unfold_locales
     (simp add: encode_PublishCommand_def decode_PublishCommand_def wf_PublishCommand_def
       encode_published_def decode_published_def vec_fits32_def round_trips PROTOCOL_VERSION_2_def
       PublishedMessage.decode_n_concat)

interpretation PublishCommand:
  sized "encode_PublishCommand X" encoded_size_PublishCommand "fits_PublishCommand X" for X
  by unfold_locales
     (simp add: encode_PublishCommand_def encoded_size_PublishCommand_def fits_PublishCommand_def
       encode_published_def encoded_size_published_def encode_version_2_published_def
       encoded_size_version_2_published_def PublishedMessage.fold_size_enc
       PublishedMessage_2.fold_size_enc size_simps)

interpretation PublishCommand: resumable "decode_PublishCommand X" for X
  unfolding decode_PublishCommand_def decode_published_def
  by (intro resumables PublishedMessage.resumable_axioms)

section \<open>DeliverCommand\<close>

record ('t, 'u) DeliverCommand =
  subscription_id :: u8
  magic_version :: i8
  chunk_type :: u8
  num_entries :: u16
  timestamp :: u64
  epoch :: u64
  chunk_first_offset :: u64
  chunk_crc :: i32
  trailer_length :: u32
  reserved :: u32
  messages :: "('t, 'u) Message list"

definition new_DeliverCommand ::
  "u8 \<Rightarrow> i8 \<Rightarrow> u8 \<Rightarrow> u16 \<Rightarrow> u64 \<Rightarrow> u64 \<Rightarrow> u64 \<Rightarrow> i32 \<Rightarrow> u32 \<Rightarrow> u32 \<Rightarrow> ('t, 'u) Message list \<Rightarrow>
     ('t, 'u) DeliverCommand" where
  "new_DeliverCommand subscription_id' magic_version' chunk_type' num_entries' timestamp' epoch'
       chunk_first_offset' chunk_crc' trailer_length' reserved' messages' =
     \<lparr>subscription_id = subscription_id', magic_version = magic_version', chunk_type = chunk_type',
      num_entries = num_entries', timestamp = timestamp', epoch = epoch',
      chunk_first_offset = chunk_first_offset', chunk_crc = chunk_crc',
      trailer_length = trailer_length', reserved = reserved', messages = messages'\<rparr>"

definition encoded_size_DeliverCommand :: "('t, 'u) DeliverCommand \<Rightarrow> u32" where
  "encoded_size_DeliverCommand r =
     encoded_size_u8 (subscription_id r) + encoded_size_i8 (magic_version r) +
     encoded_size_u8 (chunk_type r) + encoded_size_u16 (num_entries r) + 4 +
     encoded_size_u64 (timestamp r) + encoded_size_u64 (epoch r) +
     encoded_size_u64 (chunk_first_offset r) + encoded_size_i32 (chunk_crc r) +
     encoded_size_u32 (trailer_length r) + encoded_size_u32 (reserved r) + 4 +
     foldl (\<lambda>acc message. acc + 1 + encoded_size_Message message) 0 (messages r)"

definition encode_DeliverCommand :: "('t, 'u) externals \<Rightarrow> ('t, 'u) DeliverCommand \<Rightarrow> bytes" where
  "encode_DeliverCommand X r =
     encode_u8 (subscription_id r) @ encode_i8 (magic_version r) @ encode_u8 (chunk_type r) @
     encode_u16 (num_entries r) @ encode_u32 (of_nat (length (messages r))) @
     encode_u64 (timestamp r) @ encode_u64 (epoch r) @ encode_u64 (chunk_first_offset r) @
     encode_i32 (chunk_crc r) @
     encode_u32 (foldl (\<lambda>acc message. acc + 1 + encoded_size_Message message) 0 (messages r)) @
     encode_u32 (trailer_length r) @ encode_u32 (reserved r) @
     concat (map (encode_sized_message X) (messages r))"

definition decode_DeliverCommand :: "('t, 'u) externals \<Rightarrow> ('t, 'u) DeliverCommand decoder" where
  "decode_DeliverCommand X input =
     and_then (read_u8 input) (\<lambda>(input, subscription_id').
     and_then (read_i8 input) (\<lambda>(input, magic_version').
     and_then (read_u8 input) (\<lambda>(input, chunk_type').
     and_then (read_u16 input) (\<lambda>(input, num_entries').
     and_then (read_u32 input) (\<lambda>(input, num_records).
     and_then (read_u64 input) (\<lambda>(input, timestamp').
     and_then (read_u64 input) (\<lambda>(input, epoch').
     and_then (read_u64 input) (\<lambda>(input, chunk_first_offset').
     and_then (read_i32 input) (\<lambda>(input, chunk_crc').
     and_then (read_u32 input) (\<lambda>(input, data_length).
     and_then (read_u32 input) (\<lambda>(input, trailer_length').
     and_then (read_u32 input) (\<lambda>(input, reserved').
     and_then (decode_n (decode_sized_message X) (unat num_records) input)
       (\<lambda>(input, messages').
       Ok (input, \<lparr>subscription_id = subscription_id', magic_version = magic_version',
         chunk_type = chunk_type', num_entries = num_entries', timestamp = timestamp',
         epoch = epoch', chunk_first_offset = chunk_first_offset', chunk_crc = chunk_crc',
         trailer_length = trailer_length', reserved = reserved', messages = messages'\<rparr>))))))))))))))"

definition key_DeliverCommand :: "('t, 'u) DeliverCommand \<Rightarrow> u16" where
  "key_DeliverCommand r = COMMAND_DELIVER"

definition wf_DeliverCommand :: "('t, 'u) externals \<Rightarrow> ('t, 'u) DeliverCommand \<Rightarrow> bool" where
  "wf_DeliverCommand X r \<longleftrightarrow> vec_fits32 (messages r) \<and> list_all (wf_sized_message X) (messages r)"

interpretation DeliverCommand:
  codec "encode_DeliverCommand X" "decode_DeliverCommand X" "wf_DeliverCommand X" for X
  by unfold_locales
     (simp add: encode_DeliverCommand_def decode_DeliverCommand_def wf_DeliverCommand_def
       vec_fits32_def round_trips sized_message.decode_n_concat)

interpretation DeliverCommand: resumable "decode_DeliverCommand X" for X
  unfolding decode_DeliverCommand_def
  by (intro resumables sized_message.resumable_axioms)

text \<open>The announced size counts one byte for the length of each message; four are written.\<close>

lemma encoded_size_DeliverCommand_short:
  assumes "list_all (fits_Message X) (messages r)"
  shows "encoded_size_DeliverCommand r + 3 * of_nat (length (messages r)) =
    of_nat (length (encode_DeliverCommand X r))"
proof -
  have "foldl (\<lambda>acc message. acc + 1 + encoded_size_Message message) a ms +
      3 * of_nat (length ms) = a + of_nat (length (concat (map (encode_sized_message X) ms)))"
    if "list_all (fits_Message X) ms" for a :: u32 and ms
    using that
  proof (induction ms arbitrary: a)
    case (Cons m ms)
    then show ?case
      using Cons.IH [of "a + 1 + encoded_size_Message m"]
      by (simp add: encode_sized_message_def Message.size_enc algebra_simps)
  qed simp
  from this [OF assms, of 0] show ?thesis
    by (simp add: encoded_size_DeliverCommand_def encode_DeliverCommand_def size_simps
        algebra_simps)
qed

lemmas message_resumables [resumables] =
  PublishCommand.resumable_axioms DeliverCommand.resumable_axioms
lemmas message_prefix_decoders [prefix_decoders] =
  PublishCommand.prefix_decoder_axioms DeliverCommand.prefix_decoder_axioms
lemmas message_round_trips [round_trips] = PublishCommand.dec_enc DeliverCommand.dec_enc

section \<open>Properties of publish and deliver\<close>

text \<open>A deliver frame announces three bytes per message less than it holds: one byte is
  counted for the length of a message, four are written.\<close>

theorem deliver_size_short:
  assumes "list_all (fits_Message X) (messages r)"
  shows "of_nat (length (encode_DeliverCommand X r)) =
    encoded_size_DeliverCommand r + 3 * of_nat (length (messages r))"
  using encoded_size_DeliverCommand_short [OF assms] by simp

definition sample_deliver :: "(i64, bytes) DeliverCommand" where
  "sample_deliver =
     \<lparr>subscription_id = 1, magic_version = 5, chunk_type = 0, num_entries = 1, timestamp = 0,
      epoch = 0, chunk_first_offset = 42, chunk_crc = 0, trailer_length = 0, reserved = 0,
      messages = [sample_message]\<rparr>"

theorem deliver_size_short_witness:
  "of_nat (length (encode_DeliverCommand byte_externals sample_deliver)) =
    encoded_size_DeliverCommand sample_deliver + 3 * of_nat (length (messages sample_deliver))"
  by (rule deliver_size_short) (simp add: sample_deliver_def sample_message_wf)

lemma be_bytes_2: "be_bytes 2 w = [ucast (drop_bit 8 w), ucast w]"
  by (simp add: numeral_2_eq_2)

lemma drop_bit_be_word:
  "drop_bit 16 (be_word (encode_i16 w @ [c, d]) :: i32) = ucast w"
proof (rule bit_word_eqI)
  fix n
  assume "n < LENGTH(32)"
  then show "bit (drop_bit 16 (be_word (encode_i16 w @ [c, d]) :: i32)) n =
      bit (ucast w :: i32) n"
    using bit_imp_le_length [of c "8 + n"] bit_imp_le_length [of d "16 + n"]
      bit_imp_le_length [of w n]
    by (auto simp: encode_i16_def be_bytes_2 be_word_def bit_simps)
qed

lemma unat32_take_bit: "take_bit 32 (unat (w :: 32 word)) = unat w"
  using unsigned_less [of w, where ?'a = nat] by (simp add: take_bit_nat_eq_self)

lemma read_i32_filter_value:
  assumes "0 < n" "n < 2 ^ 15"
  shows "\<exists>k. 65536 \<le> k \<and> k < 2 ^ 31 \<and>
    read_i32 (encode_i16 (of_nat n) @ c # d # bs) = Ok (bs, of_nat k)"
proof -
  let ?x = "be_word (encode_i16 (of_nat n) @ [c, d]) :: i32"
  have "unat ?x div 2 ^ 16 = n"
    using assms arg_cong [OF drop_bit_be_word [of "of_nat n" c d], of unat]
    by (simp add: unsigned_drop_bit_eq drop_bit_eq_div [where ?'a = nat] unat32_take_bit
        unsigned_ucast_eq unsigned_of_nat take_bit_nat_eq_self)
  then have "65536 \<le> unat ?x" "unat ?x < 2 ^ 31"
    using assms by (auto simp: div_less_iff_less_mult)
  moreover have "read_i32 (encode_i16 (of_nat n) @ c # d # bs) = Ok (bs, ?x)"
    by (simp add: read_i32_def read_be_def check_len_def)
  ultimately show ?thesis by (intro exI [of _ "unat ?x"]) simp
qed

lemma decode_n_too_many:
  "length bs < n \<Longrightarrow> decode_n read_u8 n bs = Err (Incomplete 1)"
proof (induction n arbitrary: bs)
  case (Suc n)
  then show ?case by (cases bs) (auto simp: read_u8_def check_len_def)
qed simp

text \<open>Version 2 of a published message is not read back by the decoder written for it: the
  encoder puts the filter value before the body, the decoder expects it behind.  The length of a
  filter value of two bytes or more becomes the high half of the length of the body, so on any
  input of less than 64 KiB the decoder asks for more bytes.\<close>

theorem version_2_not_read_back:
  assumes "filter_value m = Some fv" "wire_string fv" "2 \<le> length fv"
    and "length (encode_version_2_PublishedMessage X m @ rest) < 65536"
  shows "decode_version_2_PublishedMessage X (encode_version_2_PublishedMessage X m @ rest) =
    Err (Incomplete 1)"
proof -
  obtain c d s where fv: "as_bytes fv = c # d # s"
    using assms(3) by (metis as_bytes_length Suc_le_length_iff numeral_2_eq_2)
  let ?t = "encode_u32 (encoded_size_Message (message m)) @ encode_Message X (message m) @ rest"
  have n: "0 < length fv" "length fv < 2 ^ 15" using assms by (auto simp: wire_string_def)
  obtain k where k: "65536 \<le> k" "k < 2 ^ 31"
    "read_i32 (encode_i16 (of_nat (length fv)) @ c # d # s @ ?t) = Ok (s @ ?t, of_nat k)"
    using read_i32_filter_value [OF n, of c d "s @ ?t"] by blast
  have "length (s @ ?t) < k"
    using assms(4) k(1) arg_cong [OF fv, of length]
    by (simp add: encode_version_2_PublishedMessage_def assms(1) encode_opt_string_def
        encode_str_def)
  moreover have "as_usize (of_nat k :: i32) = k"
    using k(2) by (intro as_usize_of_nat) simp_all
  ultimately have "read_vec read_u8 (encode_opt_string (filter_value m) @ ?t) = Err (Incomplete 1)"
    using k(2,3) by (simp add: assms(1) encode_opt_string_def encode_str_def fv read_vec_def
        decode_n_too_many)
  then show ?thesis
    by (simp add: decode_version_2_PublishedMessage_def encode_version_2_PublishedMessage_def
        round_trips)
qed

definition sample_published :: "(i64, bytes) PublishedMessage" where
  "sample_published = new_PublishedMessage 3
     \<lparr>Message.publishing_id = None, message = default_AmqpMessage\<rparr> (Some ''emea'')"

theorem version_2_not_read_back_witness:
  "decode_version_2_PublishedMessage byte_externals
     (encode_version_2_PublishedMessage byte_externals sample_published @ []) = Err (Incomplete 1)"
proof (rule version_2_not_read_back)
  show "filter_value sample_published = Some ''emea''"
    by (simp add: sample_published_def new_PublishedMessage_def)
  show "wire_string ''emea''" by (simp add: wire_string_def ascii_rust_string)
  show "length (encode_version_2_PublishedMessage byte_externals sample_published @ []) < 65536"
    by (simp add: sample_published_def new_PublishedMessage_def encode_Message_def
        encode_version_2_PublishedMessage_def encode_AmqpMessage_sections sections_of_def
        default_AmqpMessage_def default_MessageBody_def option_list_def encode_opt_string_def
        encode_str_def)
qed simp

text \<open>The size a publish command announces is the size of its encoding, in both
  versions: with the filter values in version 2 and without them otherwise.\<close>

theorem publish_announced_size:
  assumes "list_all (\<lambda>m. fits_Message X (message m)) (published_messages r)"
  shows "encoded_size_PublishCommand r = of_nat (length (encode_PublishCommand X r))"
  using assms PublishCommand.size_enc [of X r]
  by (simp add: fits_PublishCommand_def fits_PublishedMessage_def [abs_def])

theorem publish_announced_size_witness:
  "encoded_size_PublishCommand (new_PublishCommand 1
      [new_PublishedMessage 3 sample_message (Some ''emea'')] 2) =
     of_nat (length (encode_PublishCommand byte_externals (new_PublishCommand 1
      [new_PublishedMessage 3 sample_message (Some ''emea'')] 2)))"
  by (rule publish_announced_size)
     (simp add: new_PublishCommand_def new_PublishedMessage_def
       sample_message_wf)

end
