(* ===== verification/Requests.thy ===== *)
theory Requests
  imports Commands_Connection Commands_Streams Commands_Clients Commands_Messages
begin

text \<open>
  Request frames (\<open>protocol/src/request\<close>): a request is a header (command key and version) and
  one of the commands.  \<open>encode_Request\<close> is the writer-passing form of \<open>Request::encode\<close>: it takes
  the bytes already in the buffer and returns the buffer with the outcome, because the size and
  the header are written before the command can refuse to be encoded.
\<close>

section \<open>Kinds of requests\<close>

datatype ('t, 'u) RequestKind =
    PeerProperties PeerPropertiesCommand
  | SaslHandshake SaslHandshakeCommand
  | SaslAuthenticate SaslAuthenticateCommand
  | Tunes TunesCommand
  | Open OpenCommand
  | Close CloseRequest
  | Delete Delete
  | CreateStream CreateStreamCommand
  | Subscribe SubscribeCommand
  | Credit CreditCommand
  | Metadata MetadataCommand
  | DeclarePublisher DeclarePublisherCommand
  | DeletePublisher DeletePublisherCommand
  | Heartbeat HeartBeatCommand
  | Publish "('t, 'u) PublishCommand"
  | QueryOffset QueryOffsetRequest
  | QueryPublisherSequence QueryPublisherRequest
  | StoreOffset StoreOffset
  | Unsubscribe UnSubscribeCommand
  | ExchangeCommandVersions ExchangeCommandVersionsRequest
  | CreateSuperStream CreateSuperStreamCommand
  | DeleteSuperStream DeleteSuperStreamCommand
  | SuperStreamPartitions SuperStreamPartitionsRequest
  | SuperStreamRoute SuperStreamRouteRequest
  | ConsumerUpdateRequest ConsumerUpdateRequestCommand

definition encoded_size_RequestKind :: "('t, 'u) RequestKind \<Rightarrow> u32" where
  "encoded_size_RequestKind k =
    (case k of
       RequestKind.PeerProperties c \<Rightarrow> encoded_size_PeerPropertiesCommand c
     | RequestKind.SaslHandshake c \<Rightarrow> encoded_size_SaslHandshakeCommand c
     | RequestKind.SaslAuthenticate c \<Rightarrow> encoded_size_SaslAuthenticateCommand c
     | RequestKind.Tunes c \<Rightarrow> encoded_size_TunesCommand c
     | RequestKind.Open c \<Rightarrow> encoded_size_OpenCommand c
     | RequestKind.Close c \<Rightarrow> encoded_size_CloseRequest c
     | RequestKind.Delete c \<Rightarrow> encoded_size_Delete c
     | RequestKind.CreateStream c \<Rightarrow> encoded_size_CreateStreamCommand c
     | RequestKind.Subscribe c \<Rightarrow> encoded_size_SubscribeCommand c
     | RequestKind.Credit c \<Rightarrow> encoded_size_CreditCommand c
     | RequestKind.Metadata c \<Rightarrow> encoded_size_MetadataCommand c
     | RequestKind.DeclarePublisher c \<Rightarrow> encoded_size_DeclarePublisherCommand c
     | RequestKind.DeletePublisher c \<Rightarrow> encoded_size_DeletePublisherCommand c
     | RequestKind.Heartbeat c \<Rightarrow> encoded_size_HeartBeatCommand c
     | RequestKind.Publish c \<Rightarrow> encoded_size_PublishCommand c
     | RequestKind.QueryOffset c \<Rightarrow> encoded_size_QueryOffsetRequest c
     | RequestKind.QueryPublisherSequence c \<Rightarrow> encoded_size_QueryPublisherRequest c
     | RequestKind.StoreOffset c \<Rightarrow> encoded_size_StoreOffset c
     | RequestKind.Unsubscribe c \<Rightarrow> encoded_size_UnSubscribeCommand c
     | RequestKind.ExchangeCommandVersions c \<Rightarrow> encoded_size_ExchangeCommandVersionsRequest c
     | RequestKind.CreateSuperStream c \<Rightarrow> encoded_size_CreateSuperStreamCommand c
     | RequestKind.DeleteSuperStream c \<Rightarrow> encoded_size_DeleteSuperStreamCommand c
     | RequestKind.SuperStreamPartitions c \<Rightarrow> encoded_size_SuperStreamPartitionsRequest c
     | RequestKind.SuperStreamRoute c \<Rightarrow> encoded_size_SuperStreamRouteRequest c
     | RequestKind.ConsumerUpdateRequest c \<Rightarrow> encoded_size_ConsumerUpdateRequestCommand c)"

definition encode_RequestKind ::
  "('t, 'u) externals \<Rightarrow> ('t, 'u) RequestKind \<Rightarrow> (bytes, EncodeError) result" where
  "encode_RequestKind X k =
    (case k of
       RequestKind.PeerProperties c \<Rightarrow> Ok (encode_PeerPropertiesCommand c)
     | RequestKind.SaslHandshake c \<Rightarrow> Ok (encode_SaslHandshakeCommand c)
     | RequestKind.SaslAuthenticate c \<Rightarrow> Ok (encode_SaslAuthenticateCommand c)
     | RequestKind.Tunes c \<Rightarrow> Ok (encode_TunesCommand c)
     | RequestKind.Open c \<Rightarrow> Ok (encode_OpenCommand c)
     | RequestKind.Close c \<Rightarrow> Ok (encode_CloseRequest c)
     | RequestKind.Delete c \<Rightarrow> Ok (encode_Delete c)
     | RequestKind.CreateStream c \<Rightarrow> Ok (encode_CreateStreamCommand c)
     | RequestKind.Subscribe c \<Rightarrow> Ok (encode_SubscribeCommand c)
     | RequestKind.Credit c \<Rightarrow> Ok (encode_CreditCommand c)
     | RequestKind.Metadata c \<Rightarrow> Ok (encode_MetadataCommand c)
     | RequestKind.DeclarePublisher c \<Rightarrow> Ok (encode_DeclarePublisherCommand c)
     | RequestKind.DeletePublisher c \<Rightarrow> Ok (encode_DeletePublisherCommand c)
     | RequestKind.Heartbeat c \<Rightarrow> Ok (encode_HeartBeatCommand c)
     | RequestKind.Publish c \<Rightarrow> Ok (encode_PublishCommand X c)
     | RequestKind.QueryOffset c \<Rightarrow> encode_QueryOffsetRequest c
     | RequestKind.QueryPublisherSequence c \<Rightarrow> encode_QueryPublisherRequest c
     | RequestKind.StoreOffset c \<Rightarrow> encode_StoreOffset c
     | RequestKind.Unsubscribe c \<Rightarrow> Ok (encode_UnSubscribeCommand c)
     | RequestKind.ExchangeCommandVersions c \<Rightarrow> Ok (encode_ExchangeCommandVersionsRequest c)
     | RequestKind.CreateSuperStream c \<Rightarrow> Ok (encode_CreateSuperStreamCommand c)
     | RequestKind.DeleteSuperStream c \<Rightarrow> Ok (encode_DeleteSuperStreamCommand c)
     | RequestKind.SuperStreamPartitions c \<Rightarrow> Ok (encode_SuperStreamPartitionsRequest c)
     | RequestKind.SuperStreamRoute c \<Rightarrow> Ok (encode_SuperStreamRouteRequest c)
     | RequestKind.ConsumerUpdateRequest c \<Rightarrow> Ok (encode_ConsumerUpdateRequestCommand c))"

section \<open>Requests (request/mod.rs, request/shims.rs)\<close>

record ('t, 'u) Request =
  header :: Header
  kind :: "('t, 'u) RequestKind"

definition request_key :: "('t, 'u) RequestKind \<Rightarrow> u16" where
  "request_key k =
    (case k of
       RequestKind.PeerProperties c \<Rightarrow> key_PeerPropertiesCommand c
     | RequestKind.SaslHandshake c \<Rightarrow> key_SaslHandshakeCommand c
     | RequestKind.SaslAuthenticate c \<Rightarrow> key_SaslAuthenticateCommand c
     | RequestKind.Tunes c \<Rightarrow> key_TunesCommand c
     | RequestKind.Open c \<Rightarrow> key_OpenCommand c
     | RequestKind.Close c \<Rightarrow> key_CloseRequest c
     | RequestKind.Delete c \<Rightarrow> key_Delete c
     | RequestKind.CreateStream c \<Rightarrow> key_CreateStreamCommand c
     | RequestKind.Subscribe c \<Rightarrow> key_SubscribeCommand c
     | RequestKind.Credit c \<Rightarrow> key_CreditCommand c
     | RequestKind.Metadata c \<Rightarrow> key_MetadataCommand c
     | RequestKind.DeclarePublisher c \<Rightarrow> key_DeclarePublisherCommand c
     | RequestKind.DeletePublisher c \<Rightarrow> key_DeletePublisherCommand c
     | RequestKind.Heartbeat c \<Rightarrow> key_HeartBeatCommand c
     | RequestKind.Publish c \<Rightarrow> key_PublishCommand c
     | RequestKind.QueryOffset c \<Rightarrow> key_QueryOffsetRequest c
     | RequestKind.QueryPublisherSequence c \<Rightarrow> key_QueryPublisherRequest c
     | RequestKind.StoreOffset c \<Rightarrow> key_StoreOffset c
     | RequestKind.Unsubscribe c \<Rightarrow> key_UnSubscribeCommand c
     | RequestKind.ExchangeCommandVersions c \<Rightarrow> key_ExchangeCommandVersionsRequest c
     | RequestKind.CreateSuperStream c \<Rightarrow> key_CreateSuperStreamCommand c
     | RequestKind.DeleteSuperStream c \<Rightarrow> key_DeleteSuperStreamCommand c
     | RequestKind.SuperStreamPartitions c \<Rightarrow> key_SuperStreamPartitionsRequest c
     | RequestKind.SuperStreamRoute c \<Rightarrow> key_SuperStreamRouteRequest c
     | RequestKind.ConsumerUpdateRequest c \<Rightarrow> key_ConsumerUpdateRequestCommand c)"

definition request_version :: "('t, 'u) RequestKind \<Rightarrow> u16" where
  "request_version k =
    (case k of RequestKind.Publish c \<Rightarrow> PublishCommand.version c | _ \<Rightarrow> PROTOCOL_VERSION)"

definition request_from :: "('t, 'u) RequestKind \<Rightarrow> ('t, 'u) Request" where
  "request_from cmd =
     \<lparr>header = \<lparr>key = request_key cmd, version = request_version cmd\<rparr>, kind = cmd\<rparr>"

definition encoded_size_Request :: "('t, 'u) Request \<Rightarrow> u32" where
  "encoded_size_Request r =
     encoded_size_header (Request.header r) + encoded_size_RequestKind (kind r)"

definition encode_Request :: "('t, 'u) externals \<Rightarrow> ('t, 'u) Request \<Rightarrow> bytes \<Rightarrow>
    bytes \<times> (unit, EncodeError) result" where
  "encode_Request X r buf =
    (let buf = buf @ encode_u32 (encoded_size_Request r) @ encode_header (Request.header r) in
     case encode_RequestKind X (kind r) of
       Ok bs \<Rightarrow> (buf @ bs, Ok ())
     | Err e \<Rightarrow> (buf, Err e)
     | Panic \<Rightarrow> (buf, Panic))"

definition decode_RequestKind ::
  "('t, 'u) externals \<Rightarrow> u16 \<Rightarrow> ('t, 'u) RequestKind decoder" where
  "decode_RequestKind X k input =
    (if k = COMMAND_OPEN
       then map_second RequestKind.Open (decode_OpenCommand input)
     else if k = COMMAND_PEER_PROPERTIES
       then map_second RequestKind.PeerProperties (decode_PeerPropertiesCommand input)
     else if k = COMMAND_SASL_HANDSHAKE
       then map_second RequestKind.SaslHandshake (decode_SaslHandshakeCommand input)
     else if k = COMMAND_SASL_AUTHENTICATE
       then map_second RequestKind.SaslAuthenticate (decode_SaslAuthenticateCommand input)
     else if k = COMMAND_TUNE
       then map_second RequestKind.Tunes (decode_TunesCommand input)
     else if k = COMMAND_DELETE_STREAM
       then map_second RequestKind.Delete (decode_Delete input)
     else if k = COMMAND_CREATE_STREAM
       then map_second RequestKind.CreateStream (decode_CreateStreamCommand input)
     else if k = COMMAND_METADATA
       then map_second RequestKind.Metadata (decode_MetadataCommand input)
     else if k = COMMAND_CLOSE
       then map_second RequestKind.Close (decode_CloseRequest input)
     else if k = COMMAND_CREDIT
       then map_second RequestKind.Credit (decode_CreditCommand input)
     else if k = COMMAND_DECLARE_PUBLISHER
       then map_second RequestKind.DeclarePublisher (decode_DeclarePublisherCommand input)
     else if k = COMMAND_DELETE_PUBLISHER
       then map_second RequestKind.DeletePublisher (decode_DeletePublisherCommand input)
     else if k = COMMAND_HEARTBEAT
       then map_second RequestKind.Heartbeat (decode_HeartBeatCommand input)
     else if k = COMMAND_PUBLISH
       then map_second RequestKind.Publish (decode_PublishCommand X input)
     else if k = COMMAND_QUERY_OFFSET
       then map_second RequestKind.QueryOffset (decode_QueryOffsetRequest input)
     else if k = COMMAND_QUERY_PUBLISHER_SEQUENCE
       then map_second RequestKind.QueryPublisherSequence (decode_QueryPublisherRequest input)
     else if k = COMMAND_STORE_OFFSET
       then map_second RequestKind.StoreOffset (decode_StoreOffset input)
     else if k = COMMAND_SUBSCRIBE
       then map_second RequestKind.Subscribe (decode_SubscribeCommand input)
     else if k = COMMAND_UNSUBSCRIBE
       then map_second RequestKind.Unsubscribe (decode_UnSubscribeCommand input)
     else if k = COMMAND_EXCHANGE_COMMAND_VERSIONS
       then map_second RequestKind.ExchangeCommandVersions (decode_ExchangeCommandVersionsRequest input)
     else if k = COMMAND_CREATE_SUPER_STREAM
       then map_second RequestKind.CreateSuperStream (decode_CreateSuperStreamCommand input)
     else if k = COMMAND_DELETE_SUPER_STREAM
       then map_second RequestKind.DeleteSuperStream (decode_DeleteSuperStreamCommand input)
     else if k = COMMAND_PARTITIONS
       then map_second RequestKind.SuperStreamPartitions (decode_SuperStreamPartitionsRequest input)
     else if k = COMMAND_ROUTE
       then map_second RequestKind.SuperStreamRoute (decode_SuperStreamRouteRequest input)
     else if k = COMMAND_CONSUMER_UPDATE_REQUEST
       then map_second RequestKind.ConsumerUpdateRequest (decode_ConsumerUpdateRequestCommand input)
     else Err (UnsupportedResponseType k))"

definition decode_Request :: "('t, 'u) externals \<Rightarrow> ('t, 'u) Request decoder" where
  "decode_Request X input =
     and_then (read_u32 input) (\<lambda>(input, _).
     and_then (decode_header input) (\<lambda>(input, h).
     and_then (decode_RequestKind X (key h) input) (\<lambda>(input, cmd).
       Ok (input, \<lparr>header = h, kind = cmd\<rparr>))))"

section \<open>Which requests survive\<close>

text \<open>\<open>ConsumerUpdateRequest\<close> is left out: its key does not survive the header.\<close>

definition wf_RequestKind :: "('t, 'u) externals \<Rightarrow> ('t, 'u) RequestKind \<Rightarrow> bool" where
  "wf_RequestKind X k =
    (case k of
       RequestKind.PeerProperties c \<Rightarrow> wf_PeerPropertiesCommand c
     | RequestKind.SaslAuthenticate c \<Rightarrow> wf_SaslAuthenticateCommand c
     | RequestKind.Open c \<Rightarrow> wf_OpenCommand c
     | RequestKind.Close c \<Rightarrow> wf_CloseRequest c
     | RequestKind.Delete c \<Rightarrow> wf_Delete c
     | RequestKind.CreateStream c \<Rightarrow> wf_CreateStreamCommand c
     | RequestKind.Subscribe c \<Rightarrow> wf_SubscribeCommand c
     | RequestKind.Metadata c \<Rightarrow> wf_MetadataCommand c
     | RequestKind.DeclarePublisher c \<Rightarrow> wf_DeclarePublisherCommand c
     | RequestKind.Publish c \<Rightarrow> wf_PublishCommand X c
     | RequestKind.QueryOffset c \<Rightarrow> wf_QueryOffsetRequest c
     | RequestKind.QueryPublisherSequence c \<Rightarrow> wf_QueryPublisherRequest c
     | RequestKind.StoreOffset c \<Rightarrow> wf_StoreOffset c
     | RequestKind.ExchangeCommandVersions c \<Rightarrow> wf_ExchangeCommandVersionsRequest c
     | RequestKind.CreateSuperStream c \<Rightarrow> wf_CreateSuperStreamCommand c
     | RequestKind.DeleteSuperStream c \<Rightarrow> wf_DeleteSuperStreamCommand c
     | RequestKind.SuperStreamPartitions c \<Rightarrow> wf_SuperStreamPartitionsRequest c
     | RequestKind.SuperStreamRoute c \<Rightarrow> wf_SuperStreamRouteRequest c
     | RequestKind.ConsumerUpdateRequest c \<Rightarrow> False
     | _ \<Rightarrow> True)"

definition fits_RequestKind :: "('t, 'u) externals \<Rightarrow> ('t, 'u) RequestKind \<Rightarrow> bool" where
  "fits_RequestKind X k =
    (case k of RequestKind.Publish c \<Rightarrow> fits_PublishCommand X c | _ \<Rightarrow> True)"

lemmas request_key_defs = key_PeerPropertiesCommand_def
  key_SaslHandshakeCommand_def
  key_SaslAuthenticateCommand_def
  key_TunesCommand_def
  key_OpenCommand_def
  key_CloseRequest_def
  key_Delete_def
  key_CreateStreamCommand_def
  key_SubscribeCommand_def
  key_CreditCommand_def
  key_MetadataCommand_def
  key_DeclarePublisherCommand_def
  key_DeletePublisherCommand_def
  key_HeartBeatCommand_def
  key_PublishCommand_def
  key_QueryOffsetRequest_def
  key_QueryPublisherRequest_def
  key_StoreOffset_def
  key_UnSubscribeCommand_def
  key_ExchangeCommandVersionsRequest_def
  key_CreateSuperStreamCommand_def
  key_DeleteSuperStreamCommand_def
  key_SuperStreamPartitionsRequest_def
  key_SuperStreamRouteRequest_def
  key_ConsumerUpdateRequestCommand_def

lemma decode_RequestKind_key:
  "decode_RequestKind X COMMAND_OPEN input = map_second RequestKind.Open (decode_OpenCommand input)"
  "decode_RequestKind X COMMAND_PEER_PROPERTIES input = map_second RequestKind.PeerProperties (decode_PeerPropertiesCommand input)"
  "decode_RequestKind X COMMAND_SASL_HANDSHAKE input = map_second RequestKind.SaslHandshake (decode_SaslHandshakeCommand input)"
  "decode_RequestKind X COMMAND_SASL_AUTHENTICATE input = map_second RequestKind.SaslAuthenticate (decode_SaslAuthenticateCommand input)"
  "decode_RequestKind X COMMAND_TUNE input = map_second RequestKind.Tunes (decode_TunesCommand input)"
  "decode_RequestKind X COMMAND_DELETE_STREAM input = map_second RequestKind.Delete (decode_Delete input)"
  "decode_RequestKind X COMMAND_CREATE_STREAM input = map_second RequestKind.CreateStream (decode_CreateStreamCommand input)"
  "decode_RequestKind X COMMAND_METADATA input = map_second RequestKind.Metadata (decode_MetadataCommand input)"
  "decode_RequestKind X COMMAND_CLOSE input = map_second RequestKind.Close (decode_CloseRequest input)"
  "decode_RequestKind X COMMAND_CREDIT input = map_second RequestKind.Credit (decode_CreditCommand input)"
  "decode_RequestKind X COMMAND_DECLARE_PUBLISHER input = map_second RequestKind.DeclarePublisher (decode_DeclarePublisherCommand input)"
  "decode_RequestKind X COMMAND_DELETE_PUBLISHER input = map_second RequestKind.DeletePublisher (decode_DeletePublisherCommand input)"
  "decode_RequestKind X COMMAND_HEARTBEAT input = map_second RequestKind.Heartbeat (decode_HeartBeatCommand input)"
  "decode_RequestKind X COMMAND_PUBLISH input = map_second RequestKind.Publish (decode_PublishCommand X input)"
  "decode_RequestKind X COMMAND_QUERY_OFFSET input = map_second RequestKind.QueryOffset (decode_QueryOffsetRequest input)"
  "decode_RequestKind X COMMAND_QUERY_PUBLISHER_SEQUENCE input = map_second RequestKind.QueryPublisherSequence (decode_QueryPublisherRequest input)"
  "decode_RequestKind X COMMAND_STORE_OFFSET input = map_second RequestKind.StoreOffset (decode_StoreOffset input)"
  "decode_RequestKind X COMMAND_SUBSCRIBE input = map_second RequestKind.Subscribe (decode_SubscribeCommand input)"
  "decode_RequestKind X COMMAND_UNSUBSCRIBE input = map_second RequestKind.Unsubscribe (decode_UnSubscribeCommand input)"
  "decode_RequestKind X COMMAND_EXCHANGE_COMMAND_VERSIONS input = map_second RequestKind.ExchangeCommandVersions (decode_ExchangeCommandVersionsRequest input)"
  "decode_RequestKind X COMMAND_CREATE_SUPER_STREAM input = map_second RequestKind.CreateSuperStream (decode_CreateSuperStreamCommand input)"
  "decode_RequestKind X COMMAND_DELETE_SUPER_STREAM input = map_second RequestKind.DeleteSuperStream (decode_DeleteSuperStreamCommand input)"
  "decode_RequestKind X COMMAND_PARTITIONS input = map_second RequestKind.SuperStreamPartitions (decode_SuperStreamPartitionsRequest input)"
  "decode_RequestKind X COMMAND_ROUTE input = map_second RequestKind.SuperStreamRoute (decode_SuperStreamRouteRequest input)"
  "decode_RequestKind X COMMAND_CONSUMER_UPDATE_REQUEST input = map_second RequestKind.ConsumerUpdateRequest (decode_ConsumerUpdateRequestCommand input)"
  by (simp_all add: decode_RequestKind_def command_keys)

lemma wf_request_key:
  "wf_RequestKind X k \<Longrightarrow> extract_response_code (request_key k) = request_key k"
  by (cases k)
     (simp_all add: wf_RequestKind_def request_key_def request_key_defs command_keys
       extract_response_code_def)

lemma encode_RequestKind_size:
  "encode_RequestKind X k = Ok bs \<Longrightarrow> fits_RequestKind X k \<Longrightarrow>
   encoded_size_RequestKind k = of_nat (length bs)"
  by (cases k)
     (auto simp: encode_RequestKind_def encoded_size_RequestKind_def fits_RequestKind_def size_simps
       PublishCommand.size_enc QueryOffsetRequest_size QueryPublisherRequest_size StoreOffset_size)

lemma decode_RequestKind_enc:
  "wf_RequestKind X k \<Longrightarrow> encode_RequestKind X k = Ok bs \<Longrightarrow>
   decode_RequestKind X (request_key k) (bs @ rest) = Ok (rest, k)"
  by (cases k)
     (auto simp: encode_RequestKind_def wf_RequestKind_def request_key_def request_key_defs
       decode_RequestKind_key round_trips)

lemma prefix_decoder_RequestKind [prefix_decoders]: "prefix_decoder (decode_RequestKind X k)"
  unfolding decode_RequestKind_def by (intro prefix_decoders)

interpretation Request: prefix_decoder "decode_Request X" for X
  unfolding decode_Request_def by (intro prefix_decoders)

section \<open>Properties\<close>

definition request_bytes :: "('t, 'u) Request \<Rightarrow> bytes \<Rightarrow> bytes" where
  "request_bytes r bs = encode_u32 (encoded_size_Request r) @ encode_header (Request.header r) @ bs"

lemma encode_Request_Ok:
  "encode_RequestKind X (kind r) = Ok bs \<Longrightarrow>
   encode_Request X r buf = (buf @ request_bytes r bs, Ok ())"
  by (simp add: encode_Request_def request_bytes_def)

lemma decode_request_bytes:
  assumes "wf_RequestKind X k" "encode_RequestKind X k = Ok bs"
  shows "decode_Request X (request_bytes (request_from k) bs @ rest) = Ok (rest, request_from k)"
  using decode_RequestKind_enc [OF assms, of rest] wf_request_key [OF assms(1)]
  by (simp add: decode_Request_def request_bytes_def request_from_def encode_header_def
      decode_header_def round_trips)

text \<open>C1.  Every request the client builds from a well-formed command is written behind what the
  buffer already holds, and reading those bytes back, whatever follows them, gives the same
  request and leaves what follows.\<close>

theorem request_round_trip:
  assumes "wf_RequestKind X k" "encode_RequestKind X k = Ok bs"
  shows "\<exists>frame. encode_Request X (request_from k) buf = (buf @ frame, Ok ()) \<and>
    (\<forall>rest. decode_Request X (frame @ rest) = Ok (rest, request_from k))"
proof (intro exI conjI allI)
  show "encode_Request X (request_from k) buf =
      (buf @ request_bytes (request_from k) bs, Ok ())"
    using assms(2) by (intro encode_Request_Ok) (simp add: request_from_def)
  show "decode_Request X (request_bytes (request_from k) bs @ rest) = Ok (rest, request_from k)"
    for rest using assms by (rule decode_request_bytes)
qed

definition sample_create_stream :: "(i64, bytes) RequestKind" where
  "sample_create_stream =
     RequestKind.CreateStream (new_CreateStreamCommand 7 ''orders'' [(''max-age'', ''10s'')])"

lemma sample_create_stream_wf:
  "wf_RequestKind byte_externals sample_create_stream"
  by (simp add: sample_create_stream_def wf_RequestKind_def wf_CreateStreamCommand_def
      new_CreateStreamCommand_def wire_string_def wire_map_def ascii_rust_string)

lemma sample_create_stream_encodes:
  "encode_RequestKind byte_externals sample_create_stream =
     Ok (encode_CreateStreamCommand
       (new_CreateStreamCommand 7 ''orders'' [(''max-age'', ''10s'')]))"
  by (simp add: sample_create_stream_def encode_RequestKind_def)

theorem request_round_trip_witness:
  "wf_RequestKind byte_externals sample_create_stream \<and>
   (\<exists>frame. encode_Request byte_externals (request_from sample_create_stream) [1] =
      ([1] @ frame, Ok ()) \<and>
    (\<forall>rest. decode_Request byte_externals (frame @ rest) =
      Ok (rest, request_from sample_create_stream)))"
  using sample_create_stream_wf
    request_round_trip [OF sample_create_stream_wf sample_create_stream_encodes, of "[1]"]
  by blast

text \<open>The length word of a request frame is the number of bytes that follow it: the header
  and the command, for every kind of command whose announced size is right (all of them, for
  \<open>Publish\<close> when its messages are).\<close>

theorem request_length_prefix:
  assumes "fits_RequestKind X (kind r)" "encode_RequestKind X (kind r) = Ok bs"
  shows "encode_Request X r buf =
    (buf @ encode_u32 (of_nat (length (encode_header (Request.header r) @ bs))) @
       encode_header (Request.header r) @ bs, Ok ())"
  using encode_RequestKind_size [OF assms(2,1)] header.size_enc [OF TrueI, of "Request.header r"]
  by (simp add: encode_Request_Ok [OF assms(2)] request_bytes_def encoded_size_Request_def)

theorem request_length_prefix_witness:
  "fits_RequestKind byte_externals sample_create_stream \<and>
   (\<exists>h bs. encode_Request byte_externals (request_from sample_create_stream) [] =
     (encode_u32 (of_nat (length (h @ bs))) @ h @ bs, Ok ()))"
proof -
  have fits: "fits_RequestKind byte_externals (kind (request_from sample_create_stream))"
    by (simp add: request_from_def sample_create_stream_def fits_RequestKind_def)
  have enc: "encode_RequestKind byte_externals (kind (request_from sample_create_stream)) =
      Ok (encode_CreateStreamCommand
        (new_CreateStreamCommand 7 ''orders'' [(''max-age'', ''10s'')]))"
    by (simp add: request_from_def sample_create_stream_encodes)
  show ?thesis
    using request_length_prefix [OF fits enc, of "[]"] fits
    by (auto simp: request_from_def)
qed

text \<open>A consumer or publisher reference of 256 bytes or more is refused with its length, but
  only after the length word and the header of the frame are in the buffer: exactly eight bytes
  of an unfinished frame stay behind.\<close>

theorem oversized_reference_leaves_header:
  assumes "k = RequestKind.QueryOffset c1 \<and> s = QueryOffsetRequest.reference c1 \<or>
    k = RequestKind.QueryPublisherSequence c2 \<and> s = publisher_reference c2 \<or>
    k = RequestKind.StoreOffset c3 \<and> s = StoreOffset.reference c3"
    and "256 \<le> length s"
  shows "\<exists>hdr. length hdr = 8 \<and>
    encode_Request X (request_from k) buf = (buf @ hdr, Err (MaxSizeError (length s)))"
proof -
  have "encode_RequestKind X k = Err (MaxSizeError (length s))"
    using assms
    by (auto simp: encode_RequestKind_def encode_QueryOffsetRequest_def
        encode_QueryPublisherRequest_def encode_StoreOffset_def)
  then have "encode_Request X (request_from k) buf =
      (buf @ encode_u32 (encoded_size_Request (request_from k)) @
         encode_header (Request.header (request_from k)), Err (MaxSizeError (length s)))"
    by (simp add: encode_Request_def request_from_def)
  then show ?thesis
    by (intro exI [of _ "encode_u32 (encoded_size_Request (request_from k)) @
        encode_header (Request.header (request_from k))"]) (simp add: encode_header_def)
qed

theorem oversized_reference_leaves_header_witness:
  "\<exists>hdr. length hdr = 8 \<and>
    encode_Request byte_externals (request_from (RequestKind.QueryOffset
        (new_QueryOffsetRequest 1 (replicate 300 CHR ''a'') ''s''))) [] =
      (hdr, Err (MaxSizeError 300))"
  using oversized_reference_leaves_header
    [of "RequestKind.QueryOffset (new_QueryOffsetRequest 1 (replicate 300 CHR ''a'') ''s'')"
      "new_QueryOffsetRequest 1 (replicate 300 CHR ''a'') ''s''" "replicate 300 CHR ''a''"
      undefined undefined byte_externals "[]"]
  by (simp add: new_QueryOffsetRequest_def)

text \<open>The answer to a consumer update cannot be read back: its key 32794 has the response
  bit set, which the header decoder removes, so the frame is reported as unsupported type 26
  and the arm of the decoder for it is never taken.\<close>

theorem consumer_update_request_unsupported:
  fixes X :: "('t, 'u) externals"
  shows "\<exists>frame. encode_Request X (request_from (RequestKind.ConsumerUpdateRequest c)) [] =
      (frame, Ok ()) \<and>
    (\<forall>rest. decode_Request X (frame @ rest) = Err (UnsupportedResponseType 26))"
proof (intro exI conjI allI)
  let ?r = "request_from (RequestKind.ConsumerUpdateRequest c) :: ('t, 'u) Request"
  let ?bs = "encode_ConsumerUpdateRequestCommand c"
  show "encode_Request X ?r [] = (request_bytes ?r ?bs, Ok ())"
    using encode_Request_Ok [of X ?r ?bs "[]"]
    by (simp add: request_from_def encode_RequestKind_def)
  show "decode_Request X (request_bytes ?r ?bs @ rest) = Err (UnsupportedResponseType 26)" for rest
    by (simp add: decode_Request_def request_bytes_def request_from_def encode_header_def
        decode_header_def round_trips request_key_def key_ConsumerUpdateRequestCommand_def
        command_keys extract_response_code_def decode_RequestKind_def)
qed

end
