(* ===== verification/Responses.thy ===== *)
theory Responses
  imports Commands_Connection Commands_Streams Commands_Clients Commands_Messages
begin

text \<open>
  Response frames (\<open>protocol/src/response\<close>): what the broker sends.  The client only decodes them;
  \<open>encode_ResponseKind\<close> is the encoder of the source's test module, which stands for the broker.
  A frame is a length, a header and the body of its kind; \<open>response_frame\<close> builds one for any
  length word, since the decoder does not look at it.
\<close>

section \<open>Kinds of responses\<close>

datatype ('t, 'u) ResponseKind =
    Open OpenResponse
  | Close CloseResponse
  | PeerProperties PeerPropertiesResponse
  | SaslHandshake SaslHandshakeResponse
  | Generic GenericResponse
  | Tunes TunesCommand
  | Deliver "('t, 'u) DeliverCommand"
  | Heartbeat HeartbeatResponse
  | Metadata MetadataResponse
  | MetadataUpdate MetadataUpdateCommand
  | PublishConfirm PublishConfirm
  | PublishError PublishErrorResponse
  | QueryOffset QueryOffsetResponse
  | QueryPublisherSequence QueryPublisherResponse
  | Credit CreditResponse
  | ExchangeCommandVersions ExchangeCommandVersionsResponse
  | SuperStreamPartitions SuperStreamPartitionsResponse
  | SuperStreamRoute SuperStreamRouteResponse
  | ConsumerUpdate ConsumerUpdateCommand
  | ConsumerUpdateRequest ConsumerUpdateRequestCommand

record ('t, 'u) Response =
  header :: Header
  kind :: "('t, 'u) ResponseKind"

definition response_correlation_id :: "('t, 'u) Response \<Rightarrow> u32 option" where
  "response_correlation_id r =
    (case kind r of
       ResponseKind.Open c \<Rightarrow> Some (OpenResponse.correlation_id c)
     | ResponseKind.Close c \<Rightarrow> Some (CloseResponse.correlation_id c)
     | ResponseKind.PeerProperties c \<Rightarrow> Some (PeerPropertiesResponse.correlation_id c)
     | ResponseKind.SaslHandshake c \<Rightarrow> Some (SaslHandshakeResponse.correlation_id c)
     | ResponseKind.Generic c \<Rightarrow> Some (GenericResponse.correlation_id c)
     | ResponseKind.Metadata c \<Rightarrow> Some (MetadataResponse.correlation_id c)
     | ResponseKind.QueryOffset c \<Rightarrow> Some (QueryOffsetResponse.correlation_id c)
     | ResponseKind.QueryPublisherSequence c \<Rightarrow> Some (QueryPublisherResponse.correlation_id c)
     | ResponseKind.ExchangeCommandVersions c \<Rightarrow> Some (ExchangeCommandVersionsResponse.correlation_id c)
     | ResponseKind.SuperStreamPartitions c \<Rightarrow> Some (SuperStreamPartitionsResponse.correlation_id c)
     | ResponseKind.SuperStreamRoute c \<Rightarrow> Some (SuperStreamRouteResponse.correlation_id c)
     | ResponseKind.ConsumerUpdate c \<Rightarrow> Some (ConsumerUpdateCommand.correlation_id c)
     | ResponseKind.ConsumerUpdateRequest c \<Rightarrow> Some (ConsumerUpdateRequestCommand.correlation_id c)
     | _ \<Rightarrow> None)"

definition decode_ResponseKind ::
  "('t, 'u) externals \<Rightarrow> u16 \<Rightarrow> ('t, 'u) ResponseKind decoder" where
  "decode_ResponseKind X k input =
    (if k = COMMAND_OPEN
       then map_second ResponseKind.Open (decode_OpenResponse input)
     else if k = COMMAND_CLOSE
       then map_second ResponseKind.Close (decode_CloseResponse input)
     else if k = COMMAND_PEER_PROPERTIES
       then map_second ResponseKind.PeerProperties (decode_PeerPropertiesResponse input)
     else if k = COMMAND_SASL_HANDSHAKE
       then map_second ResponseKind.SaslHandshake (decode_SaslHandshakeResponse input)
     else if k = COMMAND_DECLARE_PUBLISHER \<or> k = COMMAND_DELETE_PUBLISHER \<or> k = COMMAND_SASL_AUTHENTICATE \<or>
          k = COMMAND_SUBSCRIBE \<or> k = COMMAND_UNSUBSCRIBE \<or> k = COMMAND_CREATE_STREAM \<or>
          k = COMMAND_CREATE_SUPER_STREAM \<or> k = COMMAND_DELETE_SUPER_STREAM \<or>
          k = COMMAND_CONSUMER_UPDATE_REQUEST \<or> k = COMMAND_DELETE_STREAM
       then map_second ResponseKind.Generic (decode_GenericResponse input)
     else if k = COMMAND_TUNE
       then map_second ResponseKind.Tunes (decode_TunesCommand input)
     else if k = COMMAND_DELIVER
       then map_second ResponseKind.Deliver (decode_DeliverCommand X input)
     else if k = COMMAND_HEARTBEAT
       then map_second ResponseKind.Heartbeat (decode_HeartbeatResponse input)
     else if k = COMMAND_METADATA
       then map_second ResponseKind.Metadata (decode_MetadataResponse input)
     else if k = COMMAND_METADATA_UPDATE
       then map_second ResponseKind.MetadataUpdate (decode_MetadataUpdateCommand input)
     else if k = COMMAND_PUBLISH_CONFIRM
       then map_second ResponseKind.PublishConfirm (decode_PublishConfirm input)
     else if k = COMMAND_PUBLISH_ERROR
       then map_second ResponseKind.PublishError (decode_PublishErrorResponse input)
     else if k = COMMAND_QUERY_OFFSET
       then map_second ResponseKind.QueryOffset (decode_QueryOffsetResponse input)
     else if k = COMMAND_CREDIT
       then map_second ResponseKind.Credit (decode_CreditResponse input)
     else if k = COMMAND_QUERY_PUBLISHER_SEQUENCE
       then map_second ResponseKind.QueryPublisherSequence (decode_QueryPublisherResponse input)
     else if k = COMMAND_EXCHANGE_COMMAND_VERSIONS
       then map_second ResponseKind.ExchangeCommandVersions (decode_ExchangeCommandVersionsResponse input)
     else if k = COMMAND_PARTITIONS
       then map_second ResponseKind.SuperStreamPartitions (decode_SuperStreamPartitionsResponse input)
     else if k = COMMAND_ROUTE
       then map_second ResponseKind.SuperStreamRoute (decode_SuperStreamRouteResponse input)
     else if k = COMMAND_CONSUMER_UPDATE
       then map_second ResponseKind.ConsumerUpdate (decode_ConsumerUpdateCommand input)
     else Err (UnsupportedResponseType k))"

definition decode_Response :: "('t, 'u) externals \<Rightarrow> ('t, 'u) Response decoder" where
  "decode_Response X input =
     and_then (read_u32 input) (\<lambda>(input, _).
     and_then (decode_header input) (\<lambda>(input, h).
     and_then (decode_ResponseKind X (key h) input) (\<lambda>(input, kind').
       Ok (input, \<lparr>header = h, kind = kind'\<rparr>))))"

section \<open>FromResponse: picking the expected kind\<close>

definition from_response_OpenResponse :: "('t, 'u) Response \<Rightarrow> OpenResponse option" where
  "from_response_OpenResponse r = (case kind r of ResponseKind.Open c \<Rightarrow> Some c | _ \<Rightarrow> None)"

definition from_response_CloseResponse :: "('t, 'u) Response \<Rightarrow> CloseResponse option" where
  "from_response_CloseResponse r = (case kind r of ResponseKind.Close c \<Rightarrow> Some c | _ \<Rightarrow> None)"

definition from_response_PeerPropertiesResponse :: "('t, 'u) Response \<Rightarrow> PeerPropertiesResponse option" where
  "from_response_PeerPropertiesResponse r = (case kind r of ResponseKind.PeerProperties c \<Rightarrow> Some c | _ \<Rightarrow> None)"

definition from_response_SaslHandshakeResponse :: "('t, 'u) Response \<Rightarrow> SaslHandshakeResponse option" where
  "from_response_SaslHandshakeResponse r = (case kind r of ResponseKind.SaslHandshake c \<Rightarrow> Some c | _ \<Rightarrow> None)"

definition from_response_GenericResponse :: "('t, 'u) Response \<Rightarrow> GenericResponse option" where
  "from_response_GenericResponse r = (case kind r of ResponseKind.Generic c \<Rightarrow> Some c | _ \<Rightarrow> None)"

definition from_response_TunesCommand :: "('t, 'u) Response \<Rightarrow> TunesCommand option" where
  "from_response_TunesCommand r = (case kind r of ResponseKind.Tunes c \<Rightarrow> Some c | _ \<Rightarrow> None)"

definition from_response_MetadataResponse :: "('t, 'u) Response \<Rightarrow> MetadataResponse option" where
  "from_response_MetadataResponse r = (case kind r of ResponseKind.Metadata c \<Rightarrow> Some c | _ \<Rightarrow> None)"

definition from_response_QueryOffsetResponse :: "('t, 'u) Response \<Rightarrow> QueryOffsetResponse option" where
  "from_response_QueryOffsetResponse r = (case kind r of ResponseKind.QueryOffset c \<Rightarrow> Some c | _ \<Rightarrow> None)"

definition from_response_QueryPublisherResponse :: "('t, 'u) Response \<Rightarrow> QueryPublisherResponse option" where
  "from_response_QueryPublisherResponse r = (case kind r of ResponseKind.QueryPublisherSequence c \<Rightarrow> Some c | _ \<Rightarrow> None)"

definition from_response_ExchangeCommandVersionsResponse :: "('t, 'u) Response \<Rightarrow> ExchangeCommandVersionsResponse option" where
  "from_response_ExchangeCommandVersionsResponse r = (case kind r of ResponseKind.ExchangeCommandVersions c \<Rightarrow> Some c | _ \<Rightarrow> None)"

definition from_response_SuperStreamPartitionsResponse :: "('t, 'u) Response \<Rightarrow> SuperStreamPartitionsResponse option" where
  "from_response_SuperStreamPartitionsResponse r = (case kind r of ResponseKind.SuperStreamPartitions c \<Rightarrow> Some c | _ \<Rightarrow> None)"

definition from_response_SuperStreamRouteResponse :: "('t, 'u) Response \<Rightarrow> SuperStreamRouteResponse option" where
  "from_response_SuperStreamRouteResponse r = (case kind r of ResponseKind.SuperStreamRoute c \<Rightarrow> Some c | _ \<Rightarrow> None)"

section \<open>The broker's side\<close>

definition encode_ResponseKind :: "('t, 'u) externals \<Rightarrow> ('t, 'u) ResponseKind \<Rightarrow> bytes" where
  "encode_ResponseKind X k =
    (case k of
       ResponseKind.Open c \<Rightarrow> encode_OpenResponse c
     | ResponseKind.Close c \<Rightarrow> encode_CloseResponse c
     | ResponseKind.PeerProperties c \<Rightarrow> encode_PeerPropertiesResponse c
     | ResponseKind.SaslHandshake c \<Rightarrow> encode_SaslHandshakeResponse c
     | ResponseKind.Generic c \<Rightarrow> encode_GenericResponse c
     | ResponseKind.Tunes c \<Rightarrow> encode_TunesCommand c
     | ResponseKind.Deliver c \<Rightarrow> encode_DeliverCommand X c
     | ResponseKind.Heartbeat c \<Rightarrow> encode_HeartbeatResponse c
     | ResponseKind.Metadata c \<Rightarrow> encode_MetadataResponse c
     | ResponseKind.MetadataUpdate c \<Rightarrow> encode_MetadataUpdateCommand c
     | ResponseKind.PublishConfirm c \<Rightarrow> encode_PublishConfirm c
     | ResponseKind.PublishError c \<Rightarrow> encode_PublishErrorResponse c
     | ResponseKind.QueryOffset c \<Rightarrow> encode_QueryOffsetResponse c
     | ResponseKind.QueryPublisherSequence c \<Rightarrow> encode_QueryPublisherResponse c
     | ResponseKind.Credit c \<Rightarrow> encode_CreditResponse c
     | ResponseKind.ExchangeCommandVersions c \<Rightarrow> encode_ExchangeCommandVersionsResponse c
     | ResponseKind.SuperStreamPartitions c \<Rightarrow> encode_SuperStreamPartitionsResponse c
     | ResponseKind.SuperStreamRoute c \<Rightarrow> encode_SuperStreamRouteResponse c
     | ResponseKind.ConsumerUpdate c \<Rightarrow> encode_ConsumerUpdateCommand c
     | ResponseKind.ConsumerUpdateRequest c \<Rightarrow> encode_ConsumerUpdateRequestCommand c)"

text \<open>The keys under which a kind of response is sent; an update of the single active consumer
  is a command of its own.\<close>

definition response_keys :: "('t, 'u) ResponseKind \<Rightarrow> u16 set" where
  "response_keys k =
    (case k of
       ResponseKind.Open c \<Rightarrow> {COMMAND_OPEN}
     | ResponseKind.Close c \<Rightarrow> {COMMAND_CLOSE}
     | ResponseKind.PeerProperties c \<Rightarrow> {COMMAND_PEER_PROPERTIES}
     | ResponseKind.SaslHandshake c \<Rightarrow> {COMMAND_SASL_HANDSHAKE}
     | ResponseKind.Generic c \<Rightarrow> {COMMAND_DECLARE_PUBLISHER, COMMAND_DELETE_PUBLISHER, COMMAND_SASL_AUTHENTICATE, COMMAND_SUBSCRIBE, COMMAND_UNSUBSCRIBE, COMMAND_CREATE_STREAM, COMMAND_CREATE_SUPER_STREAM, COMMAND_DELETE_SUPER_STREAM, COMMAND_DELETE_STREAM}
     | ResponseKind.Tunes c \<Rightarrow> {COMMAND_TUNE}
     | ResponseKind.Deliver c \<Rightarrow> {COMMAND_DELIVER}
     | ResponseKind.Heartbeat c \<Rightarrow> {COMMAND_HEARTBEAT}
     | ResponseKind.Metadata c \<Rightarrow> {COMMAND_METADATA}
     | ResponseKind.MetadataUpdate c \<Rightarrow> {COMMAND_METADATA_UPDATE}
     | ResponseKind.PublishConfirm c \<Rightarrow> {COMMAND_PUBLISH_CONFIRM}
     | ResponseKind.PublishError c \<Rightarrow> {COMMAND_PUBLISH_ERROR}
     | ResponseKind.QueryOffset c \<Rightarrow> {COMMAND_QUERY_OFFSET}
     | ResponseKind.Credit c \<Rightarrow> {COMMAND_CREDIT}
     | ResponseKind.QueryPublisherSequence c \<Rightarrow> {COMMAND_QUERY_PUBLISHER_SEQUENCE}
     | ResponseKind.ExchangeCommandVersions c \<Rightarrow> {COMMAND_EXCHANGE_COMMAND_VERSIONS}
     | ResponseKind.SuperStreamPartitions c \<Rightarrow> {COMMAND_PARTITIONS}
     | ResponseKind.SuperStreamRoute c \<Rightarrow> {COMMAND_ROUTE}
     | ResponseKind.ConsumerUpdate c \<Rightarrow> {COMMAND_CONSUMER_UPDATE}
     | ResponseKind.ConsumerUpdateRequest c \<Rightarrow> {})"

definition wf_ResponseKind :: "('t, 'u) externals \<Rightarrow> ('t, 'u) ResponseKind \<Rightarrow> bool" where
  "wf_ResponseKind X k =
    (case k of
       ResponseKind.Open c \<Rightarrow> wf_OpenResponse c
     | ResponseKind.PeerProperties c \<Rightarrow> wf_PeerPropertiesResponse c
     | ResponseKind.SaslHandshake c \<Rightarrow> wf_SaslHandshakeResponse c
     | ResponseKind.Deliver c \<Rightarrow> wf_DeliverCommand X c
     | ResponseKind.Metadata c \<Rightarrow> wf_MetadataResponse c
     | ResponseKind.MetadataUpdate c \<Rightarrow> wf_MetadataUpdateCommand c
     | ResponseKind.PublishConfirm c \<Rightarrow> wf_PublishConfirm c
     | ResponseKind.PublishError c \<Rightarrow> wf_PublishErrorResponse c
     | ResponseKind.ExchangeCommandVersions c \<Rightarrow> wf_ExchangeCommandVersionsResponse c
     | ResponseKind.SuperStreamPartitions c \<Rightarrow> wf_SuperStreamPartitionsResponse c
     | ResponseKind.SuperStreamRoute c \<Rightarrow> wf_SuperStreamRouteResponse c
     | _ \<Rightarrow> True)"

definition response_frame ::
  "('t, 'u) externals \<Rightarrow> u32 \<Rightarrow> u16 \<Rightarrow> u16 \<Rightarrow> ('t, 'u) ResponseKind \<Rightarrow> bytes" where
  "response_frame X len k v kd =
     encode_u32 len @ encode_u16 k @ encode_u16 v @ encode_ResponseKind X kd"

lemma decode_ResponseKind_enc:
  assumes "wf_ResponseKind X kd" "k \<in> response_keys kd"
  shows "decode_ResponseKind X k (encode_ResponseKind X kd @ rest) = Ok (rest, kd)"
  using assms
  by (cases kd)
     (auto simp: decode_ResponseKind_def encode_ResponseKind_def wf_ResponseKind_def
       response_keys_def command_keys round_trips)

lemma decode_Response_frame:
  assumes "wf_ResponseKind X kd" "extract_response_code k \<in> response_keys kd"
  shows "decode_Response X (response_frame X len k v kd @ rest) =
    Ok (rest, \<lparr>header = \<lparr>key = extract_response_code k, version = v\<rparr>, kind = kd\<rparr>)"
  by (simp add: decode_Response_def response_frame_def decode_header_def round_trips
      decode_ResponseKind_enc [OF assms])

lemma prefix_decoder_ResponseKind [prefix_decoders]: "prefix_decoder (decode_ResponseKind X k)"
  unfolding decode_ResponseKind_def by (intro prefix_decoders)

interpretation Response: prefix_decoder "decode_Response X" for X
  unfolding decode_Response_def by (intro prefix_decoders)

text \<open>The keys of the bodies that hold no string: a cut anywhere in such a frame is seen as
  incomplete input.\<close>

definition stringless_keys :: "u16 set" where
  "stringless_keys = {COMMAND_CLOSE, COMMAND_TUNE, COMMAND_DELIVER, COMMAND_HEARTBEAT,
     COMMAND_PUBLISH_CONFIRM, COMMAND_PUBLISH_ERROR, COMMAND_QUERY_OFFSET, COMMAND_CREDIT,
     COMMAND_QUERY_PUBLISHER_SEQUENCE, COMMAND_EXCHANGE_COMMAND_VERSIONS,
     COMMAND_CONSUMER_UPDATE, COMMAND_DECLARE_PUBLISHER, COMMAND_DELETE_PUBLISHER,
     COMMAND_SASL_AUTHENTICATE, COMMAND_SUBSCRIBE, COMMAND_UNSUBSCRIBE, COMMAND_CREATE_STREAM,
     COMMAND_CREATE_SUPER_STREAM, COMMAND_DELETE_SUPER_STREAM, COMMAND_DELETE_STREAM}"

lemma resumable_map_second [resumables]:
  "resumable d \<Longrightarrow> resumable (\<lambda>input. map_second f (d input))"
  unfolding map_second_def by (intro resumables)

lemma resumable_ResponseKind:
  assumes "k \<in> stringless_keys"
  shows "resumable (decode_ResponseKind X k)"
  using assms unfolding stringless_keys_def decode_ResponseKind_def
  by (elim insertE emptyE; simp add: command_keys; intro resumables)

section \<open>Properties of response frames\<close>


definition sample_metadata_update :: "(i64, bytes) ResponseKind" where
  "sample_metadata_update =
     ResponseKind.MetadataUpdate
       \<lparr>MetadataUpdateCommand.code = StreamNotAvailable, MetadataUpdateCommand.stream = ''orders''\<rparr>"

lemma sample_metadata_update_wf:
  "wf_ResponseKind byte_externals sample_metadata_update"
  by (simp add: sample_metadata_update_def wf_ResponseKind_def wf_MetadataUpdateCommand_def
      wire_string_def ascii_rust_string)

lemma sample_metadata_update_key:
  "extract_response_code 0x8010 \<in> response_keys sample_metadata_update"
  by (simp add: sample_metadata_update_def response_keys_def command_keys
      extract_response_code_def)


text \<open>The decoder never looks beyond the frame it decodes: whatever is decoded from an input
  is decoded from the consumed bytes alone, followed by anything else.\<close>

theorem response_consumes_prefix:
  assumes "decode_Response X input = Ok (rest, r)"
  shows "\<exists>c. input = c @ rest \<and> 8 \<le> length c \<and>
    (\<forall>s. decode_Response X (c @ s) = Ok (s, r))"
proof -
  obtain c where c: "input = c @ rest" "\<And>s. decode_Response X (c @ s) = Ok (s, r)"
    using Response.consumes [OF assms] by blast
  have "8 \<le> length c"
    using c(2) [of "[]"]
    by (auto simp: decode_Response_def decode_header_def read_u32_def read_u16_def read_be_def
        and_then_Ok_iff check_len_def split: if_splits)
  with c show ?thesis by blast
qed

theorem response_consumes_prefix_witness:
  "\<exists>c. response_frame byte_externals 0 0x8010 1 sample_metadata_update @ [9, 9] = c @ [9, 9] \<and>
    8 \<le> length c \<and>
    (\<forall>s. decode_Response byte_externals (c @ s) =
      Ok (s, \<lparr>header = \<lparr>key = extract_response_code 0x8010, version = 1\<rparr>,
        kind = sample_metadata_update\<rparr>))"
  by (rule response_consumes_prefix
      [OF decode_Response_frame [OF sample_metadata_update_wf sample_metadata_update_key]])

end
