(* ===== verification/Client_Codec.thy ===== *)
theory Client_Codec
  imports Requests Responses
begin

text \<open>
  The codec of the connection (\<open>src/client/codec.rs\<close>) and the errors of the client
  (\<open>src/error.rs\<close>).  \<open>codec_decode\<close> and \<open>codec_encode\<close> are the two methods of
  \<open>RabbitMqStreamCodec\<close>, with the buffer passed and returned.

  \<open>drain\<close> is what the framed reader of \<open>tokio_util\<close> does with them: it decodes frames until the
  codec asks for more input, then appends the next chunk that was read.
\<close>

section \<open>Errors (src/error.rs)\<close>

text \<open>Payloads that are values of other crates are left out.\<close>

datatype ProtocolError = Encode EncodeError | Decode DecodeError

datatype ClientError =
    Io
  | Protocol ProtocolError
  | CastError string
  | GenericError
  | AlreadyClosed
  | ConnectionClosed
  | Tls
  | RequestError ResponseCode

definition from_encode_error :: "EncodeError \<Rightarrow> ClientError" where
  "from_encode_error err = ClientError.Protocol (ProtocolError.Encode err)"

definition from_decode_error :: "DecodeError \<Rightarrow> ClientError" where
  "from_decode_error err = ClientError.Protocol (ProtocolError.Decode err)"

section \<open>The codec\<close>

definition codec_decode :: "('t, 'u) externals \<Rightarrow> bytes \<Rightarrow>
    (bytes \<times> ('t, 'u) Response option, ClientError) result" where
  "codec_decode X buf =
    (case decode_Response X buf of
       Ok (remaining, response) \<Rightarrow>
         Ok (drop (length buf - length remaining) buf, Some response)
     | Err (Incomplete _) \<Rightarrow> Ok (buf, None)
     | Err e \<Rightarrow> Err (from_decode_error e)
     | Panic \<Rightarrow> Panic)"

definition codec_encode :: "('t, 'u) externals \<Rightarrow> ('t, 'u) Request \<Rightarrow> bytes \<Rightarrow>
    bytes \<times> (unit, ClientError) result" where
  "codec_encode X req buf =
    (case encode_Request X req buf of (buf, r) \<Rightarrow> (buf, map_err from_encode_error r))"

lemma codec_decode_Ok:
  assumes "decode_Response X buf = Ok (rest, r)"
  shows "codec_decode X buf = Ok (rest, Some r)"
proof -
  obtain c where "buf = c @ rest" using Response.consumes [OF assms] by blast
  with assms show ?thesis by (simp add: codec_decode_def)
qed

lemma codec_decode_None: "decode_Response X buf = Err (Incomplete n) \<Longrightarrow> codec_decode X buf = Ok (buf, None)"
  by (simp add: codec_decode_def)

section \<open>Reading a stream of frames\<close>

primrec drain_fuel :: "nat \<Rightarrow> ('t, 'u) externals \<Rightarrow> bytes \<Rightarrow>
    (('t, 'u) Response list \<times> bytes, ClientError) result" where
  "drain_fuel 0 X buf = Ok ([], buf)"
| "drain_fuel (Suc n) X buf =
     and_then (codec_decode X buf) (\<lambda>(buf, item).
       case item of
         None \<Rightarrow> Ok ([], buf)
       | Some r \<Rightarrow> and_then (drain_fuel n X buf) (\<lambda>(rs, buf). Ok (r # rs, buf)))"

definition drain :: "('t, 'u) externals \<Rightarrow> bytes \<Rightarrow>
    (('t, 'u) Response list \<times> bytes, ClientError) result" where
  "drain X buf = drain_fuel (Suc (length buf)) X buf"

primrec read_chunks :: "('t, 'u) externals \<Rightarrow> bytes \<Rightarrow> bytes list \<Rightarrow>
    (('t, 'u) Response list \<times> bytes, ClientError) result" where
  "read_chunks X buf [] = Ok ([], buf)"
| "read_chunks X buf (c # cs) =
     and_then (drain X (buf @ c)) (\<lambda>(rs, buf).
     and_then (read_chunks X buf cs) (\<lambda>(rs', buf). Ok (rs @ rs', buf)))"

text \<open>A frame of the broker: length word, key, version and body.\<close>

record ('t, 'u) frame =
  frame_len :: u32
  frame_key :: u16
  frame_version :: u16
  frame_kind :: "('t, 'u) ResponseKind"

definition frame_bytes :: "('t, 'u) externals \<Rightarrow> ('t, 'u) frame \<Rightarrow> bytes" where
  "frame_bytes X f = response_frame X (frame_len f) (frame_key f) (frame_version f) (frame_kind f)"

definition frame_response :: "('t, 'u) frame \<Rightarrow> ('t, 'u) Response" where
  "frame_response f =
     \<lparr>header = \<lparr>key = extract_response_code (frame_key f), version = frame_version f\<rparr>,
      kind = frame_kind f\<rparr>"

definition frame_ok :: "('t, 'u) externals \<Rightarrow> ('t, 'u) frame \<Rightarrow> bool" where
  "frame_ok X f \<longleftrightarrow> wf_ResponseKind X (frame_kind f) \<and>
     extract_response_code (frame_key f) \<in> response_keys (frame_kind f)"

definition stringless :: "('t, 'u) frame \<Rightarrow> bool" where
  "stringless f \<longleftrightarrow> extract_response_code (frame_key f) \<in> stringless_keys"

lemma frame_bytes_length: "8 \<le> length (frame_bytes X f)"
  by (simp add: frame_bytes_def response_frame_def)

lemma decode_frame:
  "frame_ok X f \<Longrightarrow> decode_Response X (frame_bytes X f @ rest) = Ok (rest, frame_response f)"
  by (simp add: frame_bytes_def frame_ok_def frame_response_def decode_Response_frame)

lemma decode_frame_cut:
  assumes "frame_ok X f" "stringless f" "strict_prefix p (frame_bytes X f)"
  shows "\<exists>n. decode_Response X p = Err (Incomplete n)"
proof -
  let ?k = "extract_response_code (frame_key f)"
  let ?g = "\<lambda>h input. and_then (decode_ResponseKind X (key h) input)
    (\<lambda>(input, kd). Ok (input, \<lparr>Response.header = h, kind = kd\<rparr>))"
  let ?d = "\<lambda>input. and_then (read_u32 input) (\<lambda>(input, _). decode_header input)"
  have res: "resumable ?d" by (intro resumables)
  have kd: "decode_ResponseKind X ?k (encode_ResponseKind X (frame_kind f)) = Ok ([], frame_kind f)"
    using assms(1) decode_ResponseKind_enc [of X "frame_kind f" ?k "[]"] by (simp add: frame_ok_def)
  have kres: "resumable (decode_ResponseKind X ?k)"
    using assms(2) by (simp add: stringless_def resumable_ResponseKind)
  have cut: "\<exists>n. decode_ResponseKind X ?k q = Err (Incomplete n)"
    if "strict_prefix q (encode_ResponseKind X (frame_kind f))" for q
    using resumable.strict_prefix_incomplete [OF kres kd that] .
  have "\<exists>n. and_then (?d p) (\<lambda>(input, h). ?g h input) = Err (Incomplete n)"
  proof (rule incomplete_bind [OF res])
    show "?d (encode_u32 (frame_len f) @ encode_u16 (frame_key f) @ encode_u16 (frame_version f)) =
        Ok ([], \<lparr>key = ?k, version = frame_version f\<rparr>)"
      using int_round_trips(6) [of "frame_len f"] int_round_trips(4) [of "frame_version f" "[]"]
      by (simp add: decode_header_def round_trips)
    show "strict_prefix p ((encode_u32 (frame_len f) @ encode_u16 (frame_key f) @
        encode_u16 (frame_version f)) @ encode_ResponseKind X (frame_kind f))"
      using assms(3) by (simp add: frame_bytes_def response_frame_def)
  qed (use cut in fastforce)
  then show ?thesis by (simp add: decode_Response_def case_prod_unfold)
qed

text \<open>Whatever part of a stream of such frames has arrived: the complete frames come out in
  order and the cut one stays in the buffer.\<close>

lemma drain_fuel_frames:
  assumes "list_all (\<lambda>f. frame_ok X f \<and> stringless f) fs"
    and "prefix buf (concat (map (frame_bytes X) fs))" "length buf < n"
  shows "\<exists>k p. buf = concat (map (frame_bytes X) (take k fs)) @ p \<and> k \<le> length fs \<and>
    (k < length fs \<longrightarrow> strict_prefix p (frame_bytes X (fs ! k))) \<and> (k = length fs \<longrightarrow> p = []) \<and>
    drain_fuel n X buf = Ok (map frame_response (take k fs), p)"
  using assms
proof (induction fs arbitrary: buf n)
  case Nil
  then obtain m where "n = Suc m" by (cases n) auto
  with Nil show ?case
    by (auto simp: decode_Response_def read_u32_def read_be_def check_len_def codec_decode_def)
next
  case (Cons f fs)
  then obtain m where n: "n = Suc m" by (cases n) auto
  show ?case
  proof (cases "prefix (frame_bytes X f) buf")
    case True
    then obtain rest where buf: "buf = frame_bytes X f @ rest" by (auto simp: prefix_def)
    have "length rest < m"
      using Cons.prems(3) n buf frame_bytes_length [of X f] by auto
    with Cons.prems buf obtain k p where kp:
      "rest = concat (map (frame_bytes X) (take k fs)) @ p" "k \<le> length fs"
      "k < length fs \<longrightarrow> strict_prefix p (frame_bytes X (fs ! k))" "k = length fs \<longrightarrow> p = []"
      "drain_fuel m X rest = Ok (map frame_response (take k fs), p)"
      using Cons.IH [of rest m] by auto
    have "codec_decode X buf = Ok (rest, Some (frame_response f))"
      using Cons.prems(1) by (simp add: buf codec_decode_Ok decode_frame)
    with kp show ?thesis
      by (intro exI [of _ "Suc k"] exI [of _ p]) (auto simp: n buf)
  next
    case False
    then have "strict_prefix buf (frame_bytes X f)"
      using Cons.prems(2) by (auto simp: strict_prefix_def prefix_append)
    moreover have "frame_ok X f" "stringless f" using Cons.prems(1) by auto
    ultimately obtain e where "decode_Response X buf = Err (Incomplete e)"
      using decode_frame_cut by blast
    then have "drain_fuel n X buf = Ok ([], buf)"
      by (simp add: n codec_decode_None)
    with \<open>strict_prefix buf (frame_bytes X f)\<close> show ?thesis
      by (intro exI [of _ 0] exI [of _ buf]) auto
  qed
qed

lemma read_chunks_frames:
  assumes "list_all (\<lambda>f. frame_ok X f \<and> stringless f) fs"
    and "buf @ concat cs = concat (map (frame_bytes X) fs)"
    and "fs \<noteq> [] \<longrightarrow> strict_prefix buf (frame_bytes X (hd fs))" "fs = [] \<longrightarrow> buf = []"
  shows "read_chunks X buf cs = Ok (map frame_response fs, [])"
  using assms
proof (induction cs arbitrary: buf fs)
  case Nil
  show ?case
  proof (cases fs)
    case (Cons f fs')
    with Nil show ?thesis
      by (auto dest!: prefix_length_less)
  qed (use Nil in simp)
next
  case (Cons c cs)
  have "prefix (buf @ c) (concat (map (frame_bytes X) fs))"
    using Cons.prems(2) by (metis append_assoc concat.simps(2) prefixI)
  from drain_fuel_frames [OF Cons.prems(1) this, of "Suc (length (buf @ c))"]
  obtain k p where kp: "buf @ c = concat (map (frame_bytes X) (take k fs)) @ p" "k \<le> length fs"
    "k < length fs \<longrightarrow> strict_prefix p (frame_bytes X (fs ! k))" "k = length fs \<longrightarrow> p = []"
    "drain X (buf @ c) = Ok (map frame_response (take k fs), p)"
    unfolding drain_def by blast
  have "concat (map (frame_bytes X) fs) =
      concat (map (frame_bytes X) (take k fs)) @ concat (map (frame_bytes X) (drop k fs))"
    by (metis append_take_drop_id concat_append map_append)
  with Cons.prems(2) kp(1) have "p @ concat cs = concat (map (frame_bytes X) (drop k fs))"
    by (metis append_assoc concat.simps(2) same_append_eq)
  moreover have "list_all (\<lambda>f. frame_ok X f \<and> stringless f) (drop k fs)"
    using Cons.prems(1) by (metis append_take_drop_id list_all_append)
  ultimately have "read_chunks X p cs = Ok (map frame_response (drop k fs), [])"
    using kp by (intro Cons.IH) (auto simp: hd_drop_conv_nth)
  with kp(5) show ?case
    by (simp flip: map_append)
qed

section \<open>Properties of the connection codec\<close>

lemma codec_decode_panic: "decode_Response X buf = Panic \<Longrightarrow> codec_decode X buf = Panic"
  by (simp add: codec_decode_def)

text \<open>C2.  However the network cuts a stream of frames without string fields into chunks (empty
  ones and cuts inside a length word included), the codec yields every response exactly once and
  in order, and nothing is left in the buffer.\<close>

theorem framing_independent_of_chunks:
  assumes "list_all (\<lambda>f. frame_ok X f \<and> stringless f) fs"
    and "concat cs = concat (map (frame_bytes X) fs)"
  shows "read_chunks X [] cs = Ok (map frame_response fs, [])"
proof (rule read_chunks_frames)
  have "frame_bytes X f \<noteq> []" for f
    using frame_bytes_length [of X f] by auto
  from this [symmetric] show "fs \<noteq> [] \<longrightarrow> strict_prefix [] (frame_bytes X (hd fs))"
    by (simp add: strict_prefix_def)
qed (use assms in simp_all)

definition sample_confirm :: "(i64, bytes) frame" where
  "sample_confirm =
     \<lparr>frame_len = 21, frame_key = 3, frame_version = 1,
      frame_kind = ResponseKind.PublishConfirm (new_PublishConfirm 1 [5])\<rparr>"

definition sample_heartbeat :: "(i64, bytes) frame" where
  "sample_heartbeat =
     \<lparr>frame_len = 4, frame_key = 23, frame_version = 1,
      frame_kind = ResponseKind.Heartbeat ()\<rparr>"

lemma sample_frames_ok:
  "list_all (\<lambda>f. frame_ok byte_externals f \<and> stringless f) [sample_confirm, sample_heartbeat]"
  by (simp add: sample_confirm_def sample_heartbeat_def frame_ok_def stringless_def
      stringless_keys_def response_keys_def command_keys wf_ResponseKind_def
      wf_PublishConfirm_def new_PublishConfirm_def vec_fits_def extract_response_code_def)

definition sample_bytes :: bytes where
  "sample_bytes = frame_bytes byte_externals sample_confirm @
     frame_bytes byte_externals sample_heartbeat"

theorem framing_independent_of_chunks_witness:
  "read_chunks byte_externals [] [take 3 sample_bytes, [], drop 3 sample_bytes] =
     Ok (map frame_response [sample_confirm, sample_heartbeat], [])"
proof (rule framing_independent_of_chunks [OF sample_frames_ok])
  have "concat [take 3 sample_bytes, [], drop 3 sample_bytes] = sample_bytes"
    by simp
  also have "\<dots> = concat (map (frame_bytes byte_externals) [sample_confirm, sample_heartbeat])"
    by (simp add: sample_bytes_def)
  finally show "concat [take 3 sample_bytes, [], drop 3 sample_bytes] =
    concat (map (frame_bytes byte_externals) [sample_confirm, sample_heartbeat])" .
qed

text \<open>C28.  A frame that is cut inside a string field is not seen as incomplete: decoding
  a metadata update of which the stream name has only partly arrived panics, because
  \<open>Option<String>::decode\<close> splits the input at the announced length without a check.\<close>

theorem cut_in_stream_name_panics:
  assumes "wire_string s" "n < length s"
  shows "codec_decode X (encode_u32 len @ encode_u16 COMMAND_METADATA_UPDATE @ encode_u16 v @
    encode_response c @ encode_i16 (of_nat (length s)) @ take n (as_bytes s)) = Panic"
proof (rule codec_decode_panic)
  have "0 < length s" "length s < 2 ^ 15" using assms by (auto simp: wire_string_def)
  then have "decode_opt_string (encode_i16 (of_nat (length s)) @ take n (as_bytes s)) = Panic"
    using assms(2) of_nat_len16_neq_0 [of "length s"]
    by (simp add: decode_opt_string_def round_trips split_at_def as_usize_of_nat16)
  then show "decode_Response X (encode_u32 len @ encode_u16 COMMAND_METADATA_UPDATE @
      encode_u16 v @ encode_response c @ encode_i16 (of_nat (length s)) @ take n (as_bytes s)) = Panic"
    by (simp add: decode_Response_def decode_header_def round_trips decode_ResponseKind_def
        command_keys extract_response_code_def decode_MetadataUpdateCommand_def)
qed

theorem cut_in_stream_name_panics_witness:
  "codec_decode byte_externals (encode_u32 18 @ encode_u16 COMMAND_METADATA_UPDATE @ encode_u16 1 @
    encode_response StreamNotAvailable @ encode_i16 (of_nat (length ''orders'')) @
    take 2 (as_bytes ''orders'')) = Panic"
  by (rule cut_in_stream_name_panics) (simp_all add: wire_string_def ascii_rust_string)

end
