(* ===== verification/Async.thy ===== *)
theory Async
  imports Prelude
begin

text \<open>
  Asynchronous calls.  An \<open>async fn\<close> is a function from a state to the new state and its
  outcome: a \<open>result\<close>, or \<open>None\<close> when the call waits for something that never happens.
  \<open>await\<close> is \<open>.await?\<close>: it goes on with the value and passes an error, a panic and an endless
  wait on.  \<open>await_result\<close> is \<open>.await\<close> on a fallible call, which also hands an error to the
  continuation, and \<open>lift_error\<close> the conversion of \<open>?\<close> by \<open>From\<close>.
\<close>

type_synonym ('s, 'a, 'e) async = "'s \<Rightarrow> 's \<times> ('a, 'e) result option"

definition ready :: "('a, 'e) result \<Rightarrow> ('s, 'a, 'e) async" where
  "ready r s = (s, Some r)"

definition await :: "('s, 'a, 'e) async \<Rightarrow> ('a \<Rightarrow> ('s, 'b, 'e) async) \<Rightarrow> ('s, 'b, 'e) async" where
  "await m k s =
    (case m s of
       (s', Some (Ok x)) \<Rightarrow> k x s'
     | (s', Some (Err e)) \<Rightarrow> (s', Some (Err e))
     | (s', Some Panic) \<Rightarrow> (s', Some Panic)
     | (s', None) \<Rightarrow> (s', None))"

definition await_result ::
  "('s, 'a, 'e) async \<Rightarrow> (('a, 'e) result \<Rightarrow> ('s, 'b, 'f) async) \<Rightarrow> ('s, 'b, 'f) async" where
  "await_result m k s =
    (case m s of
       (s', Some (Ok x)) \<Rightarrow> k (Ok x) s'
     | (s', Some (Err e)) \<Rightarrow> k (Err e) s'
     | (s', Some Panic) \<Rightarrow> (s', Some Panic)
     | (s', None) \<Rightarrow> (s', None))"

definition lift_error :: "('e \<Rightarrow> 'f) \<Rightarrow> ('s, 'a, 'e) async \<Rightarrow> ('s, 'a, 'f) async" where
  "lift_error f m s =
    (case m s of
       (s', Some (Ok x)) \<Rightarrow> (s', Some (Ok x))
     | (s', Some (Err e)) \<Rightarrow> (s', Some (Err (f e)))
     | (s', Some Panic) \<Rightarrow> (s', Some Panic)
     | (s', None) \<Rightarrow> (s', None))"

definition gets :: "('s \<Rightarrow> 'a) \<Rightarrow> ('s, 'a, 'e) async" where
  "gets f s = (s, Some (Ok (f s)))"

definition modify :: "('s \<Rightarrow> 's) \<Rightarrow> ('s, unit, 'e) async" where
  "modify f s = (f s, Some (Ok ()))"

named_theorems async_defs \<open>how the combinators of asynchronous calls run\<close>

lemma ready_run [async_defs]: "ready r s = (s, Some r)"
  by (fact ready_def)

lemma gets_run [async_defs]: "gets f s = (s, Some (Ok (f s)))"
  by (fact gets_def)

lemma modify_run [async_defs]: "modify f s = (f s, Some (Ok ()))"
  by (fact modify_def)

lemma await_Ok [simp]: "m s = (s', Some (Ok x)) \<Longrightarrow> await m k s = k x s'"
  by (simp add: await_def)

lemma await_Err [simp]: "m s = (s', Some (Err e)) \<Longrightarrow> await m k s = (s', Some (Err e))"
  by (simp add: await_def)

lemma await_Panic [simp]: "m s = (s', Some Panic) \<Longrightarrow> await m k s = (s', Some Panic)"
  by (simp add: await_def)

lemma await_None [simp]: "m s = (s', None) \<Longrightarrow> await m k s = (s', None)"
  by (simp add: await_def)

lemma lift_error_Ok [simp]: "m s = (s', Some (Ok x)) \<Longrightarrow> lift_error f m s = (s', Some (Ok x))"
  by (simp add: lift_error_def)

lemma lift_error_Err [simp]:
  "m s = (s', Some (Err e)) \<Longrightarrow> lift_error f m s = (s', Some (Err (f e)))"
  by (simp add: lift_error_def)

lemma await_result_Ok [simp]: "m s = (s', Some (Ok x)) \<Longrightarrow> await_result m k s = k (Ok x) s'"
  by (simp add: await_result_def)

lemma await_result_Err [simp]: "m s = (s', Some (Err e)) \<Longrightarrow> await_result m k s = k (Err e) s'"
  by (simp add: await_result_def)

lemma await_OkE:
  assumes "await m k s = (s'', Some (Ok y))"
  obtains x s' where "m s = (s', Some (Ok x))" "k x s' = (s'', Some (Ok y))"
  using assms by (auto simp: await_def split: prod.splits option.splits result.splits)

lemma await_assoc: "await (await m k) k' = await m (\<lambda>x. await (k x) k')"
  by (simp add: fun_eq_iff await_def split: prod.split option.split result.split)

end
