(* ===== verification/Client_Data.thy ===== *)
theory Client_Data
  imports Client_Codec Async
begin

text \<open>
  Data of the client: connection options with their builders (\<open>src/client/options.rs\<close> and the TLS
  configuration of \<open>src/environment.rs\<close>), messages ready to be published
  (\<open>src/client/message.rs\<close>), and the metadata of streams (\<open>src/client/metadata.rs\<close>).

  The metrics collector of the options, an object the user supplies, is not a field here: the
  calls made to it are recorded in the state of the program.
\<close>

section \<open>TLS configuration (src/environment.rs)\<close>

record TlsConfiguration =
  enabled :: bool
  trust_certificates :: bool
  root_certificates_path :: string
  client_certificates_path :: string
  client_keys_path :: string

definition default_TlsConfiguration :: TlsConfiguration where
  "default_TlsConfiguration =
     \<lparr>enabled = True, trust_certificates = False, root_certificates_path = '''',
      client_certificates_path = '''', client_keys_path = ''''\<rparr>"

definition tls_enable :: "bool \<Rightarrow> TlsConfiguration \<Rightarrow> TlsConfiguration" where
  "tls_enable b t = t\<lparr>enabled := b\<rparr>"

definition tls_trust_certificates :: "bool \<Rightarrow> TlsConfiguration \<Rightarrow> TlsConfiguration" where
  "tls_trust_certificates b t = t\<lparr>trust_certificates := b\<rparr>"

definition add_root_certificates_path :: "string \<Rightarrow> TlsConfiguration \<Rightarrow> TlsConfiguration" where
  "add_root_certificates_path p t = t\<lparr>root_certificates_path := p\<rparr>"

definition add_client_certificates_keys ::
  "string \<Rightarrow> string \<Rightarrow> TlsConfiguration \<Rightarrow> TlsConfiguration" where
  "add_client_certificates_keys cert key' t =
     t\<lparr>client_certificates_path := cert, client_keys_path := key'\<rparr>"

section \<open>Client options\<close>

record ClientOptions =
  host :: string
  port :: u16
  user :: string
  password :: string
  v_host :: string
  heartbeat :: u32
  max_frame_size :: u32
  load_balancer_mode :: bool
  tls :: TlsConfiguration
  client_provided_name :: string

definition default_ClientOptions :: ClientOptions where
  "default_ClientOptions =
     \<lparr>host = ''localhost'', port = 5552, user = ''guest'', password = ''guest'', v_host = ''/'',
      heartbeat = 60, max_frame_size = 1048576, load_balancer_mode = False,
      tls = default_TlsConfiguration\<lparr>enabled := False\<rparr>, client_provided_name = ''rust-stream''\<rparr>"

definition enable_tls :: "ClientOptions \<Rightarrow> ClientOptions" where
  "enable_tls opts = opts\<lparr>tls := tls_enable True (tls opts)\<rparr>"

definition set_port :: "u16 \<Rightarrow> ClientOptions \<Rightarrow> ClientOptions" where
  "set_port p opts = opts\<lparr>port := p\<rparr>"

definition set_client_provided_name :: "string \<Rightarrow> ClientOptions \<Rightarrow> ClientOptions" where
  "set_client_provided_name name opts = opts\<lparr>client_provided_name := name\<rparr>"

text \<open>The builder methods; the builder is a wrapper of the options.\<close>

definition ClientOptions_builder :: ClientOptions where
  "ClientOptions_builder = default_ClientOptions"

definition options_build :: "ClientOptions \<Rightarrow> ClientOptions" where
  "options_build options' = options'"

definition builder_host :: "string \<Rightarrow> ClientOptions \<Rightarrow> ClientOptions" where
  "builder_host h opts = opts\<lparr>host := h\<rparr>"

definition builder_port :: "u16 \<Rightarrow> ClientOptions \<Rightarrow> ClientOptions" where
  "builder_port p opts = opts\<lparr>port := p\<rparr>"

definition builder_user :: "string \<Rightarrow> ClientOptions \<Rightarrow> ClientOptions" where
  "builder_user u opts = opts\<lparr>user := u\<rparr>"

definition builder_password :: "string \<Rightarrow> ClientOptions \<Rightarrow> ClientOptions" where
  "builder_password p opts = opts\<lparr>password := p\<rparr>"

definition builder_v_host :: "string \<Rightarrow> ClientOptions \<Rightarrow> ClientOptions" where
  "builder_v_host v opts = opts\<lparr>v_host := v\<rparr>"

definition builder_heartbeat :: "u32 \<Rightarrow> ClientOptions \<Rightarrow> ClientOptions" where
  "builder_heartbeat h opts = opts\<lparr>heartbeat := h\<rparr>"

definition builder_max_frame_size :: "u32 \<Rightarrow> ClientOptions \<Rightarrow> ClientOptions" where
  "builder_max_frame_size m opts = opts\<lparr>max_frame_size := m\<rparr>"

definition builder_tls :: "TlsConfiguration \<Rightarrow> ClientOptions \<Rightarrow> ClientOptions" where
  "builder_tls t opts = opts\<lparr>tls := t\<rparr>"

definition builder_load_balancer_mode :: "bool \<Rightarrow> ClientOptions \<Rightarrow> ClientOptions" where
  "builder_load_balancer_mode b opts = opts\<lparr>load_balancer_mode := b\<rparr>"

section \<open>Messages to publish (src/client/message.rs)\<close>

record ('t, 'u) ClientMessage =
  publishing_id :: u64
  message :: "('t, 'u) Message"
  filter_value :: "string option"

definition new_ClientMessage ::
  "u64 \<Rightarrow> ('t, 'u) Message \<Rightarrow> string option \<Rightarrow> ('t, 'u) ClientMessage" where
  "new_ClientMessage publishing_id' message' filter_value' =
     \<lparr>publishing_id = publishing_id', message = message', filter_value = filter_value'\<rparr>"

definition filter_value_extract ::
  "(('t, 'u) Message \<Rightarrow> string) \<Rightarrow> ('t, 'u) ClientMessage \<Rightarrow> ('t, 'u) ClientMessage" where
  "filter_value_extract filter_value_extractor m =
     m\<lparr>filter_value := Some (filter_value_extractor (message m))\<rparr>"

text \<open>\<open>Client::publish\<close> accepts both kinds of messages through the trait \<open>BaseMessage\<close>, whose
  methods are the three components of a \<open>base_message\<close>.\<close>

record ('t, 'u) base_message =
  base_publishing_id :: "u64 option"
  to_message :: "('t, 'u) Message"
  base_filter_value :: "string option"

definition base_of_Message :: "('t, 'u) Message \<Rightarrow> ('t, 'u) base_message" where
  "base_of_Message m =
     \<lparr>base_publishing_id = Message.publishing_id m, to_message = m, base_filter_value = None\<rparr>"

definition base_of_ClientMessage :: "('t, 'u) ClientMessage \<Rightarrow> ('t, 'u) base_message" where
  "base_of_ClientMessage m =
     \<lparr>base_publishing_id = Some (publishing_id m), to_message = message m,
      base_filter_value = filter_value m\<rparr>"

section \<open>Stream metadata (src/client/metadata.rs)\<close>

text \<open>\<open>Broker\<close> and \<open>StreamMetadata\<close> of the client, not those of the protocol.\<close>

record client_Broker =
  host :: string
  port :: u32

record client_StreamMetadata =
  stream :: string
  response_code :: ResponseCode
  leader :: client_Broker
  replicas :: "client_Broker list"

definition collect_map :: "('k \<times> 'v) list \<Rightarrow> ('k \<times> 'v) list" where
  "collect_map ps = foldl (\<lambda>m (k, v). AList.update k v m) [] ps"

definition metadata_brokers :: "Broker list \<Rightarrow> (u16 \<times> client_Broker) list" where
  "metadata_brokers bs =
     collect_map (map (\<lambda>b. (Broker.reference b, \<lparr>client_Broker.host = Broker.host b,
       port = Broker.port b\<rparr>)) bs)"

definition metadata_from_response :: "MetadataResponse \<Rightarrow> (string \<times> client_StreamMetadata) list" where
  "metadata_from_response response =
    (let brokers' = metadata_brokers (brokers response) in
     collect_map (List.map_filter (\<lambda>m.
       map_option (\<lambda>leader'.
         (StreamMetadata.stream_name m,
          \<lparr>stream = StreamMetadata.stream_name m, response_code = StreamMetadata.code m, leader = leader',
           replicas = List.map_filter (map_of brokers') (replicas_references m)\<rparr>))
         (map_of brokers' (leader_reference m)))
       (stream_metadata response)))"

lemma map_of_collect_map: "map_of (collect_map ps) = map_of (rev ps)"
proof -
  have "map_of (foldl (\<lambda>m (k, v). AList.update k v m) m ps) = map_of m ++ map_of (rev ps)" for m
    by (induction ps arbitrary: m) (auto simp: update_conv' map_add_def fun_eq_iff split: option.splits)
  from this [of "[]"] show ?thesis by (simp add: collect_map_def)
qed

lemma map_of_collect_map_Some:
  "distinct (map fst ps) \<Longrightarrow> map_of (collect_map ps) k = Some v \<longleftrightarrow> (k, v) \<in> set ps"
  by (simp add: map_of_collect_map rev_map [symmetric])

lemma set_map_filter_iff: "p \<in> set (List.map_filter f xs) \<longleftrightarrow> (\<exists>x \<in> set xs. f x = Some p)"
  by (force simp: map_filter_def)

lemma map_filter_keys:
  "(\<And>x p. f x = Some p \<Longrightarrow> fst p = g x) \<Longrightarrow> distinct (map g xs) \<Longrightarrow>
   distinct (map fst (List.map_filter f xs))"
proof (induction xs)
  case (Cons x xs)
  have "fst p \<in> g ` set xs" if "p \<in> set (List.map_filter f xs)" for p
    using that Cons.prems(1) by (force simp: map_filter_def)
  with Cons show ?case by (force simp: map_filter_simps split: option.split)
qed (simp add: map_filter_simps)

section \<open>Properties of stream metadata\<close>

text \<open>The client finds, for a stream of a metadata answer whose leader is among the listed
  brokers, exactly that broker as leader, the code of the answer, and as replicas those listed
  brokers whose references the answer names, in order; a stream whose leader is not listed is
  left out, and no other stream appears.\<close>

theorem metadata_lookup:
  assumes "distinct (map Broker.reference (brokers r))"
    and "distinct (map StreamMetadata.stream_name (stream_metadata r))"
  shows "map_of (metadata_from_response r) s = Some md \<longleftrightarrow>
    (\<exists>m b. m \<in> set (stream_metadata r) \<and> b \<in> set (brokers r) \<and>
       StreamMetadata.stream_name m = s \<and> Broker.reference b = leader_reference m \<and>
       md = \<lparr>stream = s, response_code = StreamMetadata.code m,
         leader = \<lparr>client_Broker.host = Broker.host b, port = Broker.port b\<rparr>,
         replicas = List.map_filter (map_of (metadata_brokers (brokers r))) (replicas_references m)\<rparr>)"
proof -
  have brokers: "map_of (metadata_brokers (brokers r)) k = Some v \<longleftrightarrow>
      (\<exists>b \<in> set (brokers r). Broker.reference b = k \<and>
         v = \<lparr>client_Broker.host = Broker.host b, port = Broker.port b\<rparr>)" for k v
    unfolding metadata_brokers_def using assms(1)
    by (subst map_of_collect_map_Some) (auto simp: comp_def)
  let ?entry = "\<lambda>m. map_option (\<lambda>leader'.
      (StreamMetadata.stream_name m,
       \<lparr>stream = StreamMetadata.stream_name m, response_code = StreamMetadata.code m,
        leader = leader', replicas = List.map_filter (map_of (metadata_brokers (brokers r)))
          (replicas_references m)\<rparr>))
      (map_of (metadata_brokers (brokers r)) (leader_reference m))"
  have "distinct (map fst (List.map_filter ?entry (stream_metadata r)))"
    by (rule map_filter_keys [where g = StreamMetadata.stream_name, OF _ assms(2)]) auto
  then have "map_of (metadata_from_response r) s = Some md \<longleftrightarrow>
      (\<exists>m \<in> set (stream_metadata r). ?entry m = Some (s, md))"
    by (simp add: metadata_from_response_def Let_def map_of_collect_map_Some set_map_filter_iff
        del: map_option_eq_Some)
  then show ?thesis by (auto simp: brokers)
qed

definition sample_metadata :: MetadataResponse where
  "sample_metadata =
     \<lparr>MetadataResponse.correlation_id = 1,
      brokers = [\<lparr>Broker.reference = 0, Broker.host = ''a'', Broker.port = 5552\<rparr>],
      stream_metadata = [\<lparr>StreamMetadata.stream_name = ''s'', StreamMetadata.code = ResponseOk,
        leader_reference = 0, replicas_references = [0, 9]\<rparr>]\<rparr>"

theorem metadata_lookup_witness:
  "map_of (metadata_from_response sample_metadata) ''s'' =
     Some \<lparr>stream = ''s'', response_code = ResponseOk,
       leader = \<lparr>client_Broker.host = ''a'', port = 5552\<rparr>,
       replicas = [\<lparr>client_Broker.host = ''a'', port = 5552\<rparr>]\<rparr>"
  by (subst metadata_lookup)
     (simp_all add: sample_metadata_def metadata_brokers_def collect_map_def map_filter_simps)

end
