(* ===== verification/Dispatcher.thy ===== *)
theory Dispatcher
  imports Client_Codec
begin

text \<open>
  The dispatcher of a connection (\<open>src/client/dispatcher.rs\<close>): it hands every response to the
  request with its correlation id and everything else to the handler of the client.

  A call of \<open>mpsc::channel(1)\<close> makes the next entry of \<open>channels\<close>: what was sent and not yet
  received, and whether its sender still exists.  A sender lives in \<open>requests\<close> and is used for one
  response; \<open>recv\<close> is the receiving half.  Correlation ids are handed out from zero, so the
  channel number \<open>n\<close> belongs to the id \<open>n mod 2 ^ 32\<close>.

  What the dispatcher passes to its handler is returned as a list of messages, in order.

  \<open>RequestsMap::insert\<close> and \<open>RequestsMap::close\<close> each take two atomic steps (the flag \<open>closed\<close> and
  the map are separate), and requests run concurrently with the dispatcher's task.  The
  relation \<open>dstep\<close> interleaves these atomic steps.  A receiver that is dropped before its response
  arrives is not modelled.
\<close>

section \<open>State\<close>

record ('t, 'u) mailbox =
  mail :: "('t, 'u) Response list"
  sender :: bool

record ('t, 'u) DispatcherState =
  requests :: "(u32 \<times> nat) list"
  closed :: bool
  correlation_id :: u32
  handler :: bool
  channels :: "('t, 'u) mailbox list"

type_synonym ('t, 'u) MessageResult = "(('t, 'u) Response, ClientError) result option"

definition new_Dispatcher :: "('t, 'u) DispatcherState" where
  "new_Dispatcher =
     \<lparr>requests = [], closed = False, correlation_id = 0, handler = False, channels = []\<rparr>"

section \<open>Channels of capacity one\<close>

definition drop_sender :: "nat \<Rightarrow> ('t, 'u) DispatcherState \<Rightarrow> ('t, 'u) DispatcherState" where
  "drop_sender ch s = s\<lparr>channels := (channels s)[ch := (channels s ! ch)\<lparr>sender := False\<rparr>]\<rparr>"

definition send_mail ::
  "nat \<Rightarrow> ('t, 'u) Response \<Rightarrow> ('t, 'u) DispatcherState \<Rightarrow> ('t, 'u) DispatcherState" where
  "send_mail ch r s =
     s\<lparr>channels := (channels s)[ch := (channels s ! ch)\<lparr>mail := mail (channels s ! ch) @ [r]\<rparr>]\<rparr>"

text \<open>Receiving: a message, the end of the channel, or (\<open>None\<close>) nothing yet.\<close>

definition recv :: "nat \<Rightarrow> ('t, 'u) DispatcherState \<Rightarrow> ('t, 'u) Response option option" where
  "recv ch s =
    (case mail (channels s ! ch) of
       r # _ \<Rightarrow> Some (Some r)
     | [] \<Rightarrow> if sender (channels s ! ch) then None else Some None)"

section \<open>RequestsMap\<close>

text \<open>The atomic steps: the value a key had before is dropped with its sender.\<close>

definition put_request :: "u32 \<Rightarrow> nat \<Rightarrow> ('t, 'u) DispatcherState \<Rightarrow> ('t, 'u) DispatcherState" where
  "put_request cid ch s =
     (case map_of (requests s) cid of Some old \<Rightarrow> drop_sender old s | None \<Rightarrow> s)
       \<lparr>requests := AList.update cid ch (requests s)\<rparr>"

definition clear_requests :: "('t, 'u) DispatcherState \<Rightarrow> ('t, 'u) DispatcherState" where
  "clear_requests s = (foldl (\<lambda>s p. drop_sender (snd p) s) s (requests s))\<lparr>requests := []\<rparr>"

definition requests_insert ::
  "u32 \<Rightarrow> nat \<Rightarrow> ('t, 'u) DispatcherState \<Rightarrow> ('t, 'u) DispatcherState \<times> bool" where
  "requests_insert cid ch s =
     (if closed s then (drop_sender ch s, False) else (put_request cid ch s, True))"

definition requests_remove ::
  "u32 \<Rightarrow> ('t, 'u) DispatcherState \<Rightarrow> ('t, 'u) DispatcherState \<times> nat option" where
  "requests_remove cid s =
     (s\<lparr>requests := AList.delete cid (requests s)\<rparr>, map_of (requests s) cid)"

definition requests_close :: "('t, 'u) DispatcherState \<Rightarrow> ('t, 'u) DispatcherState" where
  "requests_close s = clear_requests (s\<lparr>closed := True\<rparr>)"

section \<open>Dispatcher\<close>

definition open_channel :: "('t, 'u) DispatcherState \<Rightarrow> ('t, 'u) DispatcherState" where
  "open_channel s =
     s\<lparr>channels := channels s @ [\<lparr>mail = [], sender = True\<rparr>],
       correlation_id := correlation_id s + 1\<rparr>"

definition response_channel ::
  "('t, 'u) DispatcherState \<Rightarrow> ('t, 'u) DispatcherState \<times> (u32 \<times> nat) option" where
  "response_channel s =
    (case requests_insert (correlation_id s) (length (channels s)) (open_channel s) of
       (s', inserted) \<Rightarrow>
         (s', if inserted then Some (correlation_id s, length (channels s)) else None))"

definition set_handler :: "('t, 'u) DispatcherState \<Rightarrow> ('t, 'u) DispatcherState" where
  "set_handler s = s\<lparr>handler := True\<rparr>"

definition dispatch ::
  "u32 \<Rightarrow> ('t, 'u) Response \<Rightarrow> ('t, 'u) DispatcherState \<Rightarrow> ('t, 'u) DispatcherState" where
  "dispatch cid r s =
    (case requests_remove cid s of
       (s', Some ch) \<Rightarrow> drop_sender ch (send_mail ch r s')
     | (s', None) \<Rightarrow> s')"

definition notify ::
  "('t, 'u) Response \<Rightarrow> ('t, 'u) DispatcherState \<Rightarrow> ('t, 'u) MessageResult list" where
  "notify r s = (if handler s then [Some (Ok r)] else [])"

definition close_messages ::
  "ClientError option \<Rightarrow> ('t, 'u) DispatcherState \<Rightarrow> ('t, 'u) MessageResult list" where
  "close_messages error s =
    (if handler s then (case error of Some err \<Rightarrow> [Some (Err err)] | None \<Rightarrow> []) @ [None] else [])"

definition close_dispatcher ::
  "ClientError option \<Rightarrow> ('t, 'u) DispatcherState \<Rightarrow>
     ('t, 'u) DispatcherState \<times> ('t, 'u) MessageResult list" where
  "close_dispatcher error s = (requests_close s, close_messages error s)"

text \<open>One item of the stream, and the loop over the items until an error or the end.\<close>

definition is_ConsumerUpdate :: "('t, 'u) ResponseKind \<Rightarrow> bool" where
  "is_ConsumerUpdate k = (case k of ResponseKind.ConsumerUpdate _ \<Rightarrow> True | _ \<Rightarrow> False)"

definition handle_item ::
  "('t, 'u) Response \<Rightarrow> ('t, 'u) DispatcherState \<Rightarrow>
     ('t, 'u) DispatcherState \<times> ('t, 'u) MessageResult list" where
  "handle_item r s =
    (case response_correlation_id r of
       Some cid \<Rightarrow>
         if is_ConsumerUpdate (Response.kind r) then (s, notify r s) else (dispatch cid r s, [])
     | None \<Rightarrow> (s, notify r s))"

fun handle_response ::
  "(('t, 'u) Response, ClientError) result list \<Rightarrow> ('t, 'u) DispatcherState \<Rightarrow>
     ('t, 'u) DispatcherState \<times> ('t, 'u) MessageResult list" where
  "handle_response (Ok item # items) s =
     (let (s1, ms) = handle_item item s; (s2, ms') = handle_response items s1 in (s2, ms @ ms'))"
| "handle_response _ s = close_dispatcher None s"

section \<open>Interleaved steps\<close>

text \<open>The thread that opened channel \<open>n\<close> is thread \<open>n\<close>.  Opening the channel and taking the
  correlation id from the counter is one step, so thread \<open>n\<close> has the id \<open>n\<close> modulo 2 to the 32.\<close>

datatype request_pc = Checking | Inserting | Waiting | Refused

datatype loop_pc = Running | Clearing | Stopped

record ('t, 'u) config =
  disp :: "('t, 'u) DispatcherState"
  threads :: "request_pc list"
  task :: loop_pc

definition initial_config :: "('t, 'u) config" where
  "initial_config = \<lparr>disp = set_handler new_Dispatcher, threads = [], task = Running\<rparr>"

inductive dstep :: "('t, 'u) config \<Rightarrow> ('t, 'u) config \<Rightarrow> bool" where
  begin_request: "dstep c (c\<lparr>disp := open_channel (disp c), threads := threads c @ [Checking]\<rparr>)"
| check_open: "n < length (threads c) \<Longrightarrow> threads c ! n = Checking \<Longrightarrow> \<not> closed (disp c) \<Longrightarrow>
    dstep c (c\<lparr>threads := (threads c)[n := Inserting]\<rparr>)"
| check_closed: "n < length (threads c) \<Longrightarrow> threads c ! n = Checking \<Longrightarrow> closed (disp c) \<Longrightarrow>
    dstep c (c\<lparr>disp := drop_sender n (disp c), threads := (threads c)[n := Refused]\<rparr>)"
| insert_request: "n < length (threads c) \<Longrightarrow> threads c ! n = Inserting \<Longrightarrow>
    dstep c (c\<lparr>disp := put_request (of_nat n) n (disp c), threads := (threads c)[n := Waiting]\<rparr>)"
| item: "task c = Running \<Longrightarrow> dstep c (c\<lparr>disp := fst (handle_item r (disp c))\<rparr>)"
| set_closed: "task c = Running \<Longrightarrow>
    dstep c (c\<lparr>disp := (disp c)\<lparr>closed := True\<rparr>, task := Clearing\<rparr>)"
| clear: "task c = Clearing \<Longrightarrow> dstep c (c\<lparr>disp := clear_requests (disp c), task := Stopped\<rparr>)"

inductive_cases dstepE [elim]: "dstep c c'"

definition reachable :: "('t, 'u) config \<Rightarrow> bool" where
  "reachable c \<longleftrightarrow> dstep\<^sup>*\<^sup>* initial_config c"

section \<open>Invariant\<close>

lemma drop_sender_simps [simp]:
  "requests (drop_sender ch s) = requests s" "closed (drop_sender ch s) = closed s"
  "handler (drop_sender ch s) = handler s"
  "DispatcherState.correlation_id (drop_sender ch s) = DispatcherState.correlation_id s"
  "length (channels (drop_sender ch s)) = length (channels s)"
  by (simp_all add: drop_sender_def)

lemma channels_drop_sender:
  "i < length (channels s) \<Longrightarrow>
   channels (drop_sender ch s) ! i =
     (if i = ch then (channels s ! i)\<lparr>sender := False\<rparr> else channels s ! i)"
  by (simp add: drop_sender_def)

lemma send_mail_simps [simp]:
  "requests (send_mail ch r s) = requests s" "closed (send_mail ch r s) = closed s"
  "handler (send_mail ch r s) = handler s"
  "DispatcherState.correlation_id (send_mail ch r s) = DispatcherState.correlation_id s"
  "length (channels (send_mail ch r s)) = length (channels s)"
  by (simp_all add: send_mail_def)

lemma channels_send_mail:
  "i < length (channels s) \<Longrightarrow>
   channels (send_mail ch r s) ! i =
     (if i = ch then (channels s ! i)\<lparr>mail := mail (channels s ! i) @ [r]\<rparr> else channels s ! i)"
  by (simp add: send_mail_def)

lemma put_request_simps [simp]:
  "requests (put_request cid ch s) = AList.update cid ch (requests s)"
  "closed (put_request cid ch s) = closed s" "handler (put_request cid ch s) = handler s"
  "DispatcherState.correlation_id (put_request cid ch s) = DispatcherState.correlation_id s"
  "length (channels (put_request cid ch s)) = length (channels s)"
  by (simp_all add: put_request_def split: option.splits)

lemma channels_put_request:
  "i < length (channels s) \<Longrightarrow>
   channels (put_request cid ch s) ! i =
     (if map_of (requests s) cid = Some i then (channels s ! i)\<lparr>sender := False\<rparr>
      else channels s ! i)"
  by (simp add: put_request_def channels_drop_sender split: option.splits)

lemma fold_drop_sender:
  "requests (foldl (\<lambda>s p. drop_sender (snd p) s) s ps) = requests s \<and>
   closed (foldl (\<lambda>s p. drop_sender (snd p) s) s ps) = closed s \<and>
   handler (foldl (\<lambda>s p. drop_sender (snd p) s) s ps) = handler s \<and>
   DispatcherState.correlation_id (foldl (\<lambda>s p. drop_sender (snd p) s) s ps) =
     DispatcherState.correlation_id s \<and>
   length (channels (foldl (\<lambda>s p. drop_sender (snd p) s) s ps)) = length (channels s)"
  by (induction ps arbitrary: s) simp_all

lemma fold_drop_sender_channels:
  "i < length (channels s) \<Longrightarrow>
   channels (foldl (\<lambda>s p. drop_sender (snd p) s) s ps) ! i =
     (if i \<in> snd ` set ps then (channels s ! i)\<lparr>sender := False\<rparr> else channels s ! i)"
proof (induction ps arbitrary: s)
  case (Cons p ps)
  then show ?case using Cons.IH [of "drop_sender (snd p) s"] by (auto simp: channels_drop_sender)
qed simp

lemma clear_requests_simps [simp]:
  "requests (clear_requests s) = []" "closed (clear_requests s) = closed s"
  "handler (clear_requests s) = handler s"
  "DispatcherState.correlation_id (clear_requests s) = DispatcherState.correlation_id s"
  "length (channels (clear_requests s)) = length (channels s)"
  by (simp_all add: clear_requests_def fold_drop_sender)

lemma channels_clear_requests:
  "i < length (channels s) \<Longrightarrow>
   channels (clear_requests s) ! i =
     (if i \<in> snd ` set (requests s) then (channels s ! i)\<lparr>sender := False\<rparr> else channels s ! i)"
  by (simp add: clear_requests_def fold_drop_sender_channels)

text \<open>What is known of one channel: while its sender is registered it is waiting and empty;
  afterwards it holds at most one response, and that one carries its correlation id.\<close>

definition answers :: "nat \<Rightarrow> ('t, 'u) Response \<Rightarrow> bool" where
  "answers ch r \<longleftrightarrow> response_correlation_id r = Some (of_nat ch) \<and>
     \<not> is_ConsumerUpdate (Response.kind r)"

definition registered :: "('t, 'u) DispatcherState \<Rightarrow> nat \<Rightarrow> bool" where
  "registered s ch \<longleftrightarrow> map_of (requests s) (of_nat ch) = Some ch"

definition mailbox_inv :: "nat \<Rightarrow> request_pc \<Rightarrow> bool \<Rightarrow> ('t, 'u) mailbox \<Rightarrow> bool" where
  "mailbox_inv ch pc reg m \<longleftrightarrow>
    (case pc of
       Waiting \<Rightarrow> if reg then sender m \<and> mail m = []
         else \<not> sender m \<and> length (mail m) \<le> 1 \<and> (\<forall>r \<in> set (mail m). answers ch r)
     | Refused \<Rightarrow> \<not> reg \<and> \<not> sender m \<and> mail m = []
     | _ \<Rightarrow> \<not> reg \<and> sender m \<and> mail m = [])"

definition requests_inv :: "('t, 'u) DispatcherState \<Rightarrow> bool" where
  "requests_inv s \<longleftrightarrow> DispatcherState.correlation_id s = of_nat (length (channels s)) \<and>
     distinct (map fst (requests s)) \<and>
     (\<forall>cid ch. map_of (requests s) cid = Some ch \<longrightarrow> ch < length (channels s) \<and> cid = of_nat ch)"

definition config_inv :: "('t, 'u) config \<Rightarrow> bool" where
  "config_inv c \<longleftrightarrow> requests_inv (disp c) \<and> length (threads c) = length (channels (disp c)) \<and>
     (\<forall>ch < length (threads c).
        mailbox_inv ch (threads c ! ch) (registered (disp c) ch) (channels (disp c) ! ch))"

lemma config_invD:
  assumes "config_inv c" "ch < length (threads c)"
  shows "mailbox_inv ch (threads c ! ch) (registered (disp c) ch) (channels (disp c) ! ch)"
  using assms by (simp add: config_inv_def)

lemma requests_inv_open: "requests_inv s \<Longrightarrow> requests_inv (open_channel s)"
  by (auto simp: requests_inv_def open_channel_def less_Suc_eq)

lemma requests_inv_put:
  "requests_inv s \<Longrightarrow> ch < length (channels s) \<Longrightarrow> requests_inv (put_request (of_nat ch) ch s)"
  by (auto simp: requests_inv_def distinct_update update_conv')

lemma dispatch_simps [simp]:
  "requests (dispatch cid r s) = AList.delete cid (requests s)"
  "closed (dispatch cid r s) = closed s" "handler (dispatch cid r s) = handler s"
  "DispatcherState.correlation_id (dispatch cid r s) = DispatcherState.correlation_id s"
  "length (channels (dispatch cid r s)) = length (channels s)"
  by (simp_all add: dispatch_def requests_remove_def split: option.splits)

lemma channels_dispatch:
  "i < length (channels s) \<Longrightarrow>
   channels (dispatch cid r s) ! i =
     (if map_of (requests s) cid = Some i
      then \<lparr>mail = mail (channels s ! i) @ [r], sender = False\<rparr> else channels s ! i)"
  by (cases "channels s ! i")
     (auto simp: dispatch_def requests_remove_def drop_sender_def send_mail_def
       split: option.splits)

lemma requests_inv_dispatch: "requests_inv s \<Longrightarrow> requests_inv (dispatch cid r s)"
  by (auto simp: requests_inv_def distinct_delete delete_conv' simp del: map_of_eq_Some_iff
      split: if_splits)

lemma requests_inv_clear: "requests_inv s \<Longrightarrow> requests_inv (clear_requests s)"
  by (simp add: requests_inv_def)

lemma requests_inv_drop: "requests_inv s \<Longrightarrow> requests_inv (drop_sender ch s)"
  by (simp add: requests_inv_def)

lemma registered_unique:
  assumes "requests_inv s" "map_of (requests s) cid = Some ch"
  shows "ch < length (channels s)" "cid = of_nat ch" "registered s ch"
  using assms by (auto simp: requests_inv_def registered_def)

lemma registered_simps [simp]:
  "registered (drop_sender n s) ch = registered s ch"
  "registered (open_channel s) ch = registered s ch"
  "registered (s\<lparr>closed := b\<rparr>) ch = registered s ch"
  "registered (clear_requests s) ch = False"
  by (simp_all add: registered_def open_channel_def)

lemma registered_put:
  "registered (put_request cid n s) ch =
     (if of_nat ch = cid then ch = n else registered s ch)"
  by (auto simp: registered_def update_conv')

lemma registered_dispatch:
  "registered (dispatch cid r s) ch \<longleftrightarrow> registered s ch \<and> of_nat ch \<noteq> cid"
  by (auto simp: registered_def delete_conv')

lemma map_of_registered:
  assumes "requests_inv s"
  shows "map_of (requests s) cid = Some ch \<longleftrightarrow> registered s ch \<and> cid = of_nat ch"
  using registered_unique(2,3) [OF assms, of cid ch] unfolding registered_def by blast

lemma channels_open:
  "channels (open_channel s) = channels s @ [\<lparr>mail = [], sender = True\<rparr>]"
  by (simp add: open_channel_def)

lemma dstep_begin:
  assumes "config_inv c"
  shows "config_inv (c\<lparr>disp := open_channel (disp c), threads := threads c @ [Checking]\<rparr>)"
proof -
  have req: "requests_inv (disp c)" and len: "length (threads c) = length (channels (disp c))"
    using assms by (simp_all add: config_inv_def)
  have "\<not> registered (disp c) (length (channels (disp c)))"
    using registered_unique(1) [OF req, of "of_nat (length (channels (disp c)))"]
    unfolding registered_def by blast
  then have "mailbox_inv (length (channels (disp c))) Checking
      (registered (disp c) (length (channels (disp c)))) \<lparr>mail = [], sender = True\<rparr>"
    by (simp add: mailbox_inv_def)
  then show ?thesis
    using assms req len
    by (auto simp: config_inv_def requests_inv_open channels_open nth_append less_Suc_eq)
qed

lemma dstep_insert:
  assumes "config_inv c" "n < length (threads c)" "threads c ! n = Inserting"
  shows "config_inv (c\<lparr>disp := put_request (of_nat n) n (disp c),
    threads := (threads c)[n := Waiting]\<rparr>)"
  unfolding config_inv_def
proof (intro conjI allI impI; simp)
  have len: "length (threads c) = length (channels (disp c))"
    and req: "requests_inv (disp c)" using assms by (simp_all add: config_inv_def)
  show "length (threads c) = length (channels (disp c))" by (fact len)
  show "requests_inv (put_request (word_of_nat n) n (disp c))"
    using assms req len by (simp add: requests_inv_put)
  fix ch
  assume ch: "ch < length (threads c)"
  note inv = config_invD [OF assms(1) ch] config_invD [OF assms(1,2)]
  show "mailbox_inv ch ((threads c)[n := Waiting] ! ch)
      (registered (put_request (word_of_nat n) n (disp c)) ch)
      (channels (put_request (word_of_nat n) n (disp c)) ! ch)"
    using inv assms(2,3) ch len
    by (cases "threads c ! ch")
       (auto simp: nth_list_update registered_put channels_put_request mailbox_inv_def
         map_of_registered [OF req] split: if_splits)
qed

lemma dstep_item:
  assumes "config_inv c"
  shows "config_inv (c\<lparr>disp := fst (handle_item r (disp c))\<rparr>)"
proof (cases "\<exists>cid. response_correlation_id r = Some cid \<and> \<not> is_ConsumerUpdate (Response.kind r)")
  case True
  then obtain cid where cid: "response_correlation_id r = Some cid"
    "\<not> is_ConsumerUpdate (Response.kind r)" by blast
  have req: "requests_inv (disp c)" and len: "length (threads c) = length (channels (disp c))"
    using assms by (simp_all add: config_inv_def)
  have "mailbox_inv ch (threads c ! ch) (registered (dispatch cid r (disp c)) ch)
      (channels (dispatch cid r (disp c)) ! ch)" if "ch < length (threads c)" for ch
    using config_invD [OF assms that] that len cid
    by (cases "threads c ! ch")
       (auto simp: channels_dispatch registered_dispatch mailbox_inv_def answers_def
         map_of_registered [OF req])
  with assms cid show ?thesis
    by (simp add: handle_item_def config_inv_def requests_inv_dispatch)
next
  case False
  then show ?thesis using assms by (auto simp: handle_item_def split: option.splits)
qed

lemma dstep_clear:
  assumes "config_inv c"
  shows "config_inv (c\<lparr>disp := clear_requests (disp c), task := Stopped\<rparr>)"
proof -
  have req: "requests_inv (disp c)" using assms by (simp add: config_inv_def)
  have mem: "ch \<in> snd ` set (requests (disp c)) \<longleftrightarrow> registered (disp c) ch"
    if "ch < length (threads c)" for ch
    using req by (force simp: requests_inv_def registered_def)
  have "mailbox_inv ch (threads c ! ch) False (channels (clear_requests (disp c)) ! ch)"
    if "ch < length (threads c)" for ch
    using config_invD [OF assms that] that assms mem [OF that]
    by (cases "threads c ! ch")
       (auto simp: channels_clear_requests mailbox_inv_def config_inv_def split: if_splits)
  with assms show ?thesis by (simp add: config_inv_def requests_inv_clear)
qed

lemma dstep_config_inv: "dstep c c' \<Longrightarrow> config_inv c \<Longrightarrow> config_inv c'"
proof (induction rule: dstep.induct)
  case (check_open n c)
  then show ?case
    using config_invD [OF check_open.prems check_open.hyps(1)]
    by (auto simp: config_inv_def nth_list_update mailbox_inv_def)
next
  case (check_closed n c)
  then show ?case
    using config_invD [OF check_closed.prems check_closed.hyps(1)]
    by (auto simp: config_inv_def nth_list_update channels_drop_sender requests_inv_drop)
       (simp add: mailbox_inv_def)
next
  case (set_closed c)
  then show ?case by (simp add: config_inv_def requests_inv_def)
qed (simp_all add: dstep_begin dstep_insert dstep_item dstep_clear)

lemma reachable_config_inv: "reachable c \<Longrightarrow> config_inv c"
  unfolding reachable_def
proof (induction rule: rtranclp_induct)
  case base
  show ?case
    by (simp add: config_inv_def initial_config_def set_handler_def new_Dispatcher_def
        requests_inv_def)
qed (rule dstep_config_inv)

section \<open>Properties of the dispatcher\<close>

lemma recv_None_iff:
  "recv ch s = None \<longleftrightarrow> sender (channels s ! ch) \<and> mail (channels s ! ch) = []"
  by (simp add: recv_def split: list.splits)

lemma reachable_initial: "reachable initial_config"
  by (simp add: reachable_def)

lemma reachable_step: "reachable c \<Longrightarrow> dstep c c' \<Longrightarrow> reachable c'"
  unfolding reachable_def by (rule rtranclp.rtrancl_into_rtrancl)

lemma dispatch_missing: "map_of (requests s) cid = None \<Longrightarrow> dispatch cid r s = s"
  using delete_idem [of cid "requests s"] map_of_eq_None_iff [of "requests s" cid]
  by (simp add: dispatch_def requests_remove_def)

lemma fst_handle_item_closed [simp]: "closed (fst (handle_item r s)) = closed s"
  by (simp add: handle_item_def split: option.splits)

text \<open>C3.  Under every interleaving of requests with the dispatcher's task, a request receives at
  most one response, and that response carries the correlation id of the request and is no
  consumer update; a request that was refused receives nothing.\<close>

theorem response_reaches_its_request:
  assumes "reachable c" "ch < length (threads c)"
  shows "length (mail (channels (disp c) ! ch)) \<le> 1 \<and>
    list_all (\<lambda>r. response_correlation_id r = Some (of_nat ch) \<and>
      \<not> is_ConsumerUpdate (Response.kind r)) (mail (channels (disp c) ! ch)) \<and>
    (mail (channels (disp c) ! ch) = [] \<or> threads c ! ch = Waiting)"
  using config_invD [OF reachable_config_inv [OF assms(1)] assms(2)]
  by (cases "threads c ! ch") (auto simp: mailbox_inv_def answers_def list_all_iff split: if_splits)

definition one_waiting :: "(i64, bytes) config" where
  "one_waiting =
     \<lparr>disp = \<lparr>requests = [(0, 0)], closed = False, correlation_id = 1, handler = True,
        channels = [\<lparr>mail = [], sender = True\<rparr>]\<rparr>, threads = [Waiting], task = Running\<rparr>"

lemma one_waiting_reachable: "reachable one_waiting"
proof -
  let ?i = "initial_config :: (i64, bytes) config"
  let ?a = "?i\<lparr>disp := open_channel (disp ?i), threads := threads ?i @ [Checking]\<rparr>"
  let ?b = "?a\<lparr>threads := (threads ?a)[0 := Inserting]\<rparr>"
  let ?c = "?b\<lparr>disp := put_request (of_nat 0) 0 (disp ?b), threads := (threads ?b)[0 := Waiting]\<rparr>"
  have "reachable ?a" by (rule reachable_step [OF reachable_initial begin_request])
  moreover have "dstep ?a ?b"
    by (rule check_open)
       (simp_all add: initial_config_def open_channel_def set_handler_def new_Dispatcher_def)
  ultimately have "reachable ?b" by (rule reachable_step)
  moreover have "dstep ?b ?c" by (rule insert_request) (simp_all add: initial_config_def)
  ultimately have "reachable ?c" by (rule reachable_step)
  moreover have "?c = one_waiting"
    by (simp add: one_waiting_def initial_config_def open_channel_def set_handler_def
        new_Dispatcher_def put_request_def)
  ultimately show ?thesis by simp
qed

theorem response_reaches_its_request_witness:
  "length (mail (channels (disp one_waiting) ! 0)) \<le> 1 \<and>
    list_all (\<lambda>r. response_correlation_id r = Some (of_nat 0) \<and>
      \<not> is_ConsumerUpdate (Response.kind r)) (mail (channels (disp one_waiting) ! 0)) \<and>
    (mail (channels (disp one_waiting) ! 0) = [] \<or> threads one_waiting ! 0 = Waiting)"
  by (rule response_reaches_its_request [OF one_waiting_reachable]) (simp add: one_waiting_def)

text \<open>No response is lost: when a request is registered, the next response with its id
  (consumer updates apart) is what its receiver gets, and the request is forgotten; a second
  response with that id is ignored.\<close>

theorem response_is_delivered:
  assumes "reachable c" "map_of (requests (disp c)) cid = Some ch"
    and "response_correlation_id r = Some cid" "\<not> is_ConsumerUpdate (Response.kind r)"
  shows "recv ch (disp c) = None \<and>
    recv ch (fst (handle_item r (disp c))) = Some (Some r) \<and>
    map_of (requests (fst (handle_item r (disp c)))) cid = None \<and>
    (\<forall>r'. response_correlation_id r' = Some cid \<longrightarrow> \<not> is_ConsumerUpdate (Response.kind r') \<longrightarrow>
       fst (handle_item r' (fst (handle_item r (disp c)))) = fst (handle_item r (disp c)))"
proof -
  let ?s = "disp c" and ?s' = "dispatch cid r (disp c)"
  have inv: "config_inv c" using assms(1) by (rule reachable_config_inv)
  then have req: "requests_inv ?s" and len: "length (threads c) = length (channels ?s)"
    by (simp_all add: config_inv_def)
  have ch: "ch < length (channels ?s)" and reg: "registered ?s ch"
    using registered_unique [OF req assms(2)] by auto
  then have m: "sender (channels ?s ! ch)" "mail (channels ?s ! ch) = []"
    using config_invD [OF inv, of ch] len
    by (cases "threads c ! ch"; simp add: mailbox_inv_def)+
  have item: "fst (handle_item r ?s) = ?s'" using assms(3,4) by (simp add: handle_item_def)
  have gone: "map_of (requests ?s') cid = None" by (simp add: delete_conv')
  have "dispatch cid r' ?s' = ?s'" for r'
    using gone by (rule dispatch_missing)
  with gone m ch assms(2) show ?thesis
    by (simp add: item recv_def channels_dispatch) (simp add: handle_item_def)
qed

definition heartbeat_answer :: "(i64, bytes) Response" where
  "heartbeat_answer = \<lparr>Response.header = \<lparr>key = COMMAND_UNSUBSCRIBE, version = 1\<rparr>,
     kind = ResponseKind.Generic \<lparr>GenericResponse.correlation_id = 0, code = ResponseOk\<rparr>\<rparr>"

theorem response_is_delivered_witness:
  "recv 0 (fst (handle_item heartbeat_answer (disp one_waiting))) = Some (Some heartbeat_answer)"
  using response_is_delivered [OF one_waiting_reachable, of 0 0 heartbeat_answer]
  by (simp add: one_waiting_def heartbeat_answer_def response_correlation_id_def
      is_ConsumerUpdate_def)

text \<open>When the map is cleared at the end of the stream, every request that is in it or was
  answered before is released: its receiver has its response or sees the end of its channel.\<close>

theorem close_releases_requests:
  assumes "reachable c" "task c = Clearing" "ch < length (threads c)"
    and "threads c ! ch = Waiting"
  shows "recv ch (clear_requests (disp c)) \<noteq> None"
proof -
  have inv: "config_inv c" using assms(1) by (rule reachable_config_inv)
  have "config_inv (c\<lparr>disp := clear_requests (disp c), task := Stopped\<rparr>)"
    using inv by (rule dstep_clear)
  from config_invD [OF this, of ch] assms(3,4) show ?thesis
    by (simp add: mailbox_inv_def recv_def split: list.splits)
qed

definition one_clearing :: "(i64, bytes) config" where
  "one_clearing = one_waiting\<lparr>disp := (disp one_waiting)\<lparr>closed := True\<rparr>, task := Clearing\<rparr>"

lemma one_clearing_reachable: "reachable one_clearing"
  using one_waiting_reachable set_closed [of one_waiting]
  unfolding reachable_def one_clearing_def
  by (auto simp: one_waiting_def intro: rtranclp.rtrancl_into_rtrancl)

theorem close_releases_requests_witness:
  "recv 0 (clear_requests (disp one_clearing)) \<noteq> None"
  by (rule close_releases_requests [OF one_clearing_reachable])
     (simp_all add: one_clearing_def one_waiting_def)

section \<open>Contract of the dispatcher\<close>

text \<open>What a caller relies on: a request that was registered waits until a response that answers
  it is delivered or the stream ends, and keeps what it got.  \<open>feed\<close> is the task's loop over the
  items of the stream.\<close>

fun feed ::
  "('r \<Rightarrow> 's \<Rightarrow> 's) \<Rightarrow> ('s \<Rightarrow> 's) \<Rightarrow> ('r, 'e) result option list \<Rightarrow> 's \<Rightarrow> 's \<times> bool" where
  "feed deliver finish [] s = (s, True)"
| "feed deliver finish (Some (Ok r) # items) s = feed deliver finish items (deliver r s)"
| "feed deliver finish (_ # items) s = (finish s, False)"

fun first_answer ::
  "(u32 \<Rightarrow> 'r \<Rightarrow> bool) \<Rightarrow> u32 \<Rightarrow> ('r, 'e) result option list \<Rightarrow> 'r option option" where
  "first_answer answer cid [] = None"
| "first_answer answer cid (Some (Ok r) # items) =
     (if answer cid r then Some (Some r) else first_answer answer cid items)"
| "first_answer answer cid (_ # items) = Some None"

lemma feed_Cons:
  "feed deliver finish (item # items) s =
    (case item of Some (Ok r) \<Rightarrow> feed deliver finish items (deliver r s) | _ \<Rightarrow> (finish s, False))"
  by (simp split: option.split result.split)

lemma first_answer_Cons:
  "first_answer answer cid (item # items) =
    (case item of
       Some (Ok r) \<Rightarrow> if answer cid r then Some (Some r) else first_answer answer cid items
     | _ \<Rightarrow> Some None)"
  by (simp split: option.split result.split)

locale correlator =
  fixes inv :: "'s \<Rightarrow> bool" and request :: "'s \<Rightarrow> 's \<times> (u32 \<times> nat) option"
    and deliver :: "'r \<Rightarrow> 's \<Rightarrow> 's" and finish :: "'s \<Rightarrow> 's"
    and receive :: "nat \<Rightarrow> 's \<Rightarrow> 'r option option"
    and waiting :: "u32 \<Rightarrow> nat \<Rightarrow> 's \<Rightarrow> bool" and answer :: "u32 \<Rightarrow> 'r \<Rightarrow> bool"
  assumes request_waits: "inv s \<Longrightarrow> request s = (s', Some (cid, ch)) \<Longrightarrow> waiting cid ch s'"
    and request_inv: "inv s \<Longrightarrow> inv (fst (request s))"
    and deliver_inv: "inv s \<Longrightarrow> inv (deliver r s)"
    and finish_inv: "inv s \<Longrightarrow> inv (finish s)"
    and waiting_receive: "inv s \<Longrightarrow> waiting cid ch s \<Longrightarrow> receive ch s = None"
    and deliver_answer: "inv s \<Longrightarrow> waiting cid ch s \<Longrightarrow> answer cid r \<Longrightarrow>
      receive ch (deliver r s) = Some (Some r)"
    and deliver_other: "inv s \<Longrightarrow> waiting cid ch s \<Longrightarrow> \<not> answer cid r \<Longrightarrow>
      waiting cid ch (deliver r s)"
    and deliver_settled: "inv s \<Longrightarrow> receive ch s = Some x \<Longrightarrow> receive ch (deliver r s) = Some x"
    and finish_waiting: "inv s \<Longrightarrow> waiting cid ch s \<Longrightarrow> receive ch (finish s) = Some None"
    and finish_settled: "inv s \<Longrightarrow> receive ch s = Some x \<Longrightarrow> receive ch (finish s) = Some x"
begin

lemma feed_inv: "inv s \<Longrightarrow> inv (fst (feed deliver finish items s))"
  by (induction items arbitrary: s)
     (auto simp: feed_Cons deliver_inv finish_inv split: option.split result.split)

lemma feed_settled:
  "inv s \<Longrightarrow> receive ch s = Some x \<Longrightarrow> receive ch (fst (feed deliver finish items s)) = Some x"
  by (induction items arbitrary: s)
     (auto simp: feed_Cons deliver_inv deliver_settled finish_settled split: option.split result.split)

lemma feed_receive:
  "inv s \<Longrightarrow> waiting cid ch s \<Longrightarrow>
   receive ch (fst (feed deliver finish items s)) = first_answer answer cid items"
  by (induction items arbitrary: s)
     (auto simp: feed_Cons first_answer_Cons deliver_inv waiting_receive finish_waiting feed_settled
       deliver_answer deliver_other split: option.split result.split)

lemma request_receive:
  assumes "inv s" "request s = (s', Some (cid, ch))"
  shows "receive ch (fst (feed deliver finish items s')) = first_answer answer cid items"
  using feed_receive [of s' cid ch] request_waits [OF assms] request_inv [OF assms(1)] assms(2)
  by simp

end

definition answers_id :: "u32 \<Rightarrow> ('t, 'u) Response \<Rightarrow> bool" where
  "answers_id cid r \<longleftrightarrow> response_correlation_id r = Some cid \<and>
     \<not> is_ConsumerUpdate (Response.kind r)"

definition dispatcher_inv :: "('t, 'u) DispatcherState \<Rightarrow> bool" where
  "dispatcher_inv s \<longleftrightarrow> requests_inv s \<and> (\<forall>ch. registered s ch \<longrightarrow> recv ch s = None)"

definition waits_for :: "u32 \<Rightarrow> nat \<Rightarrow> ('t, 'u) DispatcherState \<Rightarrow> bool" where
  "waits_for cid ch s \<longleftrightarrow> map_of (requests s) cid = Some ch"

lemma waits_for_registered:
  "requests_inv s \<Longrightarrow> waits_for cid ch s \<longleftrightarrow> registered s ch \<and> cid = of_nat ch"
  by (simp add: waits_for_def map_of_registered)

lemma channels_beyond:
  assumes "\<not> i < length (channels s)"
  shows "channels (drop_sender ch s) ! i = channels s ! i"
    "channels (send_mail ch r s) ! i = channels s ! i"
  using assms by (cases "ch = i"; simp add: drop_sender_def send_mail_def list_update_beyond)+

lemma channels_dispatch_beyond:
  "\<not> i < length (channels s) \<Longrightarrow> channels (dispatch cid r s) ! i = channels s ! i"
  by (simp add: dispatch_def requests_remove_def channels_beyond split: option.splits)

lemma channels_clear_beyond:
  "\<not> i < length (channels s) \<Longrightarrow> channels (clear_requests s) ! i = channels s ! i"
proof -
  have "\<not> i < length (channels s) \<Longrightarrow>
    channels (foldl (\<lambda>s p. drop_sender (snd p) s) s ps) ! i = channels s ! i" for ps
    by (induction ps arbitrary: s) (simp_all add: channels_beyond)
  then show "\<not> i < length (channels s) \<Longrightarrow> channels (clear_requests s) ! i = channels s ! i"
    by (simp add: clear_requests_def)
qed

lemma registered_in_range: "requests_inv s \<Longrightarrow> registered s ch \<Longrightarrow> ch < length (channels s)"
  unfolding registered_def by (rule registered_unique(1))

lemma recv_clear:
  assumes "requests_inv s"
  shows "recv ch (clear_requests s) =
    (if registered s ch \<and> recv ch s = None then Some None else recv ch s)"
proof (cases "ch < length (channels s)")
  case True
  have "ch \<in> snd ` set (requests s) \<longleftrightarrow> registered s ch"
    using assms by (force simp: requests_inv_def registered_def)
  with True show ?thesis
    by (auto simp: recv_def channels_clear_requests split: list.splits)
next
  case False
  with registered_in_range [OF assms] show ?thesis
    by (auto simp: recv_def channels_clear_beyond)
qed

lemma recv_dispatch:
  assumes "requests_inv s" "registered s ch \<Longrightarrow> recv ch s = None"
  shows "recv ch (dispatch cid r s) =
    (if registered s ch \<and> cid = of_nat ch then Some (Some r) else recv ch s)"
proof (cases "ch < length (channels s)")
  case True
  show ?thesis
  proof (cases "registered s ch \<and> cid = of_nat ch")
    case reg: True
    then have "mail (channels s ! ch) = []" using assms(2) by (simp add: recv_None_iff)
    with True reg show ?thesis by (simp add: recv_def channels_dispatch map_of_registered assms(1))
  next
    case False
    with True show ?thesis by (auto simp: recv_def channels_dispatch map_of_registered assms(1))
  qed
next
  case False
  with registered_in_range [OF assms(1)] show ?thesis
    by (auto simp: recv_def channels_dispatch_beyond)
qed

lemma recv_dispatch_unregistered:
  "requests_inv s \<Longrightarrow> \<not> registered s ch \<Longrightarrow> recv ch (dispatch cid r s) = recv ch s"
  by (subst recv_dispatch) simp_all

lemma response_channel_open:
  assumes "requests_inv s" "\<not> closed s"
  shows "response_channel s =
    (put_request (of_nat (length (channels s))) (length (channels s)) (open_channel s),
     Some (of_nat (length (channels s)), length (channels s)))"
  using assms
  by (simp add: response_channel_def requests_insert_def requests_inv_def open_channel_def)

lemma response_channel_closed:
  assumes "closed s"
  shows "response_channel s = (drop_sender (length (channels s)) (open_channel s), None)"
  using assms by (simp add: response_channel_def requests_insert_def open_channel_def)

lemma length_open [simp]: "length (channels (open_channel s)) = Suc (length (channels s))"
  by (simp add: open_channel_def)

lemma dispatcher_inv_request:
  assumes "dispatcher_inv s"
  shows "dispatcher_inv (fst (response_channel s))"
proof (cases "closed s")
  case True
  have "ch \<noteq> length (channels s)" if "registered s ch" for ch
    using registered_in_range [OF _ that] assms by (auto simp: dispatcher_inv_def)
  with True assms show ?thesis
    by (auto simp: dispatcher_inv_def response_channel_closed requests_inv_drop requests_inv_open
        recv_None_iff channels_drop_sender channels_open nth_append
        dest: registered_in_range)
next
  case False
  let ?n = "length (channels s)"
  let ?s = "put_request (of_nat ?n) ?n (open_channel s)"
  have req: "requests_inv s" using assms by (simp add: dispatcher_inv_def)
  have old: "ch < Suc ?n" "of_nat ch \<noteq> (of_nat ?n :: u32)" "recv ch s = None" "ch < ?n"
    if "registered ?s ch" "ch \<noteq> ?n" for ch
    using that registered_in_range [OF req, of ch] assms
    by (auto simp: registered_put dispatcher_inv_def split: if_splits)
  have "recv ch ?s = None" if "registered ?s ch" for ch
  proof (cases "ch = ?n")
    case True
    have "map_of (requests (open_channel s)) (of_nat ?n) \<noteq> Some ?n"
      using registered_unique(1) [OF req] by (auto simp: open_channel_def)
    with True show ?thesis by (simp add: recv_None_iff channels_put_request channels_open)
  next
    case False
    have "map_of (requests s) (of_nat ?n) \<noteq> Some ch"
      using old(2) [OF that False] by (simp add: map_of_registered [OF req])
    with old [OF that False] show ?thesis
      by (simp add: recv_None_iff channels_put_request channels_open nth_append)
         (simp add: open_channel_def)
  qed
  with req False show ?thesis
    by (simp add: dispatcher_inv_def response_channel_open requests_inv_put requests_inv_open)
qed

lemma dispatcher_inv_handle_item: "dispatcher_inv s \<Longrightarrow> dispatcher_inv (fst (handle_item r s))"
  by (auto simp: dispatcher_inv_def handle_item_def requests_inv_dispatch registered_dispatch
      recv_dispatch split: option.splits)

lemma requests_inv_closed: "requests_inv s \<Longrightarrow> requests_inv (s\<lparr>closed := b\<rparr>)"
  by (simp add: requests_inv_def)

lemma recv_closed [simp]: "recv ch (s\<lparr>closed := b\<rparr>) = recv ch s"
  by (simp add: recv_def)

interpretation disp: correlator dispatcher_inv response_channel "\<lambda>r s. fst (handle_item r s)"
  requests_close recv waits_for answers_id
proof
  fix s s' :: "('a, 'b) DispatcherState" and cid ch r x
  assume inv: "dispatcher_inv s"
  then have req: "requests_inv s" and quiet: "\<And>ch. registered s ch \<Longrightarrow> recv ch s = None"
    by (simp_all add: dispatcher_inv_def)
  show "dispatcher_inv (fst (response_channel s))" using inv by (rule dispatcher_inv_request)
  show "dispatcher_inv (fst (handle_item r s))" using inv by (rule dispatcher_inv_handle_item)
  show "dispatcher_inv (requests_close s)"
    using req by (simp add: dispatcher_inv_def requests_close_def requests_inv_clear requests_inv_closed)
  show "recv ch (fst (handle_item r s)) = Some x" if "recv ch s = Some x"
  proof -
    have "\<not> registered s ch" using that quiet [of ch] by auto
    with that req show ?thesis
      by (auto simp: handle_item_def recv_dispatch_unregistered split: option.splits)
  qed
  show "recv ch (requests_close s) = Some x" if "recv ch s = Some x"
    using that req by (simp add: requests_close_def recv_clear requests_inv_closed)
  show "waits_for cid ch s'" if "response_channel s = (s', Some (cid, ch))"
  proof -
    have "\<not> closed s" using that by (auto simp: response_channel_closed)
    with that req show ?thesis
      by (auto simp: response_channel_open waits_for_def update_conv')
  qed
  assume "waits_for cid ch s"
  then have reg: "registered s ch" "cid = of_nat ch" using req by (simp_all add: waits_for_registered)
  show "recv ch s = None" using quiet reg by blast
  show "recv ch (fst (handle_item r s)) = Some (Some r)" if "answers_id cid r"
    using that reg req quiet by (simp add: answers_id_def handle_item_def recv_dispatch)
  show "waits_for cid ch (fst (handle_item r s))" if "\<not> answers_id cid r"
    using that reg req
    by (auto simp: answers_id_def handle_item_def waits_for_registered requests_inv_dispatch
        registered_dispatch split: option.splits)
  show "recv ch (requests_close s) = Some None"
    using reg req quiet by (simp add: requests_close_def recv_clear requests_inv_closed)
qed

section \<open>Ids that come back\<close>

lemma same_id: "of_nat m = (of_nat n :: u32) \<longleftrightarrow> m mod 2 ^ 32 = n mod 2 ^ 32"
  by (simp add: word_of_nat_eq_iff take_bit_eq_mod)

text \<open>C25.  Correlation ids are 32 bits wide and wrap around.  A request keeps waiting when another one is
  registered, as long as their numbers differ modulo 2 to the 32; a request that is registered a multiple
  of 2 to the 32 later takes its place, and the earlier one ends as if the connection were closed.\<close>

theorem correlation_ids_wrap:
  assumes "reachable c" "n < length (threads c)" "threads c ! n = Waiting" "recv n (disp c) = None"
    and "m < length (threads c)" "threads c ! m = Inserting"
    and "c' = c\<lparr>disp := put_request (of_nat m) m (disp c), threads := (threads c)[m := Waiting]\<rparr>"
  shows "dstep c c' \<and>
    (m mod 2 ^ 32 \<noteq> n mod 2 ^ 32 \<longrightarrow> recv n (disp c') = None) \<and>
    (m mod 2 ^ 32 = n mod 2 ^ 32 \<longrightarrow> recv n (disp c') = Some None)"
proof -
  have inv: "config_inv c" by (rule reachable_config_inv [OF assms(1)])
  then have req: "requests_inv (disp c)" and len: "n < length (channels (disp c))"
    using assms(2) by (simp_all add: config_inv_def)
  have reg: "registered (disp c) n"
    using config_invD [OF inv assms(2)] assms(3,4)
    by (auto simp: mailbox_inv_def recv_None_iff split: if_splits)
  with reg have old: "map_of (requests (disp c)) (of_nat m) = Some n \<longleftrightarrow> of_nat m = (of_nat n :: u32)"
    by (simp add: map_of_registered [OF req])
  have "dstep c c'" unfolding assms(7) by (rule insert_request [OF assms(5,6)])
  moreover have "recv n (disp c') = (if of_nat m = (of_nat n :: u32) then Some None else None)"
    using assms(4) reg unfolding recv_None_iff registered_def
    by (simp add: assms(7) recv_def channels_put_request [OF len] old del: of_nat_eq_iff)
  ultimately show ?thesis unfolding same_id [symmetric] by simp
qed

definition second_request :: "(i64, bytes) config" where
  "second_request =
     \<lparr>disp = put_request 0 0 (open_channel (open_channel (set_handler new_Dispatcher))),
      threads = [Waiting, Inserting], task = Running\<rparr>"

lemma second_request_reachable: "reachable second_request"
proof -
  let ?i = "initial_config :: (i64, bytes) config"
  let ?a = "?i\<lparr>disp := open_channel (disp ?i), threads := threads ?i @ [Checking]\<rparr>"
  let ?b = "?a\<lparr>disp := open_channel (disp ?a), threads := threads ?a @ [Checking]\<rparr>"
  let ?c = "?b\<lparr>threads := (threads ?b)[0 := Inserting]\<rparr>"
  let ?d = "?c\<lparr>disp := put_request (of_nat 0) 0 (disp ?c), threads := (threads ?c)[0 := Waiting]\<rparr>"
  let ?e = "?d\<lparr>threads := (threads ?d)[1 := Inserting]\<rparr>"
  have "reachable ?b" by (rule reachable_step [OF reachable_step [OF reachable_initial]]) (rule begin_request)+
  moreover have "dstep ?b ?c"
    by (rule check_open)
       (simp_all add: initial_config_def open_channel_def set_handler_def new_Dispatcher_def)
  ultimately have "reachable ?c" by (rule reachable_step)
  moreover have "dstep ?c ?d" by (rule insert_request) (simp_all add: initial_config_def)
  ultimately have "reachable ?d" by (rule reachable_step)
  moreover have "dstep ?d ?e"
    by (rule check_open)
       (simp_all add: initial_config_def open_channel_def set_handler_def new_Dispatcher_def put_request_def)
  ultimately have "reachable ?e" by (rule reachable_step)
  moreover have "?e = second_request" by (simp add: second_request_def initial_config_def)
  ultimately show ?thesis by simp
qed

theorem correlation_ids_wrap_witness:
  "recv 0 (put_request 1 1 (disp second_request)) = None"
  using correlation_ids_wrap [OF second_request_reachable, of 0 1]
  by (simp add: second_request_def put_request_def open_channel_def set_handler_def new_Dispatcher_def
      recv_def)
section \<open>The race of insert and close\<close>

text \<open>A thread that is registered after the map was cleared: nothing removes it any more.\<close>

definition stuck :: "nat \<Rightarrow> ('t, 'u) config \<Rightarrow> bool" where
  "stuck ch c \<longleftrightarrow> task c = Stopped \<and> closed (disp c) \<and> Inserting \<notin> set (threads c) \<and>
     length (threads c) = length (channels (disp c)) \<and> ch < length (threads c) \<and>
     threads c ! ch = Waiting \<and> recv ch (disp c) = None"

lemma stuck_dstep: "dstep c c' \<Longrightarrow> stuck ch c \<Longrightarrow> stuck ch c'"
proof (induction rule: dstep.induct)
  case (begin_request c)
  then show ?case by (auto simp: stuck_def channels_open recv_None_iff nth_append open_channel_def)
next
  case (check_closed n c)
  then show ?case
    using set_update_subset_insert [of "threads c" n Refused]
    by (auto simp: stuck_def recv_None_iff channels_drop_sender nth_list_update)
next
  case (insert_request n c)
  then have "Inserting \<in> set (threads c)" by (metis nth_mem)
  with insert_request show ?case by (simp add: stuck_def)
qed (auto simp: stuck_def)

definition racing :: "(i64, bytes) config" where
  "racing =
     \<lparr>disp = \<lparr>requests = [(0, 0)], closed = True, correlation_id = 1, handler = True,
        channels = [\<lparr>mail = [], sender = True\<rparr>]\<rparr>, threads = [Waiting], task = Stopped\<rparr>"

lemma racing_reachable: "reachable racing"
proof -
  let ?i = "initial_config :: (i64, bytes) config"
  let ?a = "?i\<lparr>disp := open_channel (disp ?i), threads := threads ?i @ [Checking]\<rparr>"
  let ?b = "?a\<lparr>threads := (threads ?a)[0 := Inserting]\<rparr>"
  let ?c = "?b\<lparr>disp := (disp ?b)\<lparr>closed := True\<rparr>, task := Clearing\<rparr>"
  let ?d = "?c\<lparr>disp := clear_requests (disp ?c), task := Stopped\<rparr>"
  let ?e = "?d\<lparr>disp := put_request (of_nat 0) 0 (disp ?d), threads := (threads ?d)[0 := Waiting]\<rparr>"
  have "reachable ?a" by (rule reachable_step [OF reachable_initial begin_request])
  moreover have "dstep ?a ?b"
    by (rule check_open)
       (simp_all add: initial_config_def open_channel_def set_handler_def new_Dispatcher_def)
  ultimately have "reachable ?b" by (rule reachable_step)
  moreover have "dstep ?b ?c" by (rule set_closed) (simp add: initial_config_def)
  ultimately have "reachable ?c" by (rule reachable_step)
  moreover have "dstep ?c ?d" by (rule clear) simp
  ultimately have "reachable ?d" by (rule reachable_step)
  moreover have "dstep ?d ?e" by (rule insert_request) (simp_all add: initial_config_def)
  ultimately have "reachable ?e" by (rule reachable_step)
  moreover have "?e = racing"
    by (simp add: racing_def initial_config_def open_channel_def set_handler_def
        new_Dispatcher_def put_request_def clear_requests_def)
  ultimately show ?thesis by simp
qed

text \<open>C29.  The check of \<open>closed\<close> and the insertion are not one step: a request can pass the check,
  the dispatcher can then close and clear the map and end, and the request is inserted
  afterwards.  Such a request waits for ever: whatever happens next, its receiver gets neither
  a response nor the end of the channel.\<close>

theorem insert_races_with_close:
  "\<exists>c :: (i64, bytes) config. reachable c \<and> task c = Stopped \<and> threads c ! 0 = Waiting \<and>
     (\<forall>c'. dstep\<^sup>*\<^sup>* c c' \<longrightarrow> recv 0 (disp c') = None)"
proof (intro exI conjI allI impI)
  show "reachable racing" by (rule racing_reachable)
  show "task racing = Stopped" "threads racing ! 0 = Waiting" by (simp_all add: racing_def)
  fix c' assume "dstep\<^sup>*\<^sup>* racing c'"
  then have "stuck 0 c'"
  proof (induction rule: rtranclp_induct)
    case base
    show ?case by (simp add: stuck_def racing_def recv_def)
  qed (rule stuck_dstep)
  then show "recv 0 (disp c') = None" by (simp add: stuck_def)
qed

theorem insert_races_with_close_witness:
  "\<exists>c :: (i64, bytes) config. reachable c \<and> recv 0 (disp c) = None \<and> task c = Stopped"
  using insert_races_with_close by blast

end
