(* ===== verification/Client.thy ===== *)
theory Client
  imports Client_Data Dispatcher
begin

text \<open>
  The raw client (\<open>src/client/mod.rs\<close>, \<open>src/client/channel.rs\<close>).

  Clients are shared (they are cloned handles of the same connection), so the program's state,
  \<open>world\<close>, holds all of them and a client is its index.  \<open>net\<close> is the state of the network with
  the brokers behind it, and \<open>metrics\<close> the calls made to the metrics collector.

  The network is a parameter, the record \<open>network\<close> of the four functions the code calls:
  opening a connection (TCP, with TLS when it is enabled), writing the bytes of the sink,
  closing it, and the clock.  A write returns what the stream of the connection yields next, until
  the client waits again: responses, an error, or the end of the stream.  These items go to
  \<open>inbox\<close> and are handled by the dispatcher's task when a call waits for its response
  (\<open>run_task\<close>).  Messages the client passes on to the handler its user set are handled by a
  spawned task each; they are listed in \<open>spawned\<close>.
\<close>

section \<open>State\<close>

record ClientState =
  server_properties :: string_map
  connection_properties :: string_map
  handler :: bool
  heartbeat :: u32
  max_frame_size :: u32
  last_heatbeat :: nat
  heartbeat_task :: "u32 option"

record ('t, 'u) Client =
  dispatcher :: "('t, 'u) DispatcherState"
  task_running :: bool
  connection :: nat
  sink :: bytes
  channel_closed :: bool
  inbox :: "('t, 'u) MessageResult list"
  state :: ClientState
  opts :: ClientOptions
  tune_notifier :: bool
  publish_sequence :: u64
  filtering_supported :: bool
  client_properties :: string_map
  spawned :: "('t, 'u) MessageResult list"

datatype metric = PublishMetric u64 | ConsumeMetric u64 | PublishConfirmMetric u64

record ('t, 'u, 'w) world =
  clients :: "('t, 'u) Client list"
  net :: 'w
  metrics :: "metric list"

record ('t, 'u, 'w) network =
  tcp_connect :: "ClientOptions \<Rightarrow> 'w \<Rightarrow> 'w \<times> (ClientError + nat)"
  tcp_write :: "nat \<Rightarrow> bytes \<Rightarrow> 'w \<Rightarrow> 'w \<times> (ClientError + ('t, 'u) MessageResult list)"
  tcp_close :: "nat \<Rightarrow> 'w \<Rightarrow> 'w \<times> (ClientError + ('t, 'u) MessageResult list)"
  instant_now :: "'w \<Rightarrow> nat"

type_synonym ('t, 'u, 'w, 'a) client_async = "(('t, 'u, 'w) world, 'a, ClientError) async"

definition update_client ::
  "nat \<Rightarrow> (('t, 'u) Client \<Rightarrow> ('t, 'u) Client) \<Rightarrow> ('t, 'u, 'w) world \<Rightarrow> ('t, 'u, 'w) world" where
  "update_client i f w = w\<lparr>clients := (clients w)[i := f (clients w ! i)]\<rparr>"

definition update_state ::
  "nat \<Rightarrow> (ClientState \<Rightarrow> ClientState) \<Rightarrow> ('t, 'u, 'w) world \<Rightarrow> ('t, 'u, 'w) world" where
  "update_state i f = update_client i (\<lambda>c. c\<lparr>state := f (state c)\<rparr>)"

section \<open>Channel (src/client/channel.rs)\<close>

text \<open>Sending encodes the request behind what the sink still holds and writes it all.\<close>

definition channel_send ::
  "('t, 'u) externals \<Rightarrow> ('t, 'u, 'w) network \<Rightarrow> nat \<Rightarrow> ('t, 'u) Request \<Rightarrow>
     ('t, 'u, 'w, unit) client_async" where
  "channel_send X N i req w =
    (case codec_encode X req (sink (clients w ! i)) of
       (buf, Ok _) \<Rightarrow>
         (case tcp_write N (connection (clients w ! i)) buf (net w) of
            (n, Inr items) \<Rightarrow>
              (update_client i (\<lambda>c. c\<lparr>sink := [], inbox := inbox c @ items\<rparr>) w\<lparr>net := n\<rparr>,
               Some (Ok ()))
          | (n, Inl e) \<Rightarrow> (update_client i (\<lambda>c. c\<lparr>sink := buf\<rparr>) w\<lparr>net := n\<rparr>, Some (Err e)))
     | (buf, Err e) \<Rightarrow> (update_client i (\<lambda>c. c\<lparr>sink := buf\<rparr>) w, Some (Err e))
     | (buf, Panic) \<Rightarrow> (w, Some Panic))"

definition channel_close ::
  "('t, 'u, 'w) network \<Rightarrow> nat \<Rightarrow> ('t, 'u, 'w, unit) client_async" where
  "channel_close N i w =
    (case tcp_close N (connection (clients w ! i)) (net w) of
       (n, Inr items) \<Rightarrow>
         (update_client i (\<lambda>c. c\<lparr>channel_closed := True, inbox := inbox c @ items\<rparr>) w\<lparr>net := n\<rparr>,
          Some (Ok ()))
     | (n, Inl e) \<Rightarrow> (w\<lparr>net := n\<rparr>, Some (Err e)))"

section \<open>Handling messages\<close>

definition negotiate_value :: "u32 \<Rightarrow> u32 \<Rightarrow> u32" where
  "negotiate_value client server =
     (if client = 0 \<or> server = 0 then max client server else min client server)"

definition start_hearbeat_task :: "ClientState \<Rightarrow> ClientState" where
  "start_hearbeat_task st =
     (if heartbeat st = 0 then st else st\<lparr>heartbeat_task := Some (max (heartbeat st div 2) 1)\<rparr>)"

definition tune_state :: "ClientOptions \<Rightarrow> TunesCommand \<Rightarrow> ClientState \<Rightarrow> ClientState" where
  "tune_state opts' tunes st =
    (let st = st\<lparr>heartbeat := negotiate_value (ClientOptions.heartbeat opts') (TunesCommand.heartbeat tunes),
                 max_frame_size :=
                   negotiate_value (ClientOptions.max_frame_size opts') (TunesCommand.max_frame_size tunes)\<rparr>
     in case heartbeat_task st of
          Some _ \<Rightarrow> start_hearbeat_task (st\<lparr>heartbeat_task := None\<rparr>)
        | None \<Rightarrow> st)"

definition handle_tune_command ::
  "('t, 'u) externals \<Rightarrow> ('t, 'u, 'w) network \<Rightarrow> nat \<Rightarrow> TunesCommand \<Rightarrow>
     ('t, 'u, 'w, unit) client_async" where
  "handle_tune_command X N i tunes w =
    (let w = update_state i (tune_state (opts (clients w ! i)) tunes) w;
         st = state (clients w ! i)
     in await_result (channel_send X N i (request_from (RequestKind.Tunes
            (new_TunesCommand (max_frame_size st) (heartbeat st)))))
          (\<lambda>_. modify (update_client i (\<lambda>c. c\<lparr>tune_notifier := True\<rparr>))) w)"

definition handle_heart_beat_command ::
  "('t, 'u, 'w) network \<Rightarrow> nat \<Rightarrow> ('t, 'u, 'w, unit) client_async" where
  "handle_heart_beat_command N i w =
     modify (update_state i (\<lambda>st. st\<lparr>last_heatbeat := instant_now N (net w)\<rparr>)) w"

text \<open>Everything else goes to a task spawned for the user's handler, if there is one.\<close>

definition spawn_handler ::
  "nat \<Rightarrow> ('t, 'u) MessageResult \<Rightarrow> ('t, 'u, 'w, unit) client_async" where
  "spawn_handler i item =
     modify (update_client i (\<lambda>c. if handler (state c) then c\<lparr>spawned := spawned c @ [item]\<rparr> else c))"

definition handle_message ::
  "('t, 'u) externals \<Rightarrow> ('t, 'u, 'w) network \<Rightarrow> nat \<Rightarrow> ('t, 'u) MessageResult \<Rightarrow>
     ('t, 'u, 'w, unit) client_async" where
  "handle_message X N i item =
    (case item of
       Some (Ok response) \<Rightarrow>
         (case Response.kind response of
            ResponseKind.Tunes tune \<Rightarrow> handle_tune_command X N i tune
          | ResponseKind.Heartbeat _ \<Rightarrow> handle_heart_beat_command N i
          | _ \<Rightarrow> spawn_handler i item)
     | _ \<Rightarrow> spawn_handler i item)"

primrec handle_messages ::
  "('t, 'u) externals \<Rightarrow> ('t, 'u, 'w) network \<Rightarrow> nat \<Rightarrow> ('t, 'u) MessageResult list \<Rightarrow>
     ('t, 'u, 'w, unit) client_async" where
  "handle_messages X N i [] = ready (Ok ())"
| "handle_messages X N i (m # ms) =
     await_result (handle_message X N i m) (\<lambda>_. handle_messages X N i ms)"

text \<open>The dispatcher's task on the items of the stream: it ends at an error or at the end.\<close>

primrec run_task ::
  "('t, 'u) externals \<Rightarrow> ('t, 'u, 'w) network \<Rightarrow> nat \<Rightarrow> ('t, 'u) MessageResult list \<Rightarrow>
     ('t, 'u, 'w, unit) client_async" where
  "run_task X N i [] w = (w, Some (Ok ()))"
| "run_task X N i (item # items) w =
    (if \<not> task_running (clients w ! i) then (w, Some (Ok ()))
     else case item of
       Some (Ok r) \<Rightarrow>
         (case handle_item r (dispatcher (clients w ! i)) of
            (d, ms) \<Rightarrow> await (handle_messages X N i ms) (\<lambda>_. run_task X N i items)
              (update_client i (\<lambda>c. c\<lparr>dispatcher := d\<rparr>) w))
     | _ \<Rightarrow>
         (case close_dispatcher None (dispatcher (clients w ! i)) of
            (d, ms) \<Rightarrow> handle_messages X N i ms
              (update_client i (\<lambda>c. c\<lparr>dispatcher := d, task_running := False\<rparr>) w)))"

definition poll_connection ::
  "('t, 'u) externals \<Rightarrow> ('t, 'u, 'w) network \<Rightarrow> nat \<Rightarrow> ('t, 'u, 'w, unit) client_async" where
  "poll_connection X N i w =
     run_task X N i (inbox (clients w ! i)) (update_client i (\<lambda>c. c\<lparr>inbox := []\<rparr>) w)"

section \<open>Requests and responses\<close>

text \<open>The name of the type in the error is its short name here; the code writes
  \<open>std::any::type_name\<close>, whose form Rust leaves open.\<close>

definition cast_response ::
  "string \<Rightarrow> (('t, 'u) Response \<Rightarrow> 'a option) \<Rightarrow> ('t, 'u) Response \<Rightarrow> ('a, ClientError) result" where
  "cast_response type_name from_response response =
    (case from_response response of
       Some x \<Rightarrow> Ok x
     | None \<Rightarrow> Err (CastError (''Cannot cast response to '' @ type_name)))"

definition recv_response ::
  "nat \<Rightarrow> nat \<Rightarrow> ('t, 'u, 'w, ('t, 'u) Response) client_async" where
  "recv_response i ch w =
    (w, case recv ch (dispatcher (clients w ! i)) of
          Some (Some r) \<Rightarrow> Some (Ok r)
        | Some None \<Rightarrow> Some (Err ConnectionClosed)
        | None \<Rightarrow> None)"

definition send_and_receive ::
  "('t, 'u) externals \<Rightarrow> ('t, 'u, 'w) network \<Rightarrow> nat \<Rightarrow> string \<Rightarrow> (('t, 'u) Response \<Rightarrow> 'a option) \<Rightarrow>
     (u32 \<Rightarrow> ('t, 'u) RequestKind) \<Rightarrow> ('t, 'u, 'w, 'a) client_async" where
  "send_and_receive X N i type_name from_response msg_factory w =
    (case response_channel (dispatcher (clients w ! i)) of
       (d, None) \<Rightarrow>
         (update_client i (\<lambda>c. c\<lparr>dispatcher := d\<rparr>) w, Some (Err ConnectionClosed))
     | (d, Some (cid, ch)) \<Rightarrow>
         await (channel_send X N i (request_from (msg_factory cid))) (\<lambda>_.
         await (poll_connection X N i) (\<lambda>_.
         await (recv_response i ch) (\<lambda>response.
           ready (cast_response type_name from_response response))))
         (update_client i (\<lambda>c. c\<lparr>dispatcher := d\<rparr>) w))"

definition send ::
  "('t, 'u) externals \<Rightarrow> ('t, 'u, 'w) network \<Rightarrow> nat \<Rightarrow> ('t, 'u) RequestKind \<Rightarrow>
     ('t, 'u, 'w, unit) client_async" where
  "send X N i msg = channel_send X N i (request_from msg)"

section \<open>Operations of the protocol\<close>

definition subscribe ::
  "('t, 'u) externals \<Rightarrow> ('t, 'u, 'w) network \<Rightarrow> nat \<Rightarrow> u8 \<Rightarrow> string \<Rightarrow> OffsetSpecification \<Rightarrow>
     u16 \<Rightarrow> string_map \<Rightarrow> ('t, 'u, 'w, GenericResponse) client_async" where
  "subscribe X N i subscription_id' stream' offset_specification' credit' properties' =
     send_and_receive X N i ''GenericResponse'' from_response_GenericResponse (\<lambda>cid.
       RequestKind.Subscribe (new_SubscribeCommand cid subscription_id' stream'
         offset_specification' credit' properties'))"

definition unsubscribe ::
  "('t, 'u) externals \<Rightarrow> ('t, 'u, 'w) network \<Rightarrow> nat \<Rightarrow> u8 \<Rightarrow>
     ('t, 'u, 'w, GenericResponse) client_async" where
  "unsubscribe X N i subscription_id' =
     send_and_receive X N i ''GenericResponse'' from_response_GenericResponse (\<lambda>cid.
       RequestKind.Unsubscribe (new_UnSubscribeCommand cid subscription_id'))"

definition partitions ::
  "('t, 'u) externals \<Rightarrow> ('t, 'u, 'w) network \<Rightarrow> nat \<Rightarrow> string \<Rightarrow>
     ('t, 'u, 'w, SuperStreamPartitionsResponse) client_async" where
  "partitions X N i super_stream' =
     send_and_receive X N i ''SuperStreamPartitionsResponse''
       from_response_SuperStreamPartitionsResponse (\<lambda>cid.
       RequestKind.SuperStreamPartitions (new_SuperStreamPartitionsRequest cid super_stream'))"

definition route ::
  "('t, 'u) externals \<Rightarrow> ('t, 'u, 'w) network \<Rightarrow> nat \<Rightarrow> string \<Rightarrow> string \<Rightarrow>
     ('t, 'u, 'w, SuperStreamRouteResponse) client_async" where
  "route X N i routing_key' super_stream' =
     send_and_receive X N i ''SuperStreamRouteResponse'' from_response_SuperStreamRouteResponse (\<lambda>cid.
       RequestKind.SuperStreamRoute (new_SuperStreamRouteRequest cid routing_key' super_stream'))"

definition create_stream ::
  "('t, 'u) externals \<Rightarrow> ('t, 'u, 'w) network \<Rightarrow> nat \<Rightarrow> string \<Rightarrow> string_map \<Rightarrow>
     ('t, 'u, 'w, GenericResponse) client_async" where
  "create_stream X N i stream' options =
     send_and_receive X N i ''GenericResponse'' from_response_GenericResponse (\<lambda>cid.
       RequestKind.CreateStream (new_CreateStreamCommand cid stream' options))"

definition create_super_stream ::
  "('t, 'u) externals \<Rightarrow> ('t, 'u, 'w) network \<Rightarrow> nat \<Rightarrow> string \<Rightarrow> string list \<Rightarrow> string list \<Rightarrow>
     string_map \<Rightarrow> ('t, 'u, 'w, GenericResponse) client_async" where
  "create_super_stream X N i super_stream' partitions' binding_keys' options =
     send_and_receive X N i ''GenericResponse'' from_response_GenericResponse (\<lambda>cid.
       RequestKind.CreateSuperStream (new_CreateSuperStreamCommand cid super_stream' partitions'
         binding_keys' options))"

definition delete_stream ::
  "('t, 'u) externals \<Rightarrow> ('t, 'u, 'w) network \<Rightarrow> nat \<Rightarrow> string \<Rightarrow>
     ('t, 'u, 'w, GenericResponse) client_async" where
  "delete_stream X N i stream' =
     send_and_receive X N i ''GenericResponse'' from_response_GenericResponse (\<lambda>cid.
       RequestKind.Delete (new_Delete cid stream'))"

definition delete_super_stream ::
  "('t, 'u) externals \<Rightarrow> ('t, 'u, 'w) network \<Rightarrow> nat \<Rightarrow> string \<Rightarrow>
     ('t, 'u, 'w, GenericResponse) client_async" where
  "delete_super_stream X N i super_stream' =
     send_and_receive X N i ''GenericResponse'' from_response_GenericResponse (\<lambda>cid.
       RequestKind.DeleteSuperStream (new_DeleteSuperStreamCommand cid super_stream'))"

definition credit ::
  "('t, 'u) externals \<Rightarrow> ('t, 'u, 'w) network \<Rightarrow> nat \<Rightarrow> u8 \<Rightarrow> u16 \<Rightarrow>
     ('t, 'u, 'w, unit) client_async" where
  "credit X N i subscription_id' credit' =
     send X N i (RequestKind.Credit (new_CreditCommand subscription_id' credit'))"

definition metadata ::
  "('t, 'u) externals \<Rightarrow> ('t, 'u, 'w) network \<Rightarrow> nat \<Rightarrow> string list \<Rightarrow>
     ('t, 'u, 'w, (string \<times> client_StreamMetadata) list) client_async" where
  "metadata X N i streams' =
     await (send_and_receive X N i ''MetadataResponse'' from_response_MetadataResponse (\<lambda>cid.
       RequestKind.Metadata (new_MetadataCommand cid streams')))
       (\<lambda>r. ready (Ok (metadata_from_response r)))"

definition store_offset ::
  "('t, 'u) externals \<Rightarrow> ('t, 'u, 'w) network \<Rightarrow> nat \<Rightarrow> string \<Rightarrow> string \<Rightarrow> u64 \<Rightarrow>
     ('t, 'u, 'w, unit) client_async" where
  "store_offset X N i reference' stream' offset' =
     send X N i (RequestKind.StoreOffset (new_StoreOffset reference' stream' offset'))"

definition query_offset ::
  "('t, 'u) externals \<Rightarrow> ('t, 'u, 'w) network \<Rightarrow> nat \<Rightarrow> string \<Rightarrow> string \<Rightarrow>
     ('t, 'u, 'w, u64) client_async" where
  "query_offset X N i reference' stream' =
     await (send_and_receive X N i ''QueryOffsetResponse'' from_response_QueryOffsetResponse (\<lambda>cid.
       RequestKind.QueryOffset (new_QueryOffsetRequest cid reference' stream')))
       (\<lambda>response. ready (
          if QueryOffsetResponse.response_code response \<noteq> ResponseOk
          then Err (RequestError (QueryOffsetResponse.response_code response))
          else Ok (QueryOffsetResponse.offset response)))"

definition declare_publisher ::
  "('t, 'u) externals \<Rightarrow> ('t, 'u, 'w) network \<Rightarrow> nat \<Rightarrow> u8 \<Rightarrow> string option \<Rightarrow> string \<Rightarrow>
     ('t, 'u, 'w, GenericResponse) client_async" where
  "declare_publisher X N i publisher_id' publisher_reference' stream' =
     send_and_receive X N i ''GenericResponse'' from_response_GenericResponse (\<lambda>cid.
       RequestKind.DeclarePublisher (new_DeclarePublisherCommand cid publisher_id'
         publisher_reference' stream'))"

definition delete_publisher ::
  "('t, 'u) externals \<Rightarrow> ('t, 'u, 'w) network \<Rightarrow> nat \<Rightarrow> u8 \<Rightarrow>
     ('t, 'u, 'w, GenericResponse) client_async" where
  "delete_publisher X N i publisher_id' =
     send_and_receive X N i ''GenericResponse'' from_response_GenericResponse (\<lambda>cid.
       RequestKind.DeletePublisher (new_DeletePublisherCommand cid publisher_id'))"

definition query_publisher_sequence ::
  "('t, 'u) externals \<Rightarrow> ('t, 'u, 'w) network \<Rightarrow> nat \<Rightarrow> string \<Rightarrow> string \<Rightarrow>
     ('t, 'u, 'w, u64) client_async" where
  "query_publisher_sequence X N i reference' stream' =
     await (send_and_receive X N i ''QueryPublisherResponse'' from_response_QueryPublisherResponse (\<lambda>cid.
       RequestKind.QueryPublisherSequence (new_QueryPublisherRequest cid reference' stream')))
       (\<lambda>response. ready (Ok (QueryPublisherResponse.sequence response)))"

definition exchange_command_versions ::
  "('t, 'u) externals \<Rightarrow> ('t, 'u, 'w) network \<Rightarrow> nat \<Rightarrow>
     ('t, 'u, 'w, ExchangeCommandVersionsResponse) client_async" where
  "exchange_command_versions X N i =
     send_and_receive X N i ''ExchangeCommandVersionsResponse''
       from_response_ExchangeCommandVersionsResponse (\<lambda>cid.
       RequestKind.ExchangeCommandVersions (new_ExchangeCommandVersionsRequest cid []))"

text \<open>The correlation id the dispatcher hands out is not used: the request answers the broker's
  own command and carries that command's id.\<close>

definition consumer_update ::
  "('t, 'u) externals \<Rightarrow> ('t, 'u, 'w) network \<Rightarrow> nat \<Rightarrow> u32 \<Rightarrow> OffsetSpecification \<Rightarrow>
     ('t, 'u, 'w, GenericResponse) client_async" where
  "consumer_update X N i correlation_id' offset_specification' =
     send_and_receive X N i ''GenericResponse'' from_response_GenericResponse (\<lambda>_.
       RequestKind.ConsumerUpdateRequest (new_ConsumerUpdateRequestCommand correlation_id' 1
         offset_specification'))"

section \<open>Publishing\<close>

text \<open>Ids are taken from the client's sequence for the messages that carry none, in order.\<close>

primrec assign_ids ::
  "u64 \<Rightarrow> ('t, 'u) base_message list \<Rightarrow> u64 \<times> ('t, 'u) PublishedMessage list" where
  "assign_ids next [] = (next, [])"
| "assign_ids next (m # ms) =
    (let (pid, next') = (case base_publishing_id m of
           Some pid \<Rightarrow> (pid, next) | None \<Rightarrow> (next, next + 1));
         (next'', ps) = assign_ids next' ms
     in (next'', new_PublishedMessage pid (to_message m) (base_filter_value m) # ps))"

definition publish ::
  "('t, 'u) externals \<Rightarrow> ('t, 'u, 'w) network \<Rightarrow> nat \<Rightarrow> u8 \<Rightarrow> ('t, 'u) base_message list \<Rightarrow> u16 \<Rightarrow>
     ('t, 'u, 'w, u64 list) client_async" where
  "publish X N i publisher_id' messages' version' w =
    (case assign_ids (publish_sequence (clients w ! i)) messages' of
       (next', published) \<Rightarrow>
         await (send X N i (RequestKind.Publish (new_PublishCommand publisher_id' published version')))
           (\<lambda>_. await (modify (\<lambda>w. w\<lparr>metrics := metrics w @
                   [PublishMetric (of_nat (length published))]\<rparr>))
           (\<lambda>_. ready (Ok (map PublishedMessage.publishing_id published))))
           (update_client i (\<lambda>c. c\<lparr>publish_sequence := next'\<rparr>) w))"

section \<open>Connecting and closing\<close>

definition peer_properties ::
  "('t, 'u) externals \<Rightarrow> ('t, 'u, 'w) network \<Rightarrow> nat \<Rightarrow> ('t, 'u, 'w, string_map) client_async" where
  "peer_properties X N i w =
     await (send_and_receive X N i ''PeerPropertiesResponse'' from_response_PeerPropertiesResponse (\<lambda>cid.
       RequestKind.PeerProperties (new_PeerPropertiesCommand cid (client_properties (clients w ! i)))))
       (\<lambda>r. ready (Ok (PeerPropertiesResponse.server_properties r))) w"

definition sasl_mechanism ::
  "('t, 'u) externals \<Rightarrow> ('t, 'u, 'w) network \<Rightarrow> nat \<Rightarrow> ('t, 'u, 'w, string list) client_async" where
  "sasl_mechanism X N i =
     await (send_and_receive X N i ''SaslHandshakeResponse'' from_response_SaslHandshakeResponse (\<lambda>cid.
       RequestKind.SaslHandshake (new_SaslHandshakeCommand cid)))
       (\<lambda>r. ready (Ok (mechanisms r)))"

definition auth_data :: "ClientOptions \<Rightarrow> bytes" where
  "auth_data opts' = as_bytes (CHR 0x00 # user opts' @ CHR 0x00 # password opts')"

definition handle_authentication ::
  "('t, 'u) externals \<Rightarrow> ('t, 'u, 'w) network \<Rightarrow> nat \<Rightarrow> string list \<Rightarrow>
     ('t, 'u, 'w, unit) client_async" where
  "handle_authentication X N i mechanism' w =
     await (send_and_receive X N i ''GenericResponse'' from_response_GenericResponse (\<lambda>cid.
       RequestKind.SaslAuthenticate (new_SaslAuthenticateCommand cid ''PLAIN''
         (auth_data (opts (clients w ! i))))))
       (\<lambda>response. ready (
          if GenericResponse.code response = ResponseOk then Ok ()
          else Err (RequestError (GenericResponse.code response)))) w"

definition authenticate ::
  "('t, 'u) externals \<Rightarrow> ('t, 'u, 'w) network \<Rightarrow> nat \<Rightarrow> ('t, 'u, 'w, unit) client_async" where
  "authenticate X N i = await (sasl_mechanism X N i) (handle_authentication X N i)"

text \<open>The notification is a permit that is kept until it is waited for.\<close>

definition wait_for_tune_data ::
  "('t, 'u) externals \<Rightarrow> ('t, 'u, 'w) network \<Rightarrow> nat \<Rightarrow> ('t, 'u, 'w, unit) client_async" where
  "wait_for_tune_data X N i =
     await (poll_connection X N i) (\<lambda>_ w.
       if tune_notifier (clients w ! i)
       then (update_client i (\<lambda>c. c\<lparr>tune_notifier := False\<rparr>) w, Some (Ok ()))
       else (w, None))"

definition open_vhost ::
  "('t, 'u) externals \<Rightarrow> ('t, 'u, 'w) network \<Rightarrow> nat \<Rightarrow> ('t, 'u, 'w, string_map) client_async" where
  "open_vhost X N i w =
     await (send_and_receive X N i ''OpenResponse'' from_response_OpenResponse (\<lambda>cid.
       RequestKind.Open (new_OpenCommand cid (v_host (opts (clients w ! i))))))
       (\<lambda>r. ready (
          if OpenResponse.code r = ResponseOk then Ok (OpenResponse.connection_properties r)
          else Err (RequestError (OpenResponse.code r)))) w"

text \<open>The state is locked after the task has its result.\<close>

definition with_state_lock ::
  "nat \<Rightarrow> ('t, 'u, 'w, 'a) client_async \<Rightarrow> (ClientState \<Rightarrow> 'a \<Rightarrow> ClientState) \<Rightarrow>
     ('t, 'u, 'w, unit) client_async" where
  "with_state_lock i task' updater =
     await task' (\<lambda>result'. modify (update_state i (\<lambda>st. updater st result')))"

definition initialize ::
  "('t, 'u) externals \<Rightarrow> ('t, 'u, 'w) network \<Rightarrow> nat \<Rightarrow> ('t, 'u, 'w, unit) client_async" where
  "initialize X N i =
     await (modify (update_client i (\<lambda>c. c\<lparr>dispatcher := set_handler (dispatcher c),
       task_running := True\<rparr>))) (\<lambda>_.
     await (with_state_lock i (peer_properties X N i)
       (\<lambda>st server_properties'. st\<lparr>server_properties := server_properties'\<rparr>)) (\<lambda>_.
     await (authenticate X N i) (\<lambda>_.
     await (wait_for_tune_data X N i) (\<lambda>_.
     await (with_state_lock i (open_vhost X N i)
       (\<lambda>st connection_properties'. st\<lparr>connection_properties := connection_properties'\<rparr>)) (\<lambda>_.
       modify (update_state i start_hearbeat_task))))))"

definition new_client_properties :: "ClientOptions \<Rightarrow> string_map" where
  "new_client_properties opts' =
     [(''product'', ''RabbitMQ''), (''version'', ''0.7.0''), (''platform'', ''Rust''),
      (''copyright'', ''Copyright (c) 2017-2023 Broadcom. All Rights Reserved. The term Broadcom refers to Broadcom Inc. and/or its subsidiaries.''),
      (''information'', ''Licensed under the Apache 2.0 and MPL 2.0 licenses. See https://www.rabbitmq.com/''),
      (''connection_name'', client_provided_name opts')]"

definition new_Client :: "nat \<Rightarrow> nat \<Rightarrow> ClientOptions \<Rightarrow> ('t, 'u) Client" where
  "new_Client now' conn broker =
     \<lparr>dispatcher = new_Dispatcher, task_running = False, connection = conn, sink = [],
      channel_closed = False, inbox = [],
      state = \<lparr>server_properties = [], connection_properties = [], handler = False,
        heartbeat = ClientOptions.heartbeat broker,
        max_frame_size = ClientOptions.max_frame_size broker, last_heatbeat = now',
        heartbeat_task = None\<rparr>,
      opts = broker, tune_notifier = False, publish_sequence = 1, filtering_supported = False,
      client_properties = new_client_properties broker, spawned = []\<rparr>"

text \<open>\<open>connect\<close> from the moment the connection is open.\<close>

definition connect_on ::
  "('t, 'u) externals \<Rightarrow> ('t, 'u, 'w) network \<Rightarrow> ClientOptions \<Rightarrow> 'w \<Rightarrow> nat \<Rightarrow>
   ('t, 'u, 'w, nat) client_async" where
  "connect_on X N broker n conn w =
     (let i = length (clients w) in
      await (initialize X N i) (\<lambda>_.
      await (exchange_command_versions X N i) (\<lambda>command_versions.
      await (modify (update_client i (\<lambda>c.
          if snd (key_version command_versions 2) \<ge> 2
          then c\<lparr>filtering_supported := True\<rparr> else c))) (\<lambda>_.
        ready (Ok i))))
      (w\<lparr>net := n, clients := clients w @ [new_Client (instant_now N n) conn broker]\<rparr>))"

definition connect ::
  "('t, 'u) externals \<Rightarrow> ('t, 'u, 'w) network \<Rightarrow> ClientOptions \<Rightarrow> ('t, 'u, 'w, nat) client_async" where
  "connect X N broker w =
    (case tcp_connect N broker (net w) of
       (n, Inr conn) \<Rightarrow> connect_on X N broker n conn w
     | (n, Inl e) \<Rightarrow> (w\<lparr>net := n\<rparr>, Some (Err e)))"

definition get_server_properties :: "nat \<Rightarrow> ('t, 'u, 'w, string_map) client_async" where
  "get_server_properties i w = (w, Some (Ok (server_properties (state (clients w ! i)))))"

definition get_connection_properties :: "nat \<Rightarrow> ('t, 'u, 'w, string_map) client_async" where
  "get_connection_properties i w = (w, Some (Ok (connection_properties (state (clients w ! i)))))"

definition client_set_handler :: "nat \<Rightarrow> ('t, 'u, 'w, unit) client_async" where
  "client_set_handler i = modify (update_state i (\<lambda>st. st\<lparr>handler := True\<rparr>))"

definition close ::
  "('t, 'u) externals \<Rightarrow> ('t, 'u, 'w) network \<Rightarrow> nat \<Rightarrow> ('t, 'u, 'w, unit) client_async" where
  "close X N i w =
    (if channel_closed (clients w ! i) then (w, Some (Err AlreadyClosed))
     else
       await (send_and_receive X N i ''CloseResponse'' from_response_CloseResponse (\<lambda>cid.
         RequestKind.Close (new_CloseRequest cid ResponseOk ''Ok''))) (\<lambda>_.
       await (modify (update_state i (\<lambda>st. st\<lparr>heartbeat_task := None\<rparr>))) (\<lambda>_.
         channel_close N i)) w)"

text \<open>One turn of the heartbeat task.\<close>

definition heartbeat_turn ::
  "('t, 'u) externals \<Rightarrow> ('t, 'u, 'w) network \<Rightarrow> nat \<Rightarrow> ('t, 'u, 'w, unit) client_async" where
  "heartbeat_turn X N i w =
    (case heartbeat_task (state (clients w ! i)) of
       Some _ \<Rightarrow> await_result (channel_send X N i (request_from (RequestKind.Heartbeat ())))
         (\<lambda>_. ready (Ok ())) w
     | None \<Rightarrow> (w, Some (Ok ())))"

section \<open>How the state changes\<close>

lemma update_client_simps [simp]:
  "length (clients (update_client i f w)) = length (clients w)"
  "net (update_client i f w) = net w" "metrics (update_client i f w) = metrics w"
  "i < length (clients w) \<Longrightarrow> clients (update_client i f w) ! i = f (clients w ! i)"
  "j \<noteq> i \<Longrightarrow> clients (update_client i f w) ! j = clients w ! j"
  by (simp_all add: update_client_def)

lemma update_client_twice [simp]:
  "i < length (clients w) \<Longrightarrow>
   update_client i g (update_client i f w) = update_client i (\<lambda>c. g (f c)) w"
  by (simp add: update_client_def)

lemma update_client_net [simp]:
  "update_client i f (w\<lparr>net := n\<rparr>) = (update_client i f w)\<lparr>net := n\<rparr>"
  by (simp add: update_client_def)

lemma encode_RequestKind_not_Panic [simp]: "encode_RequestKind X k \<noteq> Panic"
  by (cases k)
     (auto simp: encode_RequestKind_def encode_QueryOffsetRequest_def
       encode_QueryPublisherRequest_def encode_StoreOffset_def)

text \<open>Handling a message touches neither the dispatcher nor its task, and always ends.\<close>

definition keeps :: "nat \<Rightarrow> ('t, 'u, 'w) world \<Rightarrow> ('t, 'u, 'w) world \<Rightarrow> bool" where
  "keeps i w w' \<longleftrightarrow> length (clients w') = length (clients w) \<and>
     dispatcher (clients w' ! i) = dispatcher (clients w ! i) \<and>
     task_running (clients w' ! i) = task_running (clients w ! i) \<and>
     (\<forall>j. j \<noteq> i \<longrightarrow> clients w' ! j = clients w ! j)"

lemma keeps_refl [simp]: "keeps i w w"
  by (simp add: keeps_def)

lemma keeps_trans [trans]: "keeps i w w' \<Longrightarrow> keeps i w' w'' \<Longrightarrow> keeps i w w''"
  by (simp add: keeps_def)

lemma keeps_length: "keeps i w w' \<Longrightarrow> length (clients w') = length (clients w)"
  by (simp add: keeps_def)

lemma keeps_update:
  assumes "i < length (clients w)" "\<And>c. dispatcher (f c) = dispatcher c"
    "\<And>c. task_running (f c) = task_running c"
  shows "keeps i w (update_client i f w)"
  using assms by (simp add: keeps_def)

lemma kind_request_from [simp]: "Request.kind (request_from k) = k"
  by (simp add: request_from_def)

lemma channel_send_Ok:
  assumes "encode_RequestKind X (Request.kind req) = Ok bs"
    and "tcp_write N (connection (clients w ! i)) (sink (clients w ! i) @ request_bytes req bs)
      (net w) = (n, Inr items)"
  shows "channel_send X N i req w =
    (update_client i (\<lambda>c. c\<lparr>sink := [], inbox := inbox c @ items\<rparr>) w\<lparr>net := n\<rparr>, Some (Ok ()))"
  using assms by (simp add: channel_send_def codec_encode_def encode_Request_Ok)

lemma channel_send_broken:
  assumes "encode_RequestKind X (Request.kind req) = Ok bs"
    and "tcp_write N (connection (clients w ! i)) (sink (clients w ! i) @ request_bytes req bs)
      (net w) = (n, Inl e)"
  shows "channel_send X N i req w =
    (update_client i (\<lambda>c. c\<lparr>sink := sink (clients w ! i) @ request_bytes req bs\<rparr>) w\<lparr>net := n\<rparr>,
     Some (Err e))"
  using assms by (simp add: channel_send_def codec_encode_def encode_Request_Ok)

lemma channel_send_refused:
  assumes "encode_RequestKind X (Request.kind req) = Err e"
  shows "channel_send X N i req w =
    (update_client i (\<lambda>c. c\<lparr>sink := sink (clients w ! i) @ encode_u32 (encoded_size_Request req) @
       encode_header (Request.header req)\<rparr>) w, Some (Err (from_encode_error e)))"
  using assms by (simp add: channel_send_def codec_encode_def encode_Request_def)

lemma channel_send_keeps:
  assumes "i < length (clients w)"
  obtains w' r where "channel_send X N i req w = (w', Some r)" "r \<noteq> Panic" "keeps i w w'"
proof (cases "encode_RequestKind X (Request.kind req)")
  case (Ok bs)
  obtain n o' where "tcp_write N (connection (clients w ! i))
      (sink (clients w ! i) @ request_bytes req bs) (net w) = (n, o')" by fastforce
  with Ok that show thesis
    by (cases o')
       (simp_all add: channel_send_Ok channel_send_broken assms keeps_def)
next
  case (Err e)
  with that show thesis by (simp add: channel_send_refused assms keeps_def)
qed simp

lemma handle_message_keeps:
  assumes "i < length (clients w)"
  shows "\<exists>w'. handle_message X N i m w = (w', Some (Ok ())) \<and> keeps i w w'"
proof -
  have spawn: "\<exists>w'. spawn_handler i m w = (w', Some (Ok ())) \<and> keeps i w w'"
    using assms by (auto simp: spawn_handler_def async_defs keeps_def)
  have beat: "\<exists>w'. handle_heart_beat_command N i w = (w', Some (Ok ())) \<and> keeps i w w'"
    using assms by (auto simp: handle_heart_beat_command_def async_defs update_state_def
        intro!: keeps_update)
  have tune: "\<exists>w'. handle_tune_command X N i t w = (w', Some (Ok ())) \<and> keeps i w w'" for t
  proof -
    let ?w = "update_state i (tune_state (opts (clients w ! i)) t) w"
    have k: "keeps i w ?w" and l: "i < length (clients ?w)"
      using assms by (auto simp: update_state_def intro!: keeps_update)
    let ?req = "request_from (RequestKind.Tunes (new_TunesCommand
      (max_frame_size (state (clients ?w ! i))) (heartbeat (state (clients ?w ! i)))))"
    obtain w' r where w': "channel_send X N i ?req ?w = (w', Some r)" "r \<noteq> Panic" "keeps i ?w w'"
      using channel_send_keeps [OF l] .
    have "keeps i w' (update_client i (\<lambda>c. c\<lparr>tune_notifier := True\<rparr>) w')"
      using l keeps_length [OF w'(3)] by (intro keeps_update) auto
    with k w'(3) have "keeps i w (update_client i (\<lambda>c. c\<lparr>tune_notifier := True\<rparr>) w')"
      by (blast intro: keeps_trans)
    with w'(1,2) show ?thesis
      by (cases r) (simp_all add: handle_tune_command_def Let_def async_defs)
  qed
  show ?thesis
    using spawn beat tune
    by (auto simp: handle_message_def split: option.split result.split ResponseKind.split)
qed

lemma handle_messages_keeps:
  "i < length (clients w) \<Longrightarrow>
   \<exists>w'. handle_messages X N i ms w = (w', Some (Ok ())) \<and> keeps i w w'"
proof (induction ms arbitrary: w)
  case Nil
  then show ?case by (auto simp: async_defs)
next
  case (Cons m ms)
  obtain w1 where w1: "handle_message X N i m w = (w1, Some (Ok ()))" "keeps i w w1"
    using handle_message_keeps [OF Cons.prems] by blast
  obtain w2 where w2: "handle_messages X N i ms w1 = (w2, Some (Ok ()))" "keeps i w1 w2"
    using Cons.IH [of w1] keeps_length [OF w1(2)] Cons.prems by auto
  from w1(2) w2(2) have "keeps i w w2" by (rule keeps_trans)
  with w1(1) w2(1) show ?case by simp
qed

lemma run_task_feed:
  assumes "i < length (clients w)" "task_running (clients w ! i)"
  shows "\<exists>w'. run_task X N i items w = (w', Some (Ok ())) \<and>
    length (clients w') = length (clients w) \<and>
    (dispatcher (clients w' ! i), task_running (clients w' ! i)) =
      feed (\<lambda>r s. fst (handle_item r s)) requests_close items (dispatcher (clients w ! i))"
  using assms
proof (induction items arbitrary: w)
  case Nil
  then show ?case by simp
next
  case (Cons item items)
  show ?case
  proof (cases "\<exists>r. item = Some (Ok r)")
    case True
    then obtain r d ms where item: "item = Some (Ok r)"
      "handle_item r (dispatcher (clients w ! i)) = (d, ms)" by (metis surj_pair)
    let ?w = "update_client i (\<lambda>c. c\<lparr>dispatcher := d\<rparr>) w"
    obtain w1 where w1: "handle_messages X N i ms ?w = (w1, Some (Ok ()))" "keeps i ?w w1"
      using handle_messages_keeps [of i ?w X N ms] Cons.prems by auto
    then have "i < length (clients w1)" "task_running (clients w1 ! i)"
      "dispatcher (clients w1 ! i) = d" "length (clients w1) = length (clients w)"
      using Cons.prems by (auto simp: keeps_def)
    with Cons.IH [of w1] w1(1) Cons.prems(2) item show ?thesis by auto
  next
    case False
    obtain d ms where d: "close_dispatcher None (dispatcher (clients w ! i)) = (d, ms)"
      by fastforce
    let ?w = "update_client i (\<lambda>c. c\<lparr>dispatcher := d, task_running := False\<rparr>) w"
    obtain w1 where w1: "handle_messages X N i ms ?w = (w1, Some (Ok ()))" "keeps i ?w w1"
      using handle_messages_keeps [of i ?w X N ms] Cons.prems by auto
    then have "d = requests_close (dispatcher (clients w ! i))"
      "dispatcher (clients w1 ! i) = d" "\<not> task_running (clients w1 ! i)"
      "length (clients w1) = length (clients w)"
      using Cons.prems d by (auto simp: keeps_def close_dispatcher_def)
    with w1(1) Cons.prems(2) d False show ?thesis
      by (auto simp: feed_Cons split: option.split result.split)
  qed
qed

section \<open>Properties of the client\<close>

lemma correlation_id_inv:
  "dispatcher_inv s \<Longrightarrow> DispatcherState.correlation_id s = of_nat (length (channels s))"
  by (simp add: dispatcher_inv_def requests_inv_def)

lemma response_channel_idle:
  assumes "dispatcher_inv s" "\<not> closed s"
  obtains s' ch where "response_channel s = (s', Some (DispatcherState.correlation_id s, ch))"
    "dispatcher_inv s'" "\<not> closed s'" "DispatcherState.handler s' = DispatcherState.handler s"
    "DispatcherState.correlation_id s' = DispatcherState.correlation_id s + 1"
proof -
  have req: "requests_inv s" using assms by (simp add: dispatcher_inv_def)
  have "dispatcher_inv (fst (response_channel s))" using assms(1) by (rule dispatcher_inv_request)
  with that show thesis
    using assms by (simp add: response_channel_open [OF req] correlation_id_inv)
      (simp add: open_channel_def requests_inv_def)
qed

definition request_outcome ::
  "string \<Rightarrow> (('t, 'u) Response \<Rightarrow> 'a option) \<Rightarrow> u32 \<Rightarrow> ('t, 'u) MessageResult list \<Rightarrow>
     ('a, ClientError) result option" where
  "request_outcome type_name from_response cid items =
    (case first_answer answers_id cid items of
       None \<Rightarrow> None
     | Some None \<Rightarrow> Some (Err ConnectionClosed)
     | Some (Some r) \<Rightarrow> Some (cast_response type_name from_response r))"

text \<open>A client between two requests: its task runs, nothing is pending, \<open>cid\<close> is the next
  correlation id.\<close>

definition idle :: "nat \<Rightarrow> u32 \<Rightarrow> ('t, 'u, 'w) world \<Rightarrow> bool" where
  "idle i cid w \<longleftrightarrow> i < length (clients w) \<and> task_running (clients w ! i) \<and>
     inbox (clients w ! i) = [] \<and> dispatcher_inv (dispatcher (clients w ! i)) \<and>
     \<not> closed (dispatcher (clients w ! i)) \<and>
     DispatcherState.correlation_id (dispatcher (clients w ! i)) = cid"

lemma send_and_receive_run:
  assumes "idle i cid w" "encode_RequestKind X (msg_factory cid) = Ok bs"
    and "tcp_write N (connection (clients w ! i))
      (sink (clients w ! i) @ request_bytes (request_from (msg_factory cid)) bs) (net w) =
        (n, Inr items)"
  obtains d w' where "dispatcher_inv d" "\<not> closed d"
    "DispatcherState.handler d = DispatcherState.handler (dispatcher (clients w ! i))"
    "DispatcherState.correlation_id d = cid + 1"
    "run_task X N i items (update_client i (\<lambda>c. c\<lparr>dispatcher := d, sink := []\<rparr>) w\<lparr>net := n\<rparr>) =
       (w', Some (Ok ()))"
    "send_and_receive X N i type_name from_response msg_factory w =
       (w', request_outcome type_name from_response cid items)"
proof -
  have i: "i < length (clients w)" and inv: "dispatcher_inv (dispatcher (clients w ! i))"
    using assms(1) by (simp_all add: idle_def)
  obtain d ch where d: "response_channel (dispatcher (clients w ! i)) = (d, Some (cid, ch))"
    "dispatcher_inv d" "\<not> closed d" "DispatcherState.correlation_id d = cid + 1"
    "DispatcherState.handler d = DispatcherState.handler (dispatcher (clients w ! i))"
    by (rule response_channel_idle [of "dispatcher (clients w ! i)"])
       (use assms(1) in \<open>auto simp: idle_def\<close>)
  let ?w = "update_client i (\<lambda>c. c\<lparr>dispatcher := d\<rparr>) w"
  let ?w1 = "update_client i (\<lambda>c. c\<lparr>dispatcher := d, sink := [], inbox := items\<rparr>) w\<lparr>net := n\<rparr>"
  let ?w2 = "update_client i (\<lambda>c. c\<lparr>dispatcher := d, sink := []\<rparr>) w\<lparr>net := n\<rparr>"
  have inbox: "inbox (clients w ! i) = []" using assms(1) by (simp add: idle_def)
  have quiet: "update_client i (\<lambda>c. c\<lparr>dispatcher := d, sink := [], inbox := []\<rparr>) w =
      update_client i (\<lambda>c. c\<lparr>dispatcher := d, sink := []\<rparr>) w"
    "update_client i (\<lambda>c. c\<lparr>dispatcher := d, sink := [], inbox := inbox c @ items\<rparr>) w =
      update_client i (\<lambda>c. c\<lparr>dispatcher := d, sink := [], inbox := items\<rparr>) w"
    using inbox by (cases "clients w ! i"; simp add: update_client_def)+
  have "channel_send X N i (request_from (msg_factory cid)) ?w =
      (update_client i (\<lambda>c. c\<lparr>sink := [], inbox := inbox c @ items\<rparr>) ?w\<lparr>net := n\<rparr>, Some (Ok ()))"
    by (rule channel_send_Ok) (use assms i in simp_all)
  then have send: "channel_send X N i (request_from (msg_factory cid)) ?w = (?w1, Some (Ok ()))"
    using i quiet by simp
  have "i < length (clients ?w2)" "task_running (clients ?w2 ! i)"
    using assms(1) by (simp_all add: idle_def)
  from run_task_feed [OF this, of X N items]
  obtain w' where w': "run_task X N i items ?w2 = (w', Some (Ok ()))"
    "(dispatcher (clients w' ! i), task_running (clients w' ! i)) =
      feed (\<lambda>r s. fst (handle_item r s)) requests_close items (dispatcher (clients ?w2 ! i))"
    by blast
  have poll: "poll_connection X N i ?w1 = (w', Some (Ok ()))"
    using w'(1) i quiet by (simp add: poll_connection_def)
  have "recv ch (dispatcher (clients w' ! i)) = first_answer answers_id cid items"
    using disp.request_receive [OF inv d(1), of items] arg_cong [OF w'(2), of fst] i by simp
  then have "send_and_receive X N i type_name from_response msg_factory w =
      (w', request_outcome type_name from_response cid items)"
    by (simp add: send_and_receive_def d(1) send poll)
       (simp add: await_def recv_response_def request_outcome_def async_defs split: option.split)
  with that d w'(1) show thesis by blast
qed

text \<open>C7.  A request that is written on a running connection ends as the stream decides: with the
  first response that carries its correlation id, cast to the expected type; with
  \<open>ConnectionClosed\<close> when the stream ends or fails before that; and it keeps waiting when
  neither happens.  Nothing else that arrives matters.\<close>

theorem send_and_receive_outcome:
  assumes "i < length (clients w)" "task_running (clients w ! i)" "inbox (clients w ! i) = []"
    and "dispatcher_inv (dispatcher (clients w ! i))" "\<not> closed (dispatcher (clients w ! i))"
    and "cid = DispatcherState.correlation_id (dispatcher (clients w ! i))"
    and "encode_RequestKind X (msg_factory cid) = Ok bs"
    and "tcp_write N (connection (clients w ! i))
      (sink (clients w ! i) @ request_bytes (request_from (msg_factory cid)) bs) (net w) =
        (n, Inr items)"
  shows "snd (send_and_receive X N i type_name from_response msg_factory w) =
    (case first_answer answers_id cid items of
       None \<Rightarrow> None
     | Some None \<Rightarrow> Some (Err ConnectionClosed)
     | Some (Some r) \<Rightarrow> Some (cast_response type_name from_response r))"
proof -
  have "idle i cid w" using assms(1-6) by (simp add: idle_def)
  from send_and_receive_run [where type_name = type_name and from_response = from_response
      and msg_factory = msg_factory, OF this assms(7,8)]
  obtain w' where "send_and_receive X N i type_name from_response msg_factory w =
      (w', request_outcome type_name from_response cid items)" .
  then show ?thesis by (simp add: request_outcome_def)
qed

text \<open>After the connection has ended, a request fails with \<open>ConnectionClosed\<close> and nothing is
  written to the network.\<close>

theorem closed_connection_refuses:
  assumes "i < length (clients w)" "closed (dispatcher (clients w ! i))"
  shows "snd (send_and_receive X N i type_name from_response msg_factory w) =
      Some (Err ConnectionClosed) \<and>
    net (fst (send_and_receive X N i type_name from_response msg_factory w)) = net w"
  using assms by (simp add: send_and_receive_def response_channel_closed)

section \<open>A network that follows a script\<close>

text \<open>An instance of the network parameter: each write is answered by the next entry of a script
  of items, and what was written is kept.\<close>

type_synonym ('t, 'u) script = "bytes list \<times> ('t, 'u) MessageResult list list"

definition scripted :: "('t, 'u, ('t, 'u) script) network" where
  "scripted =
     \<lparr>tcp_connect = (\<lambda>_ n. (n, Inr 0)),
      tcp_write = (\<lambda>_ bs n. case n of
        (out, items # rest) \<Rightarrow> ((out @ [bs], rest), Inr items)
      | (out, []) \<Rightarrow> ((out @ [bs], []), Inl Io)),
      tcp_close = (\<lambda>_ n. (n, Inr [None])), instant_now = (\<lambda>_. 0)\<rparr>"

lemma scripted_simps [simp]:
  "tcp_connect scripted opts' n = (n, Inr 0)"
  "tcp_write scripted conn bs (out, items # rest) = ((out @ [bs], rest), Inr items)"
  "tcp_close scripted conn n = (n, Inr [None])" "instant_now scripted n = 0"
  by (simp_all add: scripted_def)

definition scripted_world ::
  "('t, 'u) MessageResult list list \<Rightarrow> ('t, 'u) Client list \<Rightarrow> ('t, 'u, ('t, 'u) script) world" where
  "scripted_world items cs = \<lparr>clients = cs, net = ([], items), metrics = []\<rparr>"

text \<open>A connected client, as \<open>initialize\<close> leaves it before the first exchange.\<close>

definition sample_client :: "('t, 'u) Client" where
  "sample_client = (new_Client 0 0 default_ClientOptions)
     \<lparr>dispatcher := set_handler new_Dispatcher, task_running := True\<rparr>"

lemma sample_client_simps [simp]:
  "task_running sample_client" "inbox sample_client = []" "sink sample_client = []"
  "connection sample_client = 0" "\<not> closed (dispatcher sample_client)"
  "DispatcherState.correlation_id (dispatcher sample_client) = 0"
  "dispatcher_inv (dispatcher sample_client)"
  by (simp_all add: sample_client_def new_Client_def set_handler_def new_Dispatcher_def
      dispatcher_inv_def requests_inv_def registered_def)

definition generic_ok :: "u32 \<Rightarrow> (i64, bytes) Response" where
  "generic_ok cid = \<lparr>Response.header = \<lparr>key = COMMAND_DELETE_STREAM, version = 1\<rparr>,
     kind = ResponseKind.Generic \<lparr>GenericResponse.correlation_id = cid, code = ResponseOk\<rparr>\<rparr>"

lemma generic_ok_answers [simp]: "answers_id c (generic_ok cid) \<longleftrightarrow> c = cid"
  by (auto simp: generic_ok_def answers_id_def response_correlation_id_def is_ConsumerUpdate_def)

theorem send_and_receive_outcome_witness:
  "snd (send_and_receive byte_externals scripted 0 ''GenericResponse'' from_response_GenericResponse
       (\<lambda>cid. RequestKind.Delete (new_Delete cid ''s''))
       (scripted_world [[Some (Ok (generic_ok 7)), Some (Ok (generic_ok 0))]] [sample_client])) =
     Some (cast_response ''GenericResponse'' from_response_GenericResponse (generic_ok 0))"
  by (subst send_and_receive_outcome [where cid = 0 and n =
        "([request_bytes (request_from (RequestKind.Delete (new_Delete 0 ''s'')))
            (encode_Delete (new_Delete 0 ''s''))], [])"
        and items = "[Some (Ok (generic_ok 7)), Some (Ok (generic_ok 0))]"
        and bs = "encode_Delete (new_Delete 0 ''s'')"])
     (simp_all add: scripted_world_def scripted_def encode_RequestKind_def)

theorem closed_connection_refuses_witness:
  "snd (unsubscribe byte_externals scripted 0 1 (scripted_world []
     [sample_client\<lparr>dispatcher := new_Dispatcher\<lparr>closed := True\<rparr>\<rparr>])) = Some (Err ConnectionClosed)"
  unfolding unsubscribe_def
  by (rule closed_connection_refuses [THEN conjunct1]) (simp_all add: scripted_world_def)

section \<open>Tuning\<close>

lemma negotiate_value_bounds:
  "negotiate_value c s = 0 \<longleftrightarrow> c = 0 \<and> s = 0"
  "c \<noteq> 0 \<Longrightarrow> s \<noteq> 0 \<Longrightarrow> negotiate_value c s \<le> c \<and> negotiate_value c s \<le> s"
  "negotiate_value c s = negotiate_value s c"
  by (auto simp: negotiate_value_def max_def min_def word_neq_0_conv)

text \<open>When the broker proposes limits, the client keeps the stricter of the two values (zero
  means no limit), answers with exactly the values it keeps, and lets the connection go on; a
  running heartbeat task is replaced by one with half the new interval, at least one second.\<close>

theorem tune_negotiates:
  fixes X :: "('t, 'u) externals" and N :: "('t, 'u, 'w) network"
  assumes "i < length (clients w)"
    and "st = tune_state (opts (clients w ! i)) t (state (clients w ! i))"
    and "tcp_write N (connection (clients w ! i)) (sink (clients w ! i) @
      request_bytes (request_from (RequestKind.Tunes
          (new_TunesCommand (max_frame_size st) (heartbeat st))) :: ('t, 'u) Request)
        (encode_TunesCommand (new_TunesCommand (max_frame_size st) (heartbeat st)))) (net w) =
      (n, Inr items)"
  shows "handle_message X N i (Some (Ok \<lparr>Response.header = h, kind = ResponseKind.Tunes t\<rparr>)) w =
      (update_client i (\<lambda>c. c\<lparr>state := st, sink := [], inbox := inbox c @ items,
         tune_notifier := True\<rparr>) w\<lparr>net := n\<rparr>, Some (Ok ())) \<and>
    heartbeat st = negotiate_value (ClientOptions.heartbeat (opts (clients w ! i))) (TunesCommand.heartbeat t) \<and>
    max_frame_size st =
      negotiate_value (ClientOptions.max_frame_size (opts (clients w ! i))) (TunesCommand.max_frame_size t) \<and>
    heartbeat_task st =
      (if heartbeat_task (state (clients w ! i)) = None \<or> heartbeat st = 0 then None
       else Some (max (heartbeat st div 2) 1))"
proof -
  let ?w = "update_state i (tune_state (opts (clients w ! i)) t) w"
  have st: "state (clients ?w ! i) = st" using assms(1,2) by (simp add: update_state_def)
  have "channel_send X N i (request_from (RequestKind.Tunes
        (new_TunesCommand (max_frame_size st) (heartbeat st)))) ?w =
      (update_client i (\<lambda>c. c\<lparr>sink := [], inbox := inbox c @ items\<rparr>) ?w\<lparr>net := n\<rparr>, Some (Ok ()))"
    by (rule channel_send_Ok [where bs =
        "encode_TunesCommand (new_TunesCommand (max_frame_size st) (heartbeat st))"])
       (use assms(1,3) in \<open>simp_all add: encode_RequestKind_def update_state_def\<close>)
  then have "handle_message X N i (Some (Ok \<lparr>Response.header = h, kind = ResponseKind.Tunes t\<rparr>)) w =
      (update_client i (\<lambda>c. c\<lparr>tune_notifier := True\<rparr>)
        (update_client i (\<lambda>c. c\<lparr>sink := [], inbox := inbox c @ items\<rparr>) ?w\<lparr>net := n\<rparr>), Some (Ok ()))"
    by (simp add: handle_message_def handle_tune_command_def Let_def st async_defs)
  moreover have "heartbeat st = negotiate_value (ClientOptions.heartbeat (opts (clients w ! i)))
        (TunesCommand.heartbeat t)"
    "max_frame_size st = negotiate_value (ClientOptions.max_frame_size (opts (clients w ! i)))
        (TunesCommand.max_frame_size t)"
    "heartbeat_task st = (if heartbeat_task (state (clients w ! i)) = None \<or> heartbeat st = 0 then None
       else Some (max (heartbeat st div 2) 1))"
    by (auto simp: assms(2) tune_state_def start_hearbeat_task_def Let_def split: option.split)
  ultimately show ?thesis
    using assms(1,2) by (simp add: update_state_def update_client_def)
qed

definition sample_tunes :: TunesCommand where
  "sample_tunes = new_TunesCommand 131072 0"

theorem tune_negotiates_witness:
  "\<exists>w'. handle_message byte_externals scripted 0
      (Some (Ok \<lparr>Response.header = \<lparr>key = COMMAND_TUNE, version = 1\<rparr>,
        kind = ResponseKind.Tunes sample_tunes\<rparr>)) (scripted_world [[]] [sample_client]) =
        (w', Some (Ok ())) \<and>
     max_frame_size (state (clients w' ! 0)) = 131072 \<and> heartbeat (state (clients w' ! 0)) = 60"
proof -
  let ?w = "scripted_world [[]] [sample_client] :: (i64, bytes, (i64, bytes) script) world"
  let ?st = "tune_state (opts (clients ?w ! 0)) sample_tunes (state (clients ?w ! 0))"
  let ?bs = "request_bytes (request_from (RequestKind.Tunes
      (new_TunesCommand (max_frame_size ?st) (heartbeat ?st))) :: (i64, bytes) Request)
    (encode_TunesCommand (new_TunesCommand (max_frame_size ?st) (heartbeat ?st)))"
  have len: "0 < length (clients ?w)" by (simp add: scripted_world_def)
  have written: "tcp_write scripted (connection (clients ?w ! 0)) (sink (clients ?w ! 0) @ ?bs) (net ?w) =
      (([?bs], []), Inr [])"
    by (simp add: scripted_world_def scripted_def)
  note tuned = tune_negotiates [OF len refl written, of byte_externals
      "\<lparr>key = COMMAND_TUNE, version = 1\<rparr>"]
  have "max_frame_size ?st = 131072" "heartbeat ?st = 60"
    by (simp_all add: scripted_world_def sample_client_def new_Client_def sample_tunes_def
        new_TunesCommand_def negotiate_value_def default_ClientOptions_def tune_state_def)
  with tuned len show ?thesis by simp
qed

section \<open>Publishing ids\<close>

definition unnumbered :: "('t, 'u) base_message list \<Rightarrow> nat" where
  "unnumbered ms = length (filter (\<lambda>m. base_publishing_id m = None) ms)"

lemma assign_ids_spec:
  "assign_ids next ms =
    (next + of_nat (unnumbered ms),
     map (\<lambda>k. new_PublishedMessage
       (case base_publishing_id (ms ! k) of
          Some pid \<Rightarrow> pid | None \<Rightarrow> next + of_nat (unnumbered (take k ms)))
       (to_message (ms ! k)) (base_filter_value (ms ! k))) [0..<length ms])"
proof (induction ms arbitrary: "next")
  case (Cons m ms)
  let ?n = "case base_publishing_id m of Some pid \<Rightarrow> next | None \<Rightarrow> next + 1"
  have tail: "?n + of_nat (unnumbered xs) = next + of_nat (unnumbered (m # xs))" for xs
    by (simp add: unnumbered_def split: option.split)
  have "[0..<length (m # ms)] = 0 # map Suc [0..<length ms]"
    by (simp add: map_Suc_upt upt_conv_Cons del: upt_Suc)
  then show ?case
    using Cons.IH [of ?n] tail
    by (auto simp: Let_def comp_def unnumbered_def add.assoc split: option.splits)
qed (simp add: unnumbered_def)

text \<open>C30.  Publishing keeps the order of the messages and the ids they carry; the others get
  consecutive ids from the client's sequence, which advances by their number.  The ids are
  returned, one per message.\<close>

theorem publish_assigns_ids:
  fixes X :: "('t, 'u) externals" and N :: "('t, 'u, 'w) network"
  assumes "i < length (clients w)" "ps = snd (assign_ids (publish_sequence (clients w ! i)) ms)"
    and "tcp_write N (connection (clients w ! i)) (sink (clients w ! i) @
      request_bytes (request_from (RequestKind.Publish (new_PublishCommand pid ps v)))
        (encode_PublishCommand X (new_PublishCommand pid ps v))) (net w) = (n, Inr items)"
  shows "\<exists>w'. publish X N i pid ms v w = (w', Some (Ok (map (\<lambda>k.
      case base_publishing_id (ms ! k) of
        Some pid \<Rightarrow> pid
      | None \<Rightarrow> publish_sequence (clients w ! i) + of_nat (unnumbered (take k ms))) [0..<length ms]))) \<and>
    publish_sequence (clients w' ! i) =
      publish_sequence (clients w ! i) + of_nat (unnumbered ms) \<and>
    metrics w' = metrics w @ [PublishMetric (of_nat (length ms))] \<and>
    map PublishedMessage.message ps = map to_message ms"
proof -
  let ?next = "publish_sequence (clients w ! i) + of_nat (unnumbered ms)"
  let ?w = "update_client i (\<lambda>c. c\<lparr>publish_sequence := ?next\<rparr>) w"
  have ids: "assign_ids (publish_sequence (clients w ! i)) ms = (?next, ps)"
    by (simp add: assms(2)) (simp add: assign_ids_spec)
  have send: "send X N i (RequestKind.Publish (new_PublishCommand pid ps v)) ?w =
      (update_client i (\<lambda>c. c\<lparr>sink := [], inbox := inbox c @ items\<rparr>) ?w\<lparr>net := n\<rparr>, Some (Ok ()))"
    unfolding send_def
    by (rule channel_send_Ok [where bs = "encode_PublishCommand X (new_PublishCommand pid ps v)"])
       (use assms(1,3) in \<open>simp_all add: encode_RequestKind_def\<close>)
  have "length ps = length ms" "map PublishedMessage.message ps = map to_message ms"
    "map PublishedMessage.publishing_id ps = map (\<lambda>k.
      case base_publishing_id (ms ! k) of
        Some pid \<Rightarrow> pid
      | None \<Rightarrow> publish_sequence (clients w ! i) + of_nat (unnumbered (take k ms))) [0..<length ms]"
    by (simp_all add: assms(2) assign_ids_spec new_PublishedMessage_def comp_def)
       (simp add: map_nth flip: map_map [unfolded comp_def])
  with assms(1) show ?thesis
    by (simp add: publish_def ids send async_defs)
qed

definition sample_batch :: "(i64, bytes) base_message list" where
  "sample_batch =
     [base_of_Message sample_message, base_of_Message (sample_message\<lparr>Message.publishing_id := Some 9\<rparr>),
      base_of_Message sample_message]"

theorem publish_assigns_ids_witness:
  "\<exists>w'. publish byte_externals scripted 0 1 sample_batch 1 (scripted_world [[]] [sample_client]) =
     (w', Some (Ok [1, 9, 2])) \<and> publish_sequence (clients w' ! 0) = 3"
proof -
  let ?w = "scripted_world [[]] [sample_client] :: (i64, bytes, (i64, bytes) script) world"
  let ?ps = "snd (assign_ids (publish_sequence (clients ?w ! 0)) sample_batch)"
  let ?bs = "request_bytes (request_from (RequestKind.Publish (new_PublishCommand 1 ?ps 1)))
    (encode_PublishCommand byte_externals (new_PublishCommand 1 ?ps 1))"
  have len: "0 < length (clients ?w)" by (simp add: scripted_world_def)
  have written: "tcp_write scripted (connection (clients ?w ! 0)) (sink (clients ?w ! 0) @ ?bs) (net ?w) =
      (([?bs], []), Inr [])"
    by (simp add: scripted_world_def scripted_def)
  have "map (\<lambda>k. case base_publishing_id (sample_batch ! k) of
        Some pid \<Rightarrow> pid
      | None \<Rightarrow> publish_sequence (clients ?w ! 0) + of_nat (unnumbered (take k sample_batch)))
      [0..<length sample_batch] = [1, 9, 2]"
    "publish_sequence (clients ?w ! 0) + of_nat (unnumbered sample_batch) = 3"
    by (simp_all add: scripted_world_def sample_client_def new_Client_def sample_batch_def
        base_of_Message_def sample_message_def unnumbered_def upt_rec)
  with publish_assigns_ids [OF len refl written] show ?thesis by auto
qed

section \<open>The limit of a frame\<close>

text \<open>A message that fills any frame.\<close>

definition message_of :: "bytes \<Rightarrow> ('t, 'u) Message" where
  "message_of d = \<lparr>Message.publishing_id = None,
     message = default_AmqpMessage\<lparr>body := set_data d default_MessageBody\<rparr>\<rparr>"

lemma encode_message_of: "length d < length (encode_Message X (message_of d))"
  by (simp add: message_of_def encode_Message_def encode_AmqpMessage_def encode_MessageBody_def
      default_AmqpMessage_def set_data_def default_MessageBody_def encode_Binary_def Let_def
      encode_TypeCode_def encode_u8_def)

lemma published_frame_length:
  "length (encode_Message X (PublishedMessage.message m)) <
     length (request_bytes r (encode_PublishCommand X (new_PublishCommand pid [m] 1)))"
  by (simp add: request_bytes_def encode_PublishCommand_def new_PublishCommand_def
      PROTOCOL_VERSION_2_def encode_published_def encode_PublishedMessage_def encode_u8_def)

text \<open>C26.  The negotiated frame size is not applied: whatever limit a client has agreed on with the broker,
  a message can be published whose frame is longer, and the call succeeds.\<close>

theorem frame_limit_not_applied:
  fixes X :: "('t, 'u) externals" and N :: "('t, 'u, 'w) network"
  assumes "i < length (clients w)" "c = clients w ! i" "sink c = []"
    and "\<And>bs. tcp_write N (connection c) bs (net w) = (store bs, Inr [])"
  shows "\<exists>m w' bs. publish X N i pid [base_of_Message m] 1 w =
      (w', Some (Ok [Client.publish_sequence c])) \<and> net w' = store bs \<and>
    unat (max_frame_size (state c)) < length bs"
proof (intro exI conjI)
  let ?m = "message_of (replicate (unat (max_frame_size (state c))) 0) :: ('t, 'u) Message"
  let ?p = "new_PublishedMessage (Client.publish_sequence c) ?m None"
  let ?k = "RequestKind.Publish (new_PublishCommand pid [?p] 1)"
  let ?bs = "request_bytes (request_from ?k) (encode_PublishCommand X (new_PublishCommand pid [?p] 1))"
  let ?w = "update_client i (\<lambda>c. c\<lparr>Client.publish_sequence := Client.publish_sequence c + 1\<rparr>) w"
  let ?w' = "update_client i (\<lambda>c. c\<lparr>sink := [], inbox := inbox c @ []\<rparr>) ?w\<lparr>net := store ?bs\<rparr>"
  have "send X N i ?k ?w = (?w', Some (Ok ()))"
    unfolding send_def
    by (rule channel_send_Ok) (use assms in \<open>simp_all add: encode_RequestKind_def\<close>)
  moreover have "update_client i (\<lambda>d. d\<lparr>Client.publish_sequence := Client.publish_sequence c + 1\<rparr>) w = ?w"
    by (simp add: update_client_def assms(2))
  ultimately show "publish X N i pid [base_of_Message ?m] 1 w =
      (?w'\<lparr>metrics := metrics w @ [PublishMetric 1]\<rparr>, Some (Ok [Client.publish_sequence c]))"
    using assms(2)
    by (simp add: publish_def base_of_Message_def message_of_def async_defs new_PublishedMessage_def)
  show "net (?w'\<lparr>metrics := metrics w @ [PublishMetric 1]\<rparr>) = store ?bs" by simp
  have "unat (max_frame_size (state c)) < length (encode_Message X ?m)"
    using encode_message_of [of "replicate (unat (max_frame_size (state c))) 0"] by simp
  also have "\<dots> < length ?bs"
    using published_frame_length [of X ?p] by (simp add: new_PublishedMessage_def)
  finally show "unat (max_frame_size (state c)) < length ?bs" .
qed

theorem frame_limit_not_applied_witness:
  "\<exists>m w' bs. publish byte_externals scripted 0 1 [base_of_Message m] 1
      (scripted_world [[]] [sample_client] :: (i64, bytes, (i64, bytes) script) world) = (w', Some (Ok [1])) \<and>
    net w' = ([bs], []) \<and> 1048576 < length bs"
  using frame_limit_not_applied [of 0 "scripted_world [[]] [sample_client]" sample_client scripted
      "\<lambda>bs. ([bs], [])" byte_externals 1]
  by (simp add: scripted_world_def) (simp add: sample_client_def new_Client_def default_ClientOptions_def)

section \<open>Closing\<close>

lemma run_task_length:
  assumes "i < length (clients w)"
  obtains w' where "run_task X N i items w = (w', Some (Ok ()))"
    "length (clients w') = length (clients w)"
proof (cases "task_running (clients w ! i)")
  case True
  with that show thesis using run_task_feed [OF assms] by blast
next
  case False
  with that show thesis by (cases items) simp_all
qed

lemma poll_connection_length:
  assumes "i < length (clients w)"
  obtains w' where "poll_connection X N i w = (w', Some (Ok ()))"
    "length (clients w') = length (clients w)"
proof -
  have "i < length (clients (update_client i (\<lambda>c. c\<lparr>inbox := []\<rparr>) w))" using assms by simp
  from run_task_length [OF this, of X N "inbox (clients w ! i)"] obtain w' where
    "run_task X N i (inbox (clients w ! i)) (update_client i (\<lambda>c. c\<lparr>inbox := []\<rparr>) w) =
      (w', Some (Ok ()))" "length (clients w') = length (clients w)" by auto
  with that show thesis by (simp add: poll_connection_def)
qed

lemma send_and_receive_length:
  assumes "i < length (clients w)"
    and "send_and_receive X N i type_name from_response msg_factory w = (w', r)"
  shows "length (clients w') = length (clients w)"
proof (cases "response_channel (dispatcher (clients w ! i))")
  case (Pair d o')
  let ?w = "update_client i (\<lambda>c. c\<lparr>dispatcher := d\<rparr>) w"
  show ?thesis
  proof (cases o')
    case (Some p)
    have "i < length (clients ?w)" using assms(1) by simp
    from channel_send_keeps [OF this, of X N "request_from (msg_factory (fst p))"]
    obtain w1 r1 where w1: "channel_send X N i (request_from (msg_factory (fst p))) ?w = (w1, Some r1)"
      "r1 \<noteq> Panic" "keeps i ?w w1" .
    then have len: "length (clients w1) = length (clients w)" using keeps_length by fastforce
    then have "i < length (clients w1)" using assms(1) by simp
    from poll_connection_length [OF this, of X N]
    obtain w2 where w2: "poll_connection X N i w1 = (w2, Some (Ok ()))"
      "length (clients w2) = length (clients w1)" .
    show ?thesis
      using assms(2) w1 w2 len
      by (cases r1; cases p)
         (auto simp: send_and_receive_def Pair Some recv_response_def ready_def await_def
           split: option.splits)
  qed (use assms(2) Pair in \<open>auto simp: send_and_receive_def\<close>)
qed

text \<open>C31.  A client is closed once: the close request that the broker answers ends the heartbeat
  task and closes the channel, and every later attempt fails with \<open>AlreadyClosed\<close> without
  touching the network or the state.\<close>

theorem close_is_final:
  assumes "i < length (clients w)" "close X N i w = (w', Some (Ok ()))"
  shows "channel_closed (clients w' ! i) \<and> heartbeat_task (state (clients w' ! i)) = None \<and>
    close X N i w' = (w', Some (Err AlreadyClosed))"
proof -
  have "\<not> channel_closed (clients w ! i)"
    using assms(2) by (auto simp: close_def split: if_splits)
  with assms(2) obtain r w1 where
    w1: "send_and_receive X N i ''CloseResponse'' from_response_CloseResponse (\<lambda>cid.
         RequestKind.Close (new_CloseRequest cid ResponseOk ''Ok'')) w = (w1, Some (Ok r))"
    "channel_close N i (update_state i (\<lambda>st. st\<lparr>heartbeat_task := None\<rparr>) w1) = (w', Some (Ok ()))"
    by (auto simp: close_def modify_def elim!: await_OkE)
  have "i < length (clients w1)"
    using send_and_receive_length [OF assms(1) w1(1)] assms(1) by simp
  with w1(2) have "channel_closed (clients w' ! i)" "heartbeat_task (state (clients w' ! i)) = None"
    by (auto simp: channel_close_def update_state_def split: prod.splits sum.splits)
  then show ?thesis by (simp add: close_def)
qed

definition close_ok :: "u32 \<Rightarrow> (i64, bytes) Response" where
  "close_ok cid = \<lparr>Response.header = \<lparr>key = COMMAND_CLOSE, version = 1\<rparr>,
     kind = ResponseKind.Close \<lparr>CloseResponse.correlation_id = cid, response_code = ResponseOk\<rparr>\<rparr>"

theorem close_is_final_witness:
  "\<exists>w'. close byte_externals scripted 0 (scripted_world [[Some (Ok (close_ok 0))]] [sample_client]) =
       (w', Some (Ok ())) \<and>
     close byte_externals scripted 0 w' = (w', Some (Err AlreadyClosed))"
proof -
  let ?w = "scripted_world [[Some (Ok (close_ok 0))]] [sample_client]"
  have i: "0 < length (clients ?w)" by (simp add: scripted_world_def)
  have "idle 0 0 ?w" by (simp add: idle_def scripted_world_def)
  obtain w1 where "send_and_receive byte_externals scripted 0 ''CloseResponse''
      from_response_CloseResponse (\<lambda>cid. RequestKind.Close (new_CloseRequest cid ResponseOk ''Ok'')) ?w =
      (w1, request_outcome ''CloseResponse'' from_response_CloseResponse 0 [Some (Ok (close_ok 0))])"
    by (rule send_and_receive_run [OF \<open>idle 0 0 ?w\<close>, where items = "[Some (Ok (close_ok 0))]"
        and N = scripted and X = byte_externals
        and bs = "encode_CloseRequest (new_CloseRequest 0 ResponseOk ''Ok'')"
        and msg_factory = "\<lambda>cid. RequestKind.Close (new_CloseRequest cid ResponseOk ''Ok'')"])
       (simp_all add: encode_RequestKind_def scripted_world_def)
  then have "\<exists>w'. close byte_externals scripted 0 ?w = (w', Some (Ok ()))"
    by (simp add: close_def scripted_world_def sample_client_def new_Client_def request_outcome_def
        answers_id_def close_ok_def response_correlation_id_def is_ConsumerUpdate_def
        cast_response_def from_response_CloseResponse_def modify_def channel_close_def)
  with close_is_final [OF i] show ?thesis by blast
qed

end
