(* ===== verification/Handshake.thy ===== *)
theory Handshake
  imports Client
begin

text \<open>
  The handshake of \<open>Client::connect\<close> (\<open>src/client/mod.rs\<close>) as a whole: peer properties, SASL
  handshake and authentication, tuning, opening the virtual host and the exchange of versions.
  \<open>frame\<close> is what a request looks like on the wire; the hypotheses of the two properties say what
  the network answers to each frame in turn.
\<close>

definition frame :: "('t, 'u) externals \<Rightarrow> ('t, 'u) RequestKind \<Rightarrow> bytes" where
  "frame X k = (case encode_RequestKind X k of Ok bs \<Rightarrow> request_bytes (request_from k) bs | _ \<Rightarrow> [])"

text \<open>A world whose last client is the one being connected.\<close>

definition with_client :: "('t, 'u, 'w) world \<Rightarrow> ('t, 'u) Client \<Rightarrow> 'w \<Rightarrow> ('t, 'u, 'w) world" where
  "with_client w c n = w\<lparr>clients := clients w @ [c], net := n\<rparr>"

definition waiting_client :: "u32 \<Rightarrow> ('t, 'u) Client \<Rightarrow> bool" where
  "waiting_client cid c \<longleftrightarrow> task_running c \<and> inbox c = [] \<and> sink c = [] \<and>
     dispatcher_inv (dispatcher c) \<and> \<not> closed (dispatcher c) \<and>
     DispatcherState.handler (dispatcher c) \<and>
     DispatcherState.correlation_id (dispatcher c) = cid"

lemma with_client_simps [simp]:
  "clients (with_client w c n) ! length (clients w) = c"
  "net (with_client w c n) = n" "metrics (with_client w c n) = metrics w"
  "length (clients (with_client w c n)) = Suc (length (clients w))"
  "j < length (clients w) \<Longrightarrow> clients (with_client w c n) ! j = clients w ! j"
  "update_client (length (clients w)) f (with_client w c n) = with_client w (f c) n"
  "update_state (length (clients w)) g (with_client w c n) =
     with_client w (c\<lparr>state := g (state c)\<rparr>) n"
  "(with_client w c n)\<lparr>net := n'\<rparr> = with_client w c n'"
  by (simp_all add: with_client_def update_client_def update_state_def nth_append)

lemma waiting_client_idle [simp]:
  "waiting_client cid c \<Longrightarrow> idle (length (clients w)) cid (with_client w c n)"
  by (simp add: idle_def waiting_client_def)

lemma handle_item_answer:
  assumes "answers_id cid r"
  shows "handle_item r d = (dispatch cid r d, [])"
  using assms by (simp add: handle_item_def answers_id_def)

lemma sink_unchanged [simp]: "sink c = [] \<Longrightarrow> c\<lparr>dispatcher := d, sink := []\<rparr> = c\<lparr>dispatcher := d\<rparr>"
  by (cases c) simp

text \<open>One request that is answered first, and what the task does with the rest.\<close>

lemma exchange_first:
  assumes "waiting_client cid c"
    and "encode_RequestKind X (msg_factory cid) = Ok bs"
    and "tcp_write N (connection c) (frame X (msg_factory cid)) n = (n', Inr (Some (Ok r) # items))"
    and "answers_id cid r" "from_response r = Some x"
  obtains d w' where "waiting_client (cid + 1) (c\<lparr>dispatcher := d\<rparr>)"
    "run_task X N (length (clients w)) items (with_client w (c\<lparr>dispatcher := d\<rparr>) n') =
       (w', Some (Ok ()))"
    "send_and_receive X N (length (clients w)) type_name from_response msg_factory (with_client w c n) =
       (w', Some (Ok x))"
proof -
  let ?i = "length (clients w)"
  have wc: "sink c = []" "task_running c" "inbox c = []" "DispatcherState.handler (dispatcher c)"
    using assms(1) by (simp_all add: waiting_client_def)
  have "tcp_write N (connection (clients (with_client w c n) ! ?i))
      (sink (clients (with_client w c n) ! ?i) @ request_bytes (request_from (msg_factory cid)) bs)
      (net (with_client w c n)) = (n', Inr (Some (Ok r) # items))"
    using assms(2,3) wc(1) by (simp add: frame_def)
  from send_and_receive_run [where msg_factory = msg_factory,
      OF waiting_client_idle [OF assms(1)] assms(2) this]
  obtain d w' where d: "dispatcher_inv d" "\<not> closed d" "DispatcherState.handler d"
    "DispatcherState.correlation_id d = cid + 1"
    "run_task X N ?i (Some (Ok r) # items) (with_client w (c\<lparr>dispatcher := d\<rparr>) n') = (w', Some (Ok ()))"
    "send_and_receive X N ?i type_name from_response msg_factory (with_client w c n) =
       (w', request_outcome type_name from_response cid (Some (Ok r) # items))"
    using wc by (simp del: run_task.simps) blast
  have inv: "dispatcher_inv (dispatch cid r d)"
    using dispatcher_inv_handle_item [OF d(1), of r] by (simp add: handle_item_answer [OF assms(4)])
  show thesis
  proof (rule that)
    show "waiting_client (cid + 1) (c\<lparr>dispatcher := dispatch cid r d\<rparr>)"
      using d inv wc by (simp add: waiting_client_def)
    show "run_task X N ?i items (with_client w (c\<lparr>dispatcher := dispatch cid r d\<rparr>) n') =
        (w', Some (Ok ()))"
      using d(5) wc by (simp add: handle_item_answer [OF assms(4)] async_defs)
    show "send_and_receive X N ?i type_name from_response msg_factory (with_client w c n) =
        (w', Some (Ok x))"
      using d(6) assms(4,5) by (simp add: request_outcome_def cast_response_def)
  qed
qed

lemma exchange_one:
  assumes "waiting_client cid c"
    and "encode_RequestKind X (msg_factory cid) = Ok bs"
    and "tcp_write N (connection c) (frame X (msg_factory cid)) n = (n', Inr [Some (Ok r)])"
    and "answers_id cid r" "from_response r = Some x"
  obtains d where "waiting_client (cid + 1) (c\<lparr>dispatcher := d\<rparr>)"
    "send_and_receive X N (length (clients w)) type_name from_response msg_factory (with_client w c n) =
       (with_client w (c\<lparr>dispatcher := d\<rparr>) n', Some (Ok x))"
  using exchange_first [where msg_factory = msg_factory and from_response = from_response
    and w = w and type_name = type_name, OF assms] that by auto

section \<open>The steps\<close>

lemma encode_handshake [simp]:
  "encode_RequestKind X (RequestKind.PeerProperties c1) = Ok (encode_PeerPropertiesCommand c1)"
  "encode_RequestKind X (RequestKind.SaslHandshake c2) = Ok (encode_SaslHandshakeCommand c2)"
  "encode_RequestKind X (RequestKind.SaslAuthenticate c3) = Ok (encode_SaslAuthenticateCommand c3)"
  "encode_RequestKind X (RequestKind.Tunes c4) = Ok (encode_TunesCommand c4)"
  "encode_RequestKind X (RequestKind.Open c5) = Ok (encode_OpenCommand c5)"
  "encode_RequestKind X (RequestKind.ExchangeCommandVersions c6) =
     Ok (encode_ExchangeCommandVersionsRequest c6)"
  by (simp_all add: encode_RequestKind_def)

lemma peer_properties_answered:
  assumes "waiting_client cid c"
    and "tcp_write N (connection c) (frame X (RequestKind.PeerProperties
      (new_PeerPropertiesCommand cid (client_properties c)))) n = (n', Inr [Some (Ok r)])"
    and "answers_id cid r" "from_response_PeerPropertiesResponse r = Some p"
  obtains d where "waiting_client (cid + 1) (c\<lparr>dispatcher := d\<rparr>)"
    "peer_properties X N (length (clients w)) (with_client w c n) =
       (with_client w (c\<lparr>dispatcher := d\<rparr>) n', Some (Ok (PeerPropertiesResponse.server_properties p)))"
  by (rule exchange_one [where type_name = "''PeerPropertiesResponse''" and from_response = from_response_PeerPropertiesResponse
        and msg_factory = "\<lambda>cid. RequestKind.PeerProperties (new_PeerPropertiesCommand cid (client_properties c))" and w = w,
        OF assms(1) _ assms(2-4)])
     (use that in \<open>simp_all add: peer_properties_def async_defs\<close>)

lemma sasl_mechanism_answered:
  assumes "waiting_client cid c"
    and "tcp_write N (connection c) (frame X (RequestKind.SaslHandshake
      (new_SaslHandshakeCommand cid))) n = (n', Inr [Some (Ok r)])"
    and "answers_id cid r" "from_response_SaslHandshakeResponse r = Some p"
  obtains d where "waiting_client (cid + 1) (c\<lparr>dispatcher := d\<rparr>)"
    "sasl_mechanism X N (length (clients w)) (with_client w c n) =
       (with_client w (c\<lparr>dispatcher := d\<rparr>) n', Some (Ok (mechanisms p)))"
  by (rule exchange_one [where type_name = "''SaslHandshakeResponse''" and from_response = from_response_SaslHandshakeResponse
        and msg_factory = "\<lambda>cid. RequestKind.SaslHandshake (new_SaslHandshakeCommand cid)" and w = w,
        OF assms(1) _ assms(2-4)])
     (use that in \<open>simp_all add: sasl_mechanism_def async_defs\<close>)

lemma handle_authentication_answered:
  assumes "waiting_client cid c"
    and "tcp_write N (connection c) (frame X (RequestKind.SaslAuthenticate
      (new_SaslAuthenticateCommand cid ''PLAIN'' (auth_data (opts c))))) n =
        (n', Inr (Some (Ok r) # items))"
    and "answers_id cid r" "from_response_GenericResponse r = Some g"
  obtains d w' where "waiting_client (cid + 1) (c\<lparr>dispatcher := d\<rparr>)"
    "run_task X N (length (clients w)) items (with_client w (c\<lparr>dispatcher := d\<rparr>) n') =
       (w', Some (Ok ()))"
    "handle_authentication X N (length (clients w)) ms (with_client w c n) =
       (w', Some (if GenericResponse.code g = ResponseOk then Ok ()
                  else Err (RequestError (GenericResponse.code g))))"
  by (rule exchange_first [where type_name = "''GenericResponse''" and from_response = from_response_GenericResponse
        and msg_factory = "\<lambda>cid. RequestKind.SaslAuthenticate (new_SaslAuthenticateCommand cid ''PLAIN'' (auth_data (opts c)))" and w = w,
        OF assms(1) _ assms(2-4)])
     (use that in \<open>simp_all add: handle_authentication_def async_defs\<close>)

lemma open_vhost_answered:
  assumes "waiting_client cid c"
    and "tcp_write N (connection c) (frame X (RequestKind.Open
      (new_OpenCommand cid (v_host (opts c))))) n = (n', Inr [Some (Ok r)])"
    and "answers_id cid r" "from_response_OpenResponse r = Some p"
  obtains d where "waiting_client (cid + 1) (c\<lparr>dispatcher := d\<rparr>)"
    "open_vhost X N (length (clients w)) (with_client w c n) =
       (with_client w (c\<lparr>dispatcher := d\<rparr>) n',
        Some (if OpenResponse.code p = ResponseOk then Ok (OpenResponse.connection_properties p)
              else Err (RequestError (OpenResponse.code p))))"
  by (rule exchange_one [where type_name = "''OpenResponse''" and from_response = from_response_OpenResponse
        and msg_factory = "\<lambda>cid. RequestKind.Open (new_OpenCommand cid (v_host (opts c)))" and w = w,
        OF assms(1) _ assms(2-4)])
     (use that in \<open>simp_all add: open_vhost_def async_defs\<close>)

lemma exchange_command_versions_answered:
  assumes "waiting_client cid c"
    and "tcp_write N (connection c) (frame X (RequestKind.ExchangeCommandVersions
      (new_ExchangeCommandVersionsRequest cid []))) n = (n', Inr [Some (Ok r)])"
    and "answers_id cid r" "from_response_ExchangeCommandVersionsResponse r = Some v"
  obtains d where "waiting_client (cid + 1) (c\<lparr>dispatcher := d\<rparr>)"
    "exchange_command_versions X N (length (clients w)) (with_client w c n) =
       (with_client w (c\<lparr>dispatcher := d\<rparr>) n', Some (Ok v))"
  by (rule exchange_one [where type_name = "''ExchangeCommandVersionsResponse''" and from_response = from_response_ExchangeCommandVersionsResponse
        and msg_factory = "\<lambda>cid. RequestKind.ExchangeCommandVersions (new_ExchangeCommandVersionsRequest cid [])" and w = w,
        OF assms(1) _ assms(2-4)])
     (use that in \<open>simp_all add: exchange_command_versions_def async_defs\<close>)

lemma run_task_tune:
  fixes X :: "('t, 'u) externals" and N :: "('t, 'u, 'w) network"
  assumes "waiting_client cid c" "st = tune_state (opts c) t (state c)"
    and "tcp_write N (connection c) (frame X (RequestKind.Tunes
      (new_TunesCommand (max_frame_size st) (heartbeat st)))) n = (n', Inr [])"
  shows "run_task X N (length (clients w))
      [Some (Ok \<lparr>Response.header = h, kind = ResponseKind.Tunes t\<rparr>)] (with_client w c n) =
    (with_client w (c\<lparr>state := st, tune_notifier := True\<rparr>) n', Some (Ok ()))"
proof -
  let ?c = "c\<lparr>state := st\<rparr>"
  have wc: "task_running c" "sink c = []" "inbox c = []" "DispatcherState.handler (dispatcher c)"
    using assms(1) by (simp_all add: waiting_client_def)
  have same: "c\<lparr>dispatcher := dispatcher c\<rparr> = c" "?c\<lparr>sink := []\<rparr> = ?c"
    using wc by (cases c; simp)+
  have item: "handle_item \<lparr>Response.header = h, kind = ResponseKind.Tunes t\<rparr> (dispatcher c) =
      (dispatcher c, [Some (Ok \<lparr>Response.header = h, kind = ResponseKind.Tunes t\<rparr>)])"
    using wc by (simp add: handle_item_def response_correlation_id_def notify_def)
  have "channel_send X N (length (clients w)) (request_from (RequestKind.Tunes
      (new_TunesCommand (max_frame_size st) (heartbeat st)))) (with_client w ?c n) =
      (with_client w ?c n', Some (Ok ()))"
    by (subst channel_send_Ok [where n = n' and items = "[]" and bs =
        "encode_TunesCommand (new_TunesCommand (max_frame_size st) (heartbeat st))"])
       (use assms(3) wc in \<open>simp_all add: frame_def same\<close>)
  then show ?thesis
    using wc assms(2)
    by (simp add: item same handle_message_def handle_tune_command_def Let_def async_defs)
qed

lemma poll_connection_quiet:
  assumes "inbox c = []"
  shows "poll_connection X N (length (clients w)) (with_client w c n) = (with_client w c n, Some (Ok ()))"
proof -
  have same: "c\<lparr>inbox := []\<rparr> = c" using assms by (cases c) simp
  show ?thesis by (simp add: poll_connection_def assms same)
qed

lemma wait_for_tune_data_quiet:
  assumes "inbox c = []"
  shows "wait_for_tune_data X N (length (clients w)) (with_client w c n) =
    (if tune_notifier c then (with_client w (c\<lparr>tune_notifier := False\<rparr>) n, Some (Ok ()))
     else (with_client w c n, None))"
  by (simp add: wait_for_tune_data_def poll_connection_quiet [OF assms])

lemma initialize_to_authentication:
  fixes X :: "('t, 'u) externals" and N :: "('t, 'u, 'w) network"
  assumes "tcp_write N conn (frame X (RequestKind.PeerProperties
      (new_PeerPropertiesCommand 0 (new_client_properties broker)))) n0 = (n1, Inr [Some (Ok r1)])"
    "answers_id 0 r1" "from_response_PeerPropertiesResponse r1 = Some peer"
    and "tcp_write N conn (frame X (RequestKind.SaslHandshake (new_SaslHandshakeCommand 1))) n1 =
      (n2, Inr [Some (Ok r2)])"
    "answers_id 1 r2" "from_response_SaslHandshakeResponse r2 = Some sasl"
    and "i = length (clients w)" "c0 = new_Client now' conn broker"
  obtains d where
    "waiting_client 2 (c0\<lparr>task_running := True, state := (state c0)
       \<lparr>server_properties := PeerPropertiesResponse.server_properties peer\<rparr>, dispatcher := d\<rparr>)"
    "initialize X N i (with_client w c0 n0) =
       await (handle_authentication X N i (mechanisms sasl)) (\<lambda>_.
       await (wait_for_tune_data X N i) (\<lambda>_.
       await (open_vhost X N i) (\<lambda>connection_properties'.
       await (modify (update_state i (\<lambda>st. st\<lparr>connection_properties := connection_properties'\<rparr>))) (\<lambda>_.
         modify (update_state i start_hearbeat_task)))))
       (with_client w (c0\<lparr>task_running := True, state := (state c0)
         \<lparr>server_properties := PeerPropertiesResponse.server_properties peer\<rparr>, dispatcher := d\<rparr>) n2)"
proof -
  let ?c1 = "c0\<lparr>dispatcher := set_handler (dispatcher c0), task_running := True\<rparr> :: ('t, 'u) Client"
  have c1: "waiting_client 0 ?c1" "connection ?c1 = conn" "client_properties ?c1 = new_client_properties broker"
    by (simp_all add: assms(8) waiting_client_def new_Client_def set_handler_def new_Dispatcher_def
        dispatcher_inv_def requests_inv_def registered_def)
  obtain d1 where d1: "waiting_client 1 (?c1\<lparr>dispatcher := d1\<rparr>)"
    "peer_properties X N i (with_client w ?c1 n0) = (with_client w (?c1\<lparr>dispatcher := d1\<rparr>) n1,
       Some (Ok (PeerPropertiesResponse.server_properties peer)))"
    unfolding assms(7)
    by (rule peer_properties_answered [OF c1(1), of N X n0 n1 r1 peer w])
       (use assms(1-3) c1(2,3) in simp_all)
  let ?c2 = "?c1\<lparr>dispatcher := d1, state := (state c0)
    \<lparr>server_properties := PeerPropertiesResponse.server_properties peer\<rparr>\<rparr>"
  have c2: "waiting_client 1 ?c2" "connection ?c2 = conn"
    using d1(1) c1(2) by (simp_all add: waiting_client_def)
  obtain d2 where d2: "waiting_client 2 (?c2\<lparr>dispatcher := d2\<rparr>)"
    "sasl_mechanism X N i (with_client w ?c2 n1) =
       (with_client w (?c2\<lparr>dispatcher := d2\<rparr>) n2, Some (Ok (mechanisms sasl)))"
    unfolding assms(7)
    by (rule sasl_mechanism_answered [OF c2(1), of N X n1 n2 r2 sasl w])
       (use assms(4-6) c2(2) in simp_all)
  show thesis
    by (rule that [of d2])
       (use d1 d2 in \<open>simp_all add: initialize_def with_state_lock_def authenticate_def await_assoc async_defs assms(7)\<close>)
qed

lemma connect_run:
  fixes X :: "('t, 'u) externals" and N :: "('t, 'u, 'w) network"
  assumes "tcp_connect N broker (net w) = (n0, Inr conn)"
    and "tcp_write N conn (frame X (RequestKind.PeerProperties
      (new_PeerPropertiesCommand 0 (new_client_properties broker)))) n0 = (n1, Inr [Some (Ok r1)])"
    "answers_id 0 r1" "from_response_PeerPropertiesResponse r1 = Some peer"
    and "tcp_write N conn (frame X (RequestKind.SaslHandshake (new_SaslHandshakeCommand 1))) n1 =
      (n2, Inr [Some (Ok r2)])"
    "answers_id 1 r2" "from_response_SaslHandshakeResponse r2 = Some sasl"
    and "tcp_write N conn (frame X (RequestKind.SaslAuthenticate
      (new_SaslAuthenticateCommand 2 ''PLAIN'' (auth_data broker)))) n2 =
        (n3, Inr [Some (Ok r3), Some (Ok \<lparr>Response.header = h, kind = ResponseKind.Tunes t\<rparr>)])"
    "answers_id 2 r3" "from_response_GenericResponse r3 = Some auth"
    "GenericResponse.code auth = ResponseOk"
    and "hb = negotiate_value (ClientOptions.heartbeat broker) (TunesCommand.heartbeat t)"
    "frame_size = negotiate_value (ClientOptions.max_frame_size broker) (TunesCommand.max_frame_size t)"
    and "tcp_write N conn (frame X (RequestKind.Tunes (new_TunesCommand frame_size hb))) n3 = (n4, Inr [])"
    and "tcp_write N conn (frame X (RequestKind.Open (new_OpenCommand 3 (v_host broker)))) n4 =
      (n5, Inr [Some (Ok r5)])"
    "answers_id 3 r5" "from_response_OpenResponse r5 = Some opened" "OpenResponse.code opened = ResponseOk"
    and "tcp_write N conn (frame X (RequestKind.ExchangeCommandVersions
      (new_ExchangeCommandVersionsRequest 4 []))) n5 = (n6, Inr [Some (Ok r6)])"
    "answers_id 4 r6" "from_response_ExchangeCommandVersionsResponse r6 = Some versions"
  shows "\<exists>c. connect X N broker w = (with_client w c n6, Some (Ok (length (clients w)))) \<and>
    waiting_client 5 c \<and> \<not> channel_closed c \<and> connection c = conn \<and> opts c = broker \<and>
    server_properties (state c) = PeerPropertiesResponse.server_properties peer \<and>
    connection_properties (state c) = OpenResponse.connection_properties opened \<and>
    heartbeat (state c) = hb \<and> max_frame_size (state c) = frame_size \<and>
    heartbeat_task (state c) = (if hb = 0 then None else Some (max (hb div 2) 1)) \<and>
    filtering_supported c = (snd (key_version versions 2) \<ge> 2)"
proof -
  let ?i = "length (clients w)"
  define c0 :: "('t, 'u) Client" where "c0 = new_Client (instant_now N n0) conn broker"
  have c0: "connection c0 = conn" "opts c0 = broker" "tune_notifier c0 = False"
    "filtering_supported c0 = False" "heartbeat_task (state c0) = None" "\<not> channel_closed c0"
    by (simp_all add: c0_def new_Client_def)
  obtain d2 c2 where c2: "c2 = c0\<lparr>task_running := True, state := (state c0)
       \<lparr>server_properties := PeerPropertiesResponse.server_properties peer\<rparr>, dispatcher := d2\<rparr>"
    "waiting_client 2 c2"
    "initialize X N ?i (with_client w c0 n0) =
       await (handle_authentication X N ?i (mechanisms sasl)) (\<lambda>_.
       await (wait_for_tune_data X N ?i) (\<lambda>_.
       await (open_vhost X N ?i) (\<lambda>connection_properties'.
       await (modify (update_state ?i (\<lambda>st. st\<lparr>connection_properties := connection_properties'\<rparr>))) (\<lambda>_.
         modify (update_state ?i start_hearbeat_task))))) (with_client w c2 n2)"
    using initialize_to_authentication [OF assms(2-7) refl c0_def] by metis
  define st where "st = tune_state (opts c2) t (state c2)"
  have st: "heartbeat st = hb" "max_frame_size st = frame_size" "heartbeat_task st = None"
    "server_properties st = PeerPropertiesResponse.server_properties peer"
    using c0 by (simp_all add: st_def c2(1) tune_state_def assms(12,13))
  obtain d3 w3 where d3: "waiting_client 3 (c2\<lparr>dispatcher := d3\<rparr>)"
    "run_task X N ?i [Some (Ok \<lparr>Response.header = h, kind = ResponseKind.Tunes t\<rparr>)]
      (with_client w (c2\<lparr>dispatcher := d3\<rparr>) n3) = (w3, Some (Ok ()))"
    "handle_authentication X N ?i (mechanisms sasl) (with_client w c2 n2) = (w3, Some (Ok ()))"
    by (rule handle_authentication_answered [OF c2(2), of N X n2 n3 r3
          "[Some (Ok \<lparr>Response.header = h, kind = ResponseKind.Tunes t\<rparr>)]" auth w "mechanisms sasl"])
       (use assms(8-11) c0 in \<open>simp_all add: c2(1)\<close>)
  define c3 where "c3 = c2\<lparr>dispatcher := d3, state := st, tune_notifier := False\<rparr>"
  have "run_task X N ?i [Some (Ok \<lparr>Response.header = h, kind = ResponseKind.Tunes t\<rparr>)]
      (with_client w (c2\<lparr>dispatcher := d3\<rparr>) n3) =
      (with_client w (c2\<lparr>dispatcher := d3, state := st, tune_notifier := True\<rparr>) n4, Some (Ok ()))"
    by (rule run_task_tune [OF d3(1)]) (use assms(14) st c0 in \<open>simp_all add: st_def c2(1)\<close>)
  with d3 have auth: "handle_authentication X N ?i (mechanisms sasl) (with_client w c2 n2) =
      (with_client w (c2\<lparr>dispatcher := d3, state := st, tune_notifier := True\<rparr>) n4, Some (Ok ()))" by simp
  have wait: "wait_for_tune_data X N ?i
        (with_client w (c2\<lparr>dispatcher := d3, state := st, tune_notifier := True\<rparr>) n4) =
      (with_client w c3 n4, Some (Ok ()))"
    using d3(1) by (simp add: wait_for_tune_data_quiet waiting_client_def c3_def)
  have c3: "waiting_client 3 c3" "connection c3 = conn" "opts c3 = broker"
    "filtering_supported c3 = False" "state c3 = st" "\<not> channel_closed c3"
    using d3(1) c0 by (simp_all add: waiting_client_def c2(1) c3_def)
  obtain d4 where d4: "waiting_client 4 (c3\<lparr>dispatcher := d4\<rparr>)"
    "open_vhost X N ?i (with_client w c3 n4) =
      (with_client w (c3\<lparr>dispatcher := d4\<rparr>) n5, Some (Ok (OpenResponse.connection_properties opened)))"
    by (rule open_vhost_answered [OF c3(1), of N X n4 n5 r5 opened w])
       (use assms(15-18) c3(2,3) in simp_all)
  let ?st = "start_hearbeat_task (st\<lparr>connection_properties := OpenResponse.connection_properties opened\<rparr>)"
  let ?c4 = "c3\<lparr>dispatcher := d4, state := ?st\<rparr>"
  have init: "initialize X N ?i (with_client w c0 n0) = (with_client w ?c4 n5, Some (Ok ()))"
    by (simp add: c2(3) auth wait d4(2) c3(5) async_defs)
  have c4: "waiting_client 4 ?c4" "connection ?c4 = conn"
    using d4(1) c3(2) by (simp_all add: waiting_client_def)
  obtain d5 where d5: "waiting_client 5 (?c4\<lparr>dispatcher := d5\<rparr>)"
    "exchange_command_versions X N ?i (with_client w ?c4 n5) =
      (with_client w (?c4\<lparr>dispatcher := d5\<rparr>) n6, Some (Ok versions))"
    by (rule exchange_command_versions_answered [OF c4(1), of N X n5 n6 r6 versions w])
       (use assms(19-21) c4(2) in simp_all)
  let ?c5 = "if snd (key_version versions 2) \<ge> 2
    then ?c4\<lparr>dispatcher := d5, filtering_supported := True\<rparr> else ?c4\<lparr>dispatcher := d5\<rparr>"
  have world: "w\<lparr>net := n0, clients := clients w @ [c0]\<rparr> = with_client w c0 n0"
    by (simp add: with_client_def)
  have "connect X N broker w = (with_client w ?c5 n6, Some (Ok ?i))"
    by (simp add: connect_def connect_on_def assms(1) Let_def init d5(2) async_defs world flip: c0_def)
  moreover have "waiting_client 5 ?c5" using d5(1) by (simp add: waiting_client_def)
  ultimately show ?thesis
    using c3 st by (intro exI [of _ ?c5]) (simp add: start_hearbeat_task_def)
qed

section \<open>Properties of the handshake\<close>

text \<open>C10.  A broker that answers the requests of the handshake one after the other, accepts the
  credentials and proposes limits makes \<open>connect\<close> return a client that is ready for the next
  request: it keeps the properties the broker sent, the negotiated limits, sends heartbeats at half
  the negotiated interval and knows whether filtering is supported.  The other clients are as
  before.\<close>

theorem connect_handshake:
  fixes X :: "('t, 'u) externals" and N :: "('t, 'u, 'w) network"
  assumes "tcp_connect N broker (net w) = (n0, Inr conn)"
    and "tcp_write N conn (frame X (RequestKind.PeerProperties
      (new_PeerPropertiesCommand 0 (new_client_properties broker)))) n0 = (n1, Inr [Some (Ok r1)])"
    "answers_id 0 r1" "from_response_PeerPropertiesResponse r1 = Some peer"
    and "tcp_write N conn (frame X (RequestKind.SaslHandshake (new_SaslHandshakeCommand 1))) n1 =
      (n2, Inr [Some (Ok r2)])"
    "answers_id 1 r2" "from_response_SaslHandshakeResponse r2 = Some sasl"
    and "tcp_write N conn (frame X (RequestKind.SaslAuthenticate
      (new_SaslAuthenticateCommand 2 ''PLAIN'' (auth_data broker)))) n2 =
        (n3, Inr [Some (Ok r3), Some (Ok \<lparr>Response.header = h, kind = ResponseKind.Tunes t\<rparr>)])"
    "answers_id 2 r3" "from_response_GenericResponse r3 = Some auth"
    "GenericResponse.code auth = ResponseOk"
    and "hb = negotiate_value (ClientOptions.heartbeat broker) (TunesCommand.heartbeat t)"
    "frame_size = negotiate_value (ClientOptions.max_frame_size broker) (TunesCommand.max_frame_size t)"
    and "tcp_write N conn (frame X (RequestKind.Tunes (new_TunesCommand frame_size hb))) n3 = (n4, Inr [])"
    and "tcp_write N conn (frame X (RequestKind.Open (new_OpenCommand 3 (v_host broker)))) n4 =
      (n5, Inr [Some (Ok r5)])"
    "answers_id 3 r5" "from_response_OpenResponse r5 = Some opened" "OpenResponse.code opened = ResponseOk"
    and "tcp_write N conn (frame X (RequestKind.ExchangeCommandVersions
      (new_ExchangeCommandVersionsRequest 4 []))) n5 = (n6, Inr [Some (Ok r6)])"
    "answers_id 4 r6" "from_response_ExchangeCommandVersionsResponse r6 = Some versions"
  shows "\<exists>c. connect X N broker w = (with_client w c n6, Some (Ok (length (clients w)))) \<and>
    waiting_client 5 c \<and> \<not> channel_closed c \<and> connection c = conn \<and> opts c = broker \<and>
    server_properties (state c) = PeerPropertiesResponse.server_properties peer \<and>
    connection_properties (state c) = OpenResponse.connection_properties opened \<and>
    heartbeat (state c) = hb \<and> max_frame_size (state c) = frame_size \<and>
    heartbeat_task (state c) = (if hb = 0 then None else Some (max (hb div 2) 1)) \<and>
    filtering_supported c = (snd (key_version versions 2) \<ge> 2)"
  using assms by (rule connect_run)

definition sample_peer :: PeerPropertiesResponse where
  "sample_peer =
     \<lparr>PeerPropertiesResponse.correlation_id = 0, code = ResponseOk, server_properties = []\<rparr>"

definition sample_sasl :: SaslHandshakeResponse where
  "sample_sasl =
     \<lparr>SaslHandshakeResponse.correlation_id = 1, code = ResponseOk, mechanisms = [''PLAIN'']\<rparr>"

definition sample_auth :: GenericResponse where
  "sample_auth = \<lparr>GenericResponse.correlation_id = 2, code = ResponseOk\<rparr>"

definition sample_opened :: OpenResponse where
  "sample_opened =
     \<lparr>OpenResponse.correlation_id = 3, code = ResponseOk, connection_properties = []\<rparr>"

definition sample_versions :: ExchangeCommandVersionsResponse where
  "sample_versions =
     \<lparr>ExchangeCommandVersionsResponse.correlation_id = 4, response_code = ResponseOk,
      commands = [ExchangeCommandVersion 2 1 2]\<rparr>"

definition respond :: "(i64, bytes) ResponseKind \<Rightarrow> (i64, bytes) Response" where
  "respond k = \<lparr>Response.header = \<lparr>key = 0, version = 1\<rparr>, kind = k\<rparr>"

definition handshake_script :: "(i64, bytes) MessageResult list list" where
  "handshake_script =
     [[Some (Ok (respond (ResponseKind.PeerProperties sample_peer)))],
      [Some (Ok (respond (ResponseKind.SaslHandshake sample_sasl)))],
      [Some (Ok (respond (ResponseKind.Generic sample_auth))),
       Some (Ok (respond (ResponseKind.Tunes sample_tunes)))],
      [],
      [Some (Ok (respond (ResponseKind.Open sample_opened)))],
      [Some (Ok (respond (ResponseKind.ExchangeCommandVersions sample_versions)))]]"

lemmas response_simps = answers_id_def response_correlation_id_def is_ConsumerUpdate_def
  from_response_PeerPropertiesResponse_def from_response_SaslHandshakeResponse_def
  from_response_GenericResponse_def from_response_OpenResponse_def
  from_response_ExchangeCommandVersionsResponse_def sample_peer_def sample_sasl_def sample_auth_def
  sample_opened_def sample_versions_def respond_def

theorem connect_handshake_witness:
  "\<exists>c n. connect byte_externals scripted default_ClientOptions (scripted_world handshake_script []) =
       (with_client (scripted_world handshake_script []) c n, Some (Ok 0)) \<and>
     heartbeat (state c) = 60 \<and> filtering_supported c"
proof -
  let ?w = "scripted_world handshake_script [] :: (i64, bytes, (i64, bytes) script) world"
  have start: "tcp_connect scripted default_ClientOptions (net ?w) =
      (([], handshake_script), Inr 0)" by (simp add: scripted_world_def)
  note run = connect_handshake [where X = byte_externals and peer = sample_peer and sasl = sample_sasl
      and auth = sample_auth and opened = sample_opened and versions = sample_versions,
      OF start [unfolded handshake_script_def respond_def]
      scripted_simps(2) _ _ scripted_simps(2) _ _ scripted_simps(2) _ _ _ refl refl scripted_simps(2)
      scripted_simps(2) _ _ _ scripted_simps(2)]
  have "negotiate_value (ClientOptions.heartbeat default_ClientOptions)
      (TunesCommand.heartbeat sample_tunes) = 60"
    by (simp add: negotiate_value_def default_ClientOptions_def sample_tunes_def new_TunesCommand_def)
  then show ?thesis
    using run by (auto simp: response_simps key_version_def handshake_script_def scripted_world_def)
qed

lemma scripted_connect:
  assumes "net w = (out, handshake_script @ rest)"
  obtains c out' where "connect byte_externals scripted broker w =
      (with_client w c (out', rest), Some (Ok (length (clients w))))"
    "waiting_client 5 c" "\<not> channel_closed c" "connection c = 0" "opts c = broker"
    "filtering_supported c"
proof -
  have start: "tcp_connect scripted broker (net w) = ((out, handshake_script @ rest), Inr 0)"
    by (simp add: assms)
  note run = connect_run [where X = byte_externals and peer = sample_peer and sasl = sample_sasl
      and auth = sample_auth and opened = sample_opened and versions = sample_versions,
      OF start [unfolded handshake_script_def respond_def append_Cons append_Nil]
      scripted_simps(2) _ _ scripted_simps(2) _ _ scripted_simps(2) _ _ _ refl refl scripted_simps(2)
      scripted_simps(2) _ _ _ scripted_simps(2)]
  show thesis
    using run that by (auto simp: response_simps key_version_def)
qed

text \<open>One answered request, and an orderly close, on the scripted network.\<close>

lemma scripted_exchange:
  assumes "waiting_client cid c" "encode_RequestKind byte_externals (msg_factory cid) = Ok bs"
    and "answers_id cid r" "from_response r = Some x"
  obtains d out' where "waiting_client (cid + 1) (c\<lparr>dispatcher := d\<rparr>)"
    "send_and_receive byte_externals scripted (length (clients w)) type_name from_response msg_factory
       (with_client w c (out, [Some (Ok r)] # rest)) =
       (with_client w (c\<lparr>dispatcher := d\<rparr>) (out', rest), Some (Ok x))"
  using exchange_one [where msg_factory = msg_factory and from_response = from_response
    and w = w and type_name = type_name, OF assms(1,2) scripted_simps(2) assms(3,4)] that by blast

lemma scripted_close:
  assumes "waiting_client cid c" "\<not> channel_closed c" "connection c = 0"
  obtains c' out' where "close byte_externals scripted (length (clients w))
      (with_client w c (out, [Some (Ok (close_ok cid))] # rest)) = (with_client w c' (out', rest), Some (Ok ()))"
    "opts c' = opts c" "filtering_supported c' = filtering_supported c"
proof -
  obtain d out' where "send_and_receive byte_externals scripted (length (clients w)) ''CloseResponse''
      from_response_CloseResponse (\<lambda>cid. RequestKind.Close (new_CloseRequest cid ResponseOk ''Ok''))
      (with_client w c (out, [Some (Ok (close_ok cid))] # rest)) =
      (with_client w (c\<lparr>dispatcher := d\<rparr>) (out', rest),
       Some (Ok \<lparr>CloseResponse.correlation_id = cid, response_code = ResponseOk\<rparr>))"
    by (rule scripted_exchange [where r = "close_ok cid" and w = w and out = out and rest = rest
          and type_name = "''CloseResponse''" and from_response = from_response_CloseResponse
          and msg_factory = "\<lambda>cid. RequestKind.Close (new_CloseRequest cid ResponseOk ''Ok'')"
          and x = "\<lparr>CloseResponse.correlation_id = cid, response_code = ResponseOk\<rparr>"
          and bs = "encode_CloseRequest (new_CloseRequest cid ResponseOk ''Ok'')", OF assms(1)])
       (simp_all add: encode_RequestKind_def close_ok_def answers_id_def response_correlation_id_def
         is_ConsumerUpdate_def from_response_CloseResponse_def)
  with that show thesis
    using assms(2) by (simp add: close_def channel_close_def async_defs)
qed

section \<open>A handshake without limits\<close>

definition is_tune :: "('t, 'u) MessageResult \<Rightarrow> bool" where
  "is_tune item =
    (case item of
       Some (Ok r) \<Rightarrow> (case Response.kind r of ResponseKind.Tunes _ \<Rightarrow> True | _ \<Rightarrow> False)
     | _ \<Rightarrow> False)"

lemma handle_message_no_tune:
  assumes "\<not> is_tune m"
  obtains c' where "handle_message X N (length (clients w)) m (with_client w c n) =
      (with_client w c' n, Some (Ok ()))"
    "tune_notifier c' = tune_notifier c" "inbox c' = inbox c"
  using assms
  by (auto simp: handle_message_def is_tune_def spawn_handler_def handle_heart_beat_command_def
      async_defs split: option.splits result.splits ResponseKind.splits)

lemma handle_messages_no_tune:
  assumes "\<forall>m \<in> set ms. \<not> is_tune m"
  obtains c' where "handle_messages X N (length (clients w)) ms (with_client w c n) =
      (with_client w c' n, Some (Ok ()))"
    "tune_notifier c' = tune_notifier c" "inbox c' = inbox c"
  using assms
proof (induction ms arbitrary: c thesis)
  case Nil
  then show thesis by (simp add: async_defs)
next
  case (Cons m ms)
  from Cons.prems(2) obtain c1 where c1:
    "handle_message X N (length (clients w)) m (with_client w c n) = (with_client w c1 n, Some (Ok ()))"
    "tune_notifier c1 = tune_notifier c" "inbox c1 = inbox c"
    using handle_message_no_tune [of m X N w c n] by auto
  from Cons.prems(2) obtain c2 where
    "handle_messages X N (length (clients w)) ms (with_client w c1 n) = (with_client w c2 n, Some (Ok ()))"
    "tune_notifier c2 = tune_notifier c1" "inbox c2 = inbox c1"
    using Cons.IH [of c1] by auto
  with c1 Cons.prems(1) show thesis by simp
qed

lemma handle_item_messages: "set (snd (handle_item r d)) \<subseteq> {Some (Ok r)}"
  by (auto simp: handle_item_def notify_def split: option.split)

lemma run_task_end:
  assumes "task_running (clients w ! i)" "\<nexists>r. item = Some (Ok r)"
  shows "run_task X N i (item # items) w =
    (case close_dispatcher None (dispatcher (clients w ! i)) of
       (d, ms) \<Rightarrow> handle_messages X N i ms
         (update_client i (\<lambda>c. c\<lparr>dispatcher := d, task_running := False\<rparr>) w))"
  using assms by (auto split: option.split result.split)

lemma run_task_no_tune:
  assumes "\<forall>m \<in> set items. \<not> is_tune m"
  obtains c' where "run_task X N (length (clients w)) items (with_client w c n) =
      (with_client w c' n, Some (Ok ()))"
    "tune_notifier c' = tune_notifier c" "inbox c' = inbox c"
  using assms
proof (induction items arbitrary: c thesis)
  case Nil
  then show thesis by simp
next
  case (Cons item items)
  let ?i = "length (clients w)"
  consider "\<not> task_running c" | r where "task_running c" "item = Some (Ok r)"
    | "task_running c" "\<nexists>r. item = Some (Ok r)" by blast
  then show thesis
  proof cases
    case 1
    with Cons.prems(1) show thesis by simp
  next
    case 2
    obtain d ms where d: "handle_item r (dispatcher c) = (d, ms)" by fastforce
    then have "\<forall>m \<in> set ms. \<not> is_tune m"
      using handle_item_messages [of r "dispatcher c"] Cons.prems(2) 2(2) by auto
    then obtain c1 where c1: "handle_messages X N ?i ms (with_client w (c\<lparr>dispatcher := d\<rparr>) n) =
        (with_client w c1 n, Some (Ok ()))" "tune_notifier c1 = tune_notifier c" "inbox c1 = inbox c"
      using handle_messages_no_tune [of ms X N w "c\<lparr>dispatcher := d\<rparr>" n] by auto
    from Cons.prems(2) obtain c2 where "run_task X N ?i items (with_client w c1 n) =
        (with_client w c2 n, Some (Ok ()))" "tune_notifier c2 = tune_notifier c1" "inbox c2 = inbox c1"
      using Cons.IH [of c1] by auto
    with c1 2 d Cons.prems(1) show thesis by simp
  next
    case 3
    let ?c = "c\<lparr>dispatcher := requests_close (dispatcher c), task_running := False\<rparr>"
    have "\<forall>m \<in> set (close_messages None (dispatcher c)). \<not> is_tune m"
      by (simp add: close_messages_def is_tune_def)
    then obtain c1 where "handle_messages X N ?i (close_messages None (dispatcher c)) (with_client w ?c n) =
        (with_client w c1 n, Some (Ok ()))" "tune_notifier c1 = tune_notifier c" "inbox c1 = inbox c"
      using handle_messages_no_tune [of "close_messages None (dispatcher c)" X N w ?c n] by auto
    with 3 Cons.prems(1) show thesis
      by (simp add: run_task_end close_dispatcher_def del: run_task.simps)
  qed
qed

text \<open>C32.  When the broker accepts the credentials but no limits arrive (even when the connection
  ends), \<open>connect\<close> waits forever: the wait for the limits is not released by the end of the
  connection.\<close>

theorem connect_waits_for_limits:
  fixes X :: "('t, 'u) externals" and N :: "('t, 'u, 'w) network"
  assumes "tcp_connect N broker (net w) = (n0, Inr conn)"
    and "tcp_write N conn (frame X (RequestKind.PeerProperties
      (new_PeerPropertiesCommand 0 (new_client_properties broker)))) n0 = (n1, Inr [Some (Ok r1)])"
    "answers_id 0 r1" "from_response_PeerPropertiesResponse r1 = Some peer"
    and "tcp_write N conn (frame X (RequestKind.SaslHandshake (new_SaslHandshakeCommand 1))) n1 =
      (n2, Inr [Some (Ok r2)])"
    "answers_id 1 r2" "from_response_SaslHandshakeResponse r2 = Some sasl"
    and "tcp_write N conn (frame X (RequestKind.SaslAuthenticate
      (new_SaslAuthenticateCommand 2 ''PLAIN'' (auth_data broker)))) n2 = (n3, Inr (Some (Ok r3) # items))"
    "answers_id 2 r3" "from_response_GenericResponse r3 = Some auth"
    "GenericResponse.code auth = ResponseOk" "list_all (\<lambda>item. \<not> is_tune item) items"
  shows "snd (connect X N broker w) = None"
proof -
  let ?i = "length (clients w)"
  define c0 :: "('t, 'u) Client" where "c0 = new_Client (instant_now N n0) conn broker"
  have c0: "connection c0 = conn" "opts c0 = broker" "tune_notifier c0 = False"
    by (simp_all add: c0_def new_Client_def)
  obtain d2 c2 where c2: "c2 = c0\<lparr>task_running := True, state := (state c0)
       \<lparr>server_properties := PeerPropertiesResponse.server_properties peer\<rparr>, dispatcher := d2\<rparr>"
    "waiting_client 2 c2"
    "initialize X N ?i (with_client w c0 n0) =
       await (handle_authentication X N ?i (mechanisms sasl)) (\<lambda>_.
       await (wait_for_tune_data X N ?i) (\<lambda>_.
       await (open_vhost X N ?i) (\<lambda>connection_properties'.
       await (modify (update_state ?i (\<lambda>st. st\<lparr>connection_properties := connection_properties'\<rparr>))) (\<lambda>_.
         modify (update_state ?i start_hearbeat_task))))) (with_client w c2 n2)"
    using initialize_to_authentication [OF assms(2-7) refl c0_def] by metis
  obtain d3 w3 where d3: "waiting_client 3 (c2\<lparr>dispatcher := d3\<rparr>)"
    "run_task X N ?i items (with_client w (c2\<lparr>dispatcher := d3\<rparr>) n3) = (w3, Some (Ok ()))"
    "handle_authentication X N ?i (mechanisms sasl) (with_client w c2 n2) = (w3, Some (Ok ()))"
    by (rule handle_authentication_answered [OF c2(2), of N X n2 n3 r3 items auth w "mechanisms sasl"])
       (use assms(8-11) c0 in \<open>simp_all add: c2(1)\<close>)
  obtain c3 where c3: "w3 = with_client w c3 n3" "\<not> tune_notifier c3" "inbox c3 = []"
    using run_task_no_tune [of items X N w "c2\<lparr>dispatcher := d3\<rparr>" n3] d3(1,2) assms(12) c0(3)
    by (auto simp: list_all_iff waiting_client_def c2(1))
  have world: "w\<lparr>net := n0, clients := clients w @ [c0]\<rparr> = with_client w c0 n0"
    by (simp add: with_client_def)
  show ?thesis
    by (simp add: connect_def connect_on_def assms(1) Let_def c2(3) d3(3) c3 wait_for_tune_data_quiet world
        flip: c0_def)
qed

theorem connect_waits_for_limits_witness:
  "snd (connect byte_externals scripted default_ClientOptions (scripted_world
     (take 2 handshake_script @ [[Some (Ok (respond (ResponseKind.Generic sample_auth))), None]]) [])) = None"
  by (rule connect_waits_for_limits [where conn = 0 and ?n0.0 = "([], take 2 handshake_script @
        [[Some (Ok (respond (ResponseKind.Generic sample_auth))), None]])" and items = "[None]"
        and peer = sample_peer and sasl = sample_sasl and auth = sample_auth
        and ?r1.0 = "respond (ResponseKind.PeerProperties sample_peer)"
        and ?r2.0 = "respond (ResponseKind.SaslHandshake sample_sasl)"
        and ?r3.0 = "respond (ResponseKind.Generic sample_auth)"])
     ((simp_all add: scripted_world_def handshake_script_def response_simps is_tune_def)+)

end
