(* ===== verification/Confinement.thy ===== *)
theory Confinement
  imports Handshake
begin

text \<open>
  Clients do not disturb each other: a call on one client leaves the others, and the identity of
  its own connection, as they were.  \<open>confined i m\<close> says so of a call \<open>m\<close> on client \<open>i\<close>; the
  collection \<open>confined_intros\<close> follows the structure of the calls.
\<close>

definition touches :: "nat \<Rightarrow> ('t, 'u, 'w) world \<Rightarrow> ('t, 'u, 'w) world \<Rightarrow> bool" where
  "touches i w w' \<longleftrightarrow> length (clients w') = length (clients w) \<and>
     (\<forall>j. j \<noteq> i \<longrightarrow> clients w' ! j = clients w ! j) \<and>
     opts (clients w' ! i) = opts (clients w ! i) \<and>
     connection (clients w' ! i) = connection (clients w ! i) \<and>
     filtering_supported (clients w' ! i) = filtering_supported (clients w ! i)"

definition confined :: "nat \<Rightarrow> (('t, 'u, 'w) world, 'a, 'e) async \<Rightarrow> bool" where
  "confined i m \<longleftrightarrow> (\<forall>w. touches i w (fst (m w)))"

named_theorems confined_intros \<open>calls that touch one client only\<close>

lemma touches_refl [simp]: "touches i w w"
  by (simp add: touches_def)

lemma touches_trans [trans]: "touches i w w' \<Longrightarrow> touches i w' w'' \<Longrightarrow> touches i w w''"
  by (simp add: touches_def)

lemma touches_net [simp]: "touches i w (w'\<lparr>net := n\<rparr>) = touches i w w'"
  by (simp add: touches_def)

lemma touches_metrics [simp]: "touches i w (w'\<lparr>metrics := ms\<rparr>) = touches i w w'"
  by (simp add: touches_def)

lemma touches_update:
  assumes "\<And>c. opts (f c) = opts c" "\<And>c. connection (f c) = connection c"
    "\<And>c. filtering_supported (f c) = filtering_supported c"
  shows "touches i w (update_client i f w)"
proof (cases "i < length (clients w)")
  case True
  with assms show ?thesis by (simp add: touches_def)
next
  case False
  then show ?thesis by (simp add: update_client_def touches_def list_update_beyond)
qed

lemma confinedD: "confined i m \<Longrightarrow> m w = (w', r) \<Longrightarrow> touches i w w'"
  by (metis confined_def fst_conv)

lemma confined_ready [confined_intros]: "confined i (ready r)"
  by (simp add: confined_def async_defs)

lemma confined_touches: "confined i m \<Longrightarrow> touches i w w' \<Longrightarrow> touches i w (fst (m w'))"
  by (metis confined_def touches_trans)

lemma confined_lift [confined_intros]: "confined i m \<Longrightarrow> confined i (lift_error f m)"
  using confinedD [of i m]
  by (simp add: confined_def lift_error_def split: prod.split option.split result.split)

lemma confined_await [confined_intros]:
  assumes "confined i m" "\<And>x. confined i (k x)"
  shows "confined i (await m k)"
  unfolding confined_def
proof
  fix w
  note confined_touches [OF assms(2)]
  with confinedD [OF assms(1), of w] show "touches i w (fst (await m k w))"
    by (simp add: await_def split: prod.split option.split result.split)
qed

lemma confined_await_result [confined_intros]:
  assumes "confined i m" "\<And>x. confined i (k x)"
  shows "confined i (await_result m k)"
  unfolding confined_def
proof
  fix w
  note confined_touches [OF assms(2)]
  with confinedD [OF assms(1), of w] show "touches i w (fst (await_result m k w))"
    by (simp add: await_result_def split: prod.split option.split result.split)
qed

lemma confined_update [confined_intros]:
  assumes "\<And>c. opts (f c) = opts c" "\<And>c. connection (f c) = connection c"
    "\<And>c. filtering_supported (f c) = filtering_supported c"
  shows "confined i (modify (update_client i f))"
  by (auto simp: confined_def async_defs assms intro: touches_update)

lemma confined_update_state [confined_intros]: "confined i (modify (update_state i f))"
  unfolding update_state_def by (rule confined_update) simp_all

lemma confined_metrics [confined_intros]: "confined i (modify (\<lambda>w. w\<lparr>metrics := f w\<rparr>))"
  by (simp add: confined_def async_defs)

text \<open>A call that first looks at the state.\<close>

lemma confined_dep:
  assumes "\<And>w0. confined i (m w0)"
  shows "confined i (\<lambda>w. m w w)"
  using assms by (simp add: confined_def)

section \<open>Sending and receiving\<close>

lemma confined_channel_send [confined_intros]: "confined i (channel_send X N i req)"
  unfolding confined_def channel_send_def
  by (auto split: prod.split sum.split result.split intro!: touches_update)

lemma confined_channel_close [confined_intros]: "confined i (channel_close N i)"
  unfolding confined_def channel_close_def
  by (auto split: prod.split sum.split intro!: touches_update)

lemma confined_handle_tune [confined_intros]:
  fixes X :: "('t, 'u) externals" and N :: "('t, 'u, 'w) network"
  shows "confined i (handle_tune_command X N i t)"
  unfolding confined_def
proof
  fix w :: "('t, 'u, 'w) world"
  let ?w = "update_state i (tune_state (opts (clients w ! i)) t) w"
  have "touches i w ?w" unfolding update_state_def by (rule touches_update) simp_all
  moreover have "touches i ?w (fst (handle_tune_command X N i t w))"
    unfolding handle_tune_command_def Let_def
    by (rule confined_def [THEN iffD1, rule_format]) (intro confined_intros; simp)
  ultimately show "touches i w (fst (handle_tune_command X N i t w))" by (rule touches_trans)
qed

lemma confined_heart_beat [confined_intros]: "confined i (handle_heart_beat_command N i)"
  unfolding handle_heart_beat_command_def
  by (rule confined_dep) (rule confined_intros)

lemma confined_spawn_handler [confined_intros]: "confined i (spawn_handler i item)"
  unfolding spawn_handler_def by (rule confined_update) simp_all

lemma confined_handle_message [confined_intros]: "confined i (handle_message X N i item)"
  by (auto simp: handle_message_def intro: confined_intros
      split: option.split result.split ResponseKind.split)

lemma confined_handle_messages [confined_intros]: "confined i (handle_messages X N i ms)"
  by (induction ms) (auto intro!: confined_intros)

lemma confined_run_task [confined_intros]: "confined i (run_task X N i items)"
proof (induction items)
  case Nil
  then show ?case by (simp add: confined_def)
next
  case (Cons item items)
  have "confined i (await (handle_messages X N i ms) (\<lambda>_. run_task X N i items))" for ms
    by (intro confined_intros Cons.IH)
  note step = confined_touches [OF this touches_update [of "\<lambda>c. c\<lparr>dispatcher := d\<rparr>" for d]]
  note stop = confined_touches [OF confined_handle_messages
    touches_update [of "\<lambda>c. c\<lparr>dispatcher := d, task_running := False\<rparr>" for d]]
  show ?case
    unfolding confined_def
    by (auto split: option.split result.split prod.split
        intro!: step stop)
qed

lemma confined_poll_connection [confined_intros]:
  fixes X :: "('t, 'u) externals" and N :: "('t, 'u, 'w) network"
  shows "confined i (poll_connection X N i)"
  unfolding confined_def poll_connection_def
proof
  fix w :: "('t, 'u, 'w) world"
  have "touches i w (update_client i (\<lambda>c. c\<lparr>inbox := []\<rparr>) w)" by (rule touches_update) simp_all
  with confined_run_task [of i X N "inbox (clients w ! i)"]
  show "touches i w (fst (run_task X N i (inbox (clients w ! i))
      (update_client i (\<lambda>c. c\<lparr>inbox := []\<rparr>) w)))"
    unfolding confined_def by (blast intro: touches_trans)
qed

lemma confined_recv [confined_intros]: "confined i (recv_response i ch)"
  by (simp add: confined_def recv_response_def)

lemma confined_send_and_receive [confined_intros]:
  fixes X :: "('t, 'u) externals" and N :: "('t, 'u, 'w) network"
  shows "confined i (send_and_receive X N i type_name from_response msg_factory)"
  unfolding confined_def
proof
  fix w :: "('t, 'u, 'w) world"
  obtain d o' where d: "response_channel (dispatcher (clients w ! i)) = (d, o')" by fastforce
  let ?w = "update_client i (\<lambda>c. c\<lparr>dispatcher := d\<rparr>) w"
  have w: "touches i w ?w" by (rule touches_update) simp_all
  have "touches i ?w (fst (send_and_receive X N i type_name from_response msg_factory w))"
  proof (cases o')
    case (Some p)
    have "confined i (await (channel_send X N i (request_from (msg_factory (fst p)))) (\<lambda>_.
         await (poll_connection X N i) (\<lambda>_.
         await (recv_response i (snd p)) (\<lambda>response.
           ready (cast_response type_name from_response response)))))"
      by (intro confined_intros)
    with Some show ?thesis
      by (cases p) (simp add: send_and_receive_def d confined_def)
  qed (simp add: send_and_receive_def d)
  with w show "touches i w (fst (send_and_receive X N i type_name from_response msg_factory w))"
    by (rule touches_trans)
qed

lemma confined_send [confined_intros]: "confined i (send X N i msg)"
  unfolding send_def by (rule confined_intros)

section \<open>Requests of the client\<close>

lemma confined_publish [confined_intros]:
  fixes X :: "('t, 'u) externals" and N :: "('t, 'u, 'w) network"
  shows "confined i (publish X N i pid ms v)"
  unfolding confined_def
proof
  fix w :: "('t, 'u, 'w) world"
  obtain n ps where ps: "assign_ids (publish_sequence (clients w ! i)) ms = (n, ps)" by fastforce
  let ?w = "update_client i (\<lambda>c. c\<lparr>publish_sequence := n\<rparr>) w"
  have "touches i w ?w" by (rule touches_update) simp_all
  moreover have "touches i ?w (fst (publish X N i pid ms v w))"
    unfolding publish_def ps
    by (simp, rule confined_def [THEN iffD1, rule_format]) (intro confined_intros)
  ultimately show "touches i w (fst (publish X N i pid ms v w))" by (rule touches_trans)
qed

lemma confined_requests [confined_intros]:
  "confined i (subscribe X N i s' st os cr ps)" "confined i (unsubscribe X N i s')"
  "confined i (partitions X N i ss)" "confined i (route X N i k ss)"
  "confined i (create_stream X N i st os')" "confined i (create_super_stream X N i st pa bk os')"
  "confined i (delete_stream X N i st)" "confined i (delete_super_stream X N i st)"
  "confined i (credit X N i s' cr)" "confined i (metadata X N i sts)"
  "confined i (store_offset X N i ref st off)" "confined i (query_offset X N i ref st)"
  "confined i (declare_publisher X N i p' ref' st)" "confined i (delete_publisher X N i p')"
  "confined i (query_publisher_sequence X N i ref st)" "confined i (exchange_command_versions X N i)"
  "confined i (consumer_update X N i cid os)"
  unfolding subscribe_def unsubscribe_def partitions_def route_def create_stream_def
    create_super_stream_def delete_stream_def delete_super_stream_def credit_def metadata_def
    store_offset_def query_offset_def declare_publisher_def delete_publisher_def
    query_publisher_sequence_def exchange_command_versions_def consumer_update_def
  by (intro confined_intros)+

lemma confined_close [confined_intros]: "confined i (close X N i)"
proof -
  have "confined i (await (send_and_receive X N i ''CloseResponse'' from_response_CloseResponse (\<lambda>cid.
         RequestKind.Close (new_CloseRequest cid ResponseOk ''Ok''))) (\<lambda>_.
       await (modify (update_state i (\<lambda>st. st\<lparr>heartbeat_task := None\<rparr>))) (\<lambda>_. channel_close N i)))"
    by (intro confined_intros)
  then show ?thesis by (simp add: confined_def close_def)
qed

lemma confined_initialize [confined_intros]: "confined i (initialize X N i)"
proof -
  have "confined i (peer_properties X N i)" "confined i (open_vhost X N i)"
    "\<And>m. confined i (handle_authentication X N i m)"
    unfolding peer_properties_def open_vhost_def handle_authentication_def
    by (rule confined_dep, intro confined_intros)+
  moreover have "confined i (sasl_mechanism X N i)"
    unfolding sasl_mechanism_def by (intro confined_intros)
  moreover have "confined i (wait_for_tune_data X N i)"
    unfolding wait_for_tune_data_def
    by (intro confined_intros) (auto simp: confined_def intro!: touches_update)
  ultimately show ?thesis
    unfolding initialize_def with_state_lock_def authenticate_def by (intro confined_intros) simp_all
qed

section \<open>Any sequence of calls\<close>

text \<open>The public operations of a client after it is connected, a turn of its heartbeat task, and its
  connection's task reading what has arrived.\<close>

datatype ('t, 'u) client_call =
    Subscribe_call u8 string OffsetSpecification u16 string_map
  | Unsubscribe_call u8
  | Partitions_call string
  | Route_call string string
  | Create_stream_call string string_map
  | Create_super_stream_call string "string list" "string list" string_map
  | Delete_stream_call string
  | Delete_super_stream_call string
  | Credit_call u8 u16
  | Metadata_call "string list"
  | Store_offset_call string string u64
  | Query_offset_call string string
  | Declare_publisher_call u8 "string option" string
  | Delete_publisher_call u8
  | Query_publisher_sequence_call string string
  | Exchange_command_versions_call
  | Consumer_update_call u32 OffsetSpecification
  | Publish_call u8 "('t, 'u) base_message list" u16
  | Set_handler_call
  | Close_call
  | Heartbeat_turn
  | Connection_turn

definition outcome_dropped ::
  "('s, 'a, 'e) async \<Rightarrow> 's \<Rightarrow> 's" where
  "outcome_dropped m w = fst (m w)"

fun perform ::
  "('t, 'u) externals \<Rightarrow> ('t, 'u, 'w) network \<Rightarrow> nat \<Rightarrow> ('t, 'u) client_call \<Rightarrow>
     ('t, 'u, 'w) world \<Rightarrow> ('t, 'u, 'w) world" where
  "perform X N i (Subscribe_call s' st os cr ps) = outcome_dropped (subscribe X N i s' st os cr ps)"
| "perform X N i (Unsubscribe_call s') = outcome_dropped (unsubscribe X N i s')"
| "perform X N i (Partitions_call ss) = outcome_dropped (partitions X N i ss)"
| "perform X N i (Route_call k ss) = outcome_dropped (route X N i k ss)"
| "perform X N i (Create_stream_call st os') = outcome_dropped (create_stream X N i st os')"
| "perform X N i (Create_super_stream_call st pa bk os') =
     outcome_dropped (create_super_stream X N i st pa bk os')"
| "perform X N i (Delete_stream_call st) = outcome_dropped (delete_stream X N i st)"
| "perform X N i (Delete_super_stream_call st) = outcome_dropped (delete_super_stream X N i st)"
| "perform X N i (Credit_call s' cr) = outcome_dropped (credit X N i s' cr)"
| "perform X N i (Metadata_call sts) = outcome_dropped (metadata X N i sts)"
| "perform X N i (Store_offset_call ref st off) = outcome_dropped (store_offset X N i ref st off)"
| "perform X N i (Query_offset_call ref st) = outcome_dropped (query_offset X N i ref st)"
| "perform X N i (Declare_publisher_call p ref st) = outcome_dropped (declare_publisher X N i p ref st)"
| "perform X N i (Delete_publisher_call p) = outcome_dropped (delete_publisher X N i p)"
| "perform X N i (Query_publisher_sequence_call ref st) =
     outcome_dropped (query_publisher_sequence X N i ref st)"
| "perform X N i Exchange_command_versions_call = outcome_dropped (exchange_command_versions X N i)"
| "perform X N i (Consumer_update_call cid os) = outcome_dropped (consumer_update X N i cid os)"
| "perform X N i (Publish_call p ms v) = outcome_dropped (publish X N i p ms v)"
| "perform X N i Set_handler_call = outcome_dropped (client_set_handler i)"
| "perform X N i Close_call = outcome_dropped (close X N i)"
| "perform X N i Heartbeat_turn = outcome_dropped (heartbeat_turn X N i)"
| "perform X N i Connection_turn = outcome_dropped (poll_connection X N i)"

definition perform_all ::
  "('t, 'u) externals \<Rightarrow> ('t, 'u, 'w) network \<Rightarrow> (nat \<times> ('t, 'u) client_call) list \<Rightarrow>
     ('t, 'u, 'w) world \<Rightarrow> ('t, 'u, 'w) world" where
  "perform_all X N = fold (\<lambda>(i, call). perform X N i call)"

lemma confined_set_handler [confined_intros]: "confined i (client_set_handler i)"
  unfolding client_set_handler_def by (rule confined_intros)

lemma confined_heartbeat_turn [confined_intros]: "confined i (heartbeat_turn X N i)"
proof -
  have "confined i (await_result (channel_send X N i (request_from (RequestKind.Heartbeat ())))
    (\<lambda>_. ready (Ok ()) :: ('a, 'b, 'c, unit) client_async))" by (intro confined_intros)
  then show ?thesis by (simp add: confined_def heartbeat_turn_def split: option.split)
qed

lemma touches_dropped: "confined i m \<Longrightarrow> touches i w (outcome_dropped m w)"
  by (simp add: confined_def outcome_dropped_def)

lemma touches_perform: "touches i w (perform X N i call w)"
  by (cases call; simp; intro touches_dropped confined_intros)

lemma perform_all_others:
  "length (clients (perform_all X N calls w)) = length (clients w) \<and>
   (\<forall>j. j \<notin> fst ` set calls \<longrightarrow> clients (perform_all X N calls w) ! j = clients w ! j) \<and>
   (\<forall>j. opts (clients (perform_all X N calls w) ! j) = opts (clients w ! j) \<and>
        connection (clients (perform_all X N calls w) ! j) = connection (clients w ! j))"
proof (induction calls arbitrary: w)
  case (Cons p calls)
  obtain i call where p: "p = (i, call)" by (cases p)
  have "touches i w (perform X N i call w)" by (rule touches_perform)
  then have "length (clients (perform X N i call w)) = length (clients w)"
    "\<And>j. j \<noteq> i \<Longrightarrow> clients (perform X N i call w) ! j = clients w ! j"
    "\<And>j. opts (clients (perform X N i call w) ! j) = opts (clients w ! j) \<and>
       connection (clients (perform X N i call w) ! j) = connection (clients w ! j)"
    unfolding touches_def by metis+
  with Cons.IH [of "perform X N i call w"] show ?case by (simp add: p perform_all_def)
qed (simp add: perform_all_def)

text \<open>Clients are isolated: whatever operations are made on some clients, in whatever order and with
  whatever answers of the network, a client that none of them is made on is exactly as it was, and
  every client keeps its options and its connection.  What a client that is used sees does depend
  on the others, but only through the network.\<close>

theorem clients_are_isolated:
  assumes "j \<notin> fst ` set calls"
  shows "clients (perform_all X N calls w) ! j = clients w ! j \<and>
    length (clients (perform_all X N calls w)) = length (clients w) \<and>
    (\<forall>k. opts (clients (perform_all X N calls w) ! k) = opts (clients w ! k) \<and>
         connection (clients (perform_all X N calls w) ! k) = connection (clients w ! k))"
  using perform_all_others [of X N calls w] assms by blast

definition two_clients :: "(i64, bytes, (i64, bytes) script) world" where
  "two_clients = scripted_world [[], []] [sample_client, sample_client]"

theorem clients_are_isolated_witness:
  "clients (perform_all byte_externals scripted
      [(0, Credit_call 1 1), (0, Set_handler_call), (0, Close_call)] two_clients) ! 1 = sample_client"
  using clients_are_isolated [of 1 "[(0, Credit_call 1 1), (0, Set_handler_call), (0, Close_call)]"
      byte_externals scripted two_clients]
  by (simp add: two_clients_def scripted_world_def)
section \<open>Connecting beside other clients\<close>

text \<open>Connecting adds one client and leaves the others as they were.\<close>

lemma connect_Ok:
  assumes "connect X N broker w = (w', Some (Ok i))"
  shows "i = length (clients w)" "length (clients w') = Suc i" "opts (clients w' ! i) = broker"
    "\<And>j. j < i \<Longrightarrow> clients w' ! j = clients w ! j"
proof -
  obtain n conn where n: "tcp_connect N broker (net w) = (n, Inr conn)"
    using assms by (auto simp: connect_def connect_on_def split: prod.splits sum.splits)
  let ?i = "length (clients w)"
  let ?w = "with_client w (new_Client (instant_now N n) conn broker) n"
  have world: "w\<lparr>net := n, clients := clients w @ [c]\<rparr> = with_client w c n" for c
    by (simp add: with_client_def)
  have "await (initialize X N ?i) (\<lambda>_.
      await (exchange_command_versions X N ?i) (\<lambda>command_versions.
      await (modify (update_client ?i (\<lambda>c.
          if snd (key_version command_versions 2) \<ge> 2 then c\<lparr>filtering_supported := True\<rparr> else c))) (\<lambda>_.
        ready (Ok ?i)))) ?w = (w', Some (Ok i))"
    using assms by (simp add: connect_def connect_on_def n Let_def world)
  then obtain u w1 where w1: "initialize X N ?i ?w = (w1, Some (Ok u))"
    "await (exchange_command_versions X N ?i) (\<lambda>command_versions.
      await (modify (update_client ?i (\<lambda>c.
          if snd (key_version command_versions 2) \<ge> 2 then c\<lparr>filtering_supported := True\<rparr> else c))) (\<lambda>_.
        ready (Ok ?i))) w1 = (w', Some (Ok i))" by (rule await_OkE)
  from w1(2) obtain v w2 where w2: "exchange_command_versions X N ?i w1 = (w2, Some (Ok v))"
    "await (modify (update_client ?i (\<lambda>c.
          if snd (key_version v 2) \<ge> 2 then c\<lparr>filtering_supported := True\<rparr> else c))) (\<lambda>_.
        ready (Ok ?i)) w2 = (w', Some (Ok i) :: (nat, ClientError) result option)" by (rule await_OkE)
  from w2(2) have w': "w' = update_client ?i (\<lambda>c.
      if snd (key_version v 2) \<ge> 2 then c\<lparr>filtering_supported := True\<rparr> else c) w2" "i = ?i"
    by (auto simp: async_defs)
  have "touches ?i ?w w2"
    using confinedD [OF confined_initialize w1(1)] confinedD [OF confined_requests(16) w2(1)]
    by (rule touches_trans)
  with w' show "i = length (clients w)" "length (clients w') = Suc i"
    "opts (clients w' ! i) = broker" "\<And>j. j < i \<Longrightarrow> clients w' ! j = clients w ! j"
    by (auto simp: touches_def new_Client_def)
qed

end
