(* ===== verification/Environment.thy ===== *)
theory Environment
  imports Confinement
begin

text \<open>
  The environment (\<open>src/environment.rs\<close>): connection options with their builder, connecting
  producers to the leader of a stream and consumers to one of its replicas, and deleting streams.

  An environment is an immutable value, so it is passed to its methods.  In load balancer mode
  the code connects again and again until it reaches the host it looks for; this loop may not
  end, and \<open>connect_until\<close> is \<open>None\<close> in that case.  The choice of a replica by the crate
  \<open>rand\<close> is the parameter \<open>pick\<close>.
\<close>

section \<open>Errors (src/error.rs)\<close>

datatype ProducerCreateError =
    ProducerCreate (producer_stream: string) (producer_status: ResponseCode)
  | ProducerStreamDoesNotExist string
  | ProducerClient ClientError
  | ProducerFilteringNotSupport

datatype ConsumerCreateError =
    ConsumerCreate (consumer_stream: string) (consumer_status: ResponseCode)
  | ConsumerStreamDoesNotExist string
  | ConsumerClient ClientError
  | ConsumerFilteringNotSupport
  | SingleActiveConsumerNotSupported

datatype StreamDeleteError =
    DeleteStream (deleted_stream: string) (delete_status: ResponseCode)
  | DeleteClient ClientError

section \<open>Options and builder\<close>

record EnvironmentOptions =
  client_options :: ClientOptions

definition default_EnvironmentOptions :: EnvironmentOptions where
  "default_EnvironmentOptions = \<lparr>client_options = default_ClientOptions\<rparr>"

record Environment =
  options :: EnvironmentOptions

definition update_options ::
  "(ClientOptions \<Rightarrow> ClientOptions) \<Rightarrow> EnvironmentOptions \<Rightarrow> EnvironmentOptions" where
  "update_options f o' = o'\<lparr>client_options := f (client_options o')\<rparr>"

definition env_host :: "string \<Rightarrow> EnvironmentOptions \<Rightarrow> EnvironmentOptions" where
  "env_host h = update_options (\<lambda>c. c\<lparr>ClientOptions.host := h\<rparr>)"

definition env_username :: "string \<Rightarrow> EnvironmentOptions \<Rightarrow> EnvironmentOptions" where
  "env_username u = update_options (\<lambda>c. c\<lparr>user := u\<rparr>)"

definition env_password :: "string \<Rightarrow> EnvironmentOptions \<Rightarrow> EnvironmentOptions" where
  "env_password p = update_options (\<lambda>c. c\<lparr>password := p\<rparr>)"

definition env_virtual_host :: "string \<Rightarrow> EnvironmentOptions \<Rightarrow> EnvironmentOptions" where
  "env_virtual_host v = update_options (\<lambda>c. c\<lparr>v_host := v\<rparr>)"

definition env_port :: "u16 \<Rightarrow> EnvironmentOptions \<Rightarrow> EnvironmentOptions" where
  "env_port p = update_options (\<lambda>c. c\<lparr>ClientOptions.port := p\<rparr>)"

definition env_tls :: "TlsConfiguration \<Rightarrow> EnvironmentOptions \<Rightarrow> EnvironmentOptions" where
  "env_tls t = update_options (\<lambda>c. c\<lparr>tls := t\<rparr>)"

definition env_heartbeat :: "u32 \<Rightarrow> EnvironmentOptions \<Rightarrow> EnvironmentOptions" where
  "env_heartbeat h = update_options (\<lambda>c. c\<lparr>ClientOptions.heartbeat := h\<rparr>)"

definition env_load_balancer_mode :: "bool \<Rightarrow> EnvironmentOptions \<Rightarrow> EnvironmentOptions" where
  "env_load_balancer_mode b = update_options (\<lambda>c. c\<lparr>load_balancer_mode := b\<rparr>)"

definition env_client_provided_name :: "string \<Rightarrow> EnvironmentOptions \<Rightarrow> EnvironmentOptions" where
  "env_client_provided_name n = update_options (\<lambda>c. c\<lparr>client_provided_name := n\<rparr>)"

text \<open>Building checks the connection.\<close>

definition boostrap ::
  "('t, 'u) externals \<Rightarrow> ('t, 'u, 'w) network \<Rightarrow> EnvironmentOptions \<Rightarrow>
     ('t, 'u, 'w, Environment) client_async" where
  "boostrap X N options' =
     await (connect X N (client_options options')) (\<lambda>client.
     await (close X N client) (\<lambda>_.
       ready (Ok \<lparr>options = options'\<rparr>)))"

definition Environment_builder :: EnvironmentOptions where
  "Environment_builder = default_EnvironmentOptions"

definition env_build ::
  "('t, 'u) externals \<Rightarrow> ('t, 'u, 'w) network \<Rightarrow> EnvironmentOptions \<Rightarrow>
     ('t, 'u, 'w, Environment) client_async" where
  "env_build X N builder' = boostrap X N builder'"

section \<open>Clients of producers and consumers\<close>

definition create_client ::
  "('t, 'u) externals \<Rightarrow> ('t, 'u, 'w) network \<Rightarrow> Environment \<Rightarrow> ('t, 'u, 'w, nat) client_async" where
  "create_client X N env = connect X N (client_options (options env))"

definition create_client_with_options ::
  "('t, 'u) externals \<Rightarrow> ('t, 'u, 'w) network \<Rightarrow> ClientOptions \<Rightarrow> ('t, 'u, 'w, nat) client_async" where
  "create_client_with_options X N opts' = connect X N opts'"

text \<open>The loop of the load balancer mode: connections are closed until one is advertised as the
  host; then \<open>client\<close> is closed and replaced.\<close>

partial_function (option) connect_until ::
  "('t, 'u) externals \<Rightarrow> ('t, 'u, 'w) network \<Rightarrow> ClientOptions \<Rightarrow> string \<Rightarrow> nat \<Rightarrow>
     ('t, 'u, 'w) world \<Rightarrow> (('t, 'u, 'w) world \<times> (nat, ClientError) result option) option" where
  "connect_until X N opts' host' client w =
    (case connect X N opts' w of
       (w, Some (Ok temp_client)) \<Rightarrow>
         if map_of (connection_properties (state (clients w ! temp_client))) ''advertised_host'' = Some host'
         then Some (await (close X N client) (\<lambda>_. ready (Ok temp_client)) w)
         else (case close X N temp_client w of
                 (w, Some (Ok _)) \<Rightarrow> connect_until X N opts' host' client w
               | (w, Some (Err e)) \<Rightarrow> Some (w, Some (Err e))
               | (w, Some Panic) \<Rightarrow> Some (w, Some Panic)
               | (w, None) \<Rightarrow> Some (w, None))
     | (w, Some (Err e)) \<Rightarrow> Some (w, Some (Err e))
     | (w, Some Panic) \<Rightarrow> Some (w, Some Panic)
     | (w, None) \<Rightarrow> Some (w, None))"

text \<open>As an asynchronous call: a loop without end is an endless wait.\<close>

definition balance ::
  "('t, 'u) externals \<Rightarrow> ('t, 'u, 'w) network \<Rightarrow> ClientOptions \<Rightarrow> string \<Rightarrow> nat \<Rightarrow>
     ('t, 'u, 'w, nat) client_async" where
  "balance X N opts' host' client w =
    (case connect_until X N opts' host' client w of Some r \<Rightarrow> r | None \<Rightarrow> (w, None))"

definition create_producer_client ::
  "('t, 'u) externals \<Rightarrow> ('t, 'u, 'w) network \<Rightarrow> Environment \<Rightarrow> string \<Rightarrow> string \<Rightarrow>
     (('t, 'u, 'w) world, nat, ProducerCreateError) async" where
  "create_producer_client X N env stream' name =
    (let opt_with_name = (client_options (options env))\<lparr>client_provided_name := name\<rparr> in
     await (lift_error ProducerClient (create_client_with_options X N opt_with_name)) (\<lambda>client.
     await (lift_error ProducerClient (metadata X N client [stream'])) (\<lambda>found.
       case map_of found stream' of
         Some md \<Rightarrow>
           lift_error ProducerClient
            (if load_balancer_mode (client_options (options env))
             then balance X N (client_options (options env)) (client_Broker.host (leader md)) client
             else await (close X N client) (\<lambda>_. connect X N (opt_with_name
               \<lparr>ClientOptions.host := client_Broker.host (leader md),
                ClientOptions.port := ucast (client_Broker.port (leader md))\<rparr>)))
       | None \<Rightarrow> ready (Err (ProducerStreamDoesNotExist stream')))))"

definition create_consumer_client ::
  "('t, 'u) externals \<Rightarrow> ('t, 'u, 'w) network \<Rightarrow> (client_Broker list \<Rightarrow> client_Broker option) \<Rightarrow>
     Environment \<Rightarrow> string \<Rightarrow> string \<Rightarrow> (('t, 'u, 'w) world, nat, ConsumerCreateError) async" where
  "create_consumer_client X N pick env stream' name =
    (let opt_with_name = (client_options (options env))\<lparr>client_provided_name := name\<rparr> in
     await (lift_error ConsumerClient (create_client_with_options X N opt_with_name)) (\<lambda>client.
     await (lift_error ConsumerClient (metadata X N client [stream'])) (\<lambda>found.
       case map_of found stream' of
         Some md \<Rightarrow>
           (case pick (replicas md) of
              Some replica \<Rightarrow>
                lift_error ConsumerClient
                 (if load_balancer_mode (client_options (options env))
                  then balance X N (client_options (options env)) (client_Broker.host replica) client
                  else await (close X N client) (\<lambda>_. connect X N ((client_options (options env))
                    \<lparr>ClientOptions.host := client_Broker.host replica,
                     ClientOptions.port := ucast (client_Broker.port replica)\<rparr>)))
            | None \<Rightarrow> ready (Ok client))
       | None \<Rightarrow> ready (Err (ConsumerStreamDoesNotExist stream')))))"

section \<open>Deleting streams\<close>

definition environment_delete_stream ::
  "('t, 'u) externals \<Rightarrow> ('t, 'u, 'w) network \<Rightarrow> Environment \<Rightarrow> string \<Rightarrow>
     (('t, 'u, 'w) world, unit, StreamDeleteError) async" where
  "environment_delete_stream X N env stream' =
     await (lift_error DeleteClient (create_client X N env)) (\<lambda>client.
     await (lift_error DeleteClient (delete_stream X N client stream')) (\<lambda>response.
     await (lift_error DeleteClient (close X N client)) (\<lambda>_. ready (
       if GenericResponse.code response = ResponseOk then Ok ()
       else Err (DeleteStream stream' (GenericResponse.code response))))))"

definition environment_delete_super_stream ::
  "('t, 'u) externals \<Rightarrow> ('t, 'u, 'w) network \<Rightarrow> Environment \<Rightarrow> string \<Rightarrow>
     (('t, 'u, 'w) world, unit, StreamDeleteError) async" where
  "environment_delete_super_stream X N env super_stream' =
     await (lift_error DeleteClient (create_client X N env)) (\<lambda>client.
     await (lift_error DeleteClient (delete_super_stream X N client super_stream')) (\<lambda>response.
     await (lift_error DeleteClient (close X N client)) (\<lambda>_. ready (
       if GenericResponse.code response = ResponseOk then Ok ()
       else Err (DeleteStream super_stream' (GenericResponse.code response))))))"

section \<open>Where the clients end up\<close>

lemma lift_error_OkE:
  assumes "lift_error f m w = (w', Some (Ok x))"
  shows "m w = (w', Some (Ok x))"
  using assms by (auto simp: lift_error_def split: prod.splits option.splits result.splits)

lemma connect_until_Ok:
  assumes "connect_until X N opts' host' client w = Some y" "client < length (clients w)"
    and "y = (w', Some (Ok i))"
  shows "opts (clients w' ! i) = opts' \<and>
    map_of (connection_properties (state (clients w' ! i))) ''advertised_host'' = Some host'"
  using assms(2,3)
proof (induction rule: connect_until.raw_induct [OF _ assms(1)])
  case (1 rec X N opts' host' client w y)
  note IH = "1"(1) and body = "1"(2) and client = "1"(3) and y = "1"(4)
  obtain w1 temp where conn: "connect X N opts' w = (w1, Some (Ok temp))"
    using body y by (cases "connect X N opts' w") (auto split: option.splits result.splits)
  note new = connect_Ok [OF conn]
  show ?case
  proof (cases "map_of (connection_properties (state (clients w1 ! temp))) ''advertised_host'' = Some host'")
    case True
    with body y conn have "await (close X N client) (\<lambda>_. ready (Ok temp)) w1 = (w', Some (Ok i))"
      by simp
    then obtain u w2 where "close X N client w1 = (w2, Some (Ok u))" "w2 = w'" "i = temp"
      by (rule await_OkE) (auto simp: async_defs)
    then have "clients w' ! i = clients w1 ! temp"
      using confinedD [OF confined_close, of X N client w1] client new(1)
      by (auto simp: touches_def)
    with True new(3) show ?thesis by simp
  next
    case False
    with body conn y obtain w2 u where w2: "close X N temp w1 = (w2, Some (Ok u))"
      "rec X N opts' host' client w2 = Some y"
      by (cases "close X N temp w1") (auto split: option.splits result.splits)
    have "client < length (clients w2)"
      using confinedD [OF confined_close w2(1)] client new(1,2) by (simp add: touches_def)
    with IH [OF w2(2)] y show ?thesis by blast
  qed
qed

lemma balance_Ok:
  assumes "balance X N opts' host' client w = (w', Some (Ok i))" "client < length (clients w)"
  shows "opts (clients w' ! i) = opts' \<and>
    map_of (connection_properties (state (clients w' ! i))) ''advertised_host'' = Some host'"
  using connect_until_Ok [of X N opts' host' client w] assms
  by (auto simp: balance_def split: option.splits)

lemma reconnect_Ok:
  assumes "await (close X N client) (\<lambda>_. connect X N opts') w = (w', Some (Ok i))"
  shows "opts (clients w' ! i) = opts'"
  using assms by (rule await_OkE) (rule connect_Ok(3))

text \<open>The first connection and the answer of the broker.\<close>

lemma lookup_stream:
  assumes "await (lift_error f (connect X N opts')) (\<lambda>client.
      await (lift_error f (metadata X N client [stream'])) (k client)) w = (w', Some (Ok i))"
  obtains w1 client w2 found where "connect X N opts' w = (w1, Some (Ok client))"
    "metadata X N client [stream'] w1 = (w2, Some (Ok found))" "client < length (clients w2)"
    "opts (clients w2 ! client) = opts'" "k client found w2 = (w', Some (Ok i))"
proof -
  from assms obtain client w1 where w1: "connect X N opts' w = (w1, Some (Ok client))"
    "await (lift_error f (metadata X N client [stream'])) (k client) w1 = (w', Some (Ok i))"
    by (rule await_OkE) (auto dest: lift_error_OkE)
  from w1(2) obtain found w2 where w2: "metadata X N client [stream'] w1 = (w2, Some (Ok found))"
    "k client found w2 = (w', Some (Ok i))"
    by (rule await_OkE) (auto dest: lift_error_OkE)
  have "client < length (clients w2)" "opts (clients w2 ! client) = opts'"
    using confinedD [OF confined_requests(10) w2(1)] connect_Ok [OF w1(1)]
    by (auto simp: touches_def)
  with w1(1) w2 that show thesis by blast
qed

section \<open>Properties of the environment\<close>

text \<open>C33.  A producer client that is created is connected to the leader that the broker named for
  the stream.  Without a load balancer it is connected to the leader's host and port, with the
  options of the environment under the name that was given.  Behind a load balancer it is connected
  to a node that advertises the leader's host, with the options of the environment as they are: the
  given name is only used for the first, temporary connection and is lost.\<close>

theorem producer_client_at_leader:
  assumes "create_producer_client X N env stream' name w = (w', Some (Ok i))"
  shows "\<exists>w1 client w2 found md.
    connect X N ((client_options (options env))\<lparr>client_provided_name := name\<rparr>) w = (w1, Some (Ok client)) \<and>
    metadata X N client [stream'] w1 = (w2, Some (Ok found)) \<and> map_of found stream' = Some md \<and>
    (if load_balancer_mode (client_options (options env))
     then opts (clients w' ! i) = client_options (options env) \<and>
       map_of (connection_properties (state (clients w' ! i))) ''advertised_host'' =
         Some (client_Broker.host (leader md))
     else opts (clients w' ! i) = (client_options (options env))
       \<lparr>client_provided_name := name, ClientOptions.host := client_Broker.host (leader md),
        ClientOptions.port := ucast (client_Broker.port (leader md))\<rparr>)"
proof -
  let ?opts = "(client_options (options env))\<lparr>client_provided_name := name\<rparr>"
  from assms obtain w1 client w2 found where found:
    "connect X N ?opts w = (w1, Some (Ok client))"
    "metadata X N client [stream'] w1 = (w2, Some (Ok found))" "client < length (clients w2)"
    and k: "(case map_of found stream' of
         Some md \<Rightarrow>
           lift_error ProducerClient
            (if load_balancer_mode (client_options (options env))
             then balance X N (client_options (options env)) (client_Broker.host (leader md)) client
             else await (close X N client) (\<lambda>_. connect X N (?opts
               \<lparr>ClientOptions.host := client_Broker.host (leader md),
                ClientOptions.port := ucast (client_Broker.port (leader md))\<rparr>)))
       | None \<Rightarrow> ready (Err (ProducerStreamDoesNotExist stream'))) w2 = (w', Some (Ok i))"
    unfolding create_producer_client_def create_client_with_options_def Let_def
    by (rule lookup_stream)
  then obtain md where md: "map_of found stream' = Some md"
    by (cases "map_of found stream'") (auto simp: async_defs)
  show ?thesis
  proof (intro exI conjI)
    show "if load_balancer_mode (client_options (options env))
     then opts (clients w' ! i) = client_options (options env) \<and>
       map_of (connection_properties (state (clients w' ! i))) ''advertised_host'' =
         Some (client_Broker.host (leader md))
     else opts (clients w' ! i) = ?opts\<lparr>ClientOptions.host := client_Broker.host (leader md),
        ClientOptions.port := ucast (client_Broker.port (leader md))\<rparr>"
      using k md found(3) by (auto dest!: lift_error_OkE balance_Ok reconnect_Ok split: if_splits)
  qed (use found md in auto)
qed

definition metadata_answer :: "(i64, bytes) Response" where
  "metadata_answer = respond (ResponseKind.Metadata (sample_metadata\<lparr>MetadataResponse.correlation_id := 5\<rparr>))"

definition sample_environment :: Environment where
  "sample_environment = \<lparr>options = default_EnvironmentOptions\<rparr>"

definition lookup_script :: "(i64, bytes) MessageResult list list" where
  "lookup_script = handshake_script @ [[Some (Ok metadata_answer)]]"

text \<open>A run on the scripted network up to the metadata of the stream \<open>''s''\<close>.\<close>

lemma scripted_lookup:
  assumes "net w = (out, lookup_script @ rest)"
  obtains c out1 d out2 where
    "connect byte_externals scripted opts' w =
       (with_client w c (out1, [Some (Ok metadata_answer)] # rest), Some (Ok (length (clients w))))"
    "metadata byte_externals scripted (length (clients w)) [''s'']
       (with_client w c (out1, [Some (Ok metadata_answer)] # rest)) =
       (with_client w (c\<lparr>dispatcher := d\<rparr>) (out2, rest), Some (Ok (metadata_from_response sample_metadata)))"
    "waiting_client 6 (c\<lparr>dispatcher := d\<rparr>)" "\<not> channel_closed c" "connection c = 0" "opts c = opts'"
    "filtering_supported c"
proof -
  have "net w = (out, handshake_script @ [Some (Ok metadata_answer)] # rest)"
    using assms by (simp add: lookup_script_def)
  from scripted_connect [OF this, of opts']
  obtain c out1 where c: "connect byte_externals scripted opts' w =
       (with_client w c (out1, [Some (Ok metadata_answer)] # rest), Some (Ok (length (clients w))))"
    "waiting_client 5 c" "\<not> channel_closed c" "connection c = 0" "opts c = opts'" "filtering_supported c" .
  obtain d out2 where d: "waiting_client (5 + 1) (c\<lparr>dispatcher := d\<rparr>)"
    "send_and_receive byte_externals scripted (length (clients w)) ''MetadataResponse''
       from_response_MetadataResponse (\<lambda>cid. RequestKind.Metadata (new_MetadataCommand cid [''s'']))
       (with_client w c (out1, [Some (Ok metadata_answer)] # rest)) =
       (with_client w (c\<lparr>dispatcher := d\<rparr>) (out2, rest),
        Some (Ok (sample_metadata\<lparr>MetadataResponse.correlation_id := 5\<rparr>)))"
    by (rule scripted_exchange [where r = metadata_answer and w = w and out = out1 and rest = rest
          and type_name = "''MetadataResponse''" and from_response = from_response_MetadataResponse
          and x = "sample_metadata\<lparr>MetadataResponse.correlation_id := 5\<rparr>"
          and msg_factory = "\<lambda>cid. RequestKind.Metadata (new_MetadataCommand cid [''s''])"
          and bs = "encode_MetadataCommand (new_MetadataCommand 5 [''s''])", OF c(2)])
       (simp_all add: encode_RequestKind_def metadata_answer_def respond_def answers_id_def
         response_correlation_id_def is_ConsumerUpdate_def from_response_MetadataResponse_def
         sample_metadata_def)
  have "metadata_from_response (sample_metadata\<lparr>MetadataResponse.correlation_id := 5\<rparr>) =
      metadata_from_response sample_metadata"
    by (simp add: metadata_from_response_def)
  with c d that show thesis by (simp add: metadata_def async_defs)
qed

lemma sample_leader:
  "map_of (metadata_from_response sample_metadata) ''s'' =
     Some \<lparr>stream = ''s'', response_code = ResponseOk,
       leader = \<lparr>client_Broker.host = ''a'', port = 5552\<rparr>,
       replicas = [\<lparr>client_Broker.host = ''a'', port = 5552\<rparr>]\<rparr>"
  by (simp add: metadata_from_response_def sample_metadata_def metadata_brokers_def collect_map_def
      map_filter_simps)

definition producer_script :: "(i64, bytes) MessageResult list list" where
  "producer_script = lookup_script @ [Some (Ok (close_ok 6))] # handshake_script"

lemma scripted_producer_client:
  assumes "net w = (out, producer_script @ rest)"
  obtains W c out' where
    "create_producer_client byte_externals scripted sample_environment ''s'' name w =
       (with_client W c (out', rest), Some (Ok (length (clients W))))"
    "waiting_client 5 c" "filtering_supported c"
proof -
  let ?opts = "default_ClientOptions\<lparr>client_provided_name := name\<rparr>"
  let ?leader = "?opts\<lparr>ClientOptions.host := ''a'', ClientOptions.port := 5552\<rparr>"
  let ?rest = "[Some (Ok (close_ok 6))] # handshake_script @ rest"
  have "net w = (out, lookup_script @ ?rest)" using assms by (simp add: producer_script_def)
  from scripted_lookup [OF this, of ?opts] obtain c out1 d out2 where run:
    "connect byte_externals scripted ?opts w =
       (with_client w c (out1, [Some (Ok metadata_answer)] # ?rest), Some (Ok (length (clients w))))"
    "metadata byte_externals scripted (length (clients w)) [''s'']
       (with_client w c (out1, [Some (Ok metadata_answer)] # ?rest)) =
       (with_client w (c\<lparr>dispatcher := d\<rparr>) (out2, ?rest),
        Some (Ok (metadata_from_response sample_metadata)))"
    "waiting_client 6 (c\<lparr>dispatcher := d\<rparr>)" "\<not> channel_closed c" "connection c = 0" .
  obtain c' out3 where c': "close byte_externals scripted (length (clients w))
      (with_client w (c\<lparr>dispatcher := d\<rparr>) (out2, ?rest)) =
      (with_client w c' (out3, handshake_script @ rest), Some (Ok ()))"
    by (rule scripted_close [OF run(3), of w out2 "handshake_script @ rest"]) (use run(4,5) in simp_all)
  let ?W = "with_client w c' (out3, handshake_script @ rest)"
  obtain c2 out4 where c2: "connect byte_externals scripted ?leader ?W =
      (with_client ?W c2 (out4, rest), Some (Ok (length (clients ?W))))"
    "waiting_client 5 c2" "filtering_supported c2"
    by (rule scripted_connect [of ?W out3 rest ?leader]) simp_all
  have "create_producer_client byte_externals scripted sample_environment ''s'' name w =
      (with_client ?W c2 (out4, rest), Some (Ok (length (clients ?W))))"
    using run(1,2) c' c2(1)
    by (simp add: create_producer_client_def create_client_with_options_def Let_def sample_environment_def
        default_EnvironmentOptions_def default_ClientOptions_def sample_leader)
  with that c2(2,3) show thesis by blast
qed

theorem producer_client_at_leader_witness:
  "\<exists>w' i. create_producer_client byte_externals scripted sample_environment ''s'' ''p''
       (scripted_world producer_script []) = (w', Some (Ok i)) \<and>
     client_provided_name (opts (clients w' ! i)) = ''p''"
proof -
  let ?w = "scripted_world producer_script []"
  have "net ?w = ([], producer_script @ [])" by (simp add: scripted_world_def)
  from scripted_producer_client [OF this, of "''p''"] obtain w' i where
    run: "create_producer_client byte_externals scripted sample_environment ''s'' ''p'' ?w = (w', Some (Ok i))"
    by blast
  from producer_client_at_leader [OF run] show ?thesis
    using run by (auto simp: sample_environment_def default_EnvironmentOptions_def default_ClientOptions_def)
qed

text \<open>A consumer client that is created is the first connection when the stream has no replica
  to pick, and otherwise a connection to one of the replicas the broker named; that connection
  carries the name of the environment's options, not the name given for the consumer.\<close>

theorem consumer_client_at_replica:
  assumes "create_consumer_client X N pick env stream' name w = (w', Some (Ok i))"
    and "\<And>bs b. pick bs = Some b \<Longrightarrow> b \<in> set bs"
  shows "\<exists>w1 client w2 found md.
    connect X N ((client_options (options env))\<lparr>client_provided_name := name\<rparr>) w = (w1, Some (Ok client)) \<and>
    metadata X N client [stream'] w1 = (w2, Some (Ok found)) \<and> map_of found stream' = Some md \<and>
    (case pick (replicas md) of
       None \<Rightarrow> i = client \<and> w' = w2
     | Some replica \<Rightarrow> replica \<in> set (replicas md) \<and>
         (if load_balancer_mode (client_options (options env))
          then opts (clients w' ! i) = client_options (options env) \<and>
            map_of (connection_properties (state (clients w' ! i))) ''advertised_host'' =
              Some (client_Broker.host replica)
          else opts (clients w' ! i) = (client_options (options env))
            \<lparr>ClientOptions.host := client_Broker.host replica,
             ClientOptions.port := ucast (client_Broker.port replica)\<rparr>))"
proof -
  let ?opts = "(client_options (options env))\<lparr>client_provided_name := name\<rparr>"
  from assms(1) obtain w1 client w2 found where found:
    "connect X N ?opts w = (w1, Some (Ok client))"
    "metadata X N client [stream'] w1 = (w2, Some (Ok found))" "client < length (clients w2)"
    and k: "(case map_of found stream' of
         Some md \<Rightarrow>
           (case pick (replicas md) of
              Some replica \<Rightarrow>
                lift_error ConsumerClient
                 (if load_balancer_mode (client_options (options env))
                  then balance X N (client_options (options env)) (client_Broker.host replica) client
                  else await (close X N client) (\<lambda>_. connect X N ((client_options (options env))
                    \<lparr>ClientOptions.host := client_Broker.host replica,
                     ClientOptions.port := ucast (client_Broker.port replica)\<rparr>)))
            | None \<Rightarrow> ready (Ok client))
       | None \<Rightarrow> ready (Err (ConsumerStreamDoesNotExist stream'))) w2 = (w', Some (Ok i))"
    unfolding create_consumer_client_def create_client_with_options_def Let_def
    by (rule lookup_stream)
  then obtain md where md: "map_of found stream' = Some md"
    by (cases "map_of found stream'") (auto simp: async_defs)
  have "case pick (replicas md) of
       None \<Rightarrow> i = client \<and> w' = w2
     | Some replica \<Rightarrow> replica \<in> set (replicas md) \<and>
         (if load_balancer_mode (client_options (options env))
          then opts (clients w' ! i) = client_options (options env) \<and>
            map_of (connection_properties (state (clients w' ! i))) ''advertised_host'' =
              Some (client_Broker.host replica)
          else opts (clients w' ! i) = (client_options (options env))
            \<lparr>ClientOptions.host := client_Broker.host replica,
             ClientOptions.port := ucast (client_Broker.port replica)\<rparr>)"
    using k md found(3) assms(2)
    by (cases "pick (replicas md)")
       (auto simp: async_defs dest!: lift_error_OkE balance_Ok reconnect_Ok split: if_splits)
  with found md show ?thesis by blast
qed

theorem consumer_client_at_replica_witness:
  "\<exists>w'. create_consumer_client byte_externals scripted (\<lambda>_. None) sample_environment ''s'' ''p''
       (scripted_world lookup_script []) = (w', Some (Ok 0)) \<and>
     client_provided_name (opts (clients w' ! 0)) = ''p''"
proof -
  let ?w = "scripted_world lookup_script []"
  let ?opts = "default_ClientOptions\<lparr>client_provided_name := ''p''\<rparr>"
  have w: "net ?w = ([], lookup_script @ [])" "clients ?w = []" by (simp_all add: scripted_world_def)
  from scripted_lookup [OF w(1), of ?opts, unfolded w(2) list.size] obtain c out1 d out2 where run:
    "connect byte_externals scripted ?opts ?w =
       (with_client ?w c (out1, [[Some (Ok metadata_answer)]]), Some (Ok 0))"
    "metadata byte_externals scripted 0 [''s'']
       (with_client ?w c (out1, [[Some (Ok metadata_answer)]])) =
       (with_client ?w (c\<lparr>dispatcher := d\<rparr>) (out2, []), Some (Ok (metadata_from_response sample_metadata)))"
    "opts c = ?opts" .
  let ?w' = "with_client ?w (c\<lparr>dispatcher := d\<rparr>) (out2, [])"
  have "create_consumer_client byte_externals scripted (\<lambda>_. None) sample_environment ''s'' ''p'' ?w =
      (?w', Some (Ok 0))"
    using run(1,2)
    by (simp add: create_consumer_client_def create_client_with_options_def Let_def sample_environment_def
        default_EnvironmentOptions_def sample_leader async_defs)
  from this consumer_client_at_replica [OF this] run show ?thesis
    by (auto simp: sample_environment_def default_EnvironmentOptions_def sample_leader w(2)
        with_client_def)
qed

end
