(* ===== verification/Stream_Creator.thy ===== *)
theory Stream_Creator
  imports Environment
begin

text \<open>
  Creating streams and super streams (\<open>src/stream_creator.rs\<close>, \<open>src/byte_capacity.rs\<close>).

  The capacities are multiplied as in a release build, where \<open>u64\<close> wraps around.  A \<open>Duration\<close> is
  its whole seconds and the nanoseconds of the rest.
\<close>

section \<open>Capacities\<close>

definition KILOBYTE :: u64 where "KILOBYTE = 1000"
definition MEGABYTE :: u64 where "MEGABYTE = 1000 * KILOBYTE"
definition GIGABYTE :: u64 where "GIGABYTE = 1000 * MEGABYTE"
definition TERABYTE :: u64 where "TERABYTE = 1000 * GIGABYTE"

datatype ByteCapacity = B u64 | KB u64 | MB u64 | GB u64 | TB u64

fun capacity_bytes :: "ByteCapacity \<Rightarrow> u64" where
  "capacity_bytes (B x) = x"
| "capacity_bytes (KB x) = x * KILOBYTE"
| "capacity_bytes (MB x) = x * MEGABYTE"
| "capacity_bytes (GB x) = x * GIGABYTE"
| "capacity_bytes (TB x) = x * TERABYTE"

section \<open>Decimal numbers\<close>

definition digit :: "nat \<Rightarrow> char" where
  "digit d = char_of (d + 48)"

fun show_nat :: "nat \<Rightarrow> string" where
  "show_nat n = (if n \<ge> 10 then show_nat (n div 10) else []) @ [digit (n mod 10)]"

declare show_nat.simps [simp del]

definition digits_value :: "string \<Rightarrow> nat" where
  "digits_value s = foldl (\<lambda>acc c. acc * 10 + (of_char c - 48)) 0 s"

section \<open>Stream creator\<close>

type_synonym Duration = "u64 \<times> u32"

datatype LeaderLocator = ClientLocal | RandomLeader | LeastLeaders

primrec leader_locator_str :: "LeaderLocator \<Rightarrow> string" where
  "leader_locator_str ClientLocal = ''client-local''"
| "leader_locator_str RandomLeader = ''random''"
| "leader_locator_str LeastLeaders = ''least-leaders''"

record StreamCreator =
  env :: Environment
  creator_options :: string_map

definition insert_option :: "string \<Rightarrow> string \<Rightarrow> StreamCreator \<Rightarrow> StreamCreator" where
  "insert_option k v c = c\<lparr>creator_options := AList.update k v (creator_options c)\<rparr>"

definition max_age :: "Duration \<Rightarrow> StreamCreator \<Rightarrow> StreamCreator" where
  "max_age d = insert_option ''max-age'' (show_nat (unat (fst d)) @ ''s'')"

definition leader_locator :: "LeaderLocator \<Rightarrow> StreamCreator \<Rightarrow> StreamCreator" where
  "leader_locator l = insert_option ''queue-leader-locator'' (leader_locator_str l)"

definition max_length :: "ByteCapacity \<Rightarrow> StreamCreator \<Rightarrow> StreamCreator" where
  "max_length b = insert_option ''max-length-bytes'' (show_nat (unat (capacity_bytes b)))"

definition max_segment_size :: "ByteCapacity \<Rightarrow> StreamCreator \<Rightarrow> StreamCreator" where
  "max_segment_size b =
     insert_option ''stream-max-segment-size-bytes'' (show_nat (unat (capacity_bytes b)))"

definition new_StreamCreator :: "Environment \<Rightarrow> StreamCreator" where
  "new_StreamCreator env' = leader_locator LeastLeaders \<lparr>env = env', creator_options = []\<rparr>"

definition environment_stream_creator :: "Environment \<Rightarrow> StreamCreator" where
  "environment_stream_creator env' = new_StreamCreator env'"

datatype StreamCreateError =
    CreateStream (created_stream: string) (create_status: ResponseCode)
  | CreateClient ClientError

definition creator_create ::
  "('t, 'u) externals \<Rightarrow> ('t, 'u, 'w) network \<Rightarrow> StreamCreator \<Rightarrow> string \<Rightarrow>
     (('t, 'u, 'w) world, unit, StreamCreateError) async" where
  "creator_create X N c stream' =
     await (lift_error CreateClient (create_client X N (env c))) (\<lambda>client.
     await (lift_error CreateClient (create_stream X N client stream' (creator_options c))) (\<lambda>response.
     await (lift_error CreateClient (close X N client)) (\<lambda>_. ready (
       if GenericResponse.code response = ResponseOk then Ok ()
       else Err (CreateStream stream' (GenericResponse.code response))))))"

text \<open>The binding keys and the names of the partitions of a super stream.\<close>

definition super_stream_keys :: "nat \<Rightarrow> string list option \<Rightarrow> string list" where
  "super_stream_keys number_of_partitions binding_keys' =
    (case binding_keys' of
       None \<Rightarrow> map show_nat [0..<number_of_partitions]
     | Some keys \<Rightarrow> keys)"

definition super_stream_partitions :: "string \<Rightarrow> string list \<Rightarrow> string list" where
  "super_stream_partitions super_stream' keys = map (\<lambda>k. super_stream' @ ''-'' @ k) keys"

definition creator_create_super_stream ::
  "('t, 'u) externals \<Rightarrow> ('t, 'u, 'w) network \<Rightarrow> StreamCreator \<Rightarrow> string \<Rightarrow> nat \<Rightarrow>
     string list option \<Rightarrow> (('t, 'u, 'w) world, unit, StreamCreateError) async" where
  "creator_create_super_stream X N c super_stream' number_of_partitions binding_keys' =
    (let keys = super_stream_keys number_of_partitions binding_keys' in
     await (lift_error CreateClient (create_client X N (env c))) (\<lambda>client.
     await (lift_error CreateClient (create_super_stream X N client super_stream'
       (super_stream_partitions super_stream' keys) keys (creator_options c))) (\<lambda>response.
     await (lift_error CreateClient (close X N client)) (\<lambda>_. ready (
       if GenericResponse.code response = ResponseOk then Ok ()
       else Err (CreateStream super_stream' (GenericResponse.code response)))))))"

section \<open>Properties of the stream creator\<close>

fun capacity_value :: "ByteCapacity \<Rightarrow> nat" where
  "capacity_value (B x) = unat x"
| "capacity_value (KB x) = unat x * 10 ^ 3"
| "capacity_value (MB x) = unat x * 10 ^ 6"
| "capacity_value (GB x) = unat x * 10 ^ 9"
| "capacity_value (TB x) = unat x * 10 ^ 12"

lemma unit_bytes:
  "unat KILOBYTE = 10 ^ 3" "unat MEGABYTE = 10 ^ 6" "unat GIGABYTE = 10 ^ 9" "unat TERABYTE = 10 ^ 12"
  by (simp_all add: KILOBYTE_def MEGABYTE_def GIGABYTE_def TERABYTE_def)

lemma capacity_bytes_mod: "unat (capacity_bytes c) = capacity_value c mod 2 ^ 64"
proof -
  have "unat x = unat x mod 18446744073709551616" for x :: u64
    using unsigned_less [of x, where ?'a = nat] by simp
  then show ?thesis by (cases c) (simp_all add: unat_word_ariths unit_bytes)
qed

text \<open>A capacity in bytes is the exact product of its number and its unit as long as that fits
  64 bits, and only then: beyond, the multiplication wraps around and the broker is told a smaller
  limit.\<close>

theorem capacity_exact:
  "unat (capacity_bytes c) = capacity_value c mod 2 ^ 64 \<and>
   (unat (capacity_bytes c) = capacity_value c \<longleftrightarrow> capacity_value c < 2 ^ 64)"
  unfolding capacity_bytes_mod by (metis mod_less mod_less_divisor zero_less_numeral zero_less_power)

lemma of_digit: "d < 10 \<Longrightarrow> of_char (digit d) - 48 = d"
  by (simp add: digit_def)

lemma digits_value_show [simp]: "digits_value (show_nat n) = n"
proof (induction n rule: show_nat.induct)
  case (1 n)
  then show ?case
    by (subst show_nat.simps) (simp add: digits_value_def of_digit)
qed

lemma show_nat_inj [simp]: "show_nat m = show_nat n \<longleftrightarrow> m = n"
  by (metis digits_value_show)

text \<open>A super stream of \<open>n\<close> partitions without explicit binding keys gets the keys \<open>0\<close> to
  \<open>n - 1\<close> in decimal and as many partitions with pairwise different names.\<close>

theorem super_stream_names:
  "length (super_stream_partitions s (super_stream_keys n None)) = n \<and>
   distinct (super_stream_partitions s (super_stream_keys n None)) \<and>
   map digits_value (super_stream_keys n None) = [0..<n]"
  by (simp add: super_stream_partitions_def super_stream_keys_def distinct_map inj_on_def comp_def)

end
