(* ===== verification/Components.thy ===== *)
theory Components
  imports Environment "HOL-Library.Sublist"
begin

text \<open>
  What producers and consumers share.

  The state of a component contains the state of the clients; a call on a client runs on that
  part (\<open>zoom\<close>).  The locale \<open>part\<close> states what it needs of reading and writing the part, and gives
  how such calls compose.  The messages of the broker that the connection's task passes on to
  the user of a client are those of \<open>user_message\<close>.
\<close>

section \<open>Calls on a part of the state\<close>

definition zoom ::
  "('s \<Rightarrow> 'w) \<Rightarrow> ('w \<Rightarrow> 's \<Rightarrow> 's) \<Rightarrow> ('w, 'a, 'e) async \<Rightarrow> ('s, 'a, 'e) async" where
  "zoom get put m s = (case m (get s) of (w, r) \<Rightarrow> (put w s, r))"

locale part =
  fixes get :: "'s \<Rightarrow> 'w" and put :: "'w \<Rightarrow> 's \<Rightarrow> 's"
  assumes get_put [simp]: "get (put w s) = w"
    and put_get [simp]: "put (get s) s = s"
    and put_put [simp]: "put w' (put w s) = put w' s"
begin

lemma zoom_run: "m (get s) = (w, r) \<Longrightarrow> zoom get put m s = (put w s, r)"
  by (simp add: zoom_def)

lemma zoom_OkE:
  assumes "zoom get put m s = (s', Some (Ok x))"
  obtains w where "m (get s) = (w, Some (Ok x))" "s' = put w s"
  using assms by (auto simp: zoom_def split: prod.splits)

lemma zoom_get [simp]: "get (fst (zoom get put m s)) = fst (m (get s))"
  by (simp add: zoom_def split: prod.split)

lemma zoom_ready [simp]: "zoom get put (ready r) = ready r"
  by (simp add: fun_eq_iff zoom_def async_defs)

lemma zoom_await: "zoom get put (await m k) = await (zoom get put m) (\<lambda>x. zoom get put (k x))"
  by (simp add: fun_eq_iff zoom_def await_def split: prod.split option.split result.split)

lemma zoom_lift_error: "zoom get put (lift_error f m) = lift_error f (zoom get put m)"
  by (simp add: fun_eq_iff zoom_def lift_error_def split: prod.split option.split result.split)

end

section \<open>Errors and endings\<close>

text \<open>An \<open>unwrap\<close> of the outcome of a call.\<close>

definition unwrap_async :: "('s, 'a, 'e) async \<Rightarrow> ('s, 'a, 'f) async" where
  "unwrap_async m s =
    (case m s of
       (s', Some (Ok x)) \<Rightarrow> (s', Some (Ok x))
     | (s', Some _) \<Rightarrow> (s', Some Panic)
     | (s', None) \<Rightarrow> (s', None))"

lemma unwrap_async_Ok [simp]: "m s = (s', Some (Ok x)) \<Longrightarrow> unwrap_async m s = (s', Some (Ok x))"
  by (simp add: unwrap_async_def)

lemma unwrap_async_Err [simp]: "m s = (s', Some (Err e)) \<Longrightarrow> unwrap_async m s = (s', Some Panic)"
  by (simp add: unwrap_async_def)

lemma unwrap_async_OkE: "unwrap_async m s = (s', Some (Ok x)) \<Longrightarrow> m s = (s', Some (Ok x))"
  by (auto simp: unwrap_async_def split: prod.splits option.splits result.splits)

lemma lift_error_fst [simp]: "fst (lift_error f m s) = fst (m s)"
  by (simp add: lift_error_def split: prod.split option.split result.split)

lemma await_ready_fst [simp]: "fst (await m (\<lambda>_. ready r) s) = fst (m s)"
  by (simp add: await_def async_defs split: prod.split option.split result.split)

lemma await_OkE':
  assumes "await m k s = (s'', Some (Ok y))"
  shows "\<exists>x s'. m s = (s', Some (Ok x)) \<and> k x s' = (s'', Some (Ok y))"
  using assms by (rule await_OkE) blast

section \<open>Growing parts of the state\<close>

text \<open>A call that only adds to a list of the state, whatever its outcome.\<close>

definition grows :: "('s \<Rightarrow> 'x list) \<Rightarrow> ('s, 'a, 'e) async \<Rightarrow> bool" where
  "grows f m \<longleftrightarrow> (\<forall>s. prefix (f s) (f (fst (m s))))"

named_theorems grows_intros \<open>calls that only add to a list\<close>

lemma growsD: "grows f m \<Longrightarrow> m s = (s', r) \<Longrightarrow> prefix (f s) (f s')"
  unfolding grows_def by (metis fst_conv)

lemma grows_ready [grows_intros]: "grows f (ready r)"
  by (simp add: grows_def async_defs)

lemma grows_await [grows_intros]:
  assumes "grows f m" "\<And>x. grows f (k x)"
  shows "grows f (await m k)"
  unfolding grows_def
proof
  fix s
  obtain s' r where m: "m s = (s', r)" by (cases "m s")
  have "prefix (f s) (f s')" by (rule growsD [OF assms(1) m])
  moreover have "prefix (f s') (f (fst (k x s')))" for x
    using assms(2) by (simp add: grows_def)
  ultimately show "prefix (f s) (f (fst (await m k s)))"
    using m by (auto simp: await_def split: option.split result.split intro: prefix_order.trans)
qed

lemma grows_await_result [grows_intros]:
  assumes "grows f m" "\<And>x. grows f (k x)"
  shows "grows f (await_result m k)"
  unfolding grows_def
proof
  fix s
  obtain s' r where m: "m s = (s', r)" by (cases "m s")
  have "prefix (f s) (f s')" by (rule growsD [OF assms(1) m])
  moreover have "prefix (f s') (f (fst (k x s')))" for x
    using assms(2) by (simp add: grows_def)
  ultimately show "prefix (f s) (f (fst (await_result m k s)))"
    using m by (auto simp: await_result_def split: option.split result.split intro: prefix_order.trans)
qed

lemma grows_lift_error [grows_intros]: "grows f m \<Longrightarrow> grows f (lift_error g m)"
  by (simp add: grows_def)

lemma grows_same: "(\<And>s. f (fst (m s)) = f s) \<Longrightarrow> grows f m"
  by (simp add: grows_def)

section \<open>Messages for the user of a client\<close>

definition user_message :: "('t, 'u) Response \<Rightarrow> bool" where
  "user_message r \<longleftrightarrow> (response_correlation_id r = None \<or> is_ConsumerUpdate (Response.kind r)) \<and>
    (case Response.kind r of ResponseKind.Tunes _ \<Rightarrow> False | ResponseKind.Heartbeat _ \<Rightarrow> False | _ \<Rightarrow> True)"

lemma poll_user_message:
  assumes "i < length (clients w)" "task_running (clients w ! i)"
    and "DispatcherState.handler (dispatcher (clients w ! i))" "handler (state (clients w ! i))"
    and "inbox (clients w ! i) = [Some (Ok r)]" "user_message r"
  shows "poll_connection X N i w =
    (update_client i (\<lambda>c. c\<lparr>inbox := [], spawned := spawned c @ [Some (Ok r)]\<rparr>) w, Some (Ok ()))"
proof -
  let ?c = "clients w ! i"
  have item: "handle_item r (dispatcher ?c) = (dispatcher ?c, [Some (Ok r)])"
    using assms(3,6) by (auto simp: handle_item_def notify_def user_message_def split: option.split)
  have same: "c\<lparr>inbox := [], dispatcher := dispatcher c\<rparr> = c\<lparr>inbox := []\<rparr>" for c :: "('a, 'b) Client"
    by (cases c) simp
  have "handle_message X N i (Some (Ok r)) = spawn_handler i (Some (Ok r))"
    using assms(6) by (auto simp: handle_message_def user_message_def split: ResponseKind.splits)
  then show ?thesis
    using assms(1-5)
    by (simp add: poll_connection_def item spawn_handler_def async_defs)
       (simp add: update_client_def same)
qed

text \<open>A connected client with a handler.\<close>

definition handled_client :: "(i64, bytes) Client" where
  "handled_client = (let c = sample_client in c\<lparr>state := (state c)\<lparr>handler := True\<rparr>\<rparr>)"

lemma handled_client_simps [simp]:
  "task_running handled_client" "inbox handled_client = []" "sink handled_client = []"
  "connection handled_client = 0" "\<not> closed (dispatcher handled_client)"
  "DispatcherState.correlation_id (dispatcher handled_client) = 0" "spawned handled_client = []"
  "dispatcher_inv (dispatcher handled_client)" "handler (state handled_client)"
  "DispatcherState.handler (dispatcher handled_client)"
  by (simp_all add: handled_client_def Let_def)
     (simp_all add: sample_client_def new_Client_def set_handler_def)

end
