(* ===== verification/Producer.thy ===== *)
theory Producer
  imports Components
begin

text \<open>
  Producers (\<open>src/producer.rs\<close>).

  The state is that of the clients together with all producers; a producer is its index.  A
  callback is a value of the type \<open>'cb\<close>, or the sending half of a channel when the caller waits
  for the confirmation; the calls of callbacks are listed in \<open>callback_calls\<close>, what was sent to
  the channels in \<open>confirm_channels\<close>.

  The task that flushes the accumulator runs \<open>producer_batch_send\<close> at every tick, and the
  messages of the connection are handled by spawned tasks (\<open>run_handlers\<close>).  A caller that waits for a
  confirmation lets them run (\<open>background\<close>).  The interleaving of several tasks on the
  accumulator is the subject of the theory \<open>Accumulator\<close>.
\<close>

section \<open>Errors and data\<close>

datatype ProducerPublishError =
    PublishCreate (publish_stream: string) (publish_publisher: u8) (publish_status: ResponseCode)
  | PublishBatch string
  | PublishClosed
  | PublishConfirmation string
  | PublishClient ClientError

datatype ProducerCloseError =
    CloseProducer (closed_stream: string) (close_status: ResponseCode)
  | ProducerAlreadyClosed
  | CloseProducerClient ClientError

record ('t, 'u) ConfirmationStatus =
  publishing_id :: u64
  confirmed :: bool
  status :: ResponseCode
  message :: "('t, 'u) Message"

datatype 'cb Callback = UserCallback 'cb | ConfirmSender nat

record ('t, 'u, 'cb) ProducerMessageWaiter =
  cb :: "'cb Callback"
  msg :: "('t, 'u) Message"

record ('t, 'u) MessageAccumulator =
  queue :: "('t, 'u) ClientMessage list"
  capacity :: nat
  message_count :: u64

record ('t, 'u, 'cb) ProducerInternal =
  client :: nat
  stream :: string
  producer_id :: u8
  batch_size :: nat
  publish_sequence :: u64
  waiting_confirmations :: "(u64 \<times> ('t, 'u, 'cb) ProducerMessageWaiter) list"
  producer_closed :: bool
  accumulator :: "('t, 'u) MessageAccumulator"
  publish_version :: u16
  filter_value_extractor :: "(('t, 'u) Message \<Rightarrow> string) option"

record ('t, 'u, 'w, 'cb) producer_system =
  base :: "('t, 'u, 'w) world"
  producers :: "('t, 'u, 'cb) ProducerInternal list"
  callback_calls :: "('cb \<times> ('t, 'u) ConfirmationStatus) list"
  confirm_channels :: "('t, 'u) ConfirmationStatus list list"

type_synonym ('t, 'u, 'w, 'cb, 'a, 'e) producer_async =
  "(('t, 'u, 'w, 'cb) producer_system, 'a, 'e) async"

definition update_producer ::
  "nat \<Rightarrow> (('t, 'u, 'cb) ProducerInternal \<Rightarrow> ('t, 'u, 'cb) ProducerInternal) \<Rightarrow>
     ('t, 'u, 'w, 'cb) producer_system \<Rightarrow> ('t, 'u, 'w, 'cb) producer_system" where
  "update_producer p f s = s\<lparr>producers := (producers s)[p := f (producers s ! p)]\<rparr>"

text \<open>A call on a client.\<close>

definition on_base ::
  "(('t, 'u, 'w) world, 'a, 'e) async \<Rightarrow> ('t, 'u, 'w, 'cb, 'a, 'e) producer_async" where
  "on_base m s = (case m (base s) of (w, r) \<Rightarrow> (s\<lparr>base := w\<rparr>, r))"

section \<open>Message accumulator\<close>

text \<open>A channel without capacity panics when it is made.\<close>

definition new_MessageAccumulator :: "nat \<Rightarrow> (('t, 'u) MessageAccumulator, 'e) result" where
  "new_MessageAccumulator batch_size' =
     (if batch_size' = 0 then Panic
      else Ok \<lparr>queue = [], capacity = batch_size', message_count = 0\<rparr>)"

text \<open>Adding waits while the channel is full.\<close>

definition accumulator_add ::
  "('t, 'u) ClientMessage \<Rightarrow> ('t, 'u) MessageAccumulator \<Rightarrow> ('t, 'u) MessageAccumulator \<times> bool option" where
  "accumulator_add m a =
     (if capacity a \<le> length (queue a) then (a, None)
      else (a\<lparr>queue := queue a @ [m], message_count := message_count a + 1\<rparr>,
        Some (message_count a + 1 = of_nat (capacity a))))"

definition accumulator_get ::
  "nat \<Rightarrow> ('t, 'u) MessageAccumulator \<Rightarrow> ('t, 'u) MessageAccumulator \<times> ('t, 'u) ClientMessage list" where
  "accumulator_get batch_size' a =
    (let taken = take batch_size' (queue a) in
     (a\<lparr>queue := drop batch_size' (queue a),
        message_count := message_count a - of_nat (length taken)\<rparr>, taken))"

section \<open>Publishing\<close>

definition producer_batch_send ::
  "('t, 'u) externals \<Rightarrow> ('t, 'u, 'w) network \<Rightarrow> nat \<Rightarrow>
     ('t, 'u, 'w, 'cb, unit, ProducerPublishError) producer_async" where
  "producer_batch_send X N p s =
    (case accumulator_get (batch_size (producers s ! p)) (accumulator (producers s ! p)) of
       (a, batch) \<Rightarrow>
         (if batch = [] then ready (Ok ())
          else await (lift_error PublishClient (on_base (publish X N (client (producers s ! p))
              (producer_id (producers s ! p)) (map base_of_ClientMessage batch)
              (publish_version (producers s ! p))))) (\<lambda>_. ready (Ok ())))
         (update_producer p (\<lambda>q. q\<lparr>accumulator := a\<rparr>) s))"

definition is_closed :: "nat \<Rightarrow> ('t, 'u, 'w, 'cb) producer_system \<Rightarrow> bool" where
  "is_closed p s = producer_closed (producers s ! p)"

text \<open>The id a message is published with and the sequence afterwards.\<close>

definition next_publishing_id :: "('t, 'u) Message \<Rightarrow> u64 \<Rightarrow> u64 \<times> u64" where
  "next_publishing_id m seq =
    (case Message.publishing_id m of Some pid \<Rightarrow> (pid, seq) | None \<Rightarrow> (seq, seq + 1))"

definition wrap_message ::
  "('t, 'u, 'cb) ProducerInternal \<Rightarrow> u64 \<Rightarrow> ('t, 'u) Message \<Rightarrow> ('t, 'u) ClientMessage" where
  "wrap_message q pid m =
    (let c = new_ClientMessage pid m None in
     case filter_value_extractor q of Some f \<Rightarrow> filter_value_extract f c | None \<Rightarrow> c)"

definition add_waiter ::
  "u64 \<Rightarrow> 'cb Callback \<Rightarrow> ('t, 'u) Message \<Rightarrow> ('t, 'u, 'cb) ProducerInternal \<Rightarrow>
     ('t, 'u, 'cb) ProducerInternal" where
  "add_waiter pid c m q =
     q\<lparr>waiting_confirmations := AList.update pid \<lparr>cb = c, msg = m\<rparr> (waiting_confirmations q)\<rparr>"

text \<open>A send that is not interrupted: the steps between which other senders and the tick may come
  are those of \<open>astep\<close> in \<open>Accumulator\<close>.\<close>

definition internal_send ::
  "('t, 'u) externals \<Rightarrow> ('t, 'u, 'w) network \<Rightarrow> nat \<Rightarrow> ('t, 'u) Message \<Rightarrow> 'cb Callback \<Rightarrow>
     ('t, 'u, 'w, 'cb, unit, ProducerPublishError) producer_async" where
  "internal_send X N p m c s =
    (if is_closed p s then (s, Some (Err PublishClosed))
     else case next_publishing_id m (publish_sequence (producers s ! p)) of
       (pid, seq) \<Rightarrow>
         (let q = add_waiter pid c m ((producers s ! p)\<lparr>publish_sequence := seq\<rparr>) in
          case accumulator_add (wrap_message q pid m) (accumulator q) of
            (a, None) \<Rightarrow> (update_producer p (\<lambda>_. q) s, None)
          | (a, Some full) \<Rightarrow>
              (if full then producer_batch_send X N p else ready (Ok ()))
              (update_producer p (\<lambda>_. q\<lparr>accumulator := a\<rparr>) s)))"

text \<open>Numbering a batch and registering its waiters.\<close>

primrec wrap_batch ::
  "('t, 'u) Message list \<Rightarrow> 'cb Callback \<Rightarrow> ('t, 'u, 'cb) ProducerInternal \<Rightarrow>
     ('t, 'u, 'cb) ProducerInternal \<times> ('t, 'u) ClientMessage list" where
  "wrap_batch [] c q = (q, [])"
| "wrap_batch (m # ms) c q =
    (case next_publishing_id m (publish_sequence q) of
       (pid, seq) \<Rightarrow>
         (case wrap_batch ms c (add_waiter pid c m (q\<lparr>publish_sequence := seq\<rparr>)) of
            (q', cs) \<Rightarrow> (q', wrap_message q pid m # cs)))"

definition internal_batch_send ::
  "('t, 'u) externals \<Rightarrow> ('t, 'u, 'w) network \<Rightarrow> nat \<Rightarrow> ('t, 'u) Message list \<Rightarrow> 'cb Callback \<Rightarrow>
     ('t, 'u, 'w, 'cb, unit, ProducerPublishError) producer_async" where
  "internal_batch_send X N p ms c s =
    (if is_closed p s then (s, Some (Err PublishClosed))
     else case wrap_batch ms c (producers s ! p) of
       (q, wrapped) \<Rightarrow>
         await (lift_error PublishClient (on_base (publish X N (client q) (producer_id q)
             (map base_of_ClientMessage wrapped) (publish_version q)))) (\<lambda>_. ready (Ok ()))
           (update_producer p (\<lambda>_. q) s))"

section \<open>Confirmations\<close>

definition call_back ::
  "'cb Callback \<Rightarrow> ('t, 'u) ConfirmationStatus \<Rightarrow> ('t, 'u, 'w, 'cb) producer_system \<Rightarrow>
     ('t, 'u, 'w, 'cb) producer_system" where
  "call_back c st s =
    (case c of
       UserCallback f \<Rightarrow> s\<lparr>callback_calls := callback_calls s @ [(f, st)]\<rparr>
     | ConfirmSender ch \<Rightarrow>
         s\<lparr>confirm_channels := (confirm_channels s)[ch := confirm_channels s ! ch @ [st]]\<rparr>)"

definition handle_confirm ::
  "u64 \<Rightarrow> ('t, 'u, 'cb) ProducerMessageWaiter \<Rightarrow> ('t, 'u, 'w, 'cb) producer_system \<Rightarrow>
     ('t, 'u, 'w, 'cb) producer_system" where
  "handle_confirm pid waiter =
     call_back (cb waiter) \<lparr>ConfirmationStatus.publishing_id = pid, confirmed = True,
       status = ResponseOk, message = msg waiter\<rparr>"

definition handle_error ::
  "u64 \<Rightarrow> ResponseCode \<Rightarrow> ('t, 'u, 'cb) ProducerMessageWaiter \<Rightarrow> ('t, 'u, 'w, 'cb) producer_system \<Rightarrow>
     ('t, 'u, 'w, 'cb) producer_system" where
  "handle_error pid st waiter =
     call_back (cb waiter) \<lparr>ConfirmationStatus.publishing_id = pid, confirmed = False,
       status = st, message = msg waiter\<rparr>"

text \<open>An id nobody waits for runs into \<open>todo!()\<close>.\<close>

definition with_waiter ::
  "nat \<Rightarrow> u64 \<Rightarrow> (('t, 'u, 'cb) ProducerMessageWaiter \<Rightarrow> ('t, 'u, 'w, 'cb) producer_system \<Rightarrow>
     ('t, 'u, 'w, 'cb) producer_system) \<Rightarrow> ('t, 'u, 'w, 'cb, unit, ClientError) producer_async" where
  "with_waiter p pid f s =
    (case map_of (waiting_confirmations (producers s ! p)) pid of
       Some waiter \<Rightarrow>
         (f waiter (update_producer p (\<lambda>q. q\<lparr>waiting_confirmations :=
            AList.delete pid (waiting_confirmations q)\<rparr>) s), Some (Ok ()))
     | None \<Rightarrow> (s, Some Panic))"

primrec confirm_all :: "nat \<Rightarrow> u64 list \<Rightarrow> ('t, 'u, 'w, 'cb, unit, ClientError) producer_async" where
  "confirm_all p [] = ready (Ok ())"
| "confirm_all p (pid # pids) =
     await (with_waiter p pid (handle_confirm pid)) (\<lambda>_. confirm_all p pids)"

primrec fail_all :: "nat \<Rightarrow> PublishingError list \<Rightarrow> ('t, 'u, 'w, 'cb, unit, ClientError) producer_async" where
  "fail_all p [] = ready (Ok ())"
| "fail_all p (e # es) =
     await (with_waiter p (PublishingError.publishing_id e)
       (handle_error (PublishingError.publishing_id e) (error_code e))) (\<lambda>_. fail_all p es)"

definition handle_producer_message ::
  "nat \<Rightarrow> ('t, 'u) MessageResult \<Rightarrow> ('t, 'u, 'w, 'cb, unit, ClientError) producer_async" where
  "handle_producer_message p item =
    (case item of
       Some (Ok response) \<Rightarrow>
         (case Response.kind response of
            ResponseKind.PublishConfirm confirm \<Rightarrow>
              await (confirm_all p (publishing_ids confirm)) (\<lambda>_.
                modify (\<lambda>s. s\<lparr>base := (base s)\<lparr>metrics := metrics (base s) @
                  [PublishConfirmMetric (of_nat (length (publishing_ids confirm)))]\<rparr>\<rparr>))
          | ResponseKind.PublishError err \<Rightarrow> fail_all p (publishing_errors err)
          | _ \<Rightarrow> ready (Ok ()))
     | _ \<Rightarrow> ready (Ok ()))"

text \<open>The spawned tasks, one after the other; a panic ends its own task only.\<close>

primrec run_messages ::
  "nat \<Rightarrow> ('t, 'u) MessageResult list \<Rightarrow> ('t, 'u, 'w, 'cb) producer_system \<Rightarrow>
     ('t, 'u, 'w, 'cb) producer_system" where
  "run_messages p [] s = s"
| "run_messages p (item # items) s = run_messages p items (fst (handle_producer_message p item s))"

definition run_handlers ::
  "nat \<Rightarrow> ('t, 'u, 'w, 'cb) producer_system \<Rightarrow> ('t, 'u, 'w, 'cb) producer_system" where
  "run_handlers p s =
    (let i = client (producers s ! p) in
     run_messages p (spawned (clients (base s) ! i))
       (s\<lparr>base := update_client i (\<lambda>c. c\<lparr>spawned := []\<rparr>) (base s)\<rparr>))"

definition background ::
  "('t, 'u) externals \<Rightarrow> ('t, 'u, 'w) network \<Rightarrow> nat \<Rightarrow>
     ('t, 'u, 'w, 'cb, unit, ProducerPublishError) producer_async" where
  "background X N p s =
     await_result (producer_batch_send X N p) (\<lambda>_.
     await_result (on_base (poll_connection X N (client (producers s ! p)))) (\<lambda>_.
       modify (run_handlers p))) s"

section \<open>Sending\<close>

definition open_confirm_channel ::
  "nat \<Rightarrow> ('t, 'u, 'w, 'cb, nat, ProducerPublishError) producer_async" where
  "open_confirm_channel n s =
    (if n = 0 then (s, Some Panic)
     else (s\<lparr>confirm_channels := confirm_channels s @ [[]]\<rparr>, Some (Ok (length (confirm_channels s)))))"

definition has_sender :: "nat \<Rightarrow> nat \<Rightarrow> ('t, 'u, 'w, 'cb) producer_system \<Rightarrow> bool" where
  "has_sender p ch s = (\<exists>e \<in> set (waiting_confirmations (producers s ! p)). cb (snd e) = ConfirmSender ch)"

definition do_send_with_confirm ::
  "('t, 'u) externals \<Rightarrow> ('t, 'u, 'w) network \<Rightarrow> nat \<Rightarrow> ('t, 'u) Message \<Rightarrow>
     ('t, 'u, 'w, 'cb, ('t, 'u) ConfirmationStatus, ProducerPublishError) producer_async" where
  "do_send_with_confirm X N p m =
     await (open_confirm_channel 1) (\<lambda>ch.
     await (internal_send X N p m (ConfirmSender ch)) (\<lambda>_.
     await (background X N p) (\<lambda>_ s.
       (s, case confirm_channels s ! ch of
             st # _ \<Rightarrow> Some (Ok st)
           | [] \<Rightarrow> if has_sender p ch s then None
                  else Some (Err (PublishConfirmation (stream (producers s ! p))))))))"

definition do_batch_send_with_confirm ::
  "('t, 'u) externals \<Rightarrow> ('t, 'u, 'w) network \<Rightarrow> nat \<Rightarrow> ('t, 'u) Message list \<Rightarrow>
     ('t, 'u, 'w, 'cb, ('t, 'u) ConfirmationStatus list, ProducerPublishError) producer_async" where
  "do_batch_send_with_confirm X N p ms =
     await (open_confirm_channel (length ms)) (\<lambda>ch.
     await (internal_batch_send X N p ms (ConfirmSender ch)) (\<lambda>_.
     await (background X N p) (\<lambda>_ s.
       (s, if has_sender p ch s then None else Some (Ok (confirm_channels s ! ch))))))"

definition do_batch_send ::
  "('t, 'u) externals \<Rightarrow> ('t, 'u, 'w) network \<Rightarrow> nat \<Rightarrow> ('t, 'u) Message list \<Rightarrow> 'cb \<Rightarrow>
     ('t, 'u, 'w, 'cb, unit, ProducerPublishError) producer_async" where
  "do_batch_send X N p ms f = internal_batch_send X N p ms (UserCallback f)"

definition do_send ::
  "('t, 'u) externals \<Rightarrow> ('t, 'u, 'w) network \<Rightarrow> nat \<Rightarrow> ('t, 'u) Message \<Rightarrow> 'cb \<Rightarrow>
     ('t, 'u, 'w, 'cb, unit, ProducerPublishError) producer_async" where
  "do_send X N p m f = internal_send X N p m (UserCallback f)"

section \<open>Building and closing\<close>

text \<open>The delay between two ticks is in milliseconds.\<close>

record ('t, 'u) ProducerBuilder =
  environment :: Environment
  name :: "string option"
  builder_batch_size :: nat
  batch_publishing_delay :: nat
  builder_filter :: "(('t, 'u) Message \<Rightarrow> string) option"
  builder_client_name :: string

definition environment_producer :: "Environment \<Rightarrow> ('t, 'u) ProducerBuilder" where
  "environment_producer env' =
     \<lparr>environment = env', name = None, builder_batch_size = 100, batch_publishing_delay = 100,
      builder_filter = None, builder_client_name = ''rust-stream-producer''\<rparr>"

definition set_batch_size :: "nat \<Rightarrow> ('t, 'u) ProducerBuilder \<Rightarrow> ('t, 'u) ProducerBuilder" where
  "set_batch_size n b = b\<lparr>builder_batch_size := n\<rparr>"

definition set_batch_delay :: "nat \<Rightarrow> ('t, 'u) ProducerBuilder \<Rightarrow> ('t, 'u) ProducerBuilder" where
  "set_batch_delay d b = b\<lparr>batch_publishing_delay := d\<rparr>"

definition set_producer_client_name ::
  "string \<Rightarrow> ('t, 'u) ProducerBuilder \<Rightarrow> ('t, 'u) ProducerBuilder" where
  "set_producer_client_name n b = b\<lparr>builder_client_name := n\<rparr>"

text \<open>Naming a producer makes a new builder, which loses the filter and the client's name.\<close>

definition set_producer_name :: "string \<Rightarrow> ('t, 'u) ProducerBuilder \<Rightarrow> ('t, 'u) ProducerBuilder" where
  "set_producer_name n b =
     \<lparr>environment = environment b, name = Some n, builder_batch_size = builder_batch_size b,
      batch_publishing_delay = batch_publishing_delay b, builder_filter = None,
      builder_client_name = ''rust-stream-producer''\<rparr>"

definition set_filter_value_extractor ::
  "(('t, 'u) Message \<Rightarrow> string) \<Rightarrow> ('t, 'u) ProducerBuilder \<Rightarrow> ('t, 'u) ProducerBuilder" where
  "set_filter_value_extractor f b = b\<lparr>builder_filter := Some f\<rparr>"

definition set_filter_value_extractor_arc ::
  "(('t, 'u) Message \<Rightarrow> string) option \<Rightarrow> ('t, 'u) ProducerBuilder \<Rightarrow> ('t, 'u) ProducerBuilder" where
  "set_filter_value_extractor_arc f b = b\<lparr>builder_filter := f\<rparr>"

definition after_sequence :: "u64 \<Rightarrow> u64" where
  "after_sequence seq = (if seq = 0 then 0 else seq + 1)"

definition first_sequence ::
  "('t, 'u) externals \<Rightarrow> ('t, 'u, 'w) network \<Rightarrow> nat \<Rightarrow> string option \<Rightarrow> string \<Rightarrow>
     ('t, 'u, 'w, u64) client_async" where
  "first_sequence X N i name' stream' =
    (case name' of
       Some n \<Rightarrow> await (query_publisher_sequence X N i n stream')
         (\<lambda>seq. ready (Ok (after_sequence seq)))
     | None \<Rightarrow> ready (Ok 0))"

text \<open>The end of building, with the answer to the declaration of the publisher.\<close>

definition built ::
  "('t, 'u) ProducerBuilder \<Rightarrow> string \<Rightarrow> nat \<Rightarrow> u16 \<Rightarrow> GenericResponse \<Rightarrow> u64 \<Rightarrow>
     ('t, 'u, 'w, 'cb, nat, ProducerCreateError) producer_async" where
  "built b stream' i publish_version' response seq s =
    (if GenericResponse.code response = ResponseOk
     then (case new_MessageAccumulator (builder_batch_size b) :: (('t, 'u) MessageAccumulator, unit) result of
             Ok a \<Rightarrow>
               (s\<lparr>producers := producers s @
                 [\<lparr>client = i, stream = stream', producer_id = 1, batch_size = builder_batch_size b,
                   publish_sequence = seq, waiting_confirmations = [], producer_closed = False,
                   accumulator = a, publish_version = publish_version',
                   filter_value_extractor = builder_filter b\<rparr>]\<rparr>,
                Some (Ok (length (producers s))))
           | _ \<Rightarrow> (s, Some Panic))
     else (s, Some (Err (ProducerCreate stream' (GenericResponse.code response)))))"

definition producer_build ::
  "('t, 'u) externals \<Rightarrow> ('t, 'u, 'w) network \<Rightarrow> ('t, 'u) ProducerBuilder \<Rightarrow> string \<Rightarrow>
     ('t, 'u, 'w, 'cb, nat, ProducerCreateError) producer_async" where
  "producer_build X N b stream' =
     await (on_base (create_producer_client X N (environment b) stream' (builder_client_name b))) (\<lambda>i.
     await (\<lambda>s. (s,
         case builder_filter b of
           None \<Rightarrow> Some (Ok 1)
         | Some _ \<Rightarrow>
             if filtering_supported (clients (base s) ! i) then Some (Ok 2)
             else Some (Err ProducerFilteringNotSupport))) (\<lambda>publish_version'.
     await (lift_error ProducerClient (on_base (client_set_handler i))) (\<lambda>_.
     await (lift_error ProducerClient (on_base (declare_publisher X N i 1 (name b) stream'))) (\<lambda>response.
     await (lift_error ProducerClient (on_base (first_sequence X N i (name b) stream'))) (\<lambda>seq.
       built b stream' i publish_version' response seq)))))"

definition producer_close ::
  "('t, 'u) externals \<Rightarrow> ('t, 'u, 'w) network \<Rightarrow> nat \<Rightarrow>
     ('t, 'u, 'w, 'cb, unit, ProducerCloseError) producer_async" where
  "producer_close X N p s =
    (if producer_closed (producers s ! p) then (s, Some (Err ProducerAlreadyClosed))
     else
       await (lift_error CloseProducerClient (on_base (delete_publisher X N
           (client (producers s ! p)) (producer_id (producers s ! p))))) (\<lambda>response.
         if GenericResponse.code response = ResponseOk
         then lift_error CloseProducerClient (on_base (close X N (client (producers s ! p))))
         else ready (Err (CloseProducer (stream (producers s ! p)) (GenericResponse.code response))))
         (update_producer p (\<lambda>q. q\<lparr>producer_closed := True\<rparr>) s))"

section \<open>How the state changes\<close>

lemma update_producer_simps [simp]:
  "length (producers (update_producer p f s)) = length (producers s)"
  "base (update_producer p f s) = base s" "callback_calls (update_producer p f s) = callback_calls s"
  "confirm_channels (update_producer p f s) = confirm_channels s"
  "p < length (producers s) \<Longrightarrow> producers (update_producer p f s) ! p = f (producers s ! p)"
  "q \<noteq> p \<Longrightarrow> producers (update_producer p f s) ! q = producers s ! q"
  by (simp_all add: update_producer_def)

lemma update_producer_twice [simp]:
  "p < length (producers s) \<Longrightarrow>
   update_producer p g (update_producer p f s) = update_producer p (\<lambda>q. g (f q)) s"
  by (simp add: update_producer_def)

lemma update_producer_cong:
  "f (producers s ! p) = g (producers s ! p) \<Longrightarrow> update_producer p f s = update_producer p g s"
  by (simp add: update_producer_def)

lemma on_base_producers [simp]:
  "producers (fst (on_base m s)) = producers s"
  "callback_calls (fst (on_base m s)) = callback_calls s"
  "confirm_channels (fst (on_base m s)) = confirm_channels s"
  by (simp_all add: on_base_def split: prod.split)

lemma on_base_run: "m (base s) = (w, r) \<Longrightarrow> on_base m s = (s\<lparr>base := w\<rparr>, r)"
  by (simp add: on_base_def)

text \<open>Between calls the channel of the accumulator has room and its counter counts it.\<close>

definition accumulator_inv :: "('t, 'u) MessageAccumulator \<Rightarrow> bool" where
  "accumulator_inv a \<longleftrightarrow> length (queue a) < capacity a \<and> capacity a < 2 ^ 64 \<and>
     message_count a = of_nat (length (queue a))"

definition producer_inv :: "('t, 'u, 'cb) ProducerInternal \<Rightarrow> bool" where
  "producer_inv q \<longleftrightarrow> accumulator_inv (accumulator q) \<and> capacity (accumulator q) = batch_size q"

lemma accumulator_add_inv:
  assumes "accumulator_inv a"
  shows "accumulator_add m a =
    (a\<lparr>queue := queue a @ [m], message_count := of_nat (Suc (length (queue a)))\<rparr>,
     Some (Suc (length (queue a)) = capacity a))"
proof -
  have "(of_nat (Suc (length (queue a))) :: u64) = of_nat (capacity a) \<longleftrightarrow> Suc (length (queue a)) = capacity a"
    using assms by (simp add: accumulator_inv_def word_of_nat_eq_iff take_bit_nat_eq_self_iff del: of_nat_Suc)
       (simp add: take_bit_nat_eq_self)
  moreover have "message_count a + 1 = of_nat (Suc (length (queue a)))"
    using assms by (simp add: accumulator_inv_def)
  ultimately show ?thesis
    using assms by (simp add: accumulator_add_def accumulator_inv_def del: of_nat_Suc)
qed

section \<open>Properties of sending\<close>

lemma internal_send_run:
  fixes X :: "('t, 'u) externals" and N :: "('t, 'u, 'w) network"
  assumes "p < length (producers s)" "q = producers s ! p" "producer_inv q" "\<not> is_closed p s"
    and "next_publishing_id m (publish_sequence q) = (pid, seq)"
    and "batch = queue (accumulator q) @ [wrap_message q pid m]"
    and "q' = add_waiter pid c m (q\<lparr>publish_sequence := seq\<rparr>)"
  shows "internal_send X N p m c s =
      (if length batch < batch_size q
       then (update_producer p (\<lambda>_. q'\<lparr>accumulator := (accumulator q)\<lparr>queue := batch,
               message_count := of_nat (length batch)\<rparr>\<rparr>) s, Some (Ok ()))
       else await (lift_error PublishClient (on_base (publish X N (client q) (producer_id q)
           (map base_of_ClientMessage batch) (publish_version q)))) (\<lambda>_. ready (Ok ()))
         (update_producer p (\<lambda>_. q'\<lparr>accumulator := (accumulator q)\<lparr>queue := [],
            message_count := 0\<rparr>\<rparr>) s)) \<and>
    producer_inv (producers (fst (internal_send X N p m c s)) ! p)"
proof -
  have q': "accumulator q' = accumulator q" "wrap_message q' pid m = wrap_message q pid m"
    "client q' = client q" "producer_id q' = producer_id q" "publish_version q' = publish_version q"
    "batch_size q' = batch_size q"
    by (simp_all add: assms(7) add_waiter_def wrap_message_def)
  let ?a = "(accumulator q)\<lparr>queue := batch, message_count := of_nat (length batch)\<rparr>"
  have inv: "accumulator_inv (accumulator q)" "capacity (accumulator q) = batch_size q"
    "length (queue (accumulator q)) < batch_size q" "batch_size q < 2 ^ 64"
    using assms(3) by (auto simp: producer_inv_def accumulator_inv_def)
  have add: "accumulator_add (wrap_message q pid m) (accumulator q) =
      (?a, Some (length batch = batch_size q))"
    using accumulator_add_inv [OF inv(1)] inv(2) by (simp add: assms(6))
  have send: "internal_send X N p m c s =
      (if length batch = batch_size q then producer_batch_send X N p else ready (Ok ()))
        (update_producer p (\<lambda>_. q'\<lparr>accumulator := ?a\<rparr>) s)"
    using assms(2,4,5,7) q' add by (simp add: internal_send_def Let_def)
  show ?thesis
  proof (cases "length batch = batch_size q")
    case True
    then have get: "accumulator_get (batch_size q) ?a = (?a\<lparr>queue := [], message_count := 0\<rparr>, batch)"
      by (simp add: accumulator_get_def)
    have "batch \<noteq> []" by (simp add: assms(6))
    then have eq: "internal_send X N p m c s =
        await (lift_error PublishClient (on_base (publish X N (client q) (producer_id q)
           (map base_of_ClientMessage batch) (publish_version q)))) (\<lambda>_. ready (Ok ()))
         (update_producer p (\<lambda>_. q'\<lparr>accumulator := (accumulator q)\<lparr>queue := [], message_count := 0\<rparr>\<rparr>) s)"
      using True send get q' assms(1) by (simp add: producer_batch_send_def)
    with True assms(1) inv q' show ?thesis
      by (auto simp: producer_inv_def accumulator_inv_def)
  next
    case False
    moreover have "length batch \<le> batch_size q" using inv(3) by (simp add: assms(6))
    ultimately show ?thesis
      using assms(1) inv q' by (auto simp: send async_defs producer_inv_def accumulator_inv_def)
  qed
qed

text \<open>C17.  A message that is sent joins the queue of the accumulator under the id it carries or the
  next one of the sequence, with its callback registered under that id.  It is published, with
  everything queued before it and in that order, when it completes a batch; until then the network
  is not used.  The queue stays shorter than a batch and its counter exact, so sending never waits.\<close>

theorem send_accumulates:
  fixes X :: "('t, 'u) externals" and N :: "('t, 'u, 'w) network"
  assumes "p < length (producers s)" "q = producers s ! p" "producer_inv q" "\<not> is_closed p s"
    and "next_publishing_id m (publish_sequence q) = (pid, seq)"
    and "batch = queue (accumulator q) @ [wrap_message q pid m]"
    and "q' = add_waiter pid c m (q\<lparr>publish_sequence := seq\<rparr>)"
  shows "internal_send X N p m c s =
      (if length batch < batch_size q
       then (update_producer p (\<lambda>_. q'\<lparr>accumulator := (accumulator q)\<lparr>queue := batch,
               message_count := of_nat (length batch)\<rparr>\<rparr>) s, Some (Ok ()))
       else await (lift_error PublishClient (on_base (publish X N (client q) (producer_id q)
           (map base_of_ClientMessage batch) (publish_version q)))) (\<lambda>_. ready (Ok ()))
         (update_producer p (\<lambda>_. q'\<lparr>accumulator := (accumulator q)\<lparr>queue := [],
            message_count := 0\<rparr>\<rparr>) s)) \<and>
    producer_inv (producers (fst (internal_send X N p m c s)) ! p)"
  using assms by (rule internal_send_run)

section \<open>Properties of confirmations\<close>

definition confirmation :: "u64 \<Rightarrow> ('t, 'u, 'cb) ProducerMessageWaiter \<Rightarrow> ('t, 'u) ConfirmationStatus" where
  "confirmation pid waiter = \<lparr>ConfirmationStatus.publishing_id = pid, confirmed = True,
     status = ResponseOk, message = msg waiter\<rparr>"

text \<open>What a callback has been told, in order.\<close>

definition notified ::
  "'cb Callback \<Rightarrow> ('t, 'u, 'w, 'cb) producer_system \<Rightarrow> ('t, 'u) ConfirmationStatus list" where
  "notified k s =
    (case k of
       UserCallback f \<Rightarrow> map snd (filter (\<lambda>e. fst e = f) (callback_calls s))
     | ConfirmSender ch \<Rightarrow> if ch < length (confirm_channels s) then confirm_channels s ! ch else [])"

definition valid_callback :: "'cb Callback \<Rightarrow> ('t, 'u, 'w, 'cb) producer_system \<Rightarrow> bool" where
  "valid_callback k s = (case k of UserCallback f \<Rightarrow> True | ConfirmSender ch \<Rightarrow> ch < length (confirm_channels s))"

lemma call_back_simps [simp]:
  "producers (call_back c st s) = producers s" "base (call_back c st s) = base s"
  "valid_callback k (call_back c st s) = valid_callback k s"
  by (simp_all add: call_back_def valid_callback_def split: Callback.split)

lemma notified_call_back:
  "valid_callback k s \<Longrightarrow> notified k (call_back c st s) = notified k s @ (if c = k then [st] else [])"
  by (auto simp: notified_def call_back_def valid_callback_def nth_list_update split: Callback.splits)

lemma notified_update_producer [simp]:
  "notified k (update_producer p f s) = notified k s"
  "valid_callback k (update_producer p f s) = valid_callback k s"
  by (simp_all add: notified_def valid_callback_def split: Callback.split)

lemma with_waiter_Some:
  assumes "map_of (waiting_confirmations (producers s ! p)) pid = Some waiter"
  shows "with_waiter p pid f s = (f waiter (update_producer p (\<lambda>q. q\<lparr>waiting_confirmations :=
    AList.delete pid (waiting_confirmations q)\<rparr>) s), Some (Ok ()))"
  using assms by (simp add: with_waiter_def)

text \<open>The ids at the front of a confirmation that are waited for.\<close>

lemma confirm_all_prefix:
  assumes "p < length (producers s)" "distinct known"
    and "set known \<subseteq> dom (map_of (waiting_confirmations (producers s ! p)))"
  obtains s' where "confirm_all p (known @ rest) s = confirm_all p rest s'"
    "base s' = base s" "length (producers s') = length (producers s)"
    "map_of (waiting_confirmations (producers s' ! p)) =
       map_of (waiting_confirmations (producers s ! p)) |` (- set known)"
    "\<And>k. valid_callback k s' = valid_callback k s"
    "\<And>k. valid_callback k s \<Longrightarrow> notified k s' = notified k s @
       map (\<lambda>pid. confirmation pid (the (map_of (waiting_confirmations (producers s ! p)) pid)))
         (filter (\<lambda>pid. cb (the (map_of (waiting_confirmations (producers s ! p)) pid)) = k) known)"
  using assms
proof (induction known arbitrary: s thesis)
  case Nil
  show thesis by (rule Nil(1) [of s]) simp_all
next
  case (Cons pid known)
  let ?W = "map_of (waiting_confirmations (producers s ! p))"
  from Cons.prems(4) obtain waiter where w: "?W pid = Some waiter" by auto
  let ?s = "call_back (cb waiter) (confirmation pid waiter)
    (update_producer p (\<lambda>q. q\<lparr>waiting_confirmations := AList.delete pid (waiting_confirmations q)\<rparr>) s)"
  have one: "with_waiter p pid (handle_confirm pid) s = (?s, Some (Ok ()))"
    by (simp add: with_waiter_Some [OF w] handle_confirm_def confirmation_def)
  have W: "map_of (waiting_confirmations (producers ?s ! p)) = ?W(pid := None)"
    using Cons.prems(2) by (simp add: delete_conv')
  have rest: "p < length (producers ?s)" "distinct known"
    "set known \<subseteq> dom (map_of (waiting_confirmations (producers ?s ! p)))"
    unfolding W using Cons.prems(2,3,4) by auto
  have same: "map_of (waiting_confirmations (producers ?s ! p)) x = ?W x" if "x \<in> set known" for x
    unfolding W using that Cons.prems(3) by auto
  show thesis
  proof (rule Cons.IH [OF _ rest])
    fix s'
    assume s': "confirm_all p (known @ rest) ?s = confirm_all p rest s'" "base s' = base ?s"
      "length (producers s') = length (producers ?s)"
      "map_of (waiting_confirmations (producers s' ! p)) =
         map_of (waiting_confirmations (producers ?s ! p)) |` (- set known)"
      "\<And>k. valid_callback k s' = valid_callback k ?s"
      "\<And>k. valid_callback k ?s \<Longrightarrow> notified k s' = notified k ?s @
         map (\<lambda>pid. confirmation pid (the (map_of (waiting_confirmations (producers ?s ! p)) pid)))
           (filter (\<lambda>pid. cb (the (map_of (waiting_confirmations (producers ?s ! p)) pid)) = k) known)"
    show thesis
    proof (rule Cons.prems(1) [of s'])
      show "confirm_all p ((pid # known) @ rest) s = confirm_all p rest s'"
        using one s'(1) by simp
      show "map_of (waiting_confirmations (producers s' ! p)) = ?W |` (- set (pid # known))"
        unfolding s'(4) W by (auto simp: restrict_map_def fun_eq_iff)
      show "notified k s' = notified k s @ map (\<lambda>pid. confirmation pid (the (?W pid)))
          (filter (\<lambda>pid. cb (the (?W pid)) = k) (pid # known))" if "valid_callback k s" for k
        using s'(6) [of k] that w same
        by (auto simp: notified_call_back cong: map_cong filter_cong)
    qed (use s' in simp_all)
  qed
qed

text \<open>C19.  A confirmation of ids that are waited for tells every callback, once and in the order of
  the ids, that its message is confirmed, forgets these ids and no others, and reports their
  number to the metrics collector.\<close>

theorem confirmations_delivered:
  assumes "p < length (producers s)" "W = map_of (waiting_confirmations (producers s ! p))"
    and "distinct (publishing_ids confirm)" "set (publishing_ids confirm) \<subseteq> dom W"
    and "valid_callback k s"
  shows "\<exists>s'. handle_producer_message p
      (Some (Ok \<lparr>Response.header = h, kind = ResponseKind.PublishConfirm confirm\<rparr>)) s = (s', Some (Ok ())) \<and>
    notified k s' = notified k s @ map (\<lambda>pid. confirmation pid (the (W pid)))
      (filter (\<lambda>pid. cb (the (W pid)) = k) (publishing_ids confirm)) \<and>
    map_of (waiting_confirmations (producers s' ! p)) = W |` (- set (publishing_ids confirm)) \<and>
    metrics (base s') = metrics (base s) @
      [PublishConfirmMetric (of_nat (length (publishing_ids confirm)))]"
proof -
  obtain s1 where s1: "confirm_all p (publishing_ids confirm @ []) s = confirm_all p [] s1"
    "base s1 = base s" "map_of (waiting_confirmations (producers s1 ! p)) = W |` (- set (publishing_ids confirm))"
    "notified k s1 = notified k s @ map (\<lambda>pid. confirmation pid (the (W pid)))
      (filter (\<lambda>pid. cb (the (W pid)) = k) (publishing_ids confirm))"
    by (rule confirm_all_prefix [OF assms(1,3) assms(4) [unfolded assms(2)], of "[]"])
       (use assms(2,5) in blast)
  have "notified k (s1\<lparr>base := w\<rparr>) = notified k s1" for w
    by (simp add: notified_def split: Callback.split)
  with s1 show ?thesis
    by (simp add: handle_producer_message_def async_defs)
qed

text \<open>A confirmation with an id nobody waits for (never sent, or confirmed before) panics at
  that id: the ids behind it are not confirmed, their callbacks are never called and the metrics
  collector is not told.\<close>

theorem unknown_confirmation_panics:
  assumes "p < length (producers s)" "W = map_of (waiting_confirmations (producers s ! p))"
    and "publishing_ids confirm = known @ pid # rest" "distinct known" "set known \<subseteq> dom W"
    and "pid \<in> set known \<or> pid \<notin> dom W"
  shows "\<exists>s'. handle_producer_message p
      (Some (Ok \<lparr>Response.header = h, kind = ResponseKind.PublishConfirm confirm\<rparr>)) s = (s', Some Panic) \<and>
    map_of (waiting_confirmations (producers s' ! p)) = W |` (- set known) \<and>
    metrics (base s') = metrics (base s)"
proof -
  obtain s1 where s1: "confirm_all p (known @ pid # rest) s = confirm_all p (pid # rest) s1"
    "base s1 = base s" "map_of (waiting_confirmations (producers s1 ! p)) = W |` (- set known)"
    by (rule confirm_all_prefix [OF assms(1,4) assms(5) [unfolded assms(2)], of "pid # rest"])
       (use assms(2) in blast)
  then have "with_waiter p pid (handle_confirm pid) s1 = (s1, Some Panic)"
    using assms(6) by (auto simp: with_waiter_def restrict_map_def split: option.split)
  with s1 show ?thesis
    by (simp add: handle_producer_message_def assms(3))
qed

section \<open>Properties of building and closing\<close>

lemma producer_close_run:
  assumes "\<not> producer_closed (producers s ! p)"
  shows "fst (producer_close X N p s) = (update_producer p (\<lambda>q. q\<lparr>producer_closed := True\<rparr>) s)
    \<lparr>base := base (fst (producer_close X N p s))\<rparr>"
  using assms
  by (auto simp: producer_close_def await_def lift_error_def on_base_def async_defs
      split: prod.split option.split result.split)

text \<open>A producer is closed once.  Whatever the broker answers, it counts as closed from then on:
  closing it again fails, and so does sending, and neither touches the state.\<close>

theorem producer_closes_once:
  assumes "p < length (producers s)" "s' = fst (producer_close X N p s)"
  shows "is_closed p s' \<and>
    producer_close X N p s' = (s', Some (Err ProducerAlreadyClosed)) \<and>
    internal_send X N p m c s' = (s', Some (Err PublishClosed)) \<and>
    internal_batch_send X N p ms c s' = (s', Some (Err PublishClosed))"
proof -
  have "is_closed p s'"
  proof (cases "producer_closed (producers s ! p)")
    case True
    then show ?thesis by (simp add: assms(2) producer_close_def is_closed_def)
  next
    case False
    have "producers s' ! p = (producers s ! p)\<lparr>producer_closed := True\<rparr>"
      unfolding assms(2) by (subst producer_close_run [OF False]) (simp add: assms(1))
    then show ?thesis by (simp add: is_closed_def)
  qed
  then show ?thesis
    by (simp add: is_closed_def producer_close_def internal_send_def internal_batch_send_def)
qed

interpretation clients_of_producers: part base "\<lambda>w s. s\<lparr>base := w\<rparr>"
  by unfold_locales simp_all

lemma on_base_zoom: "on_base = zoom base (\<lambda>w s. s\<lparr>base := w\<rparr>)"
  by (simp add: fun_eq_iff on_base_def zoom_def)

lemma on_base_OkE:
  assumes "on_base m s = (s', Some (Ok x))"
  obtains w where "m (base s) = (w, Some (Ok x))" "s' = s\<lparr>base := w\<rparr>"
  using assms unfolding on_base_zoom by (rule clients_of_producers.zoom_OkE)

lemma producer_build_run:
  fixes X :: "('t, 'u) externals" and N :: "('t, 'u, 'w) network"
  assumes "producer_build X N b stream' s = (s', Some (Ok p))" "builder_batch_size b < 2 ^ 64"
  shows "p = length (producers s) \<and> length (producers s') = Suc p \<and>
    producer_inv (producers s' ! p) \<and> \<not> is_closed p s' \<and>
    waiting_confirmations (producers s' ! p) = [] \<and> queue (accumulator (producers s' ! p)) = [] \<and>
    stream (producers s' ! p) = stream' \<and> batch_size (producers s' ! p) = builder_batch_size b \<and>
    (\<exists>w1 w2 w3 response.
       create_producer_client X N (environment b) stream' (builder_client_name b) (base s) =
         (w1, Some (Ok (client (producers s' ! p)))) \<and>
       w2 = update_state (client (producers s' ! p)) (\<lambda>st. st\<lparr>handler := True\<rparr>) w1 \<and>
       declare_publisher X N (client (producers s' ! p)) 1 (name b) stream' w2 = (w3, Some (Ok response)) \<and>
       GenericResponse.code response = ResponseOk \<and>
       (case name b of
          None \<Rightarrow> base s' = w3 \<and> publish_sequence (producers s' ! p) = 0
        | Some n \<Rightarrow> \<exists>seq. query_publisher_sequence X N (client (producers s' ! p)) n stream' w3 =
              (base s', Some (Ok seq)) \<and>
            publish_sequence (producers s' ! p) = after_sequence seq) \<and>
       filter_value_extractor (producers s' ! p) = builder_filter b \<and>
       publish_version (producers s' ! p) = (case builder_filter b of None \<Rightarrow> 1 | Some _ \<Rightarrow> 2))"
proof -
  from await_OkE' [OF assms(1) [unfolded producer_build_def]] obtain i s1 where
    s1: "on_base (create_producer_client X N (environment b) stream' (builder_client_name b)) s = (s1, Some (Ok i))"
    and k1: "await (\<lambda>s. (s,
         case builder_filter b of
           None \<Rightarrow> Some (Ok 1)
         | Some _ \<Rightarrow>
             if filtering_supported (clients (base s) ! i) then Some (Ok 2)
             else Some (Err ProducerFilteringNotSupport))) (\<lambda>publish_version'.
     await (lift_error ProducerClient (on_base (client_set_handler i))) (\<lambda>_.
     await (lift_error ProducerClient (on_base (declare_publisher X N i 1 (name b) stream'))) (\<lambda>response.
     await (lift_error ProducerClient (on_base (first_sequence X N i (name b) stream'))) (\<lambda>seq.
       built b stream' i publish_version' response seq)))) s1 = (s', Some (Ok p))"
    by auto
  from await_OkE' [OF k1] obtain v where v: "v = (case builder_filter b of None \<Rightarrow> 1 | Some _ \<Rightarrow> 2)"
    and k2: "await (lift_error ProducerClient (on_base (client_set_handler i))) (\<lambda>_.
     await (lift_error ProducerClient (on_base (declare_publisher X N i 1 (name b) stream'))) (\<lambda>response.
     await (lift_error ProducerClient (on_base (first_sequence X N i (name b) stream'))) (\<lambda>seq.
       built b stream' i v response seq))) s1 = (s', Some (Ok p))"
    by (auto split: option.splits if_splits)
  from await_OkE' [OF k2] obtain s2 where
    s2: "s2 = s1\<lparr>base := update_state i (\<lambda>st. st\<lparr>handler := True\<rparr>) (base s1)\<rparr>"
    and k3: "await (lift_error ProducerClient (on_base (declare_publisher X N i 1 (name b) stream'))) (\<lambda>response.
     await (lift_error ProducerClient (on_base (first_sequence X N i (name b) stream'))) (\<lambda>seq.
       built b stream' i v response seq)) s2 = (s', Some (Ok p))"
    by (auto simp: client_set_handler_def on_base_def lift_error_def async_defs)
  from await_OkE' [OF k3] obtain response s3 where
    s3: "on_base (declare_publisher X N i 1 (name b) stream') s2 = (s3, Some (Ok response))"
    and k4: "await (lift_error ProducerClient (on_base (first_sequence X N i (name b) stream'))) (\<lambda>seq.
       built b stream' i v response seq) s3 = (s', Some (Ok p))"
    by (auto dest: lift_error_OkE)
  from await_OkE' [OF k4] obtain seq s4 where
    s4: "on_base (first_sequence X N i (name b) stream') s3 = (s4, Some (Ok seq))"
    and k5: "built b stream' i v response seq s4 = (s', Some (Ok p))"
    by (auto dest: lift_error_OkE)
  obtain w1 where w1: "create_producer_client X N (environment b) stream' (builder_client_name b) (base s) =
      (w1, Some (Ok i))" "s1 = s\<lparr>base := w1\<rparr>" using s1 by (rule on_base_OkE)
  obtain w3 where w3: "declare_publisher X N i 1 (name b) stream' (base s2) = (w3, Some (Ok response))"
    "s3 = s2\<lparr>base := w3\<rparr>" using s3 by (rule on_base_OkE)
  obtain w4 where w4: "first_sequence X N i (name b) stream' w3 = (w4, Some (Ok seq))" "s4 = s3\<lparr>base := w4\<rparr>"
    using s4 w3(2) by (auto elim: on_base_OkE)
  have seq: "case name b of None \<Rightarrow> w4 = w3 \<and> seq = 0
      | Some n \<Rightarrow> \<exists>sq. query_publisher_sequence X N i n stream' w3 = (w4, Some (Ok sq)) \<and>
          seq = after_sequence sq"
    using w4(1) by (auto simp: first_sequence_def async_defs split: option.splits dest!: await_OkE')
  have fin: "GenericResponse.code response = ResponseOk" "builder_batch_size b \<noteq> 0"
    "p = length (producers s)"
    "s' = s4\<lparr>producers := producers s @ [\<lparr>client = i, stream = stream', producer_id = 1,
       batch_size = builder_batch_size b, publish_sequence = seq, waiting_confirmations = [],
       producer_closed = False,
       accumulator = \<lparr>queue = [], capacity = builder_batch_size b, message_count = 0\<rparr>,
       publish_version = v, filter_value_extractor = builder_filter b\<rparr>]\<rparr>"
    using k5 w1(2) w3(2) w4(2) s2
    by (auto simp: built_def new_MessageAccumulator_def split: if_splits)
  show ?thesis
    using fin assms(2) w1 w3(1) seq s2 w4(2) v
    by (simp add: producer_inv_def accumulator_inv_def is_closed_def split: option.splits)
qed

text \<open>C34.  A producer that is built belongs to the client that was created for its stream, which
  reports the messages of the broker to it, and the broker has accepted it.  Its accumulator is
  empty and nothing is waited for.  Its ids start at zero without a name; with a name they start
  one above the last id the broker has of it, except that they start at zero again when the broker
  answers zero, which it does for a name it does not know and for one whose last id is zero.
  Messages carry filter values exactly when a filter was given.\<close>

theorem built_producer:
  fixes X :: "('t, 'u) externals" and N :: "('t, 'u, 'w) network"
  assumes "producer_build X N b stream' s = (s', Some (Ok p))" "builder_batch_size b < 2 ^ 64"
  shows "p = length (producers s) \<and> length (producers s') = Suc p \<and>
    producer_inv (producers s' ! p) \<and> \<not> is_closed p s' \<and>
    waiting_confirmations (producers s' ! p) = [] \<and> queue (accumulator (producers s' ! p)) = [] \<and>
    stream (producers s' ! p) = stream' \<and> batch_size (producers s' ! p) = builder_batch_size b \<and>
    (\<exists>w1 w2 w3 response.
       create_producer_client X N (environment b) stream' (builder_client_name b) (base s) =
         (w1, Some (Ok (client (producers s' ! p)))) \<and>
       w2 = update_state (client (producers s' ! p)) (\<lambda>st. st\<lparr>handler := True\<rparr>) w1 \<and>
       declare_publisher X N (client (producers s' ! p)) 1 (name b) stream' w2 = (w3, Some (Ok response)) \<and>
       GenericResponse.code response = ResponseOk \<and>
       (case name b of
          None \<Rightarrow> base s' = w3 \<and> publish_sequence (producers s' ! p) = 0
        | Some n \<Rightarrow> \<exists>seq. query_publisher_sequence X N (client (producers s' ! p)) n stream' w3 =
              (base s', Some (Ok seq)) \<and>
            publish_sequence (producers s' ! p) = (if seq = 0 then 0 else seq + 1)) \<and>
       filter_value_extractor (producers s' ! p) = builder_filter b \<and>
       publish_version (producers s' ! p) = (case builder_filter b of None \<Rightarrow> 1 | Some _ \<Rightarrow> 2))"
  using producer_build_run [OF assms] unfolding after_sequence_def .

section \<open>A confirmed message\<close>

definition published :: "('t, 'u) ClientMessage \<Rightarrow> ('t, 'u) PublishedMessage" where
  "published m = new_PublishedMessage (ClientMessage.publishing_id m) (ClientMessage.message m)
     (ClientMessage.filter_value m)"

lemma assign_ids_numbered:
  "assign_ids seq (map base_of_ClientMessage ms) = (seq, map published ms)"
  by (induction ms) (simp_all add: base_of_ClientMessage_def published_def)

lemma publish_numbered:
  fixes X :: "('t, 'u) externals" and N :: "('t, 'u, 'w) network"
  assumes "i < length (clients w)" "cmd = new_PublishCommand pid (map published ms) v"
    and "tcp_write N (connection (clients w ! i)) (sink (clients w ! i) @
      frame X (RequestKind.Publish cmd)) (net w) = (n, Inr items)"
  shows "publish X N i pid (map base_of_ClientMessage ms) v w =
    (update_client i (\<lambda>c. c\<lparr>sink := [], inbox := inbox c @ items\<rparr>) w
       \<lparr>net := n, metrics := metrics w @ [PublishMetric (of_nat (length ms))]\<rparr>,
     Some (Ok (map ClientMessage.publishing_id ms)))"
proof -
  have same: "update_client i (\<lambda>c. c\<lparr>Client.publish_sequence :=
      Client.publish_sequence (clients w ! i)\<rparr>) w = w"
    by (simp add: update_client_def)
  have "send X N i (RequestKind.Publish cmd) w =
      (update_client i (\<lambda>c. c\<lparr>sink := [], inbox := inbox c @ items\<rparr>) w\<lparr>net := n\<rparr>, Some (Ok ()))"
    unfolding send_def
    by (rule channel_send_Ok [where bs = "encode_PublishCommand X cmd"])
       (use assms(3) in \<open>simp_all add: encode_RequestKind_def frame_def\<close>)
  then show ?thesis
    by (simp add: publish_def assign_ids_numbered same assms(2) async_defs comp_def published_def
        new_PublishedMessage_def)
qed

lemma batch_send_queued:
  fixes X :: "('t, 'u) externals" and N :: "('t, 'u, 'w) network"
  assumes "p < length (producers s)" "q = producers s ! p" "ms = queue (accumulator q)" "ms \<noteq> []"
    and "length ms \<le> batch_size q" "client q < length (clients (base s))"
    and "sink (clients (base s) ! client q) = []"
    and "tcp_write N (connection (clients (base s) ! client q)) (frame X (RequestKind.Publish
      (new_PublishCommand (producer_id q) (map published ms) (publish_version q)))) (net (base s)) =
        (n, Inr items)"
  shows "producer_batch_send X N p s =
    ((update_producer p (\<lambda>q. q\<lparr>accumulator := (accumulator q)\<lparr>queue := [],
        message_count := message_count (accumulator q) - of_nat (length ms)\<rparr>\<rparr>) s)
      \<lparr>base := update_client (client q) (\<lambda>c. c\<lparr>sink := [], inbox := inbox c @ items\<rparr>) (base s)
         \<lparr>net := n, metrics := metrics (base s) @ [PublishMetric (of_nat (length ms))]\<rparr>\<rparr>, Some (Ok ()))"
proof -
  have pub: "publish X N (client q) (producer_id q) (map base_of_ClientMessage ms) (publish_version q) (base s) =
      (update_client (client q) (\<lambda>c. c\<lparr>sink := [], inbox := inbox c @ items\<rparr>) (base s)
         \<lparr>net := n, metrics := metrics (base s) @ [PublishMetric (of_nat (length ms))]\<rparr>,
       Some (Ok (map ClientMessage.publishing_id ms)))"
    by (rule publish_numbered [OF assms(6) refl]) (simp add: assms(7,8))
  have get: "accumulator_get (batch_size q) (accumulator q) =
      ((accumulator q)\<lparr>queue := [], message_count := message_count (accumulator q) - of_nat (length ms)\<rparr>, ms)"
    using assms(3,5) by (simp add: accumulator_get_def Let_def)
  have upd: "update_producer p (\<lambda>q'. q'\<lparr>accumulator := (accumulator q)\<lparr>queue := [],
        message_count := message_count (accumulator q) - of_nat (length ms)\<rparr>\<rparr>) s =
      update_producer p (\<lambda>q. q\<lparr>accumulator := (accumulator q)\<lparr>queue := [],
        message_count := message_count (accumulator q) - of_nat (length ms)\<rparr>\<rparr>) s"
    by (rule update_producer_cong) (simp add: assms(2))
  show ?thesis
    using assms(4) get pub
    by (simp add: producer_batch_send_def on_base_def async_defs upd flip: assms(2))
qed

lemma background_confirms:
  fixes X :: "('t, 'u) externals" and N :: "('t, 'u, 'w) network"
  assumes "p < length (producers s)" "q = producers s ! p" "queue (accumulator q) = [cm]" "0 < batch_size q"
    and "client q < length (clients (base s))" "c = clients (base s) ! client q"
    and "task_running c" "DispatcherState.handler (dispatcher c)" "handler (state c)"
    and "sink c = []" "inbox c = []" "spawned c = []"
    and "map_of (waiting_confirmations q) pid = Some \<lparr>cb = ConfirmSender ch, msg = m\<rparr>"
    and "ch < length (confirm_channels s)" "confirm_channels s ! ch = []"
    and "tcp_write N (connection c) (frame X (RequestKind.Publish
        (new_PublishCommand (producer_id q) [published cm] (publish_version q)))) (net (base s)) =
      (n, Inr [Some (Ok \<lparr>Response.header = h,
         kind = ResponseKind.PublishConfirm \<lparr>PublishConfirm.publisher_id = pub, publishing_ids = [pid]\<rparr>\<rparr>)])"
  obtains s' where "background X N p s = (s', Some (Ok ()))"
    "confirm_channels s' ! ch = [\<lparr>ConfirmationStatus.publishing_id = pid, confirmed = True,
       status = ResponseOk, message = m\<rparr>]"
    "map_of (waiting_confirmations (producers s' ! p)) pid = None"
proof -
  let ?i = "client q"
  let ?r = "\<lparr>Response.header = h,
    kind = ResponseKind.PublishConfirm \<lparr>PublishConfirm.publisher_id = pub, publishing_ids = [pid]\<rparr>\<rparr>"
  let ?w = "update_client ?i (\<lambda>c. c\<lparr>sink := [], inbox := inbox c @ [Some (Ok ?r)]\<rparr>) (base s)
    \<lparr>net := n, metrics := metrics (base s) @ [PublishMetric 1]\<rparr>"
  let ?w' = "update_client ?i (\<lambda>c. c\<lparr>inbox := [], spawned := spawned c @ [Some (Ok ?r)]\<rparr>) ?w"
  obtain s2 where s2: "producer_batch_send X N p s = (s2, Some (Ok ()))" "base s2 = ?w"
    "waiting_confirmations (producers s2 ! p) = waiting_confirmations q" "client (producers s2 ! p) = ?i"
    "confirm_channels s2 = confirm_channels s" "p < length (producers s2)"
    using batch_send_queued [OF assms(1,2) assms(3) [symmetric], of N X n] assms by simp
  have poll: "poll_connection X N ?i ?w = (?w', Some (Ok ()))"
    by (rule poll_user_message)
       (use assms(5-11) in \<open>simp_all add: user_message_def response_correlation_id_def\<close>)
  let ?s = "run_handlers p (s2\<lparr>base := ?w'\<rparr>)"
  have "background X N p s = (?s, Some (Ok ()))"
    using s2 poll assms(2) by (simp add: background_def on_base_def async_defs)
  moreover have "confirm_channels ?s ! ch = [\<lparr>ConfirmationStatus.publishing_id = pid, confirmed = True,
       status = ResponseOk, message = m\<rparr>] \<and>
    map_of (waiting_confirmations (producers ?s ! p)) pid = None"
    using s2(3-6) assms(5,6,12-15)
    by (simp add: run_handlers_def Let_def handle_producer_message_def with_waiter_def handle_confirm_def
        call_back_def async_defs delete_conv')
  ultimately show thesis using that by blast
qed

text \<open>Sending a message and waiting for its confirmation returns the confirmation when the
  broker answers the published message with it: the message went through the accumulator, the
  connection, the dispatcher and the handler to the caller, and is no longer waited for.\<close>

theorem send_with_confirm_returns:
  fixes X :: "('t, 'u) externals" and N :: "('t, 'u, 'w) network"
  assumes "p < length (producers s)" "q = producers s ! p" "producer_inv q" "\<not> is_closed p s"
    and "queue (accumulator q) = []" "1 < batch_size q"
    and "client q < length (clients (base s))" "c = clients (base s) ! client q"
    and "task_running c" "DispatcherState.handler (dispatcher c)" "handler (state c)"
    and "sink c = []" "inbox c = []" "spawned c = []"
    and "next_publishing_id m (publish_sequence q) = (pid, seq)"
    and "tcp_write N (connection c) (frame X (RequestKind.Publish (new_PublishCommand (producer_id q)
        [published (wrap_message q pid m)] (publish_version q)))) (net (base s)) =
      (n, Inr [Some (Ok \<lparr>Response.header = h,
         kind = ResponseKind.PublishConfirm \<lparr>PublishConfirm.publisher_id = pub, publishing_ids = [pid]\<rparr>\<rparr>)])"
  shows "\<exists>s'. do_send_with_confirm X N p m s = (s', Some (Ok \<lparr>ConfirmationStatus.publishing_id = pid,
      confirmed = True, status = ResponseOk, message = m\<rparr>)) \<and>
    map_of (waiting_confirmations (producers s' ! p)) pid = None"
proof -
  let ?ch = "length (confirm_channels s)"
  let ?s0 = "s\<lparr>confirm_channels := confirm_channels s @ [[]]\<rparr>"
  let ?q' = "add_waiter pid (ConfirmSender ?ch) m (q\<lparr>publish_sequence := seq\<rparr>)"
  let ?m = "wrap_message q pid m"
  define q1 where "q1 = ?q'\<lparr>accumulator := (accumulator q)\<lparr>queue := [?m], message_count := 1\<rparr>\<rparr>"
  define s1 where "s1 = update_producer p (\<lambda>_. q1) ?s0"
  have send: "internal_send X N p m (ConfirmSender ?ch) ?s0 = (s1, Some (Ok ()))"
    using internal_send_run [of p ?s0 q m pid seq "[?m]" ?q' "ConfirmSender ?ch" X N] assms(1-6,15)
    by (simp add: is_closed_def s1_def q1_def)
  have q1: "producers s1 ! p = q1" "queue (accumulator q1) = [?m]" "batch_size q1 = batch_size q"
    "client q1 = client q" "producer_id q1 = producer_id q" "publish_version q1 = publish_version q"
    "map_of (waiting_confirmations q1) pid = Some \<lparr>cb = ConfirmSender ?ch, msg = m\<rparr>"
    using assms(1) by (simp_all add: s1_def q1_def add_waiter_def update_conv')
  obtain s' where "background X N p s1 = (s', Some (Ok ()))"
    "confirm_channels s' ! ?ch = [\<lparr>ConfirmationStatus.publishing_id = pid, confirmed = True,
       status = ResponseOk, message = m\<rparr>]"
    "map_of (waiting_confirmations (producers s' ! p)) pid = None"
    by (rule background_confirms [of p s1 q1 ?m c pid ?ch m N X n h pub])
       (use assms q1 in \<open>simp_all add: s1_def\<close>)
  then show ?thesis
    by (simp add: do_send_with_confirm_def open_confirm_channel_def send)
qed

section \<open>Instances\<close>

definition sample_producer :: "(i64, bytes, nat) ProducerInternal" where
  "sample_producer =
     \<lparr>client = 0, stream = ''s'', producer_id = 1, batch_size = 2, publish_sequence = 7,
      waiting_confirmations = [(3, \<lparr>cb = UserCallback 0, msg = sample_message\<rparr>)], producer_closed = False,
      accumulator = \<lparr>queue = [], capacity = 2, message_count = 0\<rparr>, publish_version = 1,
      filter_value_extractor = None\<rparr>"

definition sample_system ::
  "(i64, bytes) MessageResult list list \<Rightarrow> (i64, bytes, (i64, bytes) script, nat) producer_system" where
  "sample_system items =
     \<lparr>base = scripted_world items [handled_client],
      producers = [sample_producer], callback_calls = [], confirm_channels = []\<rparr>"

lemma sample_system_simps [simp]:
  "producers (sample_system items) = [sample_producer]" "producer_inv sample_producer"
  "\<not> is_closed 0 (sample_system items)" "queue (accumulator sample_producer) = []"
  "batch_size sample_producer = 2" "client sample_producer = 0"
  "waiting_confirmations sample_producer = [(3, \<lparr>cb = UserCallback 0, msg = sample_message\<rparr>)]"
  "publish_sequence sample_producer = 7" "Message.publishing_id sample_message = None"
  by (simp_all add: sample_system_def sample_producer_def producer_inv_def accumulator_inv_def
      is_closed_def sample_message_def)

theorem send_accumulates_witness:
  "producers (fst (internal_send byte_externals scripted 0 sample_message (UserCallback 1)
       (sample_system []))) ! 0 =
     (add_waiter 7 (UserCallback 1) sample_message (sample_producer\<lparr>publish_sequence := 8\<rparr>))
       \<lparr>accumulator := \<lparr>queue = [new_ClientMessage 7 sample_message None], capacity = 2, message_count = 1\<rparr>\<rparr>"
  by (subst send_accumulates [where q = sample_producer and pid = 7 and seq = 8, OF _ _ _ _ _ refl refl])
     (simp_all add: next_publishing_id_def wrap_message_def,
      simp add: sample_producer_def)

theorem confirmations_delivered_witness:
  "\<exists>s'. handle_producer_message 0 (Some (Ok (respond (ResponseKind.PublishConfirm
        \<lparr>PublishConfirm.publisher_id = 1, publishing_ids = [3]\<rparr>)))) (sample_system []) = (s', Some (Ok ())) \<and>
     notified (UserCallback 0) s' = [\<lparr>ConfirmationStatus.publishing_id = 3, confirmed = True,
       status = ResponseOk, message = sample_message\<rparr>]"
  using confirmations_delivered [of 0 "sample_system []" _ "\<lparr>PublishConfirm.publisher_id = 1, publishing_ids = [3]\<rparr>"
      "UserCallback 0" "\<lparr>key = 0, version = 1\<rparr>"]
  by (auto simp: valid_callback_def notified_def confirmation_def respond_def sample_system_def)

theorem unknown_confirmation_panics_witness:
  "snd (handle_producer_message 0 (Some (Ok (respond (ResponseKind.PublishConfirm
        \<lparr>PublishConfirm.publisher_id = 1, publishing_ids = [9, 3]\<rparr>)))) (sample_system [])) = Some Panic"
  using unknown_confirmation_panics [of 0 "sample_system []" _
      "\<lparr>PublishConfirm.publisher_id = 1, publishing_ids = [9, 3]\<rparr>" "[]" 9 "[3]" "\<lparr>key = 0, version = 1\<rparr>"]
  by (auto simp: respond_def)

theorem producer_closes_once_witness:
  "is_closed 0 (fst (producer_close byte_externals scripted 0 (sample_system [])))"
  using producer_closes_once [of 0 "sample_system []" _ byte_externals scripted] by simp

theorem send_with_confirm_returns_witness:
  "\<exists>s'. do_send_with_confirm byte_externals scripted 0 sample_message (sample_system
       [[Some (Ok (respond (ResponseKind.PublishConfirm
          \<lparr>PublishConfirm.publisher_id = 1, publishing_ids = [7]\<rparr>)))]]) =
     (s', Some (Ok \<lparr>ConfirmationStatus.publishing_id = 7, confirmed = True, status = ResponseOk,
        message = sample_message\<rparr>))"
proof -
  let ?s = "sample_system [[Some (Ok (respond (ResponseKind.PublishConfirm
          \<lparr>PublishConfirm.publisher_id = 1, publishing_ids = [7]\<rparr>)))]]"
  have "\<exists>s'. do_send_with_confirm byte_externals scripted 0 sample_message ?s =
     (s', Some (Ok \<lparr>ConfirmationStatus.publishing_id = 7, confirmed = True, status = ResponseOk,
        message = sample_message\<rparr>)) \<and> map_of (waiting_confirmations (producers s' ! 0)) 7 = None"
    by (rule send_with_confirm_returns [where q = sample_producer and seq = 8 and pub = 1
          and h = "\<lparr>key = 0, version = 1\<rparr>" and c = handled_client])
       (simp_all add: next_publishing_id_def sample_system_def scripted_world_def respond_def,
        simp_all add: handled_client_def Let_def sample_client_def new_Client_def set_handler_def
          is_closed_def sample_producer_def)
  then show ?thesis by blast
qed

text \<open>A broker that accepts the publisher \<open>p\<close>, whose last id is 41.\<close>

definition sequence_answer :: "(i64, bytes) Response" where
  "sequence_answer = \<lparr>Response.header = \<lparr>key = COMMAND_QUERY_PUBLISHER_SEQUENCE, version = 1\<rparr>,
     kind = ResponseKind.QueryPublisherSequence (new_QueryPublisherResponse 6 ResponseOk 41)\<rparr>"

definition built_script :: "(i64, bytes) MessageResult list list" where
  "built_script = producer_script @ [[Some (Ok (generic_ok 5))], [Some (Ok sequence_answer)]]"

definition named_builder :: "(i64, bytes) ProducerBuilder" where
  "named_builder = set_producer_name ''p'' (environment_producer sample_environment)"

lemma named_builder_simps [simp]:
  "environment named_builder = sample_environment" "name named_builder = Some ''p''"
  "builder_filter named_builder = None" "builder_batch_size named_builder = 100"
  by (simp_all add: named_builder_def set_producer_name_def environment_producer_def)

theorem built_producer_witness:
  "\<exists>s'. producer_build byte_externals scripted named_builder ''s''
       \<lparr>base = scripted_world built_script [], producers = [], callback_calls = [], confirm_channels = []\<rparr> =
       (s' :: (i64, bytes, (i64, bytes) script, nat) producer_system, Some (Ok 0)) \<and>
     publish_sequence (producers s' ! 0) = 42 \<and> producer_inv (producers s' ! 0) \<and>
     stream (producers s' ! 0) = ''s'' \<and> publish_version (producers s' ! 0) = 1"
proof -
  let ?s = "\<lparr>base = scripted_world built_script [], producers = [], callback_calls = [], confirm_channels = []\<rparr>
    :: (i64, bytes, (i64, bytes) script, nat) producer_system"
  let ?rest = "[[Some (Ok sequence_answer)]]"
  have "net (base ?s) = ([], producer_script @ [Some (Ok (generic_ok 5))] # ?rest)"
    by (simp add: scripted_world_def built_script_def)
  from scripted_producer_client [OF this, of "builder_client_name named_builder"] obtain W c out where c:
    "create_producer_client byte_externals scripted sample_environment ''s'' (builder_client_name named_builder)
        (base ?s) =
      (with_client W c (out, [Some (Ok (generic_ok 5))] # ?rest), Some (Ok (length (clients W))))"
    "waiting_client 5 c" .
  let ?c = "c\<lparr>state := (state c)\<lparr>handler := True\<rparr>\<rparr>"
  let ?publisher = "\<lambda>cid. RequestKind.DeclarePublisher (new_DeclarePublisherCommand cid 1 (Some ''p'') ''s'')"
  let ?query = "\<lambda>cid. RequestKind.QueryPublisherSequence (new_QueryPublisherRequest cid ''p'' ''s'')"
  have "waiting_client 5 ?c" using c(2) by (simp add: waiting_client_def)
  then obtain d out' where d: "waiting_client 6 (?c\<lparr>dispatcher := d\<rparr>)"
    "send_and_receive byte_externals scripted (length (clients W)) ''GenericResponse''
      from_response_GenericResponse ?publisher (with_client W ?c (out, [Some (Ok (generic_ok 5))] # ?rest)) =
      (with_client W (?c\<lparr>dispatcher := d\<rparr>) (out', ?rest),
       Some (Ok \<lparr>GenericResponse.correlation_id = 5, code = ResponseOk\<rparr>))"
    by (rule scripted_exchange [where r = "generic_ok 5" and w = W and out = out and rest = ?rest
          and type_name = "''GenericResponse''" and from_response = from_response_GenericResponse
          and msg_factory = ?publisher and x = "\<lparr>GenericResponse.correlation_id = 5, code = ResponseOk\<rparr>"
          and bs = "encode_DeclarePublisherCommand (new_DeclarePublisherCommand 5 1 (Some ''p'') ''s'')"])
       (simp_all add: encode_RequestKind_def, simp add: generic_ok_def from_response_GenericResponse_def)
  from d(1) obtain d' out'' where "send_and_receive byte_externals scripted (length (clients W))
      ''QueryPublisherResponse'' from_response_QueryPublisherResponse ?query
      (with_client W (?c\<lparr>dispatcher := d\<rparr>) (out', ?rest)) =
      (with_client W (?c\<lparr>dispatcher := d'\<rparr>) (out'', []), Some (Ok (new_QueryPublisherResponse 6 ResponseOk 41)))"
    by (rule scripted_exchange [where r = sequence_answer and w = W and out = out' and rest = "[]"
          and type_name = "''QueryPublisherResponse''" and from_response = from_response_QueryPublisherResponse
          and msg_factory = ?query and x = "new_QueryPublisherResponse 6 ResponseOk 41"
          and bs = "encode_u32 6 @ encode_str ''p'' @ encode_str ''s''"])
       (simp_all add: encode_RequestKind_def encode_QueryPublisherRequest_def new_QueryPublisherRequest_def sequence_answer_def from_response_QueryPublisherResponse_def
         answers_id_def response_correlation_id_def is_ConsumerUpdate_def new_QueryPublisherResponse_def)
  with c(1) d(2) have "\<exists>s'. producer_build byte_externals scripted named_builder ''s'' ?s = (s', Some (Ok 0)) \<and>
      publish_sequence (producers s' ! 0) = 42"
    by (simp add: producer_build_def on_base_def client_set_handler_def declare_publisher_def
        query_publisher_sequence_def first_sequence_def built_def new_MessageAccumulator_def
        after_sequence_def new_QueryPublisherResponse_def async_defs)
  then obtain s' where s': "producer_build byte_externals scripted named_builder ''s'' ?s = (s', Some (Ok 0))"
    "publish_sequence (producers s' ! 0) = 42" by blast
  from built_producer [OF s'(1)] s' show ?thesis by auto
qed

section \<open>What sending and building leave alone\<close>

lemma grows_on_base [grows_intros]: "grows producers (on_base m)" "grows (\<lambda>s. map stream (producers s)) (on_base m)"
  by (rule grows_same; simp)+

lemma grows_producers_streams: "grows producers m \<Longrightarrow> grows (\<lambda>s. map stream (producers s)) m"
  by (simp add: grows_def map_mono_prefix)

lemma built_grows [grows_intros]: "grows producers (built b stream' i v response seq)"
  by (auto simp: grows_def built_def new_MessageAccumulator_def)

lemma producer_build_grows: "grows producers (producer_build X N b stream')"
  unfolding producer_build_def by (intro grows_intros) (simp add: grows_def)

lemma internal_send_frame:
  assumes "internal_send X N p m c s = (s', r)" "p < length (producers s)"
  shows "map stream (producers s') = map stream (producers s) \<and>
    (\<forall>q. q \<noteq> p \<longrightarrow> producers s' ! q = producers s ! q) \<and>
    (r = Some (Ok ()) \<longrightarrow> (\<exists>pid. waiting_confirmations (producers s' ! p) =
       AList.update pid \<lparr>cb = c, msg = m\<rparr> (waiting_confirmations (producers s ! p))))"
proof (cases "is_closed p s")
  case True
  with assms show ?thesis by (auto simp: internal_send_def)
next
  case False
  obtain pid seq where pid: "next_publishing_id m (publish_sequence (producers s ! p)) = (pid, seq)"
    by (cases "next_publishing_id m (publish_sequence (producers s ! p))")
  define q where "q = add_waiter pid c m ((producers s ! p)\<lparr>publish_sequence := seq\<rparr>)"
  have q: "stream q = stream (producers s ! p)"
    "waiting_confirmations q = AList.update pid \<lparr>cb = c, msg = m\<rparr> (waiting_confirmations (producers s ! p))"
    by (simp_all add: q_def add_waiter_def)
  have "\<exists>a. producers s' = (producers s)[p := q\<lparr>accumulator := a\<rparr>]"
  proof (cases "snd (accumulator_add (wrap_message q pid m) (accumulator q))")
    case None
    then show ?thesis
      using assms(1) False pid
      by (auto intro!: exI [of _ "accumulator q"] simp: internal_send_def Let_def update_producer_def simp flip: q_def
          split: prod.splits option.splits)
  next
    case (Some full)
    then obtain a where a: "accumulator_add (wrap_message q pid m) (accumulator q) = (a, Some full)"
      by (cases "accumulator_add (wrap_message q pid m) (accumulator q)") simp
    let ?s = "update_producer p (\<lambda>_. q\<lparr>accumulator := a\<rparr>) s"
    have "(if full then producer_batch_send X N p else ready (Ok ())) ?s = (s', r)"
      using assms(1) False pid a by (simp add: internal_send_def Let_def flip: q_def)
    moreover have "\<exists>a'. producers (fst (producer_batch_send X N p ?s)) = (producers s)[p := q\<lparr>accumulator := a'\<rparr>]"
      using assms(2)
      by (auto simp: producer_batch_send_def async_defs update_producer_def split: prod.split)
    ultimately show ?thesis
      by (cases full) (auto simp: async_defs update_producer_def)
  qed
  with q assms(2) show ?thesis
    by (auto simp: map_update list_update_same_conv)
qed

section \<open>Well-formed producers\<close>

definition well_formed :: "('t, 'u, 'w, 'cb) producer_system \<Rightarrow> bool" where
  "well_formed s \<longleftrightarrow> list_all producer_inv (producers s)"

text \<open>What well-formedness depends on.\<close>

definition accounts ::
  "('t, 'u, 'w, 'cb) producer_system \<Rightarrow> (('t, 'u) MessageAccumulator \<times> nat) list" where
  "accounts s = map (\<lambda>q. (accumulator q, batch_size q)) (producers s)"

lemma well_formed_alt:
  "well_formed s \<longleftrightarrow> list_all (\<lambda>(a, n). accumulator_inv a \<and> capacity a = n) (accounts s)"
  by (simp add: well_formed_def accounts_def list.pred_map comp_def producer_inv_def [abs_def])

lemma well_formed_accounts: "accounts s' = accounts s \<Longrightarrow> well_formed s' \<longleftrightarrow> well_formed s"
  by (simp add: well_formed_alt)

lemma accounts_update:
  assumes "accumulator q = accumulator (producers s ! p)" "batch_size q = batch_size (producers s ! p)"
  shows "accounts (s\<lparr>producers := (producers s)[p := q]\<rparr>) = accounts s"
  using assms
  by (cases "p < length (producers s)") (simp_all add: accounts_def map_update list_update_same_conv not_less list_update_beyond)

lemma accounts_update_producer:
  assumes "\<And>q. accumulator (f q) = accumulator q \<and> batch_size (f q) = batch_size q"
  shows "accounts (update_producer p f s) = accounts s"
  unfolding update_producer_def by (rule accounts_update) (use assms in simp_all)

lemma accounts_on_base [simp]: "accounts (fst (on_base m s)) = accounts s"
  by (simp add: accounts_def)

lemma accounts_call_back [simp]: "accounts (call_back k st s) = accounts s"
  by (simp add: accounts_def call_back_def split: Callback.split)

lemma accounts_with_waiter:
  assumes "\<And>waiter t. accounts (f waiter t) = accounts t"
  shows "accounts (fst (with_waiter p pid f s)) = accounts s"
  by (auto simp: with_waiter_def assms accounts_update_producer split: option.split)

lemma accounts_await:
  assumes "accounts (fst (m s)) = accounts s" "\<And>x t. accounts (fst (k x t)) = accounts t"
  shows "accounts (fst (await m k s)) = accounts s"
  using assms by (auto simp: await_def split: prod.split option.split result.split)

lemma accounts_confirm_all: "accounts (fst (confirm_all p pids s)) = accounts s"
  by (induction pids arbitrary: s)
     (auto intro!: accounts_await accounts_with_waiter simp: async_defs handle_confirm_def)

lemma accounts_fail_all: "accounts (fst (fail_all p es s)) = accounts s"
  by (induction es arbitrary: s)
     (auto intro!: accounts_await accounts_with_waiter simp: async_defs handle_error_def)

lemma accounts_handle: "accounts (fst (handle_producer_message p item s)) = accounts s"
proof -
  have "accounts (t\<lparr>base := w\<rparr>) = accounts t" for t w by (simp add: accounts_def)
  then show ?thesis
    by (auto simp: handle_producer_message_def async_defs accounts_fail_all
        intro!: accounts_await accounts_confirm_all
        split: option.split result.split ResponseKind.split)
qed

lemma accounts_close: "accounts (fst (producer_close X N p s)) = accounts s"
proof (cases "producer_closed (producers s ! p)")
  case True
  then show ?thesis by (simp add: producer_close_def)
next
  case False
  have "accounts (update_producer p (\<lambda>q. q\<lparr>producer_closed := True\<rparr>) s) = accounts s"
    by (rule accounts_update_producer) simp
  then show ?thesis
    by (subst producer_close_run [OF False]) (simp add: accounts_def)
qed

lemma wrap_batch_accounts:
  "accumulator (fst (wrap_batch ms c q)) = accumulator q \<and> batch_size (fst (wrap_batch ms c q)) = batch_size q"
proof (induction ms arbitrary: q)
  case (Cons m ms)
  obtain pid seq where pid: "next_publishing_id m (publish_sequence q) = (pid, seq)"
    by (cases "next_publishing_id m (publish_sequence q)")
  obtain q' cs where "wrap_batch ms c (add_waiter pid c m (q\<lparr>publish_sequence := seq\<rparr>)) = (q', cs)"
    by (cases "wrap_batch ms c (add_waiter pid c m (q\<lparr>publish_sequence := seq\<rparr>))")
  with Cons [of "add_waiter pid c m (q\<lparr>publish_sequence := seq\<rparr>)"] show ?case
    by (simp add: pid) (simp add: add_waiter_def)
qed simp

lemma accounts_batch_send: "accounts (fst (internal_batch_send X N p ms c s)) = accounts s"
proof -
  have "accounts (update_producer p (\<lambda>_. fst (wrap_batch ms c (producers s ! p))) s) = accounts s"
    using wrap_batch_accounts [of ms c "producers s ! p"]
    by (simp add: update_producer_def accounts_update)
  then show ?thesis
    by (auto simp: internal_batch_send_def split: prod.split)
qed

lemma accumulator_get_inv:
  assumes "producer_inv q"
  shows "accumulator_inv (fst (accumulator_get (batch_size q) (accumulator q)))"
    "capacity (fst (accumulator_get (batch_size q) (accumulator q))) = batch_size q"
  using assms by (auto simp: producer_inv_def accumulator_inv_def accumulator_get_def Let_def)

lemma producer_batch_send_well_formed:
  assumes "p < length (producers s)" "well_formed s"
  shows "well_formed (fst (producer_batch_send X N p s))"
proof -
  let ?q = "producers s ! p"
  obtain a batch where get: "accumulator_get (batch_size ?q) (accumulator ?q) = (a, batch)"
    by (cases "accumulator_get (batch_size ?q) (accumulator ?q)")
  have "producer_inv ?q" using assms by (simp add: well_formed_def list_all_length)
  then have "producer_inv (?q\<lparr>accumulator := a\<rparr>)"
    using accumulator_get_inv [of ?q] get by (simp add: producer_inv_def)
  moreover have "producers (fst (producer_batch_send X N p s)) = (producers s)[p := ?q\<lparr>accumulator := a\<rparr>]"
    by (auto simp: producer_batch_send_def get async_defs update_producer_def)
  ultimately show ?thesis
    using assms(2) by (auto simp: well_formed_def list_all_iff dest!: subsetD [OF set_update_subset_insert])
qed

lemma internal_send_well_formed:
  assumes "p < length (producers s)" "well_formed s"
  shows "well_formed (fst (internal_send X N p m c s))"
proof (cases "is_closed p s")
  case True
  with assms show ?thesis by (simp add: internal_send_def)
next
  case False
  let ?q = "producers s ! p"
  obtain pid seq where pid: "next_publishing_id m (publish_sequence ?q) = (pid, seq)"
    by (cases "next_publishing_id m (publish_sequence ?q)")
  obtain s' r where r: "internal_send X N p m c s = (s', r)" by (cases "internal_send X N p m c s")
  have "producer_inv ?q" using assms by (simp add: well_formed_def list_all_length)
  from internal_send_run [OF assms(1) refl this False pid refl refl, of X N c] r
  have "producer_inv (producers s' ! p)" by simp
  moreover from internal_send_frame [OF r assms(1)] have
    "length (producers s') = length (producers s)" "\<And>q. q \<noteq> p \<Longrightarrow> producers s' ! q = producers s ! q"
    using map_eq_imp_length_eq by blast+
  ultimately show ?thesis
    using assms(2) r unfolding well_formed_def list_all_length by (metis fst_conv)
qed

lemma producer_build_well_formed:
  assumes "builder_batch_size b < 2 ^ 64" "well_formed s"
  shows "well_formed (fst (producer_build X N b stream' s))"
proof -
  have built: "well_formed (fst (built b stream' i v response seq t))" if "well_formed t" for i v response seq t
    using that assms(1)
    by (auto simp: well_formed_def built_def new_MessageAccumulator_def producer_inv_def accumulator_inv_def)
  have step: "well_formed (fst (await m k t))"
    if "well_formed t" "producers (fst (m t)) = producers t" "\<And>x u. well_formed u \<Longrightarrow> well_formed (fst (k x u))"
    for m :: "('a, 'b, 'c, 'd, 'x, 'e) producer_async" and k :: "'x \<Rightarrow> ('a, 'b, 'c, 'd, 'y, 'e) producer_async" and t
    using that by (auto simp: await_def well_formed_def split: prod.split option.split result.split)
  show ?thesis
    unfolding producer_build_def by (intro step assms(2) built) simp_all
qed

text \<open>Operations that run one after the other, each to its end, keep the accumulators of all
  producers well-formed: fewer messages are queued than a batch holds, the counter is their exact
  number and fits its type, and the capacity is the batch size.  When sending tasks interleave
  this does not hold (\<open>full_queue_waits_for_tick\<close> in \<open>Accumulator\<close>).\<close>

theorem producers_stay_well_formed:
  fixes X :: "('t, 'u) externals" and N :: "('t, 'u, 'w) network"
  assumes "well_formed s" "p < length (producers s)" "builder_batch_size b < 2 ^ 64"
  shows "well_formed (fst (producer_build X N b stream' s)) \<and>
    well_formed (fst (internal_send X N p m c s)) \<and> well_formed (fst (internal_batch_send X N p ms c s)) \<and>
    well_formed (fst (producer_batch_send X N p s)) \<and> well_formed (fst (handle_producer_message p item s)) \<and>
    well_formed (fst (producer_close X N p s))"
proof (intro conjI)
  show "well_formed (fst (producer_build X N b stream' s))"
    by (rule producer_build_well_formed [OF assms(3,1)])
  show "well_formed (fst (internal_send X N p m c s))"
    by (rule internal_send_well_formed [OF assms(2,1)])
  show "well_formed (fst (producer_batch_send X N p s))"
    by (rule producer_batch_send_well_formed [OF assms(2,1)])
qed (use assms(1) in \<open>simp_all add: well_formed_accounts [OF accounts_batch_send]
    well_formed_accounts [OF accounts_handle] well_formed_accounts [OF accounts_close]\<close>)

theorem producers_stay_well_formed_witness:
  "well_formed (fst (internal_send byte_externals scripted 0 sample_message (UserCallback 1) (sample_system [])))"
  using producers_stay_well_formed [of "sample_system []" 0 "environment_producer sample_environment"
      byte_externals scripted "''s''" sample_message "UserCallback 1" "[]" None]
  by (simp add: well_formed_def environment_producer_def)

end
