(* ===== verification/Accumulator.thy ===== *)
theory Accumulator
  imports Producer "HOL-Library.Multiset"
begin

text \<open>
  The accumulator of a producer under concurrency (\<open>src/producer.rs\<close>).

  Tasks that send and the task that flushes at every tick work on the same accumulator.  A thread
  is at one of the points between two atomic actions: putting its message into the channel,
  counting it, taking the lock of the receiving half, receiving messages one by one,
  subtracting their number and releasing the lock, and publishing them on the connection (whose
  lock makes the write of a batch atomic).  Publishing may fail: \<open>batch_send\<close> has already drained the
  channel when \<open>client.publish\<close> returns its error, the task only logs or returns that error, and
  nobody puts the batch back.  \<open>astep\<close> lets any thread do its next action.  \<open>sent\<close> lists
  the messages in the order they entered the channel, \<open>written\<close> in the order they reached the
  connection, \<open>failed\<close> those of the batches whose publish failed.  A task whose future is dropped
  half-way is not modelled.

  The abstract specification knows only which messages are pending, what was written and what
  was given up.
\<close>

section \<open>Interleaved steps\<close>

datatype ('t, 'u) pc =
    Adding "('t, 'u) ClientMessage"
  | Counting
  | Locking
  | Collecting "('t, 'u) ClientMessage list"
  | Subtracting "('t, 'u) ClientMessage list"
  | Publishing "('t, 'u) ClientMessage list"
  | Done

record ('t, 'u) acc_config =
  acc :: "('t, 'u) MessageAccumulator"
  lock :: "nat option"
  threads :: "('t, 'u) pc list"
  sent :: "('t, 'u) ClientMessage list"
  written :: "('t, 'u) ClientMessage list"
  failed :: "('t, 'u) ClientMessage list"

definition initial_acc :: "nat \<Rightarrow> ('t, 'u) acc_config" where
  "initial_acc n = \<lparr>acc = \<lparr>queue = [], capacity = n, message_count = 0\<rparr>, lock = None, threads = [],
     sent = [], written = [], failed = []\<rparr>"

definition goto :: "nat \<Rightarrow> ('t, 'u) pc \<Rightarrow> ('t, 'u) acc_config \<Rightarrow> ('t, 'u) acc_config" where
  "goto n pc c = c\<lparr>threads := (threads c)[n := pc]\<rparr>"

definition at :: "nat \<Rightarrow> ('t, 'u) pc \<Rightarrow> ('t, 'u) acc_config \<Rightarrow> bool" where
  "at n pc c \<longleftrightarrow> n < length (threads c) \<and> threads c ! n = pc"

text \<open>The end of \<open>batch_send\<close>, when \<open>client.publish\<close> succeeds or fails.\<close>

definition publish_batch ::
  "bool \<Rightarrow> ('t, 'u) ClientMessage list \<Rightarrow> ('t, 'u) acc_config \<Rightarrow> ('t, 'u) acc_config" where
  "publish_batch ok ms c =
    (if ok then c\<lparr>written := written c @ ms\<rparr> else c\<lparr>failed := failed c @ ms\<rparr>)"

lemma publish_batch_simps [simp]:
  "publish_batch True ms c = c\<lparr>written := written c @ ms\<rparr>"
  "publish_batch False ms c = c\<lparr>failed := failed c @ ms\<rparr>"
  by (simp_all add: publish_batch_def)

inductive astep :: "('t, 'u) acc_config \<Rightarrow> ('t, 'u) acc_config \<Rightarrow> bool" where
  begin_send: "astep c (c\<lparr>threads := threads c @ [Adding m]\<rparr>)"
| tick: "astep c (c\<lparr>threads := threads c @ [Locking]\<rparr>)"
| put: "at n (Adding m) c \<Longrightarrow> length (queue (acc c)) < capacity (acc c) \<Longrightarrow>
    astep c (goto n Counting (c\<lparr>acc := (acc c)\<lparr>queue := queue (acc c) @ [m]\<rparr>, sent := sent c @ [m]\<rparr>))"
| count: "at n Counting c \<Longrightarrow>
    astep c (goto n (if message_count (acc c) + 1 = of_nat (capacity (acc c)) then Locking else Done)
      (c\<lparr>acc := (acc c)\<lparr>message_count := message_count (acc c) + 1\<rparr>\<rparr>))"
| take_lock: "at n Locking c \<Longrightarrow> lock c = None \<Longrightarrow>
    astep c (goto n (Collecting []) (c\<lparr>lock := Some n\<rparr>))"
| receive: "at n (Collecting ms) c \<Longrightarrow> length ms < capacity (acc c) \<Longrightarrow> queue (acc c) = m # rest \<Longrightarrow>
    astep c (goto n (Collecting (ms @ [m])) (c\<lparr>acc := (acc c)\<lparr>queue := rest\<rparr>\<rparr>))"
| stop: "at n (Collecting ms) c \<Longrightarrow> length ms = capacity (acc c) \<or> queue (acc c) = [] \<Longrightarrow>
    astep c (goto n (Subtracting ms) c)"
| subtract: "at n (Subtracting ms) c \<Longrightarrow>
    astep c (goto n (if ms = [] then Done else Publishing ms)
      (c\<lparr>acc := (acc c)\<lparr>message_count := message_count (acc c) - of_nat (length ms)\<rparr>, lock := None\<rparr>))"
| publish: "at n (Publishing ms) c \<Longrightarrow> astep c (goto n Done (publish_batch True ms c))"
| publish_fails: "at n (Publishing ms) c \<Longrightarrow> astep c (goto n Done (publish_batch False ms c))"

inductive_cases astepE [elim]: "astep c c'"

definition acc_reachable :: "nat \<Rightarrow> ('t, 'u) acc_config \<Rightarrow> bool" where
  "acc_reachable n c \<longleftrightarrow> astep\<^sup>*\<^sup>* (initial_acc n) c"

text \<open>The step of a given thread is determined by its point, but for the outcome of publishing;
  \<open>run_schedule\<close> follows a schedule of threads, new senders, ticks and failing publishes.\<close>

datatype ('t, 'u) choice = Sender "('t, 'u) ClientMessage" | Tick | Thread nat | Fail nat

fun thread_step :: "nat \<Rightarrow> ('t, 'u) pc \<Rightarrow> ('t, 'u) acc_config \<Rightarrow> ('t, 'u) acc_config option" where
  "thread_step n (Adding m) c =
    (if length (queue (acc c)) < capacity (acc c)
     then Some (goto n Counting (c\<lparr>acc := (acc c)\<lparr>queue := queue (acc c) @ [m]\<rparr>, sent := sent c @ [m]\<rparr>))
     else None)"
| "thread_step n Counting c =
     Some (goto n (if message_count (acc c) + 1 = of_nat (capacity (acc c)) then Locking else Done)
       (c\<lparr>acc := (acc c)\<lparr>message_count := message_count (acc c) + 1\<rparr>\<rparr>))"
| "thread_step n Locking c =
     (if lock c = None then Some (goto n (Collecting []) (c\<lparr>lock := Some n\<rparr>)) else None)"
| "thread_step n (Collecting ms) c =
    (case queue (acc c) of
       m # rest \<Rightarrow>
         (if length ms < capacity (acc c)
          then Some (goto n (Collecting (ms @ [m])) (c\<lparr>acc := (acc c)\<lparr>queue := rest\<rparr>\<rparr>))
          else if length ms = capacity (acc c) then Some (goto n (Subtracting ms) c) else None)
     | [] \<Rightarrow> Some (goto n (Subtracting ms) c))"
| "thread_step n (Subtracting ms) c =
     Some (goto n (if ms = [] then Done else Publishing ms)
       (c\<lparr>acc := (acc c)\<lparr>message_count := message_count (acc c) - of_nat (length ms)\<rparr>, lock := None\<rparr>))"
| "thread_step n (Publishing ms) c = Some (goto n Done (publish_batch True ms c))"
| "thread_step n Done c = None"

fun run_schedule :: "('t, 'u) choice list \<Rightarrow> ('t, 'u) acc_config \<Rightarrow> ('t, 'u) acc_config option" where
  "run_schedule [] c = Some c"
| "run_schedule (Sender m # cs) c = run_schedule cs (c\<lparr>threads := threads c @ [Adding m]\<rparr>)"
| "run_schedule (Tick # cs) c = run_schedule cs (c\<lparr>threads := threads c @ [Locking]\<rparr>)"
| "run_schedule (Thread n # cs) c =
    (if n < length (threads c)
     then case thread_step n (threads c ! n) c of Some c' \<Rightarrow> run_schedule cs c' | None \<Rightarrow> None
     else None)"
| "run_schedule (Fail n # cs) c =
    (if n < length (threads c)
     then case threads c ! n of
            Publishing ms \<Rightarrow> run_schedule cs (goto n Done (publish_batch False ms c))
          | _ \<Rightarrow> None
     else None)"

lemma thread_step_sound:
  assumes "thread_step n pc c = Some c'" "at n pc c"
  shows "astep c c'"
proof (cases pc)
  case Counting
  with assms show ?thesis using count [of n c] by simp
next
  case (Subtracting ms)
  with assms show ?thesis using subtract [of n ms c] by simp
next
  case (Publishing ms)
  with assms show ?thesis using publish [of n ms c] by simp
qed (use assms in \<open>auto intro: astep.intros split: if_splits list.splits\<close>)

lemma run_schedule_sound: "run_schedule cs c = Some c' \<Longrightarrow> astep\<^sup>*\<^sup>* c c'"
proof (induction cs c rule: run_schedule.induct)
  case (4 n cs c)
  from 4(2) obtain c1 where "thread_step n (threads c ! n) c = Some c1" "n < length (threads c)"
    and "run_schedule cs c1 = Some c'"
    by (auto split: if_splits option.splits)
  moreover from this have "astep c c1"
    by (auto simp: at_def intro: thread_step_sound)
  ultimately show ?case
    using 4(1) [of c1] by (auto intro: converse_rtranclp_into_rtranclp)
next
  case (5 n cs c)
  from 5(2) obtain ms where ms: "at n (Publishing ms) c"
    and run: "run_schedule cs (goto n Done (c\<lparr>failed := failed c @ ms\<rparr>)) = Some c'"
    by (auto simp: at_def split: if_splits pc.splits)
  then have "astep\<^sup>*\<^sup>* (goto n Done (c\<lparr>failed := failed c @ ms\<rparr>)) c'"
    using 5(1) [of ms] by (simp add: at_def)
  with publish_fails [OF ms, simplified] show ?case
    by (rule converse_rtranclp_into_rtranclp)
qed (auto intro: converse_rtranclp_into_rtranclp begin_send tick)

section \<open>Abstract specification\<close>

text \<open>Pending messages, what was written and what was given up: a message is accepted, a batch of
  pending messages is written, or a batch of pending messages is given up because its publish
  failed.\<close>

type_synonym ('t, 'u) acc_spec =
  "('t, 'u) ClientMessage multiset \<times> ('t, 'u) ClientMessage list \<times> ('t, 'u) ClientMessage list"

inductive spec_step :: "nat \<Rightarrow> ('t, 'u) acc_spec \<Rightarrow> ('t, 'u) acc_spec \<Rightarrow> bool" for n where
  accept: "spec_step n (pending, out, lost) (add_mset m pending, out, lost)"
| flush: "mset ms \<subseteq># pending \<Longrightarrow> ms \<noteq> [] \<Longrightarrow> length ms \<le> n \<Longrightarrow>
    spec_step n (pending, out, lost) (pending - mset ms, out @ ms, lost)"
| give_up: "mset ms \<subseteq># pending \<Longrightarrow> ms \<noteq> [] \<Longrightarrow> length ms \<le> n \<Longrightarrow>
    spec_step n (pending, out, lost) (pending - mset ms, out, lost @ ms)"

primrec held :: "('t, 'u) pc \<Rightarrow> ('t, 'u) ClientMessage list" where
  "held (Adding m) = []"
| "held Counting = []"
| "held Locking = []"
| "held (Collecting ms) = ms"
| "held (Subtracting ms) = ms"
| "held (Publishing ms) = ms"
| "held Done = []"

definition in_flight :: "('t, 'u) pc list \<Rightarrow> ('t, 'u) ClientMessage multiset" where
  "in_flight pcs = (\<Sum>pc \<leftarrow> pcs. mset (held pc))"

definition pending :: "('t, 'u) acc_config \<Rightarrow> ('t, 'u) ClientMessage multiset" where
  "pending c = mset (queue (acc c)) + in_flight (threads c)"

definition abs_acc :: "('t, 'u) acc_config \<Rightarrow> ('t, 'u) acc_spec" where
  "abs_acc c = (pending c, written c, failed c)"

section \<open>Invariant\<close>

definition holds_lock :: "('t, 'u) pc \<Rightarrow> bool" where
  "holds_lock pc = (case pc of Collecting _ \<Rightarrow> True | Subtracting _ \<Rightarrow> True | _ \<Rightarrow> False)"

definition uncounted :: "('t, 'u) pc \<Rightarrow> int" where
  "uncounted pc = (case pc of Counting \<Rightarrow> 1 | Collecting ms \<Rightarrow> - int (length ms)
     | Subtracting ms \<Rightarrow> - int (length ms) | _ \<Rightarrow> 0)"

definition lock_inv :: "('t, 'u) acc_config \<Rightarrow> bool" where
  "lock_inv c \<longleftrightarrow> (\<forall>i < length (threads c). holds_lock (threads c ! i) \<longleftrightarrow> lock c = Some i) \<and>
     (\<forall>i. lock c = Some i \<longrightarrow> i < length (threads c))"

definition acc_inv :: "nat \<Rightarrow> ('t, 'u) acc_config \<Rightarrow> bool" where
  "acc_inv n c \<longleftrightarrow> capacity (acc c) = n \<and> length (queue (acc c)) \<le> n \<and>
     (\<forall>pc \<in> set (threads c). length (held pc) \<le> n) \<and>
     lock_inv c \<and> mset (sent c) = pending c + mset (written c) + mset (failed c) \<and>
     message_count (acc c) = of_int (int (length (queue (acc c))) - (\<Sum>pc \<leftarrow> threads c. uncounted pc))"

lemma goto_simps [simp]:
  "acc (goto n pc c) = acc c" "lock (goto n pc c) = lock c" "sent (goto n pc c) = sent c"
  "written (goto n pc c) = written c" "failed (goto n pc c) = failed c" "threads (goto n pc c) = (threads c)[n := pc]"
  by (simp_all add: goto_def)

lemma sum_list_update_group:
  fixes f :: "'a \<Rightarrow> int"
  assumes "n < length xs"
  shows "(\<Sum>x \<leftarrow> xs[n := y]. f x) = (\<Sum>x \<leftarrow> xs. f x) + f y - f (xs ! n)"
  using assms
proof (induction xs arbitrary: n)
  case (Cons x xs)
  then show ?case by (cases n) simp_all
qed simp

lemma in_flight_update:
  assumes "n < length pcs"
  shows "in_flight (pcs[n := pc]) + mset (held (pcs ! n)) = in_flight pcs + mset (held pc)"
  using assms
proof (induction pcs arbitrary: n)
  case (Cons x xs)
  show ?case
  proof (cases n)
    case 0
    then show ?thesis by (simp add: in_flight_def)
  next
    case (Suc k)
    with Cons.IH [of k] Cons.prems show ?thesis by (simp add: in_flight_def add.assoc)
  qed
qed simp

lemma in_flight_same:
  "at n pc c \<Longrightarrow> held pc' = held pc \<Longrightarrow> in_flight ((threads c)[n := pc']) = in_flight (threads c)"
  using in_flight_update [of n "threads c" pc'] by (simp add: at_def)

lemma in_flight_snoc [simp]: "in_flight (pcs @ [pc]) = in_flight pcs + mset (held pc)"
  by (simp add: in_flight_def)

lemma at_record [simp]:
  "at n pc (c\<lparr>acc := a\<rparr>) = at n pc c" "at n pc (c\<lparr>sent := l\<rparr>) = at n pc c"
  "at n pc (c\<lparr>written := l\<rparr>) = at n pc c" "at n pc (c\<lparr>lock := k\<rparr>) = at n pc c"
  "at n pc (c\<lparr>failed := l\<rparr>) = at n pc c"
  by (simp_all add: at_def)

text \<open>How a step changes what is pending, what was sent, what was written and what was given up.\<close>

lemma astep_pending:
  assumes "astep c c'"
  shows "pending c' = pending c \<and> sent c' = sent c \<and> written c' = written c \<and> failed c' = failed c \<or>
    (\<exists>m. pending c' = add_mset m (pending c) \<and> sent c' = sent c @ [m] \<and> written c' = written c \<and>
       failed c' = failed c) \<or>
    (\<exists>n ms. at n (Publishing ms) c \<and> pending c = pending c' + mset ms \<and> sent c' = sent c \<and>
       (written c' = written c @ ms \<and> failed c' = failed c \<or>
        written c' = written c \<and> failed c' = failed c @ ms))"
  using assms
proof cases
  case (publish n ms)
  then show ?thesis
    using in_flight_update [of n "threads c" Done] by (auto simp: pending_def at_def)
next
  case (publish_fails n ms)
  then show ?thesis
    using in_flight_update [of n "threads c" Done] by (auto simp: pending_def at_def)
next
  case (receive n ms m rest)
  then have "in_flight (threads c') = in_flight (threads c) + {#m#}"
    using in_flight_update [of n "threads c" "Collecting (ms @ [m])"] by (simp add: at_def)
  with receive show ?thesis by (simp add: pending_def)
qed (auto simp: pending_def in_flight_same)

text \<open>The other parts of the invariant.\<close>

lemma astep_bounds:
  assumes "astep c c'" "capacity (acc c) = n" "length (queue (acc c)) \<le> n"
    "\<forall>pc \<in> set (threads c). length (held pc) \<le> n"
  shows "capacity (acc c') = n" "length (queue (acc c')) \<le> n"
    "\<forall>pc \<in> set (threads c'). length (held pc) \<le> n"
proof -
  have at: "length (held pc) \<le> n" if "at i pc c" for i pc
    using that assms(4) by (auto simp: at_def)
  have upd: "length (held pc') \<le> n"
    if "pc' \<in> set ((threads c)[i := pc])" "length (held pc) \<le> n" for i pc pc'
    using that assms(4) by (auto dest!: subsetD [OF set_update_subset_insert])
  show "capacity (acc c') = n"
    using assms(1-3) by cases auto
  show "length (queue (acc c')) \<le> n"
    using assms(1-3) by cases auto
  show "\<forall>pc \<in> set (threads c'). length (held pc) \<le> n"
    using assms(1)
  proof cases
    case (subtract i ms)
    then show ?thesis using at [of i "Subtracting ms"] by (auto dest: upd)
  next
    case (stop i ms)
    then show ?thesis using at [of i "Collecting ms"] by (auto dest: upd)
  qed (use assms in \<open>auto dest: upd\<close>)
qed

lemma lock_inv_goto:
  assumes "lock_inv c" "at i pc c" "threads c' = (threads c)[i := pc']"
    and "holds_lock pc' \<Longrightarrow> \<not> holds_lock pc \<Longrightarrow> lock c = None"
    and "lock c' = (if holds_lock pc' then Some i else if holds_lock pc then None else lock c)"
  shows "lock_inv c'"
proof -
  have i: "i < length (threads c)" "holds_lock pc \<longleftrightarrow> lock c = Some i"
    using assms(1,2) by (auto simp: lock_inv_def at_def)
  have "holds_lock (threads c' ! j) \<longleftrightarrow> lock c' = Some j" if "j < length (threads c')" for j
    using that assms i by (cases "j = i") (auto simp: lock_inv_def)
  moreover have "j < length (threads c')" if "lock c' = Some j" for j
    using that assms i by (auto simp: lock_inv_def split: if_splits)
  ultimately show ?thesis by (simp add: lock_inv_def)
qed

lemma lock_inv_snoc:
  "lock_inv c \<Longrightarrow> \<not> holds_lock pc \<Longrightarrow> lock_inv (c\<lparr>threads := threads c @ [pc]\<rparr>)"
  by (auto simp: lock_inv_def nth_append less_Suc_eq)

lemma holds_lock_simps [simp]:
  "\<not> holds_lock (Adding m)" "\<not> holds_lock Counting" "\<not> holds_lock Locking" "holds_lock (Collecting ms)"
  "holds_lock (Subtracting ms)" "\<not> holds_lock (Publishing ms)" "\<not> holds_lock Done"
  by (simp_all add: holds_lock_def)

lemma astep_lock:
  assumes "astep c c'" "lock_inv c"
  shows "lock_inv c'"
proof -
  have owner: "lock c = Some i" if "at i pc c" "holds_lock pc" for i pc
    using that assms(2) by (auto simp: lock_inv_def at_def)
  show ?thesis
    using assms(1) by cases (auto intro: lock_inv_snoc lock_inv_goto assms(2) simp: owner assms(2))
qed

lemma astep_count:
  assumes "astep c c'"
    and "message_count (acc c) = of_int (int (length (queue (acc c))) - (\<Sum>pc \<leftarrow> threads c. uncounted pc))"
  shows "message_count (acc c') = of_int (int (length (queue (acc c'))) - (\<Sum>pc \<leftarrow> threads c'. uncounted pc))"
  using assms
  by cases (auto simp: at_def uncounted_def sum_list_update_group)

lemma astep_acc_inv:
  assumes "astep c c'" "acc_inv n c"
  shows "acc_inv n c'"
proof -
  have "mset (sent c') = pending c' + mset (written c') + mset (failed c')"
    using astep_pending [OF assms(1)] assms(2) by (auto simp: acc_inv_def ac_simps)
  with assms show ?thesis
    using astep_bounds [OF assms(1), of n] astep_lock [OF assms(1)] astep_count [OF assms(1)]
    unfolding acc_inv_def by blast
qed

lemma acc_reachable_inv: "acc_reachable n c \<Longrightarrow> acc_inv n c"
  unfolding acc_reachable_def
proof (induction rule: rtranclp_induct)
  case base
  show ?case by (simp add: acc_inv_def initial_acc_def lock_inv_def pending_def in_flight_def)
qed (rule astep_acc_inv)

lemma publishing_nonempty:
  assumes "acc_reachable n c" "at i (Publishing ms) c"
  shows "ms \<noteq> []"
  using assms unfolding acc_reachable_def
proof (induction arbitrary: i ms rule: rtranclp_induct)
  case base
  then show ?case by (simp add: at_def initial_acc_def)
next
  case (step c c')
  show ?case
    using step(2)
  proof cases
    case (subtract j xs)
    with step show ?thesis by (auto simp: at_def nth_list_update split: if_splits)
  qed (use step in \<open>auto simp: at_def nth_append nth_list_update split: if_splits\<close>)
qed

lemma acc_reachable_initial: "acc_reachable n (initial_acc n)"
  by (simp add: acc_reachable_def)

lemma acc_reachable_step: "acc_reachable n c \<Longrightarrow> astep c c' \<Longrightarrow> acc_reachable n c'"
  by (auto simp: acc_reachable_def)

section \<open>Properties of the accumulator\<close>

text \<open>C4.  However sending tasks and flushing tasks interleave, and whichever publishes fail, a
  message is never duplicated and leaves the accumulator only by being written or with the whole
  batch whose publish failed: what entered the channel is what was written to the connection, what
  was in the failed batches and what is still queued or held by a task.  Queue and batches stay
  within the batch size, and when no task is under way the counter is the length of the queue.  A
  step that loses messages is a failing publish, of exactly the batch its task holds.\<close>

theorem accumulator_keeps_messages:
  assumes "acc_reachable n c"
  shows "mset (sent c) =
      mset (written c) + mset (failed c) + mset (queue (acc c)) + in_flight (threads c) \<and>
    length (queue (acc c)) \<le> n \<and> list_all (\<lambda>pc. length (held pc) \<le> n) (threads c) \<and>
    (list_all ((=) Done) (threads c) \<longrightarrow> message_count (acc c) = of_nat (length (queue (acc c)))) \<and>
    (astep c c' \<and> failed c' \<noteq> failed c \<longrightarrow>
      (\<exists>i ms. at i (Publishing ms) c \<and> failed c' = failed c @ ms \<and> written c' = written c))"
proof -
  have "(\<Sum>pc \<leftarrow> threads c. uncounted pc) = 0" if "list_all ((=) Done) (threads c)"
  proof -
    have "map uncounted (threads c) = map (\<lambda>_. 0) (threads c)"
      using that by (auto simp: list_all_iff uncounted_def)
    then show ?thesis by (metis sum_list_0)
  qed
  moreover have "\<exists>i ms. at i (Publishing ms) c \<and> failed c' = failed c @ ms \<and> written c' = written c"
    if "astep c c'" "failed c' \<noteq> failed c"
    using astep_pending [OF that(1)] that(2) by fastforce
  ultimately show ?thesis
    using acc_reachable_inv [OF assms] by (auto simp: acc_inv_def pending_def list_all_iff ac_simps)
qed

lemma schedule_reachable: "run_schedule cs (initial_acc n) = Some c \<Longrightarrow> acc_reachable n c"
  unfolding acc_reachable_def by (rule run_schedule_sound)

text \<open>A schedule with batches of one message: the first is written, the publish of the second
  fails, a third task holds its batch, and the fourth message is still queued.\<close>

definition lossy_schedule :: "('t, 'u) ClientMessage list \<Rightarrow> ('t, 'u) choice list" where
  "lossy_schedule ms =
    [Sender (ms ! 0), Thread 0, Thread 0, Thread 0, Thread 0, Thread 0, Thread 0, Thread 0,
     Sender (ms ! 1), Thread 1, Thread 1, Thread 1, Thread 1, Thread 1, Thread 1, Fail 1,
     Sender (ms ! 2), Thread 2, Thread 2, Thread 2, Thread 2, Thread 2, Thread 2,
     Sender (ms ! 3), Thread 3]"

definition sample_messages :: "(i64, bytes) ClientMessage list" where
  "sample_messages = map (\<lambda>i. new_ClientMessage i sample_message None) [7, 8, 9, 10]"

definition lossy_config :: "(i64, bytes) acc_config" where
  "lossy_config = the (run_schedule (lossy_schedule sample_messages) (initial_acc 1))"

lemma lossy_run:
  assumes "ms = [m1, m2, m3, m4]"
  shows "run_schedule (lossy_schedule ms) (initial_acc 1) =
    Some \<lparr>acc = \<lparr>queue = [m4], capacity = 1, message_count = 0\<rparr>, lock = None,
      threads = [Done, Done, Publishing [m3], Counting], sent = [m1, m2, m3, m4], written = [m1],
      failed = [m2]\<rparr>"
  by (simp add: assms lossy_schedule_def initial_acc_def goto_def)

lemmas lossy_config_simp =
  lossy_run [where ms = sample_messages, unfolded sample_messages_def list.map, OF refl]

lemma lossy_reachable: "acc_reachable 1 lossy_config"
  by (rule schedule_reachable [where cs = "lossy_schedule sample_messages"])
     (simp add: lossy_config_def sample_messages_def lossy_config_simp del: One_nat_def)

theorem accumulator_keeps_messages_witness:
  "mset (sent lossy_config) = mset (written lossy_config) + mset (failed lossy_config) +
     mset (queue (acc lossy_config)) + in_flight (threads lossy_config) \<and>
   length (sent lossy_config) = 4 \<and> length (written lossy_config) = 1 \<and>
   length (failed lossy_config) = 1 \<and> length (queue (acc lossy_config)) = 1"
  using accumulator_keeps_messages [OF lossy_reachable]
  by (simp add: lossy_config_def sample_messages_def lossy_config_simp del: One_nat_def)

text \<open>C8.  The interleaved steps refine the specification that only knows the pending messages, the
  written ones and those given up: every step accepts a message, writes a batch of pending messages
  no larger than the batch size, gives up such a batch because its publish failed, or changes
  nothing there.\<close>

theorem accumulator_refines:
  assumes "acc_reachable n c" "astep c c'"
  shows "abs_acc c' = abs_acc c \<or> spec_step n (abs_acc c) (abs_acc c')"
proof -
  have batch: "spec_step n (pending c, w, f) (pending c', w @ ms, f) \<and>
      spec_step n (pending c, w, f) (pending c', w, f @ ms)"
    if "at i (Publishing ms) c" "pending c = pending c' + mset ms" for i ms w f
  proof -
    have "length ms \<le> n" "ms \<noteq> []"
      using acc_reachable_inv [OF assms(1)] publishing_nonempty [OF assms(1) that(1)] that(1)
      by (force simp: acc_inv_def at_def dest: nth_mem)+
    then show ?thesis
      using flush [of ms "pending c"] give_up [of ms "pending c"] by (simp add: that(2))
  qed
  show ?thesis
    using astep_pending [OF assms(2)] by (auto simp: abs_acc_def intro: accept dest: batch)
qed

definition lossy_next :: "(i64, bytes) acc_config" where
  "lossy_next = the (run_schedule [Fail 2] lossy_config)"

theorem accumulator_refines_witness:
  "(abs_acc lossy_next = abs_acc lossy_config \<or> spec_step 1 (abs_acc lossy_config) (abs_acc lossy_next)) \<and>
   abs_acc lossy_next \<noteq> abs_acc lossy_config"
proof
  have c: "at 2 (Publishing [sample_messages ! 2]) lossy_config"
    "lossy_next = goto 2 Done (lossy_config\<lparr>failed := failed lossy_config @ [sample_messages ! 2]\<rparr>)"
    by (simp_all add: lossy_next_def lossy_config_def sample_messages_def lossy_config_simp at_def
        del: One_nat_def)
  show "abs_acc lossy_next = abs_acc lossy_config \<or> spec_step 1 (abs_acc lossy_config) (abs_acc lossy_next)"
    by (rule accumulator_refines [OF lossy_reachable])
       (use publish_fails [OF c(1)] in \<open>simp add: c(2)\<close>)
  show "abs_acc lossy_next \<noteq> abs_acc lossy_config"
    by (simp add: c(2) abs_acc_def)
qed



text \<open>C35.  A batch may overtake another one: a single task that sends three messages in order can
  have them written as second, third, first when the tick has taken the first message and the task
  publishes the batch it filled before the tick does.  (A named producer whose ids reach the
  broker out of order loses the first message to deduplication.)\<close>

theorem batches_may_overtake:
  "\<exists>c. acc_reachable 2 c \<and> sent c = [m1, m2, m3] \<and> written c = [m2, m3, m1] \<and>
     queue (acc c) = [] \<and> list_all ((=) Done) (threads c)"
proof -
  define cs where "cs = [Sender m1, Thread 0, Thread 0, Tick, Thread 1, Thread 1, Thread 1, Thread 1,
    Sender m2, Thread 2, Thread 2, Sender m3, Thread 3, Thread 3, Thread 3, Thread 3, Thread 3,
    Thread 3, Thread 3, Thread 3, Thread 1]"
  have "\<exists>c. run_schedule cs (initial_acc 2) = Some c \<and> sent c = [m1, m2, m3] \<and>
    written c = [m2, m3, m1] \<and> queue (acc c) = [] \<and> list_all ((=) Done) (threads c)"
    by (simp add: cs_def initial_acc_def goto_def)
  then show ?thesis by (blast intro: schedule_reachable)
qed

text \<open>The batch that fills the accumulator is not always flushed by the task that fills it: while
  one task collects a batch, two others can add theirs past the counter's trigger value, and the
  accumulator is left full with no task under way, so that only the next tick empties it.\<close>

theorem full_queue_waits_for_tick:
  "\<exists>c. acc_reachable 2 c \<and> written c = [m1, m2] \<and> queue (acc c) = [m3, m4] \<and>
     message_count (acc c) = 2 \<and> list_all ((=) Done) (threads c)"
proof -
  define cs where "cs = [Sender m1, Thread 0, Thread 0, Sender m2, Thread 1, Thread 1, Thread 1, Thread 1,
    Thread 1, Sender m3, Thread 2, Thread 2, Sender m4, Thread 3, Thread 3, Thread 1, Thread 1, Thread 1]"
  have "\<exists>c. run_schedule cs (initial_acc 2) = Some c \<and> written c = [m1, m2] \<and>
    queue (acc c) = [m3, m4] \<and> message_count (acc c) = 2 \<and> list_all ((=) Done) (threads c)"
    by (simp add: cs_def initial_acc_def goto_def)
  then show ?thesis by (blast intro: schedule_reachable)
qed

section \<open>Uninterrupted threads\<close>

lemma goto_at [simp]: "n < length (threads c) \<Longrightarrow> at n pc' (goto n pc c) \<longleftrightarrow> pc' = pc"
  by (auto simp: at_def)

lemma goto_goto [simp]: "goto n pc' ((goto n pc c)\<lparr>acc := a\<rparr>) = goto n pc' (c\<lparr>acc := a\<rparr>)"
  by (simp add: goto_def)








end
