(* ===== verification/Consumer.thy ===== *)
theory Consumer
  imports Components Stream_Creator
begin

text \<open>
  Consumers (\<open>src/consumer.rs\<close>).

  The state is that of the clients together with all consumers; a consumer is its index.  Its
  \<open>deliveries\<close> are what the channel between the handler and the receiving half holds, at most
  \<open>CHANNEL_SIZE\<close>; a send to a full channel waits, and one to a receiver that is gone is
  ignored.  The waker is registered by a poll and wakes the polling task once.  A listener for
  consumer updates runs on the clients and returns an offset, or never.

  The handlers run here one after the other; \<open>Consumer_Flow\<close> lets them interleave with the broker and the
  polling task.
\<close>

section \<open>Errors and data\<close>

datatype ConsumerDeliveryError =
    DeliveryCredit (credit_stream: string) (credit_status: ResponseCode)
  | DeliveryClient ClientError

datatype ConsumerCloseError =
    CloseConsumer (closed_consumer_stream: string) (closed_consumer_status: ResponseCode)
  | ConsumerAlreadyClosed
  | CloseConsumerClient ClientError

datatype ConsumerStoreOffsetError = NameMissing | StoreOffsetClient ClientError

record ('t, 'u) FilterConfiguration =
  filter_values :: "string list"
  predicate :: "(('t, 'u) Message \<Rightarrow> bool) option"
  match_unfiltered :: bool

definition new_FilterConfiguration :: "string list \<Rightarrow> bool \<Rightarrow> ('t, 'u) FilterConfiguration" where
  "new_FilterConfiguration filter_values' match_unfiltered' =
     \<lparr>filter_values = filter_values', predicate = None, match_unfiltered = match_unfiltered'\<rparr>"

definition post_filter ::
  "(('t, 'u) Message \<Rightarrow> bool) \<Rightarrow> ('t, 'u) FilterConfiguration \<Rightarrow> ('t, 'u) FilterConfiguration" where
  "post_filter f c = c\<lparr>predicate := Some f\<rparr>"

record MessageContext =
  context_name :: string
  context_stream :: string
  context_client :: nat

type_synonym ('t, 'u, 'w) ConsumerUpdateListener =
  "u8 \<Rightarrow> MessageContext \<Rightarrow> ('t, 'u, 'w) world \<Rightarrow> ('t, 'u, 'w) world \<times> OffsetSpecification option"

record ('t, 'u) Delivery =
  name :: "string option"
  stream :: string
  subscription_id :: u8
  message :: "('t, 'u) Message"
  offset :: u64

record ('t, 'u, 'w) ConsumerInternal =
  consumer_name :: "string option"
  client :: nat
  consumer_stream :: string
  offset_specification :: OffsetSpecification
  consumer_id :: u8
  deliveries :: "(('t, 'u) Delivery, ConsumerDeliveryError) result list"
  receiver_dropped :: bool
  closed :: bool
  waker :: bool
  woken :: bool
  filter_configuration :: "('t, 'u) FilterConfiguration option"
  consumer_update_listener :: "('t, 'u, 'w) ConsumerUpdateListener option"

record ('t, 'u, 'w) consumer_system =
  base :: "('t, 'u, 'w) world"
  consumers :: "('t, 'u, 'w) ConsumerInternal list"

type_synonym ('t, 'u, 'w, 'a, 'e) consumer_async = "(('t, 'u, 'w) consumer_system, 'a, 'e) async"

definition CHANNEL_SIZE :: nat where "CHANNEL_SIZE = 10000"

definition update_consumer ::
  "nat \<Rightarrow> (('t, 'u, 'w) ConsumerInternal \<Rightarrow> ('t, 'u, 'w) ConsumerInternal) \<Rightarrow>
     ('t, 'u, 'w) consumer_system \<Rightarrow> ('t, 'u, 'w) consumer_system" where
  "update_consumer n f s = s\<lparr>consumers := (consumers s)[n := f (consumers s ! n)]\<rparr>"

definition on_clients ::
  "(('t, 'u, 'w) world, 'a, 'e) async \<Rightarrow> ('t, 'u, 'w, 'a, 'e) consumer_async" where
  "on_clients = zoom base (\<lambda>w s. s\<lparr>base := w\<rparr>)"

definition wake :: "('t, 'u, 'w) ConsumerInternal \<Rightarrow> ('t, 'u, 'w) ConsumerInternal" where
  "wake c = (if waker c then c\<lparr>waker := False, woken := True\<rparr> else c)"

section \<open>Handling messages\<close>

definition send_delivery ::
  "nat \<Rightarrow> (('t, 'u) Delivery, ConsumerDeliveryError) result \<Rightarrow> ('t, 'u, 'w, unit, ClientError) consumer_async" where
  "send_delivery n d s =
    (let c = consumers s ! n in
     if receiver_dropped c then (s, Some (Ok ()))
     else if length (deliveries c) < CHANNEL_SIZE
     then (update_consumer n (\<lambda>c. c\<lparr>deliveries := deliveries c @ [d]\<rparr>) s, Some (Ok ()))
     else (s, None))"

definition client_filter ::
  "('t, 'u, 'w) ConsumerInternal \<Rightarrow> ('t, 'u) Message list \<Rightarrow> ('t, 'u) Message list" where
  "client_filter c ms =
    (case filter_configuration c of
       Some filter_input \<Rightarrow>
         (case predicate filter_input of Some f \<Rightarrow> filter f ms | None \<Rightarrow> ms)
     | None \<Rightarrow> ms)"

definition new_Delivery ::
  "('t, 'u, 'w) ConsumerInternal \<Rightarrow> ('t, 'u) Message \<Rightarrow> u64 \<Rightarrow> ('t, 'u) Delivery" where
  "new_Delivery c m offset' =
     \<lparr>name = consumer_name c, stream = consumer_stream c, subscription_id = consumer_id c,
      message = m, offset = offset'\<rparr>"

definition before_start :: "OffsetSpecification \<Rightarrow> u64 \<Rightarrow> bool" where
  "before_start spec offset' = (case spec of Offset offset_ \<Rightarrow> offset_ > offset' | _ \<Rightarrow> False)"

fun deliver_messages ::
  "nat \<Rightarrow> u64 \<Rightarrow> ('t, 'u) Message list \<Rightarrow> ('t, 'u, 'w, unit, ClientError) consumer_async" where
  "deliver_messages n offset' [] s = ready (Ok ()) s"
| "deliver_messages n offset' (m # ms) s =
    (if before_start (offset_specification (consumers s ! n)) offset'
     then deliver_messages n (offset' + 1) ms s
     else await (send_delivery n (Ok (new_Delivery (consumers s ! n) m offset')))
       (\<lambda>_. deliver_messages n (offset' + 1) ms) s)"

text \<open>The outcome of giving a credit is ignored.\<close>

definition handle_deliver ::
  "('t, 'u) externals \<Rightarrow> ('t, 'u, 'w) network \<Rightarrow> nat \<Rightarrow> ('t, 'u) DeliverCommand \<Rightarrow>
     ('t, 'u, 'w, unit, ClientError) consumer_async" where
  "handle_deliver X N n delivery s =
    (let c = consumers s ! n in
     await (deliver_messages n (chunk_first_offset delivery) (client_filter c (messages delivery))) (\<lambda>_.
     await_result (on_clients (credit X N (client c) (consumer_id c) 1)) (\<lambda>_.
       modify (\<lambda>s. s\<lparr>base := (base s)\<lparr>metrics := metrics (base s) @
         [ConsumeMetric (of_nat (length (messages delivery)))]\<rparr>\<rparr>))) s)"

definition call_listener ::
  "('t, 'u, 'w) ConsumerUpdateListener \<Rightarrow> u8 \<Rightarrow> MessageContext \<Rightarrow>
     ('t, 'u, 'w, OffsetSpecification, ClientError) consumer_async" where
  "call_listener f is_active context' s =
    (case f is_active context' (base s) of (w, r) \<Rightarrow> (s\<lparr>base := w\<rparr>, map_option Ok r))"

definition handle_consumer_update ::
  "('t, 'u) externals \<Rightarrow> ('t, 'u, 'w) network \<Rightarrow> nat \<Rightarrow> ConsumerUpdateCommand \<Rightarrow>
     ('t, 'u, 'w, unit, ClientError) consumer_async" where
  "handle_consumer_update X N n update s =
    (let c = consumers s ! n in
     case consumer_update_listener c of
       None \<Rightarrow>
         await_result (on_clients (consumer_update X N (client c)
           (ConsumerUpdateCommand.correlation_id update) Next)) (\<lambda>_. ready (Ok ())) s
     | Some f \<Rightarrow>
         (case consumer_name c of
            None \<Rightarrow> (s, Some Panic)
          | Some name' \<Rightarrow>
              await (call_listener f (active update)
                  \<lparr>context_name = name', context_stream = consumer_stream c, context_client = client c\<rparr>)
                (\<lambda>spec. await_result (on_clients (consumer_update X N (client c)
                   (ConsumerUpdateCommand.correlation_id update) spec)) (\<lambda>_. ready (Ok ()))) s))"

definition handle_consumer_message ::
  "('t, 'u) externals \<Rightarrow> ('t, 'u, 'w) network \<Rightarrow> nat \<Rightarrow> ('t, 'u) MessageResult \<Rightarrow>
     ('t, 'u, 'w, unit, ClientError) consumer_async" where
  "handle_consumer_message X N n item =
    (case item of
       Some (Ok response) \<Rightarrow>
         (case Response.kind response of
            ResponseKind.Deliver delivery \<Rightarrow> handle_deliver X N n delivery
          | ResponseKind.ConsumerUpdate update \<Rightarrow> handle_consumer_update X N n update
          | _ \<Rightarrow> ready (Ok ()))
     | Some (Err err) \<Rightarrow> send_delivery n (Err (DeliveryClient err))
     | Some Panic \<Rightarrow> ready Panic
     | None \<Rightarrow> modify (update_consumer n (\<lambda>c. wake (c\<lparr>closed := True\<rparr>))))"

text \<open>The spawned tasks, one after the other; a panic ends its own task only.\<close>

primrec run_consumer_messages ::
  "('t, 'u) externals \<Rightarrow> ('t, 'u, 'w) network \<Rightarrow> nat \<Rightarrow> ('t, 'u) MessageResult list \<Rightarrow>
     ('t, 'u, 'w) consumer_system \<Rightarrow> ('t, 'u, 'w) consumer_system" where
  "run_consumer_messages X N n [] s = s"
| "run_consumer_messages X N n (item # items) s =
     run_consumer_messages X N n items (fst (handle_consumer_message X N n item s))"

definition run_consumer_handlers ::
  "('t, 'u) externals \<Rightarrow> ('t, 'u, 'w) network \<Rightarrow> nat \<Rightarrow> ('t, 'u, 'w) consumer_system \<Rightarrow>
     ('t, 'u, 'w) consumer_system" where
  "run_consumer_handlers X N n s =
    (let i = client (consumers s ! n) in
     run_consumer_messages X N n (spawned (clients (base s) ! i))
       (s\<lparr>base := update_client i (\<lambda>c. c\<lparr>spawned := []\<rparr>) (base s)\<rparr>))"

text \<open>What happens while the user of a consumer does something else.\<close>

definition consumer_background ::
  "('t, 'u) externals \<Rightarrow> ('t, 'u, 'w) network \<Rightarrow> nat \<Rightarrow> ('t, 'u, 'w, unit, ClientError) consumer_async" where
  "consumer_background X N n s =
     await_result (on_clients (poll_connection X N (client (consumers s ! n)))) (\<lambda>_.
       modify (run_consumer_handlers X N n)) s"

section \<open>Consuming\<close>

datatype 'a poll = Ready 'a | Pending

text \<open>The sending half lives as long as the consumer, so an empty channel is never at its end.\<close>

definition poll_next ::
  "nat \<Rightarrow> ('t, 'u, 'w) consumer_system \<Rightarrow>
     ('t, 'u, 'w) consumer_system \<times> (('t, 'u) Delivery, ConsumerDeliveryError) result option poll" where
  "poll_next n s =
    (case deliveries (consumers s ! n) of
       d # rest \<Rightarrow> (update_consumer n (\<lambda>c. c\<lparr>waker := True, woken := False, deliveries := rest\<rparr>) s, Ready (Some d))
     | [] \<Rightarrow> (update_consumer n (\<lambda>c. c\<lparr>waker := True, woken := False\<rparr>) s,
             if closed (consumers s ! n) then Ready None else Pending))"

definition consumer_is_closed :: "nat \<Rightarrow> ('t, 'u, 'w) consumer_system \<Rightarrow> bool" where
  "consumer_is_closed n s = closed (consumers s ! n)"

definition consumer_store_offset ::
  "('t, 'u) externals \<Rightarrow> ('t, 'u, 'w) network \<Rightarrow> nat \<Rightarrow> u64 \<Rightarrow>
     ('t, 'u, 'w, unit, ConsumerStoreOffsetError) consumer_async" where
  "consumer_store_offset X N n offset' s =
    (let c = consumers s ! n in
     case consumer_name c of
       Some name' \<Rightarrow> lift_error StoreOffsetClient (on_clients
         (store_offset X N (client c) name' (consumer_stream c) offset')) s
     | None \<Rightarrow> (s, Some (Err NameMissing)))"

definition consumer_query_offset ::
  "('t, 'u) externals \<Rightarrow> ('t, 'u, 'w) network \<Rightarrow> nat \<Rightarrow>
     ('t, 'u, 'w, u64, ConsumerStoreOffsetError) consumer_async" where
  "consumer_query_offset X N n s =
    (let c = consumers s ! n in
     case consumer_name c of
       Some name' \<Rightarrow> lift_error StoreOffsetClient (on_clients
         (query_offset X N (client c) name' (consumer_stream c))) s
     | None \<Rightarrow> (s, Some (Err NameMissing)))"

definition internal_close ::
  "('t, 'u) externals \<Rightarrow> ('t, 'u, 'w) network \<Rightarrow> nat \<Rightarrow>
     ('t, 'u, 'w, unit, ConsumerCloseError) consumer_async" where
  "internal_close X N n s =
    (let c = consumers s ! n in
     if closed c then (s, Some (Err ConsumerAlreadyClosed))
     else
       await (lift_error CloseConsumerClient (on_clients (unsubscribe X N (client c) (consumer_id c)))) (\<lambda>response.
         if GenericResponse.code response = ResponseOk
         then await (modify (update_consumer n wake)) (\<lambda>_.
           lift_error CloseConsumerClient (on_clients (close X N (client c))))
         else ready (Err (CloseConsumer (consumer_stream c) (GenericResponse.code response))))
         (update_consumer n (\<lambda>c. c\<lparr>closed := True\<rparr>) s))"

section \<open>Building\<close>

record ('t, 'u, 'w) ConsumerBuilder =
  builder_name :: "string option"
  environment :: Environment
  builder_offset :: OffsetSpecification
  builder_filter :: "('t, 'u) FilterConfiguration option"
  builder_listener :: "('t, 'u, 'w) ConsumerUpdateListener option"
  builder_client_name :: string
  builder_properties :: string_map
  is_single_active_consumer :: bool

definition environment_consumer :: "Environment \<Rightarrow> ('t, 'u, 'w) ConsumerBuilder" where
  "environment_consumer env' =
     \<lparr>builder_name = None, environment = env', builder_offset = Next, builder_filter = None,
      builder_listener = None, builder_client_name = ''rust-stream-consumer'',
      builder_properties = [], is_single_active_consumer = False\<rparr>"

definition set_offset ::
  "OffsetSpecification \<Rightarrow> ('t, 'u, 'w) ConsumerBuilder \<Rightarrow> ('t, 'u, 'w) ConsumerBuilder" where
  "set_offset spec b = b\<lparr>builder_offset := spec\<rparr>"

definition set_consumer_client_name ::
  "string \<Rightarrow> ('t, 'u, 'w) ConsumerBuilder \<Rightarrow> ('t, 'u, 'w) ConsumerBuilder" where
  "set_consumer_client_name n b = b\<lparr>builder_client_name := n\<rparr>"

definition set_consumer_name ::
  "string \<Rightarrow> ('t, 'u, 'w) ConsumerBuilder \<Rightarrow> ('t, 'u, 'w) ConsumerBuilder" where
  "set_consumer_name n b = b\<lparr>builder_name := Some n\<rparr>"

definition name_optional ::
  "string option \<Rightarrow> ('t, 'u, 'w) ConsumerBuilder \<Rightarrow> ('t, 'u, 'w) ConsumerBuilder" where
  "name_optional n b = b\<lparr>builder_name := n\<rparr>"

definition enable_single_active_consumer ::
  "bool \<Rightarrow> ('t, 'u, 'w) ConsumerBuilder \<Rightarrow> ('t, 'u, 'w) ConsumerBuilder" where
  "enable_single_active_consumer single b = b\<lparr>is_single_active_consumer := single\<rparr>"

definition filter_input ::
  "('t, 'u) FilterConfiguration option \<Rightarrow> ('t, 'u, 'w) ConsumerBuilder \<Rightarrow> ('t, 'u, 'w) ConsumerBuilder" where
  "filter_input f b = b\<lparr>builder_filter := f\<rparr>"

definition set_consumer_update ::
  "('t, 'u, 'w) ConsumerUpdateListener \<Rightarrow> ('t, 'u, 'w) ConsumerBuilder \<Rightarrow> ('t, 'u, 'w) ConsumerBuilder" where
  "set_consumer_update f b = b\<lparr>builder_listener := Some f\<rparr>"

definition consumer_update_arc ::
  "('t, 'u, 'w) ConsumerUpdateListener option \<Rightarrow> ('t, 'u, 'w) ConsumerBuilder \<Rightarrow> ('t, 'u, 'w) ConsumerBuilder" where
  "consumer_update_arc f b = b\<lparr>builder_listener := f\<rparr>"

definition set_properties ::
  "string_map \<Rightarrow> ('t, 'u, 'w) ConsumerBuilder \<Rightarrow> ('t, 'u, 'w) ConsumerBuilder" where
  "set_properties ps b = b\<lparr>builder_properties := ps\<rparr>"

definition show_bool :: "bool \<Rightarrow> string" where
  "show_bool b = (if b then ''true'' else ''false'')"

definition filter_key :: "nat \<Rightarrow> string" where
  "filter_key i = ''filter.'' @ show_nat i"

primrec filter_keys :: "nat \<Rightarrow> string list \<Rightarrow> string_map \<Rightarrow> string_map" where
  "filter_keys i [] ps = ps"
| "filter_keys i (v # vs) ps = filter_keys (Suc i) vs (AList.update (filter_key i) v ps)"

definition filter_properties :: "('t, 'u) FilterConfiguration \<Rightarrow> string_map \<Rightarrow> string_map" where
  "filter_properties f ps =
     AList.update ''match-unfiltered'' (show_bool (match_unfiltered f)) (filter_keys 0 (filter_values f) ps)"

definition single_active_properties :: "string \<Rightarrow> string_map \<Rightarrow> string_map" where
  "single_active_properties n ps =
     AList.update ''name'' n (AList.update ''single-active-consumer'' ''true'' ps)"

definition subscription_properties :: "('t, 'u, 'w) ConsumerBuilder \<Rightarrow> string_map" where
  "subscription_properties b =
    (let ps = (case builder_filter b of Some f \<Rightarrow> filter_properties f (builder_properties b)
               | None \<Rightarrow> builder_properties b)
     in if is_single_active_consumer b then single_active_properties (the (builder_name b)) ps else ps)"

definition new_ConsumerInternal ::
  "('t, 'u, 'w) ConsumerBuilder \<Rightarrow> string \<Rightarrow> nat \<Rightarrow> ('t, 'u, 'w) ConsumerInternal" where
  "new_ConsumerInternal b stream' i =
     \<lparr>consumer_name = builder_name b, client = i, consumer_stream = stream',
      offset_specification = builder_offset b, consumer_id = 1, deliveries = [],
      receiver_dropped = False, closed = False, waker = False, woken = False,
      filter_configuration = builder_filter b, consumer_update_listener = builder_listener b\<rparr>"

definition unnamed_single_active :: "('t, 'u, 'w) ConsumerBuilder \<Rightarrow> bool" where
  "unnamed_single_active b \<longleftrightarrow>
     (is_single_active_consumer b \<or> map_of (builder_properties b) ''single-active-consumer'' \<noteq> None) \<and>
     builder_name b = None"

text \<open>After the handler is set, a failing build leaves it behind without its receiver.\<close>

definition dropping_receiver ::
  "nat \<Rightarrow> ('t, 'u, 'w, 'a, 'e) consumer_async \<Rightarrow> ('t, 'u, 'w, 'a, 'e) consumer_async" where
  "dropping_receiver n m s =
    (case m s of
       (s', Some (Err e)) \<Rightarrow> (update_consumer n (\<lambda>c. c\<lparr>receiver_dropped := True\<rparr>) s', Some (Err e))
     | r \<Rightarrow> r)"

definition consumer_build ::
  "('t, 'u) externals \<Rightarrow> ('t, 'u, 'w) network \<Rightarrow> (client_Broker list \<Rightarrow> client_Broker option) \<Rightarrow>
     ('t, 'u, 'w) ConsumerBuilder \<Rightarrow> string \<Rightarrow> ('t, 'u, 'w, nat, ConsumerCreateError) consumer_async" where
  "consumer_build X N pick b stream' =
    (if unnamed_single_active b then ready (Err SingleActiveConsumerNotSupported)
     else
       await (on_clients (create_consumer_client X N pick (environment b) stream' (builder_client_name b))) (\<lambda>i s.
       (let n = length (consumers s) in
        await (modify (\<lambda>s. s\<lparr>consumers := consumers s @ [new_ConsumerInternal b stream' i]\<rparr>)) (\<lambda>_.
        await (lift_error ConsumerClient (on_clients (client_set_handler i))) (\<lambda>_.
        dropping_receiver n (\<lambda>s.
          if builder_filter b \<noteq> None \<and> \<not> filtering_supported (clients (base s) ! i)
          then (s, Some (Err ConsumerFilteringNotSupport))
          else await (lift_error ConsumerClient (on_clients (subscribe X N i 1 stream' (builder_offset b) 1
              (subscription_properties b)))) (\<lambda>response. ready (
            if GenericResponse.code response = ResponseOk then Ok n
            else Err (ConsumerCreate stream' (GenericResponse.code response)))) s))) s)))"

section \<open>Handles and accessors\<close>

definition handle_close ::
  "('t, 'u) externals \<Rightarrow> ('t, 'u, 'w) network \<Rightarrow> nat \<Rightarrow> ('t, 'u, 'w, unit, ConsumerCloseError) consumer_async" where
  "handle_close X N n = internal_close X N n"

definition delivery_offset :: "('t, 'u) Delivery \<Rightarrow> u64" where
  "delivery_offset d = Delivery.offset d"

definition delivery_message :: "('t, 'u) Delivery \<Rightarrow> ('t, 'u) Message" where
  "delivery_message d = Delivery.message d"

section \<open>How the state changes\<close>

interpretation clients_of_consumers: part base "\<lambda>w s. s\<lparr>base := w\<rparr>"
  by unfold_locales simp_all

lemma update_consumer_simps [simp]:
  "length (consumers (update_consumer n f s)) = length (consumers s)"
  "base (update_consumer n f s) = base s"
  "n < length (consumers s) \<Longrightarrow> consumers (update_consumer n f s) ! n = f (consumers s ! n)"
  "m \<noteq> n \<Longrightarrow> consumers (update_consumer n f s) ! m = consumers s ! m"
  by (simp_all add: update_consumer_def)

lemma update_consumer_twice [simp]:
  "n < length (consumers s) \<Longrightarrow>
   update_consumer n g (update_consumer n f s) = update_consumer n (\<lambda>c. g (f c)) s"
  by (simp add: update_consumer_def)

lemma update_consumer_cong:
  "f (consumers s ! n) = g (consumers s ! n) \<Longrightarrow> update_consumer n f s = update_consumer n g s"
  by (simp add: update_consumer_def)

lemma update_consumer_same [simp]: "f (consumers s ! n) = consumers s ! n \<Longrightarrow> update_consumer n f s = s"
  by (simp add: update_consumer_def)

lemma on_clients_consumers [simp]: "consumers (fst (on_clients m s)) = consumers s"
  by (simp add: on_clients_def zoom_def split: prod.split)

lemma on_clients_same: "on_clients m s = (s', r) \<Longrightarrow> consumers s' = consumers s"
  using on_clients_consumers [of m s] by simp

lemma on_clients_run: "m (base s) = (w, r) \<Longrightarrow> on_clients m s = (s\<lparr>base := w\<rparr>, r)"
  unfolding on_clients_def by (rule clients_of_consumers.zoom_run)

lemma on_clients_OkE:
  assumes "on_clients m s = (s', Some (Ok x))"
  obtains w where "m (base s) = (w, Some (Ok x))" "s' = s\<lparr>base := w\<rparr>"
  using assms unfolding on_clients_def by (rule clients_of_consumers.zoom_OkE)

section \<open>Deliveries of a chunk\<close>

text \<open>What a chunk has for a consumer: the messages that pass the filter, numbered from the
  first offset of the chunk, from the requested offset on.\<close>

definition numbered :: "u64 \<Rightarrow> 'a list \<Rightarrow> ('a \<times> u64) list" where
  "numbered first ms = zip ms (map (\<lambda>k. first + of_nat k) [0..<length ms])"

definition offset_deliveries ::
  "('t, 'u, 'w) ConsumerInternal \<Rightarrow> u64 \<Rightarrow> ('t, 'u) Message list \<Rightarrow> ('t, 'u) Delivery list" where
  "offset_deliveries c first ms =
     [new_Delivery c m o'. (m, o') \<leftarrow> numbered first ms, \<not> before_start (offset_specification c) o']"

definition chunk_deliveries ::
  "('t, 'u, 'w) ConsumerInternal \<Rightarrow> ('t, 'u) DeliverCommand \<Rightarrow> ('t, 'u) Delivery list" where
  "chunk_deliveries c d = offset_deliveries c (chunk_first_offset d) (client_filter c (messages d))"

lemma numbered_Nil [simp]: "numbered first [] = []"
  by (simp add: numbered_def)

lemma numbered_Cons [simp]: "numbered first (m # ms) = (m, first) # numbered (first + 1) ms"
proof -
  have "map (\<lambda>k. first + of_nat k) [0..<length (m # ms)] =
      first # map (\<lambda>k. first + 1 + of_nat k) [0..<length ms]"
    by (simp only: list.size add_Suc_right add_0_right upt_conv_Cons [OF zero_less_Suc] list.map
        map_Suc_upt [symmetric] map_map) (simp add: comp_def add.assoc)
  then show ?thesis by (simp only: numbered_def zip_Cons_Cons)
qed

lemma offset_deliveries_Nil [simp]: "offset_deliveries c first [] = []"
  by (simp add: offset_deliveries_def)

lemma offset_deliveries_Cons [simp]:
  "offset_deliveries c first (m # ms) =
    (if before_start (offset_specification c) first then [] else [new_Delivery c m first]) @
    offset_deliveries c (first + 1) ms"
  by (simp add: offset_deliveries_def)

lemma offset_deliveries_channel [simp]:
  "offset_deliveries (c\<lparr>deliveries := ds\<rparr>) first ms = offset_deliveries c first ms"
  by (induction ms arbitrary: first) (simp_all add: new_Delivery_def)

lemma deliver_messages_run:
  assumes "n < length (consumers s)" "\<not> receiver_dropped (consumers s ! n)"
    and "length (deliveries (consumers s ! n)) \<le> CHANNEL_SIZE"
    and "ds = map Ok (offset_deliveries (consumers s ! n) first ms)"
  shows "deliver_messages n first ms s =
    (update_consumer n (\<lambda>c. c\<lparr>deliveries := take CHANNEL_SIZE (deliveries c @ ds)\<rparr>) s,
     if length (deliveries (consumers s ! n) @ ds) \<le> CHANNEL_SIZE then Some (Ok ()) else None)"
  using assms
proof (induction ms arbitrary: first s ds)
  case Nil
  then show ?case by (simp add: async_defs)
next
  case (Cons m ms)
  let ?c = "consumers s ! n"
  show ?case
  proof (cases "before_start (offset_specification ?c) first \<or> length (deliveries ?c) = CHANNEL_SIZE")
    case True
    with Cons show ?thesis
      by (auto simp: send_delivery_def Let_def)
  next
    case False
    let ?s = "update_consumer n (\<lambda>c. c\<lparr>deliveries := deliveries c @ [Ok (new_Delivery ?c m first)]\<rparr>) s"
    have "send_delivery n (Ok (new_Delivery ?c m first)) s = (?s, Some (Ok ()))"
      using False Cons.prems(2,3) by (simp add: send_delivery_def Let_def)
    moreover have "deliver_messages n (first + 1) ms ?s =
      (update_consumer n (\<lambda>c. c\<lparr>deliveries := take CHANNEL_SIZE (deliveries c @
         map Ok (offset_deliveries (consumers ?s ! n) (first + 1) ms))\<rparr>) ?s,
       if length (deliveries (consumers ?s ! n) @ map Ok (offset_deliveries (consumers ?s ! n) (first + 1) ms))
          \<le> CHANNEL_SIZE then Some (Ok ()) else None)"
      by (rule Cons.IH) (use False Cons.prems(1,2,3) in auto)
    ultimately show ?thesis
      using False Cons.prems(1,4) by (simp del: take_append)
  qed
qed

lemma numbered_nth:
  "k < length ms \<Longrightarrow> numbered first ms ! k = (ms ! k, first + of_nat k)"
  by (simp add: numbered_def)

lemma offset_deliveries_all:
  assumes "\<And>o'. \<not> before_start (offset_specification c) o'"
  shows "offset_deliveries c first ms = map (\<lambda>(m, o'). new_Delivery c m o') (numbered first ms)"
  using assms by (induction ms arbitrary: first) simp_all

lemma filter_nth_take:
  "k < length xs \<Longrightarrow> P (xs ! k) \<Longrightarrow>
   length (filter P (take k xs)) < length (filter P xs) \<and>
   filter P xs ! length (filter P (take k xs)) = xs ! k"
proof (induction xs arbitrary: k)
  case (Cons x xs)
  then show ?case by (cases k) auto
qed simp

lemma filter_take_less:
  assumes "j < k" "k < length xs" "\<not> P (xs ! j)"
  shows "length (filter P (take k xs)) < k"
proof -
  have "xs ! j \<in> set (take k xs)" using assms by (auto simp: in_set_conv_nth)
  then have "length (filter P (take k xs)) < length (take k xs)"
    using assms(3) by (intro length_filter_less)
  with assms show ?thesis by simp
qed

lemma filter_nth_once:
  assumes "k < length xs" "\<forall>i < length xs. xs ! i = xs ! k \<longrightarrow> i = k"
    and "p < length (filter P xs)" "filter P xs ! p = xs ! k"
  shows "p = length (filter P (take k xs))"
proof -
  have xs: "xs = take k xs @ xs ! k # drop (Suc k) xs" using assms(1) by (rule id_take_nth_drop)
  have new: "xs ! k \<notin> set (take k xs)" "xs ! k \<notin> set (drop (Suc k) xs)"
  proof -
    show "xs ! k \<notin> set (take k xs)"
      using assms(1,2) by (auto simp: in_set_conv_nth) (metis less_trans nat_neq_iff)
    show "xs ! k \<notin> set (drop (Suc k) xs)"
    proof
      assume "xs ! k \<in> set (drop (Suc k) xs)"
      then obtain i where "i < length xs - Suc k" "xs ! (Suc k + i) = xs ! k"
        by (auto simp: in_set_conv_nth)
      then show False using assms(2) [rule_format, of "Suc k + i"] by (simp add: less_diff_conv)
    qed
  qed
  have "P (xs ! k)" using assms(3,4) by (metis nth_mem set_filter mem_Collect_eq)
  then have split: "filter P xs = filter P (take k xs) @ xs ! k # filter P (drop (Suc k) xs)"
    by (subst xs) simp
  let ?pos = "length (filter P (take k xs))"
  show ?thesis
  proof (rule linorder_cases [of p ?pos])
    assume "p < ?pos"
    then have "xs ! k \<in> set (filter P (take k xs))"
      using assms(4) nth_mem [of p "filter P (take k xs)"] by (simp add: split nth_append)
    then show ?thesis using new(1) by simp
  next
    assume less: "?pos < p"
    then have "filter P (drop (Suc k) xs) ! (p - Suc ?pos) = xs ! k"
      "p - Suc ?pos < length (filter P (drop (Suc k) xs))"
      using assms(3,4) by (simp_all add: split nth_append nth_Cons')
    then have "xs ! k \<in> set (filter P (drop (Suc k) xs))" by (metis nth_mem)
    then show ?thesis using new(2) by simp
  qed
qed

lemma offset_deliveries_length: "length (offset_deliveries c first ms) \<le> length ms"
  by (induction ms arbitrary: first) (auto simp: le_SucI)

section \<open>Properties of deliveries\<close>

lemma handle_chunk:
  fixes X :: "('t, 'u) externals" and N :: "('t, 'u, 'w) network"
  assumes "n < length (consumers s)" "c = consumers s ! n" "\<not> receiver_dropped c"
    and "length (deliveries c) \<le> CHANNEL_SIZE"
    and "ds = map Ok (chunk_deliveries c d)"
    and "credit X N (client c) (consumer_id c) 1 (base s) = (w, Some r)" "r \<noteq> Panic"
  shows "handle_consumer_message X N n
      (Some (Ok \<lparr>Response.header = h, kind = ResponseKind.Deliver d\<rparr>)) s =
    (if length (deliveries c @ ds) \<le> CHANNEL_SIZE
     then ((update_consumer n (\<lambda>c. c\<lparr>deliveries := deliveries c @ ds\<rparr>) s)
             \<lparr>base := w\<lparr>metrics := metrics w @ [ConsumeMetric (of_nat (length (messages d)))]\<rparr>\<rparr>,
           Some (Ok ()))
     else (update_consumer n (\<lambda>c. c\<lparr>deliveries := take CHANNEL_SIZE (deliveries c @ ds)\<rparr>) s, None))"
proof -
  have "deliver_messages n (chunk_first_offset d) (client_filter c (messages d)) s =
    (update_consumer n (\<lambda>c. c\<lparr>deliveries := take CHANNEL_SIZE (deliveries c @ ds)\<rparr>) s,
     if length (deliveries c @ ds) \<le> CHANNEL_SIZE then Some (Ok ()) else None)"
    using deliver_messages_run [OF assms(1), of ds "chunk_first_offset d" "client_filter c (messages d)"]
      assms(2-5) by (simp add: chunk_deliveries_def)
  moreover have "on_clients (credit X N (client c) (consumer_id c) 1) s' = (s'\<lparr>base := w\<rparr>, Some r)"
    if "base s' = base s" for s' :: "('t, 'u, 'w) consumer_system"
    using assms(6) that by (intro on_clients_run) simp
  moreover have "update_consumer n (\<lambda>c. c\<lparr>deliveries := take CHANNEL_SIZE (deliveries c @ ds)\<rparr>) s =
      update_consumer n (\<lambda>c. c\<lparr>deliveries := deliveries c @ ds\<rparr>) s"
    if "length (deliveries c @ ds) \<le> CHANNEL_SIZE"
    using that assms(2) by (intro update_consumer_cong) simp
  ultimately show ?thesis
    using assms(2,7)
    by (cases r) (auto simp: handle_consumer_message_def handle_deliver_def Let_def async_defs)
qed

text \<open>C20.  A chunk is passed on completely and in order: the consumer's channel receives the
  messages that pass the filter with consecutive offsets from the chunk's first one, those
  before the requested offset left out; then one credit is given and the metrics count the chunk.
  When the channel has no room for all of them the handler waits with the channel full, and
  no credit is given.\<close>

theorem chunk_delivered:
  fixes X :: "('t, 'u) externals" and N :: "('t, 'u, 'w) network"
  assumes "n < length (consumers s)" "c = consumers s ! n" "\<not> receiver_dropped c"
    and "length (deliveries c) \<le> CHANNEL_SIZE"
    and "ds = map Ok (chunk_deliveries c d)"
    and "credit X N (client c) (consumer_id c) 1 (base s) = (w, Some r)" "r \<noteq> Panic"
  shows "handle_consumer_message X N n
      (Some (Ok \<lparr>Response.header = h, kind = ResponseKind.Deliver d\<rparr>)) s =
    (if length (deliveries c @ ds) \<le> CHANNEL_SIZE
     then ((update_consumer n (\<lambda>c. c\<lparr>deliveries := deliveries c @ ds\<rparr>) s)
             \<lparr>base := w\<lparr>metrics := metrics w @ [ConsumeMetric (of_nat (length (messages d)))]\<rparr>\<rparr>,
           Some (Ok ()))
     else (update_consumer n (\<lambda>c. c\<lparr>deliveries := take CHANNEL_SIZE (deliveries c @ ds)\<rparr>) s, None))"
  using assms by (rule handle_chunk)

lemma offset_deliveries_mem:
  assumes "p < length ms"
  shows "new_Delivery c (ms ! p) (first + of_nat p) \<in> set (offset_deliveries c first ms) \<or>
    before_start (offset_specification c) (first + of_nat p)"
proof (cases "before_start (offset_specification c) (first + of_nat p)")
  case False
  moreover have "(ms ! p, first + of_nat p) \<in> set (numbered first ms)"
    using assms by (metis numbered_nth length_map length_upt length_zip min.idem minus_nat.diff_0
        nth_mem numbered_def)
  ultimately show ?thesis by (force simp: offset_deliveries_def)
qed simp

lemma offset_deliveries_memD:
  assumes "d \<in> set (offset_deliveries c first ms)"
  obtains p where "p < length ms" "d = new_Delivery c (ms ! p) (first + of_nat p)"
    "\<not> before_start (offset_specification c) (first + of_nat p)"
  using assms by (auto simp: offset_deliveries_def numbered_def set_zip split: if_splits)

lemma offset_less:
  fixes first :: u64
  assumes "pos < k" "unat first + k < 2 ^ 64"
  shows "first + of_nat pos < first + of_nat k"
  using assms by (simp add: word_less_nat_alt unat_word_ariths unsigned_of_nat take_bit_nat_eq_self)

text \<open>C36.  A filter of the consumer shifts offsets.  When a chunk is handled, a message that
  passes is numbered by the messages of the chunk before it that pass, so behind a message that was
  rejected it gets a number strictly below its offset in the stream (the \<open>k\<close>-th message of a chunk
  has the offset of the chunk plus \<open>k\<close>).  Unless the consumer asked for a later offset, it is put
  into the channel with that number; and when the number is before the requested offset, a message
  that occurs once in the chunk is not delivered at all, even where its own offset is at or behind
  the requested one.\<close>

theorem filter_shifts_offsets:
  fixes X :: "('t, 'u) externals" and N :: "('t, 'u, 'w) network"
  assumes "n < length (consumers s)" "c = consumers s ! n" "\<not> receiver_dropped c"
    and "length (deliveries c) + length (messages d) \<le> CHANNEL_SIZE"
    and "credit X N (client c) (consumer_id c) 1 (base s) = (w, Some r)" "r \<noteq> Panic"
    and "filter_configuration c = Some fc" "predicate fc = Some f"
    and "unat (chunk_first_offset d) + length (messages d) \<le> 2 ^ 64"
    and "j < k" "k < length (messages d)" "\<not> f (messages d ! j)" "f (messages d ! k)"
    and "shifted = chunk_first_offset d + of_nat (length (filter f (take k (messages d))))"
    and "handle_consumer_message X N n
      (Some (Ok \<lparr>Response.header = h, kind = ResponseKind.Deliver d\<rparr>)) s = (s', outcome)"
  shows "outcome = Some (Ok ()) \<and> shifted < chunk_first_offset d + of_nat k \<and>
    (\<not> before_start (offset_specification c) shifted \<longrightarrow>
       Ok (new_Delivery c (messages d ! k) shifted) \<in>
         set (drop (length (deliveries c)) (deliveries (consumers s' ! n)))) \<and>
    (before_start (offset_specification c) shifted \<and>
     (\<forall>i < length (messages d). messages d ! i = messages d ! k \<longrightarrow> i = k) \<longrightarrow>
       (\<forall>o'. Ok (new_Delivery c (messages d ! k) o') \<notin>
         set (drop (length (deliveries c)) (deliveries (consumers s' ! n)))))"
proof -
  let ?ms = "filter f (messages d)" and ?pos = "length (filter f (take k (messages d)))"
  have filtered: "client_filter c (messages d) = ?ms"
    using assms(7,8) by (simp add: client_filter_def)
  let ?ds = "offset_deliveries c (chunk_first_offset d) ?ms"
  have "length ?ds \<le> length (messages d)"
    by (rule order_trans [OF offset_deliveries_length length_filter_le])
  then have fits: "length (deliveries c @ map Ok (chunk_deliveries c d)) \<le> CHANNEL_SIZE"
    using assms(4) by (simp add: chunk_deliveries_def filtered)
  then have "handle_consumer_message X N n
      (Some (Ok \<lparr>Response.header = h, kind = ResponseKind.Deliver d\<rparr>)) s =
    ((update_consumer n (\<lambda>c. c\<lparr>deliveries := deliveries c @ map Ok (chunk_deliveries c d)\<rparr>) s)
       \<lparr>base := w\<lparr>metrics := metrics w @ [ConsumeMetric (of_nat (length (messages d)))]\<rparr>\<rparr>, Some (Ok ()))"
    using handle_chunk [OF assms(1-3) _ refl assms(5,6), where d = d and h = h] assms(2,4)
    by (simp cong: update_consumer_cong)
  then have run: "outcome = Some (Ok ())" "deliveries (consumers s' ! n) = deliveries c @ map Ok ?ds"
    using assms(1,2,15) by (simp_all add: chunk_deliveries_def filtered [unfolded assms(2)])
  have pos: "?pos < k" "?pos < length ?ms" "?ms ! ?pos = messages d ! k"
    using filter_take_less [of j k "messages d" f] filter_nth_take [of k "messages d" f] assms(10-13) by simp_all
  then have "shifted < chunk_first_offset d + of_nat k"
    unfolding assms(14) using assms(9,11) by (intro offset_less) auto
  moreover have "new_Delivery c (messages d ! k) shifted \<in> set ?ds"
    if "\<not> before_start (offset_specification c) shifted"
    using offset_deliveries_mem [OF pos(2), of c "chunk_first_offset d"] pos(3) that assms(14) by simp
  moreover have "new_Delivery c (messages d ! k) o' \<notin> set ?ds"
    if start: "before_start (offset_specification c) shifted"
      and once: "\<forall>i < length (messages d). messages d ! i = messages d ! k \<longrightarrow> i = k" for o'
  proof
    assume "new_Delivery c (messages d ! k) o' \<in> set ?ds"
    then obtain p where p: "p < length ?ms" "?ms ! p = messages d ! k"
      "\<not> before_start (offset_specification c) (chunk_first_offset d + of_nat p)"
      by (rule offset_deliveries_memD) (auto simp: new_Delivery_def)
    have "p = ?pos" using filter_nth_once [OF assms(11) once p(1,2)] .
    with p(3) start assms(14) show False by simp
  qed
  ultimately show ?thesis by (auto simp: run)
qed

section \<open>Properties of closing and polling\<close>

text \<open>The outcomes of polling a number of times.\<close>

primrec polls ::
  "nat \<Rightarrow> nat \<Rightarrow> ('t, 'u, 'w) consumer_system \<Rightarrow>
     (('t, 'u) Delivery, ConsumerDeliveryError) result option poll list" where
  "polls n 0 s = []"
| "polls n (Suc k) s = (case poll_next n s of (s', r) \<Rightarrow> r # polls n k s')"

lemma polls_drain:
  assumes "n < length (consumers s)" "ds = deliveries (consumers s ! n)"
  shows "polls n (length ds + k) s =
    map (\<lambda>d. Ready (Some d)) ds @ replicate k (if closed (consumers s ! n) then Ready None else Pending)"
  using assms
proof (induction ds arbitrary: s)
  case Nil
  then show ?case
    by (induction k arbitrary: s) (simp_all add: poll_next_def)
next
  case (Cons d ds)
  let ?s = "update_consumer n (\<lambda>c. c\<lparr>waker := True, woken := False, deliveries := ds\<rparr>) s"
  have "polls n (length ds + k) ?s = map (\<lambda>d. Ready (Some d)) ds @
      replicate k (if closed (consumers ?s ! n) then Ready None else Pending)"
    by (rule Cons.IH) (use Cons.prems in simp_all)
  moreover have "poll_next n s = (?s, Ready (Some d))"
    using Cons.prems(2) [symmetric] by (simp add: poll_next_def)
  ultimately show ?case using Cons.prems(1) by simp
qed

lemma wake_simps [simp]:
  "deliveries (wake c) = deliveries c" "closed (wake c) = closed c" "waker c \<Longrightarrow> woken (wake c)"
  by (simp_all add: wake_def)

lemma internal_close_run:
  assumes "n < length (consumers s)" "c = consumers s ! n" "\<not> closed c"
  shows "\<exists>c'. consumers (fst (internal_close X N n s)) = (consumers s)[n := c'] \<and>
    closed c' \<and> deliveries c' = deliveries c \<and>
    (snd (internal_close X N n s) = Some (Ok ()) \<and> waker c \<longrightarrow> woken c')"
proof -
  let ?s = "update_consumer n (\<lambda>c. c\<lparr>closed := True\<rparr>) s"
  obtain s1 r where u: "on_clients (unsubscribe X N (client c) (consumer_id c)) ?s = (s1, r)"
    by (cases "on_clients (unsubscribe X N (client c) (consumer_id c)) ?s")
  then have s1: "consumers s1 = (consumers s)[n := c\<lparr>closed := True\<rparr>]"
    using on_clients_same [OF u] assms(2) by (simp add: update_consumer_def)
  obtain s2 r2 where cl: "on_clients (close X N (client c)) (update_consumer n wake s1) = (s2, r2)"
    by (cases "on_clients (close X N (client c)) (update_consumer n wake s1)")
  then have s2: "consumers s2 = (consumers s)[n := wake (c\<lparr>closed := True\<rparr>)]"
    using on_clients_same [OF cl] s1 assms(1) by (simp add: update_consumer_def)
  have "internal_close X N n s =
      (case r of
         Some (Ok response) \<Rightarrow>
           if GenericResponse.code response = ResponseOk
           then lift_error CloseConsumerClient (on_clients (close X N (client c))) (update_consumer n wake s1)
           else (s1, Some (Err (CloseConsumer (consumer_stream c) (GenericResponse.code response))))
       | Some (Err e) \<Rightarrow> (s1, Some (Err (CloseConsumerClient e)))
       | Some Panic \<Rightarrow> (s1, Some Panic)
       | None \<Rightarrow> (s1, None))"
    using assms(2,3) u cl
    by (simp add: internal_close_def Let_def await_def lift_error_def async_defs
        split: option.split result.split)
  then show ?thesis
    using s1 s2 cl
    by (auto split: option.splits result.splits if_splits intro: exI [of _ "c\<lparr>closed := True\<rparr>"]
        exI [of _ "wake (c\<lparr>closed := True\<rparr>)"])
qed

text \<open>C37.  A consumer is closed once, whatever the broker answers: closing it again fails and
  changes nothing.  What the channel still holds can be polled, in order, and then the stream
  ends, for good.  A task that waits in a poll is woken when closing succeeds.\<close>

theorem consumer_closes_once:
  assumes "n < length (consumers s)" "c = consumers s ! n" "s' = fst (internal_close X N n s)"
  shows "consumer_is_closed n s' \<and>
    internal_close X N n s' = (s', Some (Err ConsumerAlreadyClosed)) \<and>
    polls n (length (deliveries c) + k) s' = map (\<lambda>d. Ready (Some d)) (deliveries c) @ replicate k (Ready None) \<and>
    (snd (internal_close X N n s) = Some (Ok ()) \<and> waker c \<longrightarrow> woken (consumers s' ! n))"
proof (cases "closed c")
  case True
  then have "internal_close X N n s = (s, Some (Err ConsumerAlreadyClosed))"
    using assms(2) by (simp add: internal_close_def)
  with True assms show ?thesis
    using polls_drain [OF assms(1) refl, of k] by (simp add: consumer_is_closed_def)
next
  case False
  from internal_close_run [OF assms(1,2) False, of X N] assms(3) obtain c' where
    c': "consumers s' = (consumers s)[n := c']" "closed c'" "deliveries c' = deliveries c"
    "snd (internal_close X N n s) = Some (Ok ()) \<and> waker c \<longrightarrow> woken c'"
    by blast
  with assms(1) show ?thesis
    using polls_drain [of n s' "deliveries c" k] by (simp add: consumer_is_closed_def internal_close_def)
qed

section \<open>Properties of consumer updates\<close>

text \<open>C38.  When a consumer has no listener for updates, the answer to an update carries the id of
  the update, but the handler waits for a response with a fresh id that no request has: unless the
  broker happens to use that id or the connection ends, the handler never returns.\<close>

theorem consumer_update_waits:
  fixes X :: "('t, 'u) externals" and N :: "('t, 'u, 'w) network"
  assumes "n < length (consumers s)" "c = consumers s ! n" "consumer_update_listener c = None"
    and "idle (client c) cid (base s)" "sink (clients (base s) ! client c) = []"
    and "tcp_write N (connection (clients (base s) ! client c)) (frame X (RequestKind.ConsumerUpdateRequest
      (new_ConsumerUpdateRequestCommand (ConsumerUpdateCommand.correlation_id update) 1 Next)))
        (net (base s)) = (m, Inr items)"
    and "first_answer answers_id cid items = None"
  shows "snd (handle_consumer_message X N n
    (Some (Ok \<lparr>Response.header = h, kind = ResponseKind.ConsumerUpdate update\<rparr>)) s) = None"
proof -
  let ?k = "RequestKind.ConsumerUpdateRequest
    (new_ConsumerUpdateRequestCommand (ConsumerUpdateCommand.correlation_id update) 1 Next)"
  obtain bs where bs: "encode_RequestKind X ?k = Ok bs"
    by (simp add: encode_RequestKind_def)
  obtain w' where "consumer_update X N (client c) (ConsumerUpdateCommand.correlation_id update) Next (base s) =
      (w', request_outcome ''GenericResponse'' from_response_GenericResponse cid items)"
    unfolding consumer_update_def
    by (rule send_and_receive_run [where type_name = "''GenericResponse''"
          and from_response = from_response_GenericResponse and msg_factory = "\<lambda>_. ?k", OF assms(4) bs])
       (use assms(5,6) bs in \<open>simp_all add: frame_def\<close>)
  then have "on_clients (consumer_update X N (client c) (ConsumerUpdateCommand.correlation_id update) Next) s =
      (s\<lparr>base := w'\<rparr>, None)"
    using assms(7) by (intro on_clients_run) (simp add: request_outcome_def)
  then show ?thesis
    using assms(2,3)
    by (simp add: handle_consumer_message_def handle_consumer_update_def Let_def await_result_def)
qed

section \<open>From the connection to the consumer\<close>

lemma credit_Ok:
  fixes X :: "('t, 'u) externals" and N :: "('t, 'u, 'w) network"
  assumes "sink (clients w ! i) = []"
    and "tcp_write N (connection (clients w ! i))
      (frame X (RequestKind.Credit (new_CreditCommand sid k))) (net w) = (m, Inr items)"
  shows "credit X N i sid k w =
    (update_client i (\<lambda>c. c\<lparr>sink := [], inbox := inbox c @ items\<rparr>) w\<lparr>net := m\<rparr>, Some (Ok ()))"
  unfolding credit_def send_def
  by (rule channel_send_Ok [where bs = "encode_CreditCommand (new_CreditCommand sid k)"])
     (use assms in \<open>simp_all add: encode_RequestKind_def frame_def\<close>)

text \<open>A chunk that arrives on the connection reaches the consumer: the connection's task
  hands it to the consumer's handler, which fills the channel and asks the broker for the next
  chunk, and polling returns the messages in order.\<close>

lemma chunk_arrives:
  fixes X :: "('t, 'u) externals" and N :: "('t, 'u, 'w) network"
  assumes "n < length (consumers s)" "c = consumers s ! n" "\<not> receiver_dropped c" "deliveries c = []"
    and "length (chunk_deliveries c d) \<le> CHANNEL_SIZE"
    and "client c < length (clients (base s))" "cl = clients (base s) ! client c"
    and "task_running cl" "DispatcherState.handler (dispatcher cl)" "handler (state cl)"
    and "sink cl = []" "spawned cl = []"
    and "inbox cl = [Some (Ok \<lparr>Response.header = h, kind = ResponseKind.Deliver d\<rparr>)]"
    and "tcp_write N (connection cl)
      (frame X (RequestKind.Credit (new_CreditCommand (consumer_id c) 1))) (net (base s)) = (m, Inr items)"
  shows "\<exists>s'. consumer_background X N n s = (s', Some (Ok ())) \<and>
    polls n (length (chunk_deliveries c d)) s' = map (\<lambda>d. Ready (Some (Ok d))) (chunk_deliveries c d) \<and>
    net (base s') = m"
proof -
  let ?r = "\<lparr>Response.header = h, kind = ResponseKind.Deliver d\<rparr> :: ('t, 'u) Response"
  let ?i = "client c"
  let ?w = "update_client ?i (\<lambda>c. c\<lparr>inbox := [], spawned := spawned c @ [Some (Ok ?r)]\<rparr>) (base s)"
  let ?v = "update_client ?i (\<lambda>c. c\<lparr>spawned := []\<rparr>) ?w"
  let ?t = "s\<lparr>base := ?v\<rparr>"
  have poll: "poll_connection X N ?i (base s) = (?w, Some (Ok ()))"
    by (rule poll_user_message)
       (use assms(6-13) in \<open>simp_all add: user_message_def response_correlation_id_def\<close>)
  obtain w' where w': "credit X N ?i (consumer_id c) 1 ?v = (w', Some (Ok ()))" "net w' = m"
    using credit_Ok [of ?v ?i N X "consumer_id c" 1 m items] assms(6,7,11,14) by simp
  let ?ds = "map Ok (chunk_deliveries c d)"
  let ?s' = "(update_consumer n (\<lambda>c. c\<lparr>deliveries := deliveries c @ ?ds\<rparr>) ?t)
    \<lparr>base := w'\<lparr>metrics := metrics w' @ [ConsumeMetric (of_nat (length (messages d)))]\<rparr>\<rparr>"
  have handle: "handle_consumer_message X N n (Some (Ok ?r)) ?t = (?s', Some (Ok ()))"
    using handle_chunk [of n ?t c ?ds d X N w' "Ok ()" h] assms(1-5) w'(1) by simp
  have "consumer_background X N n s = (?s', Some (Ok ()))"
    using on_clients_run [of "poll_connection X N ?i" s, OF poll] assms(2,6,7,12) handle
    by (simp add: consumer_background_def run_consumer_handlers_def Let_def async_defs)
  moreover have "polls n (length ?ds + 0) ?s' = map (\<lambda>d. Ready (Some d)) ?ds @ []"
    using polls_drain [of n ?s' ?ds 0] assms(1,2,4) by simp
  ultimately show ?thesis using w'(2) by (auto simp: comp_def)
qed

section \<open>Properties of building\<close>

lemma filter_key_simps [simp]:
  "filter_key i = filter_key j \<longleftrightarrow> i = j" "filter_key i \<noteq> ''match-unfiltered''"
  "filter_key i \<noteq> ''name''" "filter_key i \<noteq> ''single-active-consumer''"
  "''match-unfiltered'' \<noteq> filter_key i"
  by (simp_all add: filter_key_def)

lemma filter_keys_lookup:
  "map_of (filter_keys i vs ps) (filter_key j) =
    (if i \<le> j \<and> j < i + length vs then Some (vs ! (j - i)) else map_of ps (filter_key j))"
  by (induction vs arbitrary: i ps) (auto simp: update_conv' nth_Cons' not_less_eq_eq)

lemma filter_keys_other: "\<forall>j. k \<noteq> filter_key j \<Longrightarrow> map_of (filter_keys i vs ps) k = map_of ps k"
  by (induction vs arbitrary: i ps) (auto simp: update_conv')

lemma filter_properties_lookup:
  "j < length (filter_values f) \<Longrightarrow>
     map_of (filter_properties f ps) (filter_key j) = Some (filter_values f ! j)"
  "map_of (filter_properties f ps) ''match-unfiltered'' = Some (show_bool (match_unfiltered f))"
  "k \<noteq> ''match-unfiltered'' \<Longrightarrow> \<forall>j. k \<noteq> filter_key j \<Longrightarrow> map_of (filter_properties f ps) k = map_of ps k"
  by (simp_all add: filter_properties_def update_conv' filter_keys_lookup filter_keys_other)

text \<open>The properties of the subscription: those of the builder, overridden by the filter and by the
  single active consumer.\<close>

lemma subscription_properties_lookup:
  "is_single_active_consumer b \<Longrightarrow>
     map_of (subscription_properties b) ''single-active-consumer'' = Some ''true''"
  "is_single_active_consumer b \<Longrightarrow>
     map_of (subscription_properties b) ''name'' = Some (the (builder_name b))"
  "builder_filter b = Some f \<Longrightarrow>
     map_of (subscription_properties b) ''match-unfiltered'' =
       Some (if match_unfiltered f then ''true'' else ''false'')"
  "builder_filter b = Some f \<Longrightarrow> j < length (filter_values f) \<Longrightarrow>
     map_of (subscription_properties b) (filter_key j) = Some (filter_values f ! j)"
  by (simp_all add: subscription_properties_def single_active_properties_def filter_properties_lookup
      show_bool_def Let_def update_conv')

lemma subscription_properties_other:
  assumes "is_single_active_consumer b \<longrightarrow> k \<noteq> ''name'' \<and> k \<noteq> ''single-active-consumer''"
    and "builder_filter b \<noteq> None \<longrightarrow> k \<noteq> ''match-unfiltered'' \<and> (\<forall>i. k \<noteq> filter_key i)"
  shows "map_of (subscription_properties b) k = map_of (builder_properties b) k"
  using assms
  by (cases "builder_filter b")
     (simp_all add: subscription_properties_def single_active_properties_def filter_properties_lookup
       Let_def update_conv')

lemma dropping_receiver_OkE:
  "dropping_receiver n m s = (s', Some (Ok x)) \<Longrightarrow> m s = (s', Some (Ok x))"
  by (auto simp: dropping_receiver_def split: prod.splits option.splits result.splits)

lemma consumer_build_run:
  fixes X :: "('t, 'u) externals" and N :: "('t, 'u, 'w) network"
  assumes "consumer_build X N pick b stream' s = (s', Some (Ok n))"
  shows "n = length (consumers s) \<and> \<not> unnamed_single_active b \<and>
    (\<exists>i w1 w2 response.
       create_consumer_client X N pick (environment b) stream' (builder_client_name b) (base s) =
         (w1, Some (Ok i)) \<and>
       w2 = update_state i (\<lambda>st. st\<lparr>handler := True\<rparr>) w1 \<and>
       (builder_filter b \<noteq> None \<longrightarrow> filtering_supported (clients w2 ! i)) \<and>
       subscribe X N i 1 stream' (builder_offset b) 1 (subscription_properties b) w2 =
         (base s', Some (Ok response)) \<and>
       GenericResponse.code response = ResponseOk \<and>
       consumers s' = consumers s @ [new_ConsumerInternal b stream' i])"
proof -
  have named: "\<not> unnamed_single_active b"
    using assms by (auto simp: consumer_build_def async_defs split: if_splits)
  let ?n = "length (consumers s)"
  from assms named obtain s1 i where
    s1: "on_clients (create_consumer_client X N pick (environment b) stream' (builder_client_name b)) s =
      (s1, Some (Ok i))"
    and k1: "dropping_receiver (length (consumers s1)) (\<lambda>s.
          if builder_filter b \<noteq> None \<and> \<not> filtering_supported (clients (base s) ! i)
          then (s, Some (Err ConsumerFilteringNotSupport))
          else await (lift_error ConsumerClient (on_clients (subscribe X N i 1 stream' (builder_offset b) 1
              (subscription_properties b)))) (\<lambda>response. ready (
            if GenericResponse.code response = ResponseOk then Ok (length (consumers s1))
            else Err (ConsumerCreate stream' (GenericResponse.code response)))) s)
        (s1\<lparr>consumers := consumers s1 @ [new_ConsumerInternal b stream' i],
            base := update_state i (\<lambda>st. st\<lparr>handler := True\<rparr>) (base s1)\<rparr>) = (s', Some (Ok n))"
    by (auto simp: consumer_build_def Let_def client_set_handler_def on_clients_def zoom_def
        lift_error_def async_defs dest!: await_OkE' split: if_splits)
  obtain w1 where w1: "create_consumer_client X N pick (environment b) stream' (builder_client_name b) (base s) =
      (w1, Some (Ok i))" "s1 = s\<lparr>base := w1\<rparr>" using s1 by (rule on_clients_OkE)
  let ?w2 = "update_state i (\<lambda>st. st\<lparr>handler := True\<rparr>) w1"
  let ?s2 = "s1\<lparr>consumers := consumers s1 @ [new_ConsumerInternal b stream' i], base := ?w2\<rparr>"
  from dropping_receiver_OkE [OF k1] w1(2) obtain response s3 where
    sub: "on_clients (subscribe X N i 1 stream' (builder_offset b) 1 (subscription_properties b)) ?s2 =
      (s3, Some (Ok response))"
    and fin: "GenericResponse.code response = ResponseOk" "s' = s3" "n = ?n"
      "builder_filter b \<noteq> None \<longrightarrow> filtering_supported (clients ?w2 ! i)"
    by (auto simp: async_defs split: if_splits dest!: await_OkE' lift_error_OkE)
  obtain w3 where "subscribe X N i 1 stream' (builder_offset b) 1 (subscription_properties b) ?w2 =
      (w3, Some (Ok response))" "s3 = ?s2\<lparr>base := w3\<rparr>"
    using sub by (rule on_clients_OkE) simp
  then show ?thesis
    using w1 fin named by auto
qed

text \<open>C39.  A consumer that is built belongs to the client that was created for its stream; the
  client reports to it before the subscription is requested, so no chunk is missed; and the broker
  has accepted the subscription from the requested offset, for one chunk, with the properties of
  the builder, except that a filter puts its values under consecutive keys and says whether
  unfiltered messages match, and a single active consumer puts \<open>single-active-consumer\<close> and its name.
  Filters need a broker that supports them, a single active consumer needs a name.\<close>

theorem built_consumer:
  fixes X :: "('t, 'u) externals" and N :: "('t, 'u, 'w) network"
  assumes "consumer_build X N pick b stream' s = (s', Some (Ok n))"
  shows "n = length (consumers s) \<and> \<not> unnamed_single_active b \<and>
    (\<exists>i w1 w2 response.
       create_consumer_client X N pick (environment b) stream' (builder_client_name b) (base s) =
         (w1, Some (Ok i)) \<and>
       w2 = update_state i (\<lambda>st. st\<lparr>handler := True\<rparr>) w1 \<and>
       (builder_filter b \<noteq> None \<longrightarrow> filtering_supported (clients w2 ! i)) \<and>
       subscribe X N i 1 stream' (builder_offset b) 1 (subscription_properties b) w2 =
         (base s', Some (Ok response)) \<and>
       GenericResponse.code response = ResponseOk \<and>
       consumers s' = consumers s @ [new_ConsumerInternal b stream' i]) \<and>
    (is_single_active_consumer b \<longrightarrow>
       (\<exists>name'. builder_name b = Some name' \<and>
         map_of (subscription_properties b) ''single-active-consumer'' = Some ''true'' \<and>
         map_of (subscription_properties b) ''name'' = Some name')) \<and>
    (case builder_filter b of
       Some f \<Rightarrow>
         (j < length (filter_values f) \<longrightarrow>
            map_of (subscription_properties b) (filter_key j) = Some (filter_values f ! j)) \<and>
         map_of (subscription_properties b) ''match-unfiltered'' =
           Some (if match_unfiltered f then ''true'' else ''false'')
     | None \<Rightarrow> True) \<and>
    ((is_single_active_consumer b \<longrightarrow> k \<noteq> ''name'' \<and> k \<noteq> ''single-active-consumer'') \<and>
     (builder_filter b \<noteq> None \<longrightarrow> k \<noteq> ''match-unfiltered'' \<and> (\<forall>i. k \<noteq> filter_key i)) \<longrightarrow>
       map_of (subscription_properties b) k = map_of (builder_properties b) k)"
proof -
  have "\<exists>name'. builder_name b = Some name'" if "is_single_active_consumer b"
    using that consumer_build_run [OF assms] by (auto simp: unnamed_single_active_def)
  with consumer_build_run [OF assms] subscription_properties_other [of b k] show ?thesis
    by (auto simp: subscription_properties_lookup split: option.split)
qed

section \<open>Instances\<close>

definition sample_consumer :: "(i64, bytes, (i64, bytes) script) ConsumerInternal" where
  "sample_consumer = (new_ConsumerInternal (environment_consumer sample_environment) ''s'' 0)
     \<lparr>waker := True\<rparr>"

definition sample_consumers ::
  "(i64, bytes) MessageResult list list \<Rightarrow> (i64, bytes) MessageResult list \<Rightarrow>
     (i64, bytes, (i64, bytes) script) consumer_system" where
  "sample_consumers items arrived =
     \<lparr>base = scripted_world items [handled_client\<lparr>inbox := arrived\<rparr>], consumers = [sample_consumer]\<rparr>"

definition sample_chunk :: "(i64, bytes) DeliverCommand" where
  "sample_chunk = \<lparr>DeliverCommand.subscription_id = 1, magic_version = 0, chunk_type = 0, num_entries = 2,
     timestamp = 0, epoch = 0, chunk_first_offset = 5, chunk_crc = 0, trailer_length = 0, reserved = 0,
     messages = [sample_message, sample_message]\<rparr>"

lemma sample_consumers_simps [simp]:
  "consumers (sample_consumers items arrived) = [sample_consumer]"
  "\<not> receiver_dropped sample_consumer" "deliveries sample_consumer = []" "client sample_consumer = 0"
  "consumer_id sample_consumer = 1" "consumer_update_listener sample_consumer = None"
  "waker sample_consumer" "filter_configuration sample_consumer = None"
  "offset_specification sample_consumer = Next"
  "clients (base (sample_consumers items arrived)) = [handled_client\<lparr>inbox := arrived\<rparr>]"
  "net (base (sample_consumers items arrived)) = ([], items)"
  by (simp_all add: sample_consumers_def sample_consumer_def new_ConsumerInternal_def
      environment_consumer_def scripted_world_def)

lemma sample_chunk_deliveries [simp]:
  "chunk_deliveries sample_consumer sample_chunk =
     [new_Delivery sample_consumer sample_message 5, new_Delivery sample_consumer sample_message 6]"
  by (simp add: chunk_deliveries_def sample_chunk_def client_filter_def before_start_def)

theorem chunk_delivered_witness:
  "deliveries (consumers (fst (handle_consumer_message byte_externals scripted 0
      (Some (Ok (respond (ResponseKind.Deliver sample_chunk)))) (sample_consumers [[]] []))) ! 0) =
    [Ok (new_Delivery sample_consumer sample_message 5), Ok (new_Delivery sample_consumer sample_message 6)]"
proof -
  let ?s = "sample_consumers [[]] []"
  obtain w where "credit byte_externals scripted 0 1 1 (base ?s) = (w, Some (Ok ()))"
    using credit_Ok [of "base ?s" 0 scripted byte_externals 1 1] by simp
  then show ?thesis
    unfolding respond_def
    by (subst chunk_delivered [where c = sample_consumer and r = "Ok ()" and w = w, OF _ _ _ _ refl])
       (simp_all add: CHANNEL_SIZE_def)
qed

text \<open>A consumer that keeps the messages with the publishing id 1, and a chunk of one message that
  it rejects and one that it keeps: the second message of the chunk, at offset 6, is delivered as 5.\<close>

definition keeping_consumer :: "(i64, bytes, (i64, bytes) script) ConsumerInternal" where
  "keeping_consumer = sample_consumer\<lparr>filter_configuration := Some (post_filter
     (\<lambda>m. Message.publishing_id m = Some 1) (new_FilterConfiguration [] False))\<rparr>"

definition mixed_chunk :: "(i64, bytes) DeliverCommand" where
  "mixed_chunk = sample_chunk\<lparr>messages := [sample_message, sample_message\<lparr>Message.publishing_id := Some 1\<rparr>]\<rparr>"

theorem filter_shifts_offsets_witness:
  "Ok (new_Delivery keeping_consumer (sample_message\<lparr>Message.publishing_id := Some 1\<rparr>) 5) \<in>
     set (deliveries (consumers (fst (handle_consumer_message byte_externals scripted 0
       (Some (Ok (respond (ResponseKind.Deliver mixed_chunk))))
       (sample_consumers [[]] []\<lparr>consumers := [keeping_consumer]\<rparr>))) ! 0)) \<and>
   (5 :: u64) < chunk_first_offset mixed_chunk + 1"
proof -
  let ?s = "sample_consumers [[]] []\<lparr>consumers := [keeping_consumer]\<rparr>"
  let ?run = "handle_consumer_message byte_externals scripted 0
    (Some (Ok (respond (ResponseKind.Deliver mixed_chunk)))) ?s"
  obtain w where "credit byte_externals scripted 0 1 1 (base ?s) = (w, Some (Ok ()))"
    using credit_Ok [of "base ?s" 0 scripted byte_externals 1 1] by auto
  then have "snd ?run = Some (Ok ()) \<and> 5 < chunk_first_offset mixed_chunk + of_nat 1 \<and>
    (\<not> before_start (offset_specification keeping_consumer) 5 \<longrightarrow>
       Ok (new_Delivery keeping_consumer (messages mixed_chunk ! 1) 5) \<in>
         set (drop (length (deliveries keeping_consumer)) (deliveries (consumers (fst ?run) ! 0)))) \<and>
    (before_start (offset_specification keeping_consumer) 5 \<and>
     (\<forall>i < length (messages mixed_chunk). messages mixed_chunk ! i = messages mixed_chunk ! 1 \<longrightarrow> i = 1) \<longrightarrow>
       (\<forall>o'. Ok (new_Delivery keeping_consumer (messages mixed_chunk ! 1) o') \<notin>
         set (drop (length (deliveries keeping_consumer)) (deliveries (consumers (fst ?run) ! 0)))))"
    unfolding respond_def
    by (intro filter_shifts_offsets [where j = 0 and r = "Ok ()" and w = w
          and fc = "post_filter (\<lambda>m. Message.publishing_id m = Some 1) (new_FilterConfiguration [] False)"
          and f = "\<lambda>m. Message.publishing_id m = Some 1"])
       (simp_all add: keeping_consumer_def mixed_chunk_def sample_chunk_def post_filter_def CHANNEL_SIZE_def
         sample_message_def)
  then show ?thesis
    by (simp add: keeping_consumer_def mixed_chunk_def before_start_def)
qed

theorem consumer_closes_once_witness:
  "polls 0 1 (fst (internal_close byte_externals scripted 0 (sample_consumers [[Some (Ok (generic_ok 0))]] []))) =
     [Ready None]"
  using consumer_closes_once [of 0 "sample_consumers [[Some (Ok (generic_ok 0))]] []" sample_consumer _
      byte_externals scripted 1]
  by simp

theorem consumer_update_waits_witness:
  "snd (handle_consumer_message byte_externals scripted 0 (Some (Ok (respond (ResponseKind.ConsumerUpdate
      \<lparr>ConsumerUpdateCommand.correlation_id = 9, subscription_id = 1, active = 1\<rparr>))))
    (sample_consumers [[]] [])) = None"
  unfolding respond_def
  by (rule consumer_update_waits [where c = sample_consumer and cid = 0 and items = "[]"])
     (simp_all add: idle_def)

definition filtering_builder :: "(i64, bytes, (i64, bytes) script) ConsumerBuilder" where
  "filtering_builder = filter_input (Some (new_FilterConfiguration [''red''] True))
     (enable_single_active_consumer True (set_consumer_name ''c'' (environment_consumer sample_environment)))"

lemma filtering_builder_simps [simp]:
  "\<not> unnamed_single_active filtering_builder" "environment filtering_builder = sample_environment"
  "builder_filter filtering_builder = Some (new_FilterConfiguration [''red''] True)"
  "is_single_active_consumer filtering_builder" "builder_name filtering_builder = Some ''c''"
  by (simp_all add: filtering_builder_def unnamed_single_active_def environment_consumer_def filter_input_def
      enable_single_active_consumer_def set_consumer_name_def)

theorem built_consumer_witness:
  "\<exists>s'. consumer_build byte_externals scripted (\<lambda>_. None) filtering_builder ''s''
       \<lparr>base = scripted_world (lookup_script @ [[Some (Ok (generic_ok 6))]]) [], consumers = []\<rparr> =
       (s', Some (Ok 0)) \<and>
     map_of (subscription_properties filtering_builder) (filter_key 0) = Some ''red'' \<and>
     map_of (subscription_properties filtering_builder) ''name'' = Some ''c''"
proof -
  let ?b = filtering_builder and ?rest = "[Some (Ok (generic_ok 6))] # []"
  let ?s = "\<lparr>base = scripted_world (lookup_script @ ?rest) [], consumers = []\<rparr>
    :: (i64, bytes, (i64, bytes) script) consumer_system"
  let ?opts = "default_ClientOptions\<lparr>client_provided_name := builder_client_name ?b\<rparr>"
  have "net (base ?s) = ([], lookup_script @ ?rest)" by (simp add: scripted_world_def)
  from scripted_lookup [OF this, of ?opts] obtain c out1 d out2 where run:
    "connect byte_externals scripted ?opts (base ?s) =
       (with_client (base ?s) c (out1, [Some (Ok metadata_answer)] # ?rest), Some (Ok (length (clients (base ?s)))))"
    "metadata byte_externals scripted (length (clients (base ?s))) [''s'']
       (with_client (base ?s) c (out1, [Some (Ok metadata_answer)] # ?rest)) =
       (with_client (base ?s) (c\<lparr>dispatcher := d\<rparr>) (out2, ?rest),
        Some (Ok (metadata_from_response sample_metadata)))"
    "waiting_client 6 (c\<lparr>dispatcher := d\<rparr>)" "filtering_supported c" .
  let ?c = "c\<lparr>dispatcher := d, state := (state c)\<lparr>handler := True\<rparr>\<rparr>"
  let ?cmd = "\<lambda>cid. RequestKind.Subscribe (new_SubscribeCommand cid 1 ''s'' (builder_offset ?b) 1
    (subscription_properties ?b))"
  have "waiting_client 6 ?c" using run(3) by (simp add: waiting_client_def)
  then obtain d' out' where sub: "send_and_receive byte_externals scripted (length (clients (base ?s)))
      ''GenericResponse'' from_response_GenericResponse ?cmd (with_client (base ?s) ?c (out2, ?rest)) =
      (with_client (base ?s) (?c\<lparr>dispatcher := d'\<rparr>) (out', []),
       Some (Ok \<lparr>GenericResponse.correlation_id = 6, code = ResponseOk\<rparr>))"
    by (rule scripted_exchange [where r = "generic_ok 6" and w = "base ?s" and out = out2 and rest = "[]"
          and type_name = "''GenericResponse''" and from_response = from_response_GenericResponse
          and msg_factory = ?cmd and x = "\<lparr>GenericResponse.correlation_id = 6, code = ResponseOk\<rparr>"
          and bs = "encode_SubscribeCommand (new_SubscribeCommand 6 1 ''s'' (builder_offset ?b) 1
            (subscription_properties ?b))"])
       (simp_all add: encode_RequestKind_def, simp add: generic_ok_def from_response_GenericResponse_def)
  have "create_consumer_client byte_externals scripted (\<lambda>_. None) sample_environment ''s''
      (builder_client_name ?b) (base ?s) =
      (with_client (base ?s) (c\<lparr>dispatcher := d\<rparr>) (out2, ?rest), Some (Ok (length (clients (base ?s)))))"
    using run(1,2)
    by (simp add: create_consumer_client_def create_client_with_options_def Let_def sample_environment_def
        default_EnvironmentOptions_def sample_leader async_defs)
  then have "\<exists>s'. consumer_build byte_externals scripted (\<lambda>_. None) ?b ''s'' ?s = (s', Some (Ok 0))"
    using sub run(4)
    by (simp add: consumer_build_def on_clients_run client_set_handler_def Let_def subscribe_def
        dropping_receiver_def async_defs)
  then obtain s' where s': "consumer_build byte_externals scripted (\<lambda>_. None) ?b ''s'' ?s = (s', Some (Ok 0))" ..
  from built_consumer [OF s', of 0] s' show ?thesis
    by (auto simp: new_FilterConfiguration_def)
qed

end
