(* ===== verification/Consumer_Flow.thy ===== *)
theory Consumer_Flow
  imports Consumer "HOL-Library.Sublist"
begin

text \<open>
  The flow of chunks to one consumer (\<open>src/consumer.rs\<close>).

  The broker sends a chunk for every credit it was given; each chunk is handled by a task of its
  own, which puts one delivery after the other into the channel, waits while that is full, and
  gives one credit at its end; the user of the consumer polls at any time.  \<open>flow_step\<close> lets any of
  them go on.  That the broker spends a credit for a chunk is the flow control the protocol
  documents, and enters as the guard of the step \<open>Chunk\<close>.
\<close>

section \<open>Interleaved steps\<close>

datatype ('t, 'u) handler_task = Sending "('t, 'u) Delivery list" | Finished

record ('t, 'u) flow =
  credits :: nat
  sent_chunks :: "('t, 'u) DeliverCommand list"
  tasks :: "('t, 'u) handler_task list"
  channel :: "('t, 'u) Delivery list"
  polled :: "('t, 'u) Delivery list"

text \<open>The subscription gives the first credit.\<close>

definition initial_flow :: "('t, 'u) flow" where
  "initial_flow = \<lparr>credits = 1, sent_chunks = [], tasks = [], channel = [], polled = []\<rparr>"

datatype ('t, 'u) flow_event = Chunk "('t, 'u) DeliverCommand" | Push nat | GiveCredit nat | Poll

inductive flow_step ::
  "('t, 'u, 'w) ConsumerInternal \<Rightarrow> ('t, 'u) flow_event \<Rightarrow> ('t, 'u) flow \<Rightarrow> ('t, 'u) flow \<Rightarrow> bool"
  for c where
  chunk: "credits f = Suc k \<Longrightarrow>
    flow_step c (Chunk d) f (f\<lparr>credits := k, sent_chunks := sent_chunks f @ [d],
      tasks := tasks f @ [Sending (chunk_deliveries c d)]\<rparr>)"
| push: "i < length (tasks f) \<Longrightarrow> tasks f ! i = Sending (d # ds) \<Longrightarrow> length (channel f) < CHANNEL_SIZE \<Longrightarrow>
    flow_step c (Push i) f (f\<lparr>tasks := (tasks f)[i := Sending ds], channel := channel f @ [d]\<rparr>)"
| credit: "i < length (tasks f) \<Longrightarrow> tasks f ! i = Sending [] \<Longrightarrow>
    flow_step c (GiveCredit i) f (f\<lparr>credits := Suc (credits f), tasks := (tasks f)[i := Finished]\<rparr>)"
| poll: "channel f = d # ds \<Longrightarrow>
    flow_step c Poll f (f\<lparr>channel := ds, polled := polled f @ [d]\<rparr>)"

inductive_cases flow_stepE [elim]: "flow_step c e f f'"

inductive flow_reachable :: "('t, 'u, 'w) ConsumerInternal \<Rightarrow> ('t, 'u) flow \<Rightarrow> bool" for c where
  start: "flow_reachable c initial_flow"
| step: "flow_reachable c f \<Longrightarrow> flow_step c e f f' \<Longrightarrow> flow_reachable c f'"

section \<open>Invariant\<close>

text \<open>All chunks sent so far, as the consumer should see them.\<close>

definition expected :: "('t, 'u, 'w) ConsumerInternal \<Rightarrow> ('t, 'u) DeliverCommand list \<Rightarrow> ('t, 'u) Delivery list" where
  "expected c chunks = concat (map (chunk_deliveries c) chunks)"

text \<open>Either the broker holds the credit and every handler has finished, or the last handler is at
  work and will give it back.\<close>

definition flow_inv :: "('t, 'u, 'w) ConsumerInternal \<Rightarrow> ('t, 'u) flow \<Rightarrow> bool" where
  "flow_inv c f \<longleftrightarrow> length (channel f) \<le> CHANNEL_SIZE \<and>
    (credits f = 1 \<and> (\<exists>k. tasks f = replicate k Finished) \<and>
       polled f @ channel f = expected c (sent_chunks f) \<or>
     credits f = 0 \<and> (\<exists>k ds. tasks f = replicate k Finished @ [Sending ds] \<and>
       polled f @ channel f @ ds = expected c (sent_chunks f)))"

lemma running_task:
  assumes "tasks f = replicate k Finished @ [Sending ds]" "i < length (tasks f)" "tasks f ! i = Sending ds'"
  shows "i = k \<and> ds' = ds"
  using assms by (auto simp: nth_append split: if_splits)

lemma flow_inv_running:
  assumes "flow_inv c f" "i < length (tasks f)" "tasks f ! i = Sending ds"
  shows "credits f = 0 \<and> tasks f = replicate i Finished @ [Sending ds] \<and>
    polled f @ channel f @ ds = expected c (sent_chunks f)"
proof -
  have "tasks f \<noteq> replicate k Finished" for k
  proof
    assume "tasks f = replicate k Finished"
    with assms(2,3) show False by simp
  qed
  with assms(1) obtain k es where "credits f = 0" "tasks f = replicate k Finished @ [Sending es]"
    "polled f @ channel f @ es = expected c (sent_chunks f)"
    by (auto simp: flow_inv_def)
  with running_task [OF this(2) assms(2,3)] show ?thesis by simp
qed

lemma flow_step_inv:
  assumes "flow_step c e f f'" "flow_inv c f"
  shows "flow_inv c f'"
  using assms(1)
proof cases
  case (chunk k d)
  with assms(2) show ?thesis
    by (auto simp: flow_inv_def expected_def)
next
  case (push i d ds)
  with flow_inv_running [OF assms(2) push(3,4)] show ?thesis
    by (auto simp: flow_inv_def list_update_append)
next
  case (credit i)
  have "\<exists>k. replicate i Finished @ [Finished] = replicate k (Finished :: ('a, 'b) handler_task)"
    by (rule exI [of _ "Suc i"]) (simp add: replicate_append_same)
  with credit flow_inv_running [OF assms(2) credit(3,4)] assms(2) show ?thesis
    by (auto simp: flow_inv_def list_update_append)
next
  case (poll d ds)
  with assms(2) show ?thesis by (auto simp: flow_inv_def)
qed

lemma flow_reachable_inv: "flow_reachable c f \<Longrightarrow> flow_inv c f"
proof (induction rule: flow_reachable.induct)
  case start
  show ?case by (simp add: flow_inv_def initial_flow_def expected_def)
qed (rule flow_step_inv)

section \<open>Chunks of a stream\<close>

text \<open>Chunks that follow each other in the stream from an offset on.\<close>

fun consecutive :: "u64 \<Rightarrow> ('t, 'u) DeliverCommand list \<Rightarrow> bool" where
  "consecutive first [] = True"
| "consecutive first (d # ds) \<longleftrightarrow>
     chunk_first_offset d = first \<and> consecutive (first + of_nat (length (messages d))) ds"

lemma offset_deliveries_append:
  "offset_deliveries c first (ms @ ms') =
     offset_deliveries c first ms @ offset_deliveries c (first + of_nat (length ms)) ms'"
  by (induction ms arbitrary: first) (simp_all add: add.assoc)

lemma expected_consecutive:
  assumes "consecutive first ds" "\<And>ms. client_filter c ms = ms"
  shows "expected c ds = offset_deliveries c first (concat (map messages ds))"
  using assms(1)
  by (induction ds arbitrary: first)
     (simp_all add: expected_def chunk_deliveries_def assms(2) offset_deliveries_append)

section \<open>Abstract specification\<close>

text \<open>A queue without handlers, credits and tasks: a chunk is stored behind what is pending, as long
  as that fits into the channel, and the user reads from the front.\<close>

datatype ('t, 'u) fifo_event = Store "('t, 'u) Delivery list" | Read

type_synonym ('t, 'u) fifo = "('t, 'u) Delivery list \<times> ('t, 'u) Delivery list"

fun fifo_step :: "('t, 'u) fifo_event \<Rightarrow> ('t, 'u) fifo \<Rightarrow> ('t, 'u) fifo option" where
  "fifo_step (Store ds) (waiting, seen) =
     (if length waiting \<le> CHANNEL_SIZE then Some (waiting @ ds, seen) else None)"
| "fifo_step Read (d # waiting, seen) = Some (waiting, seen @ [d])"
| "fifo_step Read ([], seen) = None"

primrec fifo_run :: "('t, 'u) fifo_event list \<Rightarrow> ('t, 'u) fifo \<Rightarrow> ('t, 'u) fifo option" where
  "fifo_run [] q = Some q"
| "fifo_run (e # es) q = Option.bind (fifo_step e q) (fifo_run es)"

text \<open>The events the specification knows; what the handlers do is invisible.\<close>

fun visible :: "('t, 'u, 'w) ConsumerInternal \<Rightarrow> ('t, 'u) flow_event \<Rightarrow> ('t, 'u) fifo_event option" where
  "visible c (Chunk d) = Some (Store (chunk_deliveries c d))"
| "visible c Poll = Some Read"
| "visible c _ = None"

fun unsent :: "('t, 'u) handler_task \<Rightarrow> ('t, 'u) Delivery list" where
  "unsent (Sending ds) = ds"
| "unsent Finished = []"

definition abs_flow :: "('t, 'u) flow \<Rightarrow> ('t, 'u) fifo" where
  "abs_flow f = (channel f @ concat (map unsent (tasks f)), polled f)"

text \<open>Runs with the events they are made of.\<close>

inductive flow_trace ::
  "('t, 'u, 'w) ConsumerInternal \<Rightarrow> ('t, 'u) flow_event list \<Rightarrow> ('t, 'u) flow \<Rightarrow> bool" for c where
  nil: "flow_trace c [] initial_flow"
| snoc: "flow_trace c es f \<Longrightarrow> flow_step c e f f' \<Longrightarrow> flow_trace c (es @ [e]) f'"

lemma flow_trace_reachable: "flow_trace c es f \<Longrightarrow> flow_reachable c f"
  by (induction rule: flow_trace.induct) (auto intro: flow_reachable.intros)

lemma concat_finished [simp]: "concat (map unsent (replicate k Finished)) = []"
  by (simp add: concat_replicate_trivial)

lemma fifo_run_append: "fifo_run (es @ es') q = Option.bind (fifo_run es q) (fifo_run es')"
  by (induction es arbitrary: q) (simp_all split: Option.bind_split)

text \<open>The square of the simulation: a visible event is a step of the specification, an invisible one
  leaves the abstract state as it is.\<close>

lemma flow_step_simulates:
  assumes "flow_step c e f f'" "flow_inv c f"
  shows "(case visible c e of None \<Rightarrow> Some (abs_flow f) | Some e' \<Rightarrow> fifo_step e' (abs_flow f)) =
    Some (abs_flow f')"
  using assms(1)
proof cases
  case (chunk k d)
  then obtain n where "tasks f = replicate n Finished" "length (channel f) \<le> CHANNEL_SIZE"
    using assms(2) by (auto simp: flow_inv_def)
  with chunk show ?thesis by (simp add: abs_flow_def)
next
  case (push i d ds)
  with flow_inv_running [OF assms(2) push(3,4)] show ?thesis
    by (simp add: abs_flow_def list_update_append)
next
  case (credit i)
  with flow_inv_running [OF assms(2) credit(3,4)] show ?thesis
    by (simp add: abs_flow_def list_update_append)
next
  case (poll d ds)
  then show ?thesis by (simp add: abs_flow_def)
qed

lemma visible_snoc:
  "List.map_filter (visible c) (es @ [e]) =
     List.map_filter (visible c) es @ (case visible c e of None \<Rightarrow> [] | Some e' \<Rightarrow> [e'])"
  by (simp add: List.map_filter_def split: option.split)

lemma flow_trace_simulates:
  assumes "flow_trace c es f"
  shows "fifo_run (List.map_filter (visible c) es) ([], []) = Some (abs_flow f)"
  using assms
proof (induction rule: flow_trace.induct)
  case nil
  then show ?case by (simp add: List.map_filter_def abs_flow_def initial_flow_def)
next
  case (snoc es f e f')
  with flow_step_simulates [OF snoc(2) flow_reachable_inv [OF flow_trace_reachable [OF snoc(1)]]]
  show ?case by (auto simp: visible_snoc fifo_run_append split: option.splits)
qed

section \<open>Properties of the flow\<close>

text \<open>C5.  However the broker, the handlers and the user interleave, a consumer sees the messages in
  the order of the stream, none twice and none left out: what was polled and what the channel
  holds is a prefix of what was sent, and all of it when the broker has its credit back.
  Chunks that follow each other in the stream give their messages with their offsets, from the
  requested one on.  The channel stays within its size.\<close>

theorem consumer_in_order:
  assumes "flow_reachable c f"
  shows "prefix (polled f @ channel f) (expected c (sent_chunks f)) \<and>
    (credits f = 0 \<or> polled f @ channel f = expected c (sent_chunks f)) \<and>
    credits f \<le> 1 \<and> length (channel f) \<le> CHANNEL_SIZE \<and>
    (consecutive first (sent_chunks f) \<and> filter_configuration c = None \<longrightarrow>
       expected c (sent_chunks f) =
         offset_deliveries c first (concat (map messages (sent_chunks f))))"
proof -
  have "expected c (sent_chunks f) = offset_deliveries c first (concat (map messages (sent_chunks f)))"
    if "consecutive first (sent_chunks f)" "filter_configuration c = None"
    using that by (intro expected_consecutive) (simp_all add: client_filter_def)
  moreover have inv: "flow_inv c f" by (rule flow_reachable_inv [OF assms])
  moreover have "\<exists>rest. expected c (sent_chunks f) = (polled f @ channel f) @ rest"
    using inv unfolding flow_inv_def by (metis append.assoc append_Nil2)
  ultimately show ?thesis by (auto simp: flow_inv_def prefix_def)
qed

text \<open>C9.  The flow refines a queue that knows nothing of handlers, credits and channels: in every
  interleaving, what the user has read and what is still on its way are what the queue holds after
  the chunks and the polls alone, in the order in which these happened.  A chunk is only taken
  while what is pending fits into the channel, so no more than that and one chunk is ever held.\<close>

theorem consumer_flow_refines:
  assumes "flow_trace c es f"
  shows "fifo_run (List.map_filter (visible c) es) ([], []) =
    Some (channel f @ concat (map unsent (tasks f)), polled f)"
  using flow_trace_simulates [OF assms] by (simp add: abs_flow_def)

text \<open>The flow never gets stuck while a chunk is being handled: when the broker has no credit,
  the handler can go on, or the channel is full and the user can poll.\<close>

theorem consumer_flow_progress:
  assumes "flow_reachable c f" "credits f = 0"
  shows "(\<exists>i f'. flow_step c (Push i) f f') \<or> (\<exists>i f'. flow_step c (GiveCredit i) f f') \<or>
    (length (channel f) = CHANNEL_SIZE \<and> (\<exists>f'. flow_step c Poll f f'))"
proof -
  from flow_reachable_inv [OF assms(1)] assms(2) obtain k ds where
    k: "tasks f = replicate k Finished @ [Sending ds]" "length (channel f) \<le> CHANNEL_SIZE"
    by (auto simp: flow_inv_def)
  then have i: "k < length (tasks f)" "tasks f ! k = Sending ds" by (simp_all add: nth_append)
  show ?thesis
  proof (cases ds)
    case Nil
    with i show ?thesis by (blast intro: credit)
  next
    case (Cons d rest)
    show ?thesis
    proof (cases "channel f")
      case Nil
      with Cons i show ?thesis using push [of k f d rest c] by (auto simp: CHANNEL_SIZE_def)
    next
      case (Cons d' ds')
      with \<open>ds = d # rest\<close> i k(2) show ?thesis
        using push [of k f d rest c] poll [of f d' ds' c] by fastforce
    qed
  qed
qed

definition sample_flow :: "(i64, bytes) flow" where
  "sample_flow = \<lparr>credits = 0, sent_chunks = [sample_chunk],
     tasks = [Sending [new_Delivery sample_consumer sample_message 6]],
     channel = [], polled = [new_Delivery sample_consumer sample_message 5]\<rparr>"

lemma sample_flow_trace: "flow_trace sample_consumer [Chunk sample_chunk, Push 0, Poll] sample_flow"
proof -
  let ?d5 = "new_Delivery sample_consumer sample_message 5" and ?d6 = "new_Delivery sample_consumer sample_message 6"
  have "flow_step sample_consumer (Chunk sample_chunk) initial_flow
      \<lparr>credits = 0, sent_chunks = [sample_chunk], tasks = [Sending [?d5, ?d6]], channel = [], polled = []\<rparr>"
    using chunk [of "initial_flow" 0 sample_consumer sample_chunk] by (simp add: initial_flow_def)
  moreover have "flow_step sample_consumer (Push 0)
      \<lparr>credits = 0, sent_chunks = [sample_chunk], tasks = [Sending [?d5, ?d6]], channel = [], polled = []\<rparr>
      \<lparr>credits = 0, sent_chunks = [sample_chunk], tasks = [Sending [?d6]], channel = [?d5], polled = []\<rparr>"
    using push [of 0 "\<lparr>credits = 0, sent_chunks = [sample_chunk], tasks = [Sending [?d5, ?d6]],
      channel = [], polled = []\<rparr>" ?d5 "[?d6]"] by (simp add: CHANNEL_SIZE_def)
  moreover have "flow_step sample_consumer Poll
      \<lparr>credits = 0, sent_chunks = [sample_chunk], tasks = [Sending [?d6]], channel = [?d5], polled = []\<rparr>
      sample_flow"
    using poll [of "\<lparr>credits = 0, sent_chunks = [sample_chunk], tasks = [Sending [?d6]], channel = [?d5],
      polled = []\<rparr>" ?d5 "[]"] by (simp add: sample_flow_def)
  ultimately show ?thesis
    using flow_trace.snoc [OF flow_trace.snoc [OF flow_trace.snoc [OF flow_trace.nil]]] by fastforce
qed

lemmas sample_flow_reachable = flow_trace_reachable [OF sample_flow_trace]

theorem consumer_flow_refines_witness:
  "fifo_run [Store [new_Delivery sample_consumer sample_message 5, new_Delivery sample_consumer sample_message 6],
     Read] ([], []) =
   Some ([new_Delivery sample_consumer sample_message 6], [new_Delivery sample_consumer sample_message 5])"
  using consumer_flow_refines [OF sample_flow_trace]
  by (simp add: List.map_filter_def sample_flow_def)

theorem consumer_in_order_witness:
  "prefix (polled sample_flow) (expected sample_consumer [sample_chunk])"
  using consumer_in_order [OF sample_flow_reachable, of 5] by (simp add: sample_flow_def)

theorem consumer_flow_progress_witness:
  "(\<exists>i f'. flow_step sample_consumer (Push i) sample_flow f') \<or>
   (\<exists>i f'. flow_step sample_consumer (GiveCredit i) sample_flow f') \<or>
   (\<exists>f'. flow_step sample_consumer Poll sample_flow f')"
  using consumer_flow_progress [OF sample_flow_reachable] by (auto simp: sample_flow_def)

end
