(* ===== verification/Superstream.thy ===== *)
theory Superstream
  imports Components
begin

text \<open>
  Super streams: their metadata and the routing of messages (\<open>src/superstream.rs\<close>).

  The metadata asks the broker for partitions and routes and keeps the answers; it is passed in
  and handed back with the result.  The hash function of the crate \<open>murmur3\<close> is the parameter
  \<open>murmur\<close>: the hash of a key under a seed, or \<open>None\<close> for the error its reader could report.  An
  \<open>unwrap\<close> of an error is a panic.
\<close>

section \<open>Metadata\<close>

record DefaultSuperStreamMetadata =
  super_stream :: string
  metadata_client :: nat
  cached_partitions :: "string list"
  cached_routes :: "(string \<times> string list) list"

definition new_DefaultSuperStreamMetadata :: "string \<Rightarrow> nat \<Rightarrow> DefaultSuperStreamMetadata" where
  "new_DefaultSuperStreamMetadata super_stream' client' =
     \<lparr>super_stream = super_stream', metadata_client = client', cached_partitions = [], cached_routes = []\<rparr>"

definition metadata_partitions ::
  "('t, 'u) externals \<Rightarrow> ('t, 'u, 'w) network \<Rightarrow> DefaultSuperStreamMetadata \<Rightarrow>
     (('t, 'u, 'w) world, DefaultSuperStreamMetadata \<times> string list, 'e) async" where
  "metadata_partitions X N md =
    (if cached_partitions md = []
     then await (unwrap_async (partitions X N (metadata_client md) (super_stream md))) (\<lambda>response.
       ready (Ok (md\<lparr>cached_partitions := SuperStreamPartitionsResponse.streams response\<rparr>,
         SuperStreamPartitionsResponse.streams response)))
     else ready (Ok (md, cached_partitions md)))"

definition metadata_routes ::
  "('t, 'u) externals \<Rightarrow> ('t, 'u, 'w) network \<Rightarrow> string \<Rightarrow> DefaultSuperStreamMetadata \<Rightarrow>
     (('t, 'u, 'w) world, DefaultSuperStreamMetadata \<times> string list, 'e) async" where
  "metadata_routes X N key' md =
    (case map_of (cached_routes md) key' of
       None \<Rightarrow> await (unwrap_async (route X N (metadata_client md) key' (super_stream md))) (\<lambda>response.
         ready (Ok (md\<lparr>cached_routes := AList.update key'
             (SuperStreamRouteResponse.streams response) (cached_routes md)\<rparr>,
           SuperStreamRouteResponse.streams response)))
     | Some streams' \<Rightarrow> ready (Ok (md, streams')))"

section \<open>Routing\<close>

type_synonym murmur3 = "string \<Rightarrow> u32 \<Rightarrow> u32 option"

datatype ('t, 'u) RoutingStrategy =
    HashRoutingStrategy "('t, 'u) Message \<Rightarrow> string"
  | RoutingKeyStrategy "('t, 'u) Message \<Rightarrow> string"

definition routing_key_routes ::
  "('t, 'u) externals \<Rightarrow> ('t, 'u, 'w) network \<Rightarrow> (('t, 'u) Message \<Rightarrow> string) \<Rightarrow> ('t, 'u) Message \<Rightarrow>
     DefaultSuperStreamMetadata \<Rightarrow>
     (('t, 'u, 'w) world, DefaultSuperStreamMetadata \<times> string list, 'e) async" where
  "routing_key_routes X N routing_extractor m = metadata_routes X N (routing_extractor m)"

text \<open>The number of partitions is cut to 32 bits; a remainder by zero panics.\<close>

definition hash_stream :: "u32 option \<Rightarrow> string list \<Rightarrow> (string list, 'e) result" where
  "hash_stream hash_result partitions' =
    (case hash_result of
       None \<Rightarrow> Panic
     | Some hash \<Rightarrow>
         (let number_of_partitions = (of_nat (length partitions') :: u32) in
          if number_of_partitions = 0 then Panic
          else let route' = unat (hash mod number_of_partitions) in
            if route' < length partitions' then Ok [partitions' ! route'] else Panic))"

definition hash_routes ::
  "murmur3 \<Rightarrow> ('t, 'u) externals \<Rightarrow> ('t, 'u, 'w) network \<Rightarrow> (('t, 'u) Message \<Rightarrow> string) \<Rightarrow>
     ('t, 'u) Message \<Rightarrow> DefaultSuperStreamMetadata \<Rightarrow>
     (('t, 'u, 'w) world, DefaultSuperStreamMetadata \<times> string list, 'e) async" where
  "hash_routes murmur X N routing_extractor m md =
    (let hash_result = murmur (routing_extractor m) 104729 in
     await (metadata_partitions X N md) (\<lambda>(md', partitions').
     await (ready (hash_stream hash_result partitions')) (\<lambda>streams'.
       ready (Ok (md', streams')))))"

definition strategy_routes ::
  "murmur3 \<Rightarrow> ('t, 'u) externals \<Rightarrow> ('t, 'u, 'w) network \<Rightarrow> ('t, 'u) RoutingStrategy \<Rightarrow>
     ('t, 'u) Message \<Rightarrow> DefaultSuperStreamMetadata \<Rightarrow>
     (('t, 'u, 'w) world, DefaultSuperStreamMetadata \<times> string list, 'e) async" where
  "strategy_routes murmur X N strategy m =
    (case strategy of
       HashRoutingStrategy f \<Rightarrow> hash_routes murmur X N f m
     | RoutingKeyStrategy f \<Rightarrow> routing_key_routes X N f m)"

section \<open>Properties of routing\<close>

lemma hash_stream_in_range:
  assumes "0 < length ps" "length ps < 2 ^ 32"
  shows "hash_stream (Some h) ps = Ok [ps ! (unat h mod length ps)] \<and> unat h mod length ps < length ps"
proof -
  have "unat (of_nat (length ps) :: u32) = length ps"
    using assms(2) by (simp add: unat_of_nat take_bit_nat_eq_self)
  moreover from this have "(of_nat (length ps) :: u32) \<noteq> 0" using assms(1) by (metis unat_0 less_numeral_extra(3))
  ultimately show ?thesis
    using assms(1) by (simp add: hash_stream_def Let_def unat_mod_distrib)
qed

lemma hash_stream_empty: "hash_stream h [] = Panic"
  by (simp add: hash_stream_def split: option.split)

text \<open>C22.  A message is routed to one partition, the one its key's hash selects modulo the number
  of partitions; messages with the same key go to the same one, and the broker is asked for the
  partitions at most once.  A super stream without partitions makes routing panic.\<close>

theorem hash_routing:
  fixes X :: "('t, 'u) externals" and N :: "('t, 'u, 'w) network"
  assumes "cached_partitions md = ps" "murmur (f m) 104729 = Some h" "length ps < 2 ^ 32"
    and "partitions X N (metadata_client md) (super_stream md) w = (w', Some (Ok response))"
  shows "(ps \<noteq> [] \<longrightarrow>
      strategy_routes murmur X N (HashRoutingStrategy f) m md w =
        (w, Some (Ok (md, [ps ! (unat h mod length ps)])))) \<and>
    (ps = [] \<longrightarrow> (let qs = SuperStreamPartitionsResponse.streams response in
      (0 < length qs \<and> length qs < 2 ^ 32 \<longrightarrow>
        strategy_routes murmur X N (HashRoutingStrategy f) m md w =
          (w', Some (Ok (md\<lparr>cached_partitions := qs\<rparr>, [qs ! (unat h mod length qs)])))) \<and>
      (qs = [] \<longrightarrow> strategy_routes murmur X N (HashRoutingStrategy f) m md w = (w', Some Panic))))"
proof (intro conjI impI)
  assume "ps \<noteq> []"
  then show "strategy_routes murmur X N (HashRoutingStrategy f) m md w =
        (w, Some (Ok (md, [ps ! (unat h mod length ps)])))"
    using assms(1-3) \<open>ps \<noteq> []\<close>
    by (simp add: strategy_routes_def hash_routes_def metadata_partitions_def async_defs
        hash_stream_in_range [THEN conjunct1])
next
  assume "ps = []"
  let ?qs = "SuperStreamPartitionsResponse.streams response"
  have run: "strategy_routes murmur X N (HashRoutingStrategy f) m md w =
      await (ready (hash_stream (Some h) ?qs)) (\<lambda>streams'.
        ready (Ok (md\<lparr>cached_partitions := ?qs\<rparr>, streams'))) w'"
    using assms \<open>ps = []\<close>
    by (simp add: strategy_routes_def hash_routes_def metadata_partitions_def async_defs)
  show "let qs = ?qs in
      (0 < length qs \<and> length qs < 2 ^ 32 \<longrightarrow>
        strategy_routes murmur X N (HashRoutingStrategy f) m md w =
          (w', Some (Ok (md\<lparr>cached_partitions := qs\<rparr>, [qs ! (unat h mod length qs)])))) \<and>
      (qs = [] \<longrightarrow> strategy_routes murmur X N (HashRoutingStrategy f) m md w = (w', Some Panic))"
    unfolding Let_def run
    by (auto simp: async_defs hash_stream_in_range [THEN conjunct1] hash_stream_empty)
qed

text \<open>A routing key is looked up once: the answer is kept, and the next message with the same
  key is routed without the network to the same streams.\<close>

theorem routes_are_cached:
  fixes X :: "('t, 'u) externals" and N :: "('t, 'u, 'w) network"
  assumes "strategy_routes murmur X N (RoutingKeyStrategy f) m md w = (w', Some (Ok (md', streams')))"
    and "f m' = f m"
  shows "strategy_routes murmur X N (RoutingKeyStrategy f) m' md' w2 = (w2, Some (Ok (md', streams')))"
proof -
  have "map_of (cached_routes md') (f m) = Some streams'"
    using assms(1)
    by (auto simp: strategy_routes_def routing_key_routes_def metadata_routes_def async_defs update_conv'
        split: option.splits elim!: await_OkE)
  with assms(2) show ?thesis
    by (simp add: strategy_routes_def routing_key_routes_def metadata_routes_def async_defs)
qed

definition sample_hash :: murmur3 where
  "sample_hash key' seed = Some (of_nat (length key') + seed)"

definition sample_partitions :: "u32 \<Rightarrow> string list \<Rightarrow> (i64, bytes) Response" where
  "sample_partitions cid ps = respond (ResponseKind.SuperStreamPartitions
     \<lparr>SuperStreamPartitionsResponse.correlation_id = cid, response_code = ResponseOk, streams = ps\<rparr>)"

lemma scripted_partitions:
  obtains w' where "partitions byte_externals scripted 0 ''s''
      (scripted_world [[Some (Ok (sample_partitions 0 ps))]] [handled_client]) =
    (w', Some (Ok \<lparr>SuperStreamPartitionsResponse.correlation_id = 0, response_code = ResponseOk, streams = ps\<rparr>))"
proof -
  let ?w = "scripted_world [[Some (Ok (sample_partitions 0 ps))]] [handled_client]"
  let ?cmd = "\<lambda>cid. RequestKind.SuperStreamPartitions (new_SuperStreamPartitionsRequest cid ''s'')"
  obtain w' where "partitions byte_externals scripted 0 ''s'' ?w =
      (w', request_outcome ''SuperStreamPartitionsResponse'' from_response_SuperStreamPartitionsResponse 0
        [Some (Ok (sample_partitions 0 ps))])"
    unfolding partitions_def
    by (rule send_and_receive_run [where cid = 0 and i = 0 and w = ?w and msg_factory = ?cmd
          and bs = "encode_SuperStreamPartitionsRequest (new_SuperStreamPartitionsRequest 0 ''s'')"
          and type_name = "''SuperStreamPartitionsResponse''"
          and from_response = from_response_SuperStreamPartitionsResponse
          and N = scripted and X = byte_externals])
       (simp_all add: idle_def scripted_world_def encode_RequestKind_def)
  then show thesis
    using that
    by (auto simp: request_outcome_def sample_partitions_def respond_def answers_id_def
        response_correlation_id_def is_ConsumerUpdate_def cast_response_def
        from_response_SuperStreamPartitionsResponse_def)
qed

theorem hash_routing_witness:
  "\<exists>w'. strategy_routes sample_hash byte_externals scripted (HashRoutingStrategy (\<lambda>_. ''key''))
      sample_message (new_DefaultSuperStreamMetadata ''s'' 0)
      (scripted_world [[Some (Ok (sample_partitions 0 [''s-0'', ''s-1'', ''s-2'']))]] [handled_client]) =
    (w', Some (Ok (\<lparr>super_stream = ''s'', metadata_client = 0,
       cached_partitions = [''s-0'', ''s-1'', ''s-2''], cached_routes = []\<rparr>, [''s-2''])))"
proof -
  let ?ps = "[''s-0'', ''s-1'', ''s-2'']"
  let ?md = "new_DefaultSuperStreamMetadata ''s'' 0"
  let ?w = "scripted_world [[Some (Ok (sample_partitions 0 ?ps))]] [handled_client]"
  let ?r = "\<lparr>SuperStreamPartitionsResponse.correlation_id = 0, response_code = ResponseOk, streams = ?ps\<rparr>"
  obtain w' where w': "partitions byte_externals scripted 0 ''s'' ?w = (w', Some (Ok ?r))"
    by (rule scripted_partitions)
  have "partitions byte_externals scripted (metadata_client ?md) (super_stream ?md) ?w = (w', Some (Ok ?r))"
    "sample_hash ''key'' 104729 = Some 104732"
    using w' by (simp_all add: new_DefaultSuperStreamMetadata_def sample_hash_def)
  from hash_routing [where f = "\<lambda>_. ''key''" and murmur = sample_hash and md = ?md and m = sample_message
      and ps = "[]" and h = 104732, OF _ this(2) _ this(1)] show ?thesis
    by (auto simp: new_DefaultSuperStreamMetadata_def Let_def)
qed

theorem routes_are_cached_witness:
  "strategy_routes sample_hash byte_externals scripted (RoutingKeyStrategy (\<lambda>_. ''key'')) sample_message
      \<lparr>super_stream = ''s'', metadata_client = 0, cached_partitions = [], cached_routes = [(''key'', [''s-1''])]\<rparr>
      (scripted_world [] [handled_client]) =
    (scripted_world [] [handled_client], Some (Ok (\<lparr>super_stream = ''s'', metadata_client = 0,
       cached_partitions = [], cached_routes = [(''key'', [''s-1''])]\<rparr>, [''s-1''])))"
  by (rule routes_are_cached [where m = sample_message and w = "scripted_world [] []" and w' = "scripted_world [] []"
        and md = "\<lparr>super_stream = ''s'', metadata_client = 0, cached_partitions = [],
          cached_routes = [(''key'', [''s-1''])]\<rparr>"])
     (simp_all add: strategy_routes_def routing_key_routes_def metadata_routes_def async_defs)

end
