(* ===== verification/Superstream_Producer.thy ===== *)
theory Superstream_Producer
  imports Superstream Producer
begin

text \<open>
  Producers of super streams (\<open>src/superstream_producer.rs\<close>).

  The state is that of the producers together with all producers of super streams; each of
  these keeps the producers it has built, by the name of their partition.  The order in which a
  \<open>HashMap\<close> is traversed is the parameter \<open>order\<close>.
\<close>

section \<open>State\<close>

datatype SuperStreamProducerPublishError = SuperProducerPublishError | SuperProducerCreateError

text \<open>The conversions drop the cause.\<close>

definition from_publish_error :: "ProducerPublishError \<Rightarrow> SuperStreamProducerPublishError" where
  "from_publish_error err = SuperProducerPublishError"

definition from_create_error :: "ProducerCreateError \<Rightarrow> SuperStreamProducerPublishError" where
  "from_create_error err = SuperProducerCreateError"

record ('t, 'u) SuperStreamProducer =
  super_environment :: Environment
  super_client :: nat
  super_filter :: "(('t, 'u) Message \<Rightarrow> string) option"
  super_client_name :: string
  partition_producers :: "(string \<times> nat) list"
  super_metadata :: DefaultSuperStreamMetadata
  route_strategy :: "('t, 'u) RoutingStrategy"

record ('t, 'u, 'w, 'cb) super_producer_system =
  inner :: "('t, 'u, 'w, 'cb) producer_system"
  super_producers :: "('t, 'u) SuperStreamProducer list"

type_synonym ('t, 'u, 'w, 'cb, 'a, 'e) super_producer_async =
  "(('t, 'u, 'w, 'cb) super_producer_system, 'a, 'e) async"

definition update_super_producer ::
  "nat \<Rightarrow> (('t, 'u) SuperStreamProducer \<Rightarrow> ('t, 'u) SuperStreamProducer) \<Rightarrow>
     ('t, 'u, 'w, 'cb) super_producer_system \<Rightarrow> ('t, 'u, 'w, 'cb) super_producer_system" where
  "update_super_producer p f s = s\<lparr>super_producers := (super_producers s)[p := f (super_producers s ! p)]\<rparr>"

definition on_producers ::
  "('t, 'u, 'w, 'cb, 'a, 'e) producer_async \<Rightarrow> ('t, 'u, 'w, 'cb, 'a, 'e) super_producer_async" where
  "on_producers = zoom inner (\<lambda>w s. s\<lparr>inner := w\<rparr>)"

section \<open>Sending\<close>

definition producer_routes ::
  "murmur3 \<Rightarrow> ('t, 'u) externals \<Rightarrow> ('t, 'u, 'w) network \<Rightarrow> nat \<Rightarrow> ('t, 'u) Message \<Rightarrow>
     ('t, 'u, 'w, 'cb, string list, SuperStreamProducerPublishError) super_producer_async" where
  "producer_routes murmur X N p m s =
    (let sp = super_producers s ! p in
     await (on_producers (on_base (strategy_routes murmur X N (route_strategy sp) m (super_metadata sp))))
       (\<lambda>(md, routes). await (modify (update_super_producer p (\<lambda>sp. sp\<lparr>super_metadata := md\<rparr>)))
         (\<lambda>_. ready (Ok routes))) s)"

definition partition_builder :: "('t, 'u) SuperStreamProducer \<Rightarrow> ('t, 'u) ProducerBuilder" where
  "partition_builder sp = set_filter_value_extractor_arc (super_filter sp)
     (set_producer_client_name (super_client_name sp) (environment_producer (super_environment sp)))"

definition partition_producer ::
  "('t, 'u) externals \<Rightarrow> ('t, 'u, 'w) network \<Rightarrow> nat \<Rightarrow> string \<Rightarrow>
     ('t, 'u, 'w, 'cb, nat, SuperStreamProducerPublishError) super_producer_async" where
  "partition_producer X N p route' s =
    (let sp = super_producers s ! p in
     case map_of (partition_producers sp) route' of
       Some q \<Rightarrow> (s, Some (Ok q))
     | None \<Rightarrow>
         await (lift_error from_create_error
             (on_producers (producer_build X N (partition_builder sp) route'))) (\<lambda>q.
         await (modify (update_super_producer p (\<lambda>sp. sp\<lparr>partition_producers :=
             AList.update route' q (partition_producers sp)\<rparr>))) (\<lambda>_. ready (Ok q))) s)"

primrec send_routes ::
  "('t, 'u) externals \<Rightarrow> ('t, 'u, 'w) network \<Rightarrow> nat \<Rightarrow> ('t, 'u) Message \<Rightarrow> 'cb \<Rightarrow> string list \<Rightarrow>
     ('t, 'u, 'w, 'cb, unit, SuperStreamProducerPublishError) super_producer_async" where
  "send_routes X N p m cb' [] = ready (Ok ())"
| "send_routes X N p m cb' (route' # routes) =
     await (partition_producer X N p route') (\<lambda>q.
     await (lift_error from_publish_error (on_producers (do_send X N q m cb'))) (\<lambda>_.
       send_routes X N p m cb' routes))"

definition super_send ::
  "murmur3 \<Rightarrow> ('t, 'u) externals \<Rightarrow> ('t, 'u, 'w) network \<Rightarrow> nat \<Rightarrow> ('t, 'u) Message \<Rightarrow> 'cb \<Rightarrow>
     ('t, 'u, 'w, 'cb, unit, SuperStreamProducerPublishError) super_producer_async" where
  "super_send murmur X N p m cb' =
     await (producer_routes murmur X N p m) (\<lambda>routes.
       if routes = [] then ready (Err SuperProducerCreateError)
       else send_routes X N p m cb' routes)"

section \<open>Closing and building\<close>

text \<open>Every producer is closed; the last error is reported.\<close>

primrec close_producers ::
  "('t, 'u) externals \<Rightarrow> ('t, 'u, 'w) network \<Rightarrow> (string \<times> nat) list \<Rightarrow> ProducerCloseError option \<Rightarrow>
     ('t, 'u, 'w, 'cb, unit, ProducerCloseError) super_producer_async" where
  "close_producers X N [] err = ready (case err of None \<Rightarrow> Ok () | Some e \<Rightarrow> Err e)"
| "close_producers X N (entry # entries) err =
     await_result (on_producers (producer_close X N (snd entry))) (\<lambda>r.
       close_producers X N entries (case r of Err e \<Rightarrow> Some e | _ \<Rightarrow> err))"

definition super_producer_close ::
  "((string \<times> nat) list \<Rightarrow> (string \<times> nat) list) \<Rightarrow> ('t, 'u) externals \<Rightarrow> ('t, 'u, 'w) network \<Rightarrow> nat \<Rightarrow>
     ('t, 'u, 'w, 'cb, unit, ProducerCloseError) super_producer_async" where
  "super_producer_close order X N p s =
    (let sp = super_producers s ! p in
     await (lift_error CloseProducerClient (on_producers (on_base (close X N (super_client sp))))) (\<lambda>_.
       close_producers X N (order (partition_producers sp)) None) s)"

text \<open>A clone has its own copy of the partition map and of the metadata, and shares the producers
  that are in the map at that time; partitions that either side reaches later get a producer on
  that side only.\<close>

definition super_producer_clone ::
  "nat \<Rightarrow> ('t, 'u, 'w, 'cb) super_producer_system \<Rightarrow> ('t, 'u, 'w, 'cb) super_producer_system \<times> nat" where
  "super_producer_clone p s =
     (s\<lparr>super_producers := super_producers s @ [super_producers s ! p]\<rparr>, length (super_producers s))"

record ('t, 'u) SuperStreamProducerBuilder =
  builder_environment :: Environment
  builder_super_filter :: "(('t, 'u) Message \<Rightarrow> string) option"
  builder_strategy :: "('t, 'u) RoutingStrategy"
  builder_super_client_name :: string

definition environment_super_stream_producer ::
  "('t, 'u) RoutingStrategy \<Rightarrow> Environment \<Rightarrow> ('t, 'u) SuperStreamProducerBuilder" where
  "environment_super_stream_producer strategy env' =
     \<lparr>builder_environment = env', builder_super_filter = None, builder_strategy = strategy,
      builder_super_client_name = ''rust-super-stream-producer''\<rparr>"

definition set_super_filter ::
  "(('t, 'u) Message \<Rightarrow> string) \<Rightarrow> ('t, 'u) SuperStreamProducerBuilder \<Rightarrow> ('t, 'u) SuperStreamProducerBuilder" where
  "set_super_filter f b = b\<lparr>builder_super_filter := Some f\<rparr>"

definition set_super_client_name ::
  "string \<Rightarrow> ('t, 'u) SuperStreamProducerBuilder \<Rightarrow> ('t, 'u) SuperStreamProducerBuilder" where
  "set_super_client_name n b = b\<lparr>builder_super_client_name := n\<rparr>"

definition super_producer_build ::
  "('t, 'u) externals \<Rightarrow> ('t, 'u, 'w) network \<Rightarrow> ('t, 'u) SuperStreamProducerBuilder \<Rightarrow> string \<Rightarrow>
     ('t, 'u, 'w, 'cb, nat, ProducerCreateError) super_producer_async" where
  "super_producer_build X N b super_stream' =
     await (lift_error ProducerClient (on_producers (on_base (create_client X N (builder_environment b))))) (\<lambda>i s.
       (s\<lparr>super_producers := super_producers s @
          [\<lparr>super_environment = builder_environment b, super_client = i, super_filter = builder_super_filter b,
            super_client_name = builder_super_client_name b, partition_producers = [],
            super_metadata = new_DefaultSuperStreamMetadata super_stream' i,
            route_strategy = builder_strategy b\<rparr>]\<rparr>,
        Some (Ok (length (super_producers s)))))"

section \<open>Properties of sending\<close>

interpretation producers_of_super_producers: part inner "\<lambda>w s. s\<lparr>inner := w\<rparr>"
  by unfold_locales simp_all

lemma on_producers_OkE:
  assumes "on_producers m s = (s', Some (Ok x))"
  obtains w where "m (inner s) = (w, Some (Ok x))" "s' = s\<lparr>inner := w\<rparr>"
  using assms unfolding on_producers_def by (rule producers_of_super_producers.zoom_OkE)

lemma on_producers_run: "m (inner s) = (w, r) \<Longrightarrow> on_producers m s = (s\<lparr>inner := w\<rparr>, r)"
  unfolding on_producers_def by (rule producers_of_super_producers.zoom_run)

lemma update_super_producer_simps [simp]:
  "length (super_producers (update_super_producer p f s)) = length (super_producers s)"
  "inner (update_super_producer p f s) = inner s"
  "p < length (super_producers s) \<Longrightarrow> super_producers (update_super_producer p f s) ! p = f (super_producers s ! p)"
  by (simp_all add: update_super_producer_def)

text \<open>Every partition is served by a producer of that stream.\<close>

definition partitions_inv :: "nat \<Rightarrow> ('t, 'u, 'w, 'cb) super_producer_system \<Rightarrow> bool" where
  "partitions_inv p s \<longleftrightarrow> p < length (super_producers s) \<and>
     (\<forall>(r, q) \<in> set (partition_producers (super_producers s ! p)).
        q < length (producers (inner s)) \<and> stream (producers (inner s) ! q) = r)"

text \<open>The message is waited for by a producer, with the caller's callback.\<close>

definition handed_over ::
  "('t, 'u) Message \<Rightarrow> 'cb \<Rightarrow> nat \<Rightarrow> ('t, 'u, 'w, 'cb) super_producer_system \<Rightarrow> bool" where
  "handed_over m cb' q s \<longleftrightarrow> q < length (producers (inner s)) \<and>
     (\<exists>pid. map_of (waiting_confirmations (producers (inner s) ! q)) pid =
        Some \<lparr>cb = UserCallback cb', msg = m\<rparr>)"

text \<open>What building a producer and sending keep: the producers of other partitions, who serves what, and
  messages already handed over.\<close>

definition super_step ::
  "nat \<Rightarrow> ('t, 'u) Message \<Rightarrow> 'cb \<Rightarrow> ('t, 'u, 'w, 'cb) super_producer_system \<Rightarrow>
     ('t, 'u, 'w, 'cb) super_producer_system \<Rightarrow> bool" where
  "super_step p m cb' s s' \<longleftrightarrow> (partitions_inv p s \<longrightarrow> partitions_inv p s') \<and>
     (\<forall>q. handed_over m cb' q s \<longrightarrow> handed_over m cb' q s') \<and>
     (\<forall>r q. map_of (partition_producers (super_producers s ! p)) r = Some q \<longrightarrow>
        map_of (partition_producers (super_producers s' ! p)) r = Some q)"

lemma super_step_refl [simp]: "super_step p m cb' s s"
  by (simp add: super_step_def)

lemma super_step_trans: "super_step p m cb' s s1 \<Longrightarrow> super_step p m cb' s1 s2 \<Longrightarrow> super_step p m cb' s s2"
  by (simp add: super_step_def)

lemma prefix_nth: "prefix xs ys \<Longrightarrow> i < length xs \<Longrightarrow> i < length ys \<and> ys ! i = xs ! i"
  by (auto simp: prefix_def nth_append)

lemma super_step_build:
  assumes "prefix (producers (inner s)) (producers w)"
  shows "super_step p m cb' s (s\<lparr>inner := w\<rparr>)"
  using prefix_nth [OF assms]
  by (auto simp: super_step_def partitions_inv_def handed_over_def)

lemma super_step_send:
  assumes "do_send X N q m cb' (inner s) = (w, Some (Ok ()))" "q < length (producers (inner s))"
  shows "super_step p m cb' s (s\<lparr>inner := w\<rparr>) \<and> handed_over m cb' q (s\<lparr>inner := w\<rparr>)"
proof -
  from internal_send_frame [OF assms(1) [unfolded do_send_def] assms(2)] obtain pid where
    st: "map stream (producers w) = map stream (producers (inner s))"
    and oth: "\<And>q'. q' \<noteq> q \<Longrightarrow> producers w ! q' = producers (inner s) ! q'"
    and own: "waiting_confirmations (producers w ! q) = AList.update pid
      \<lparr>cb = UserCallback cb', msg = m\<rparr> (waiting_confirmations (producers (inner s) ! q))"
    by auto
  have len: "length (producers w) = length (producers (inner s))"
    using arg_cong [OF st, of length] by simp
  have "stream (producers w ! q') = stream (producers (inner s) ! q')" if "q' < length (producers w)" for q'
    using that arg_cong [OF st, of "\<lambda>xs. xs ! q'"] len by simp
  moreover have "handed_over m cb' q' (s\<lparr>inner := w\<rparr>)" if "handed_over m cb' q' s \<or> q' = q" for q'
    using that assms(2) len oth [of q'] own
    by (cases "q' = q") (auto simp: handed_over_def update_conv' intro: exI [of _ pid])
  ultimately show ?thesis
    by (auto simp: super_step_def partitions_inv_def len)
qed

lemma producer_build_stream:
  assumes "producer_build X N b stream' s = (s', Some (Ok q))"
  shows "q < length (producers s') \<and> stream (producers s' ! q) = stream'"
  using assms
  by (auto simp: producer_build_def built_def new_MessageAccumulator_def on_base_def lift_error_def
      nth_append dest!: await_OkE' split: if_splits option.splits prod.splits result.splits)

lemma set_alist_update: "e \<in> set (AList.update k v al) \<Longrightarrow> e = (k, v) \<or> e \<in> set al"
  by (induction al) (auto split: if_splits)

lemma partition_producer_step:
  assumes "partition_producer X N p route' s = (s', Some (Ok q))" "partitions_inv p s"
  shows "super_step p m cb' s s' \<and> q < length (producers (inner s')) \<and>
    map_of (partition_producers (super_producers s' ! p)) route' = Some q"
proof (cases "map_of (partition_producers (super_producers s ! p)) route'")
  case (Some q')
  with assms show ?thesis
    by (auto simp: partition_producer_def partitions_inv_def dest: map_of_SomeD)
next
  case None
  let ?b = "partition_builder (super_producers s ! p)"
  from assms(1) None obtain s1 where
    "lift_error from_create_error (on_producers (producer_build X N ?b route')) s = (s1, Some (Ok q))"
    and s': "s' = update_super_producer p (\<lambda>sp. sp\<lparr>partition_producers :=
      AList.update route' q (partition_producers sp)\<rparr>) s1"
    by (auto simp: partition_producer_def Let_def async_defs dest!: await_OkE')
  then obtain w where w: "producer_build X N ?b route' (inner s) = (w, Some (Ok q))" "s1 = s\<lparr>inner := w\<rparr>"
    by (auto dest!: lift_error_OkE elim: on_producers_OkE)
  have "super_step p m cb' s s1" unfolding w(2)
    by (rule super_step_build) (rule growsD [OF producer_build_grows w(1)])
  moreover have "super_step p m cb' s1 s'"
    using producer_build_stream [OF w(1)] None w(2) s' assms(2)
    by (auto simp: super_step_def partitions_inv_def handed_over_def update_conv' split: if_splits
        dest!: set_alist_update)
  ultimately show ?thesis
    using producer_build_stream [OF w(1)] w(2) s' assms(2)
    by (auto simp: partitions_inv_def update_conv' intro: super_step_trans)
qed

lemma send_routes_step:
  assumes "send_routes X N p m cb' routes s = (s', Some (Ok ()))" "partitions_inv p s"
  shows "super_step p m cb' s s' \<and>
    (\<forall>r \<in> set routes. \<exists>q. map_of (partition_producers (super_producers s' ! p)) r = Some q \<and>
       handed_over m cb' q s')"
  using assms
proof (induction routes arbitrary: s)
  case Nil
  then show ?case by (simp add: async_defs)
next
  case (Cons r routes)
  from await_OkE' [OF Cons.prems(1) [unfolded send_routes.simps]] obtain s1 q where
    s1: "partition_producer X N p r s = (s1, Some (Ok q))"
    and k: "await (lift_error from_publish_error (on_producers (do_send X N q m cb'))) (\<lambda>_.
       send_routes X N p m cb' routes) s1 = (s', Some (Ok ()))"
    by blast
  from await_OkE' [OF k] obtain s2 u where
    s2: "on_producers (do_send X N q m cb') s1 = (s2, Some (Ok u))"
    and rest: "send_routes X N p m cb' routes s2 = (s', Some (Ok ()))"
    by (auto dest!: lift_error_OkE)
  obtain w where w: "do_send X N q m cb' (inner s1) = (w, Some (Ok u))" "s2 = s1\<lparr>inner := w\<rparr>"
    using s2 by (rule on_producers_OkE)
  have st1: "super_step p m cb' s s1" "q < length (producers (inner s1))"
    "map_of (partition_producers (super_producers s1 ! p)) r = Some q"
    using partition_producer_step [OF s1 Cons.prems(2)] by auto
  have st2: "super_step p m cb' s1 s2" "handed_over m cb' q s2"
    using super_step_send [of X N q m cb' s1 w p] w st1(2) by auto
  have "partitions_inv p s2" using Cons.prems(2) st1(1) st2(1) by (simp add: super_step_def)
  note ih = Cons.IH [OF rest this]
  then have "super_step p m cb' s s'"
    using st1(1) st2(1) by (blast intro: super_step_trans)
  moreover have "map_of (partition_producers (super_producers s' ! p)) r = Some q" "handed_over m cb' q s'"
    using st1(3) st2 ih by (auto simp: super_step_def)
  ultimately show ?case using ih by auto
qed

text \<open>C21.  A message sent to a super stream that was accepted is in the hands of a producer of every
  stream it is routed to, with the caller's callback; streams that had a producer keep theirs, and
  every partition is served by a producer of that very stream.  With no route the call fails.\<close>

theorem super_send_reaches_routes:
  fixes X :: "('t, 'u) externals" and N :: "('t, 'u, 'w) network"
  assumes "partitions_inv p s" "super_send murmur X N p m cb' s = (s', Some (Ok ()))"
  shows "\<exists>s1 routes. producer_routes murmur X N p m s = (s1, Some (Ok routes)) \<and> routes \<noteq> [] \<and>
    partitions_inv p s' \<and>
    (\<forall>r \<in> set routes. \<exists>q. map_of (partition_producers (super_producers s' ! p)) r = Some q \<and>
       stream (producers (inner s') ! q) = r \<and> handed_over m cb' q s') \<and>
    (\<forall>r q. map_of (partition_producers (super_producers s ! p)) r = Some q \<longrightarrow>
       map_of (partition_producers (super_producers s' ! p)) r = Some q)"
proof -
  from await_OkE' [OF assms(2) [unfolded super_send_def]] obtain s1 routes where
    s1: "producer_routes murmur X N p m s = (s1, Some (Ok routes))"
    and k: "(if routes = [] then ready (Err SuperProducerCreateError)
       else send_routes X N p m cb' routes) s1 = (s', Some (Ok ()))"
    by blast
  have routes: "routes \<noteq> []" "send_routes X N p m cb' routes s1 = (s', Some (Ok ()))"
    using k by (auto simp: async_defs split: if_splits)
  from s1 obtain w md where "s1 = update_super_producer p (\<lambda>sp. sp\<lparr>super_metadata := md\<rparr>)
      (s\<lparr>inner := (inner s)\<lparr>base := w\<rparr>\<rparr>)"
    by (auto simp: producer_routes_def Let_def async_defs on_base_def dest!: await_OkE'
        elim!: on_producers_OkE split: prod.splits)
  then have "super_step p m cb' s s1"
    using assms(1) by (simp add: super_step_def partitions_inv_def handed_over_def)
  with send_routes_step [OF routes(2)] assms(1) have
    st: "super_step p m cb' s s'" "partitions_inv p s'"
    and reach: "\<forall>r \<in> set routes. \<exists>q. map_of (partition_producers (super_producers s' ! p)) r = Some q \<and>
       handed_over m cb' q s'"
    by (auto simp: super_step_def)
  have "stream (producers (inner s') ! q) = r"
    if "map_of (partition_producers (super_producers s' ! p)) r = Some q" for r q
    using st(2) that by (auto simp: partitions_inv_def dest: map_of_SomeD)
  with s1 routes(1) st reach show ?thesis by (fastforce simp: super_step_def)
qed

section \<open>Properties of closing\<close>

lemma producer_close_closes:
  assumes "producer_close X N q s = (s', r)" "q < length (producers s)"
  shows "is_closed q s' \<and> length (producers s') = length (producers s) \<and>
    (\<forall>q'. is_closed q' s \<longrightarrow> is_closed q' s')"
proof (cases "producer_closed (producers s ! q)")
  case True
  with assms show ?thesis by (simp add: producer_close_def is_closed_def)
next
  case False
  have "s' = (update_producer q (\<lambda>q. q\<lparr>producer_closed := True\<rparr>) s)\<lparr>base := base s'\<rparr>"
    using producer_close_run [OF False, of X N] assms(1) by simp
  then have "producers s' = (producers s)[q := (producers s ! q)\<lparr>producer_closed := True\<rparr>]"
    by (metis producer_system.select_convs(2) producer_system.surjective producer_system.update_convs(1,2)
        update_producer_def)
  with assms(2) show ?thesis by (auto simp: is_closed_def nth_list_update)
qed

lemma close_producers_closes:
  assumes "close_producers X N entries err s = (s', Some r)" "r \<noteq> Panic"
    and "\<forall>e \<in> set entries. snd e < length (producers (inner s))"
  shows "(\<forall>e \<in> set entries. is_closed (snd e) (inner s')) \<and>
    (\<forall>q. is_closed q (inner s) \<longrightarrow> is_closed q (inner s'))"
  using assms
proof (induction entries arbitrary: err s)
  case Nil
  then show ?case by (simp add: async_defs)
next
  case (Cons e entries)
  obtain w res where w: "producer_close X N (snd e) (inner s) = (w, res)"
    by (cases "producer_close X N (snd e) (inner s)")
  then have run: "on_producers (producer_close X N (snd e)) s = (s\<lparr>inner := w\<rparr>, res)"
    by (rule on_producers_run)
  from Cons.prems(1,2) obtain err' where
    rest: "close_producers X N entries err' (s\<lparr>inner := w\<rparr>) = (s', Some r)"
    by (auto simp: await_result_def run split: option.splits result.splits)
  have c: "is_closed (snd e) w" "length (producers w) = length (producers (inner s))"
    "\<And>q. is_closed q (inner s) \<Longrightarrow> is_closed q w"
    using producer_close_closes [OF w] Cons.prems(3) by auto
  from Cons.IH [OF rest Cons.prems(2)] Cons.prems(3) c show ?case by auto
qed

text \<open>Closing a producer of a super stream closes the producer of every partition, also when
  closing some of them fails, provided its own connection could be closed; otherwise none of
  them is closed.\<close>

theorem super_producer_close_closes_all:
  fixes X :: "('t, 'u) externals" and N :: "('t, 'u, 'w) network"
  assumes "partitions_inv p s" "set (order (partition_producers (super_producers s ! p))) =
      set (partition_producers (super_producers s ! p))"
    and "close X N (super_client (super_producers s ! p)) (base (inner s)) = (w, Some res)"
    and "super_producer_close order X N p s = (s', Some r)" "r \<noteq> Panic"
  shows "case res of
      Ok _ \<Rightarrow> \<forall>(_, q) \<in> set (partition_producers (super_producers s ! p)). is_closed q (inner s')
    | Err e \<Rightarrow> r = Err (CloseProducerClient e) \<and> producers (inner s') = producers (inner s)
    | Panic \<Rightarrow> False"
proof -
  let ?sp = "super_producers s ! p"
  have run: "on_producers (on_base (close X N (super_client ?sp))) s = (s\<lparr>inner := (inner s)\<lparr>base := w\<rparr>\<rparr>, Some res)"
    using assms(3) by (intro on_producers_run) (simp add: on_base_def)
  show ?thesis
  proof (cases res)
    case (Ok u)
    with assms(4) run have "close_producers X N (order (partition_producers ?sp)) None
        (s\<lparr>inner := (inner s)\<lparr>base := w\<rparr>\<rparr>) = (s', Some r)"
      by (simp add: super_producer_close_def Let_def)
    moreover have "\<forall>e \<in> set (order (partition_producers ?sp)).
        snd e < length (producers (inner (s\<lparr>inner := (inner s)\<lparr>base := w\<rparr>\<rparr>)))"
      using assms(1,2) by (auto simp: partitions_inv_def)
    ultimately have "\<forall>e \<in> set (order (partition_producers ?sp)). is_closed (snd e) (inner s')"
      using close_producers_closes assms(5) by blast
    with Ok assms(2) show ?thesis by auto
  qed (use assms(4,5) run in \<open>auto simp: super_producer_close_def Let_def await_def lift_error_def\<close>)
qed

section \<open>Instances\<close>

text \<open>A super stream with one partition, whose producer uses the first client; the second client
  is the super stream's own.\<close>

definition sample_super_producer :: "(i64, bytes) SuperStreamProducer" where
  "sample_super_producer =
     \<lparr>super_environment = sample_environment, super_client = 1, super_filter = None, super_client_name = ''n'',
      partition_producers = [(''s'', 0)],
      super_metadata = \<lparr>super_stream = ''t'', metadata_client = 1, cached_partitions = [],
        cached_routes = [(''key'', [''s''])]\<rparr>,
      route_strategy = RoutingKeyStrategy (\<lambda>_. ''key'')\<rparr>"

definition lost_client :: "(i64, bytes) Client" where
  "lost_client = handled_client\<lparr>dispatcher := new_Dispatcher\<lparr>closed := True\<rparr>\<rparr>"

definition sample_super_system ::
  "(i64, bytes) MessageResult list list \<Rightarrow> (i64, bytes, (i64, bytes) script, nat) super_producer_system" where
  "sample_super_system items =
     \<lparr>inner = (sample_system [])\<lparr>base := with_client (scripted_world [] [lost_client]) handled_client ([], items)\<rparr>,
      super_producers = [sample_super_producer]\<rparr>"

lemma sample_super_system_simps [simp]:
  "super_producers (sample_super_system items) = [sample_super_producer]"
  "producers (inner (sample_super_system items)) = [sample_producer]"
  "partitions_inv 0 (sample_super_system items)"
  "partition_producers sample_super_producer = [(''s'', 0)]" "super_client sample_super_producer = 1"
  by (simp_all add: sample_super_system_def sample_super_producer_def partitions_inv_def)
     (simp add: sample_producer_def)

lemma sample_send:
  assumes "producers t = [sample_producer]"
  shows "\<exists>t'. do_send byte_externals scripted 0 sample_message (1 :: nat) t = (t', Some (Ok ()))"
  using internal_send_run [of 0 t sample_producer sample_message 7 8 "[wrap_message sample_producer 7 sample_message]"
      _ "UserCallback 1" byte_externals scripted, OF _ _ _ _ _ _ refl] assms
  by (simp add: do_send_def next_publishing_id_def is_closed_def) (simp add: sample_producer_def)

theorem super_send_reaches_routes_witness:
  "\<exists>s'. super_send sample_hash byte_externals scripted 0 sample_message 1 (sample_super_system []) =
     (s', Some (Ok ())) \<and> handed_over sample_message 1 0 s'"
proof -
  let ?s = "sample_super_system []"
  have routes: "\<exists>s1. producer_routes sample_hash byte_externals scripted 0 sample_message ?s =
      (s1, Some (Ok [''s'']))"
    by (simp add: producer_routes_def strategy_routes_def routing_key_routes_def metadata_routes_def
        sample_super_producer_def on_producers_def zoom_def on_base_def async_defs)
  have "\<exists>s'. super_send sample_hash byte_externals scripted 0 sample_message 1 ?s = (s', Some (Ok ()))"
    using sample_send [of "(inner ?s)\<lparr>base := base (inner ?s)\<rparr>"]
    by (auto simp: super_send_def producer_routes_def strategy_routes_def routing_key_routes_def
        metadata_routes_def partition_producer_def sample_super_system_def sample_super_producer_def
        on_producers_def zoom_def on_base_def async_defs update_super_producer_def)
  then obtain s' where s': "super_send sample_hash byte_externals scripted 0 sample_message 1 ?s = (s', Some (Ok ()))" ..
  have "\<exists>q. map_of (partition_producers (super_producers s' ! 0)) ''s'' = Some q \<and> handed_over sample_message 1 q s' \<and> q = 0"
    using super_send_reaches_routes [OF _ s'] routes by fastforce
  with s' show ?thesis by auto
qed

theorem super_producer_close_closes_all_witness:
  "\<exists>s' r. super_producer_close id byte_externals scripted 0 (sample_super_system [[Some (Ok (close_ok 0))]]) =
     (s', Some r) \<and> is_closed 0 (inner s')"
proof -
  let ?s = "sample_super_system [[Some (Ok (close_ok 0))]]"
  let ?w = "scripted_world [] [lost_client] :: (i64, bytes, (i64, bytes) script) world"
  have "waiting_client 0 handled_client" "\<not> channel_closed handled_client"
    by (simp_all add: waiting_client_def)
       (simp add: handled_client_def Let_def sample_client_def new_Client_def)
  then obtain c' out' where
    "close byte_externals scripted (length (clients ?w)) (with_client ?w handled_client ([], [[Some (Ok (close_ok 0))]])) =
      (with_client ?w c' (out', []), Some (Ok ()))"
    by (rule scripted_close [of 0 handled_client ?w "[]" "[]"]) simp
  then have cl: "close byte_externals scripted 1 (base (inner ?s)) = (with_client ?w c' (out', []), Some (Ok ()))"
    by (simp add: sample_super_system_def scripted_world_def)
  obtain w2 where "delete_publisher byte_externals scripted 0 1 (with_client ?w c' (out', [])) =
      (w2, Some (Err ConnectionClosed))"
    unfolding delete_publisher_def
    by (simp add: send_and_receive_def response_channel_closed with_client_def scripted_world_def
        lost_client_def)
  then have "\<exists>s'. super_producer_close id byte_externals scripted 0 ?s =
      (s', Some (Err (CloseProducerClient ConnectionClosed)))"
    using cl
    by (simp add: super_producer_close_def on_producers_def zoom_def on_base_def await_result_def
        producer_close_def async_defs lift_error_def)
       (simp add: sample_producer_def sample_super_system_def sample_system_def update_producer_def async_defs
         await_def lift_error_def on_base_def)
  then obtain s' where s': "super_producer_close id byte_externals scripted 0 ?s =
      (s', Some (Err (CloseProducerClient ConnectionClosed)))" ..
  have "is_closed 0 (inner s')"
    using super_producer_close_closes_all [OF _ _ _ s', of "with_client ?w c' (out', [])" "Ok ()"] cl by simp
  with s' show ?thesis by blast
qed

end
