(* ===== verification/Superstream_Consumer.thy ===== *)
theory Superstream_Consumer
  imports Superstream Consumer
begin

text \<open>
  Consumers of super streams (\<open>src/superstream_consumer.rs\<close>).

  A consumer of a super stream has a consumer for every partition and a task for each that
  forwards what it delivers into one channel.  A forwarding task that has a delivery and finds
  the channel full keeps it until there is room; it ends when its consumer has ended, and takes
  the consumer's receiving half with it.  The step relation \<open>super_consumer_step\<close> lets the handlers of the
  partitions, the forwarding tasks, the polling user and a closing task interleave.
\<close>

section \<open>State\<close>

type_synonym ('t, 'u) delivered = "(('t, 'u) Delivery, ConsumerDeliveryError) result"

record ('t, 'u) SuperStreamConsumerInternal =
  super_closed :: bool
  handlers :: "nat list"
  super_waker :: bool
  super_woken :: bool
  super_consumer_client :: nat
  received :: "('t, 'u) delivered list"
  forwarders :: "(nat \<times> ('t, 'u) delivered option) list"

record ('t, 'u, 'w) super_consumer_system =
  inner :: "('t, 'u, 'w) consumer_system"
  super_consumers :: "('t, 'u) SuperStreamConsumerInternal list"

type_synonym ('t, 'u, 'w, 'a, 'e) super_consumer_async =
  "(('t, 'u, 'w) super_consumer_system, 'a, 'e) async"

definition update_super_consumer ::
  "nat \<Rightarrow> (('t, 'u) SuperStreamConsumerInternal \<Rightarrow> ('t, 'u) SuperStreamConsumerInternal) \<Rightarrow>
     ('t, 'u, 'w) super_consumer_system \<Rightarrow> ('t, 'u, 'w) super_consumer_system" where
  "update_super_consumer k f s = s\<lparr>super_consumers := (super_consumers s)[k := f (super_consumers s ! k)]\<rparr>"

definition on_consumers ::
  "('t, 'u, 'w, 'a, 'e) consumer_async \<Rightarrow> ('t, 'u, 'w, 'a, 'e) super_consumer_async" where
  "on_consumers = zoom inner (\<lambda>w s. s\<lparr>inner := w\<rparr>)"

section \<open>Building\<close>

record ('t, 'u, 'w) SuperStreamConsumerBuilder =
  super_stream_consumer_name :: "string option"
  super_builder_environment :: Environment
  super_offset :: OffsetSpecification
  super_filter_configuration :: "('t, 'u) FilterConfiguration option"
  super_listener :: "('t, 'u, 'w) ConsumerUpdateListener option"
  super_builder_client_name :: string
  super_single_active :: bool
  super_properties :: string_map

definition environment_super_stream_consumer :: "Environment \<Rightarrow> ('t, 'u, 'w) SuperStreamConsumerBuilder" where
  "environment_super_stream_consumer env' =
     \<lparr>super_stream_consumer_name = None, super_builder_environment = env', super_offset = Next,
      super_filter_configuration = None, super_listener = None,
      super_builder_client_name = ''rust-super-stream-consumer'', super_single_active = False,
      super_properties = []\<rparr>"

definition set_super_offset ::
  "OffsetSpecification \<Rightarrow> ('t, 'u, 'w) SuperStreamConsumerBuilder \<Rightarrow> ('t, 'u, 'w) SuperStreamConsumerBuilder" where
  "set_super_offset spec b = b\<lparr>super_offset := spec\<rparr>"

definition set_super_consumer_name ::
  "string \<Rightarrow> ('t, 'u, 'w) SuperStreamConsumerBuilder \<Rightarrow> ('t, 'u, 'w) SuperStreamConsumerBuilder" where
  "set_super_consumer_name n b = b\<lparr>super_stream_consumer_name := Some n\<rparr>"

definition enable_super_single_active_consumer ::
  "bool \<Rightarrow> ('t, 'u, 'w) SuperStreamConsumerBuilder \<Rightarrow> ('t, 'u, 'w) SuperStreamConsumerBuilder" where
  "enable_super_single_active_consumer single b = b\<lparr>super_single_active := single\<rparr>"

definition set_super_filter_input ::
  "('t, 'u) FilterConfiguration option \<Rightarrow> ('t, 'u, 'w) SuperStreamConsumerBuilder \<Rightarrow>
     ('t, 'u, 'w) SuperStreamConsumerBuilder" where
  "set_super_filter_input f b = b\<lparr>super_filter_configuration := f\<rparr>"

definition set_super_consumer_update ::
  "('t, 'u, 'w) ConsumerUpdateListener \<Rightarrow> ('t, 'u, 'w) SuperStreamConsumerBuilder \<Rightarrow>
     ('t, 'u, 'w) SuperStreamConsumerBuilder" where
  "set_super_consumer_update f b = b\<lparr>super_listener := Some f\<rparr>"

definition set_super_consumer_client_name ::
  "string \<Rightarrow> ('t, 'u, 'w) SuperStreamConsumerBuilder \<Rightarrow> ('t, 'u, 'w) SuperStreamConsumerBuilder" where
  "set_super_consumer_client_name n b = b\<lparr>super_builder_client_name := n\<rparr>"

definition set_super_properties ::
  "string_map \<Rightarrow> ('t, 'u, 'w) SuperStreamConsumerBuilder \<Rightarrow> ('t, 'u, 'w) SuperStreamConsumerBuilder" where
  "set_super_properties ps b = b\<lparr>super_properties := ps\<rparr>"

definition partition_properties :: "('t, 'u, 'w) SuperStreamConsumerBuilder \<Rightarrow> string \<Rightarrow> string_map" where
  "partition_properties b super_stream' =
    (if super_single_active b then AList.update ''super-stream'' super_stream' (super_properties b)
     else super_properties b)"

text \<open>The builder of a partition's consumer.\<close>

definition partition_consumer ::
  "('t, 'u, 'w) SuperStreamConsumerBuilder \<Rightarrow> string \<Rightarrow> ('t, 'u, 'w) ConsumerBuilder" where
  "partition_consumer b super_stream' =
     enable_single_active_consumer (super_single_active b)
      (set_properties (partition_properties b super_stream')
       (consumer_update_arc (super_listener b)
        (filter_input (super_filter_configuration b)
         (set_consumer_client_name (super_builder_client_name b)
          (set_offset (super_offset b)
           (name_optional (super_stream_consumer_name b)
            (environment_consumer (super_builder_environment b))))))))"

primrec build_partitions ::
  "('t, 'u) externals \<Rightarrow> ('t, 'u, 'w) network \<Rightarrow> (client_Broker list \<Rightarrow> client_Broker option) \<Rightarrow>
     ('t, 'u, 'w) ConsumerBuilder \<Rightarrow> string list \<Rightarrow>
     ('t, 'u, 'w, nat list, ConsumerCreateError) super_consumer_async" where
  "build_partitions X N pick b [] = ready (Ok [])"
| "build_partitions X N pick b (partition' # rest) =
     await (unwrap_async (on_consumers (consumer_build X N pick b partition'))) (\<lambda>n.
     await (build_partitions X N pick b rest) (\<lambda>ns. ready (Ok (n # ns))))"

definition unnamed_super_single_active :: "('t, 'u, 'w) SuperStreamConsumerBuilder \<Rightarrow> bool" where
  "unnamed_super_single_active b \<longleftrightarrow>
     (super_single_active b \<or> map_of (super_properties b) ''single-active-consumer'' \<noteq> None) \<and>
     super_stream_consumer_name b = None"

definition super_consumer_build ::
  "('t, 'u) externals \<Rightarrow> ('t, 'u, 'w) network \<Rightarrow> (client_Broker list \<Rightarrow> client_Broker option) \<Rightarrow>
     ('t, 'u, 'w) SuperStreamConsumerBuilder \<Rightarrow> string \<Rightarrow>
     ('t, 'u, 'w, nat, ConsumerCreateError) super_consumer_async" where
  "super_consumer_build X N pick b super_stream' =
    (if unnamed_super_single_active b then ready (Err SingleActiveConsumerNotSupported)
     else
       await (lift_error ConsumerClient (on_consumers (on_clients
         (create_client X N (super_builder_environment b))))) (\<lambda>i.
       await (on_consumers (on_clients
         (metadata_partitions X N (new_DefaultSuperStreamMetadata super_stream' i)))) (\<lambda>(_, partitions').
       await (build_partitions X N pick (partition_consumer b super_stream') partitions') (\<lambda>ns s.
         (s\<lparr>super_consumers := super_consumers s @
            [\<lparr>super_closed = False, handlers = ns, super_waker = False, super_woken = False,
              super_consumer_client = i, received = [], forwarders = map (\<lambda>n. (n, None)) ns\<rparr>]\<rparr>,
          Some (Ok (length (super_consumers s))))))))"

section \<open>Forwarding, polling and closing\<close>

text \<open>A turn of the \<open>j\<close>-th forwarding task; it ends with its consumer, which it owns.\<close>

definition forward ::
  "nat \<Rightarrow> nat \<Rightarrow> ('t, 'u, 'w) super_consumer_system \<Rightarrow> ('t, 'u, 'w) super_consumer_system" where
  "forward k j s =
    (let sc = super_consumers s ! k in
     case forwarders sc ! j of
       (n, Some d) \<Rightarrow>
         if length (received sc) < CHANNEL_SIZE
         then update_super_consumer k (\<lambda>sc. sc\<lparr>received := received sc @ [d],
                forwarders := (forwarders sc)[j := (n, None)]\<rparr>) s
         else s
     | (n, None) \<Rightarrow>
         (case poll_next n (inner s) of
            (c, Ready (Some d)) \<Rightarrow> update_super_consumer k (\<lambda>sc. sc\<lparr>forwarders :=
                (forwarders sc)[j := (n, Some d)]\<rparr>) (s\<lparr>inner := c\<rparr>)
          | (c, Ready None) \<Rightarrow> update_super_consumer k (\<lambda>sc. sc\<lparr>forwarders :=
                take j (forwarders sc) @ drop (Suc j) (forwarders sc)\<rparr>)
              (s\<lparr>inner := update_consumer n (\<lambda>c. c\<lparr>receiver_dropped := True\<rparr>) c\<rparr>)
          | (c, Pending) \<Rightarrow> s\<lparr>inner := c\<rparr>))"

definition super_poll_next ::
  "nat \<Rightarrow> ('t, 'u, 'w) super_consumer_system \<Rightarrow>
     ('t, 'u, 'w) super_consumer_system \<times> ('t, 'u) delivered option poll" where
  "super_poll_next k s =
    (let sc = super_consumers s ! k in
     case received sc of
       d # rest \<Rightarrow> (update_super_consumer k (\<lambda>sc. sc\<lparr>super_waker := True, super_woken := False,
                     received := rest\<rparr>) s, Ready (Some d))
     | [] \<Rightarrow> (update_super_consumer k (\<lambda>sc. sc\<lparr>super_waker := True, super_woken := False\<rparr>) s,
             if super_closed sc \<or> forwarders sc = [] then Ready None else Pending))"


primrec close_handlers ::
  "('t, 'u) externals \<Rightarrow> ('t, 'u, 'w) network \<Rightarrow> nat list \<Rightarrow>
     ('t, 'u, 'w, unit, ConsumerCloseError) super_consumer_async" where
  "close_handlers X N [] = ready (Ok ())"
| "close_handlers X N (n # ns) =
     await (unwrap_async (on_consumers (internal_close X N n))) (\<lambda>_. close_handlers X N ns)"

definition super_wake :: "('t, 'u) SuperStreamConsumerInternal \<Rightarrow> ('t, 'u) SuperStreamConsumerInternal" where
  "super_wake sc = (if super_waker sc then sc\<lparr>super_waker := False, super_woken := True\<rparr> else sc)"

definition super_consumer_close ::
  "('t, 'u) externals \<Rightarrow> ('t, 'u, 'w) network \<Rightarrow> nat \<Rightarrow>
     ('t, 'u, 'w, unit, ConsumerCloseError) super_consumer_async" where
  "super_consumer_close X N k s =
    (let sc = super_consumers s ! k; s = update_super_consumer k super_wake s in
     if super_closed sc then (s, Some (Err ConsumerAlreadyClosed))
     else await (close_handlers X N (handlers sc)) (\<lambda>_.
         lift_error CloseConsumerClient (on_consumers (on_clients (close X N (super_consumer_client sc)))))
       (update_super_consumer k (\<lambda>sc. sc\<lparr>super_closed := True\<rparr>) s))"

section \<open>Properties of building\<close>

interpretation consumers_of_super_consumers: part inner "\<lambda>w s. s\<lparr>inner := w\<rparr>"
  by unfold_locales simp_all

lemma on_consumers_OkE:
  assumes "on_consumers m s = (s', Some (Ok x))"
  obtains w where "m (inner s) = (w, Some (Ok x))" "s' = s\<lparr>inner := w\<rparr>"
  using assms unfolding on_consumers_def by (rule consumers_of_super_consumers.zoom_OkE)


text \<open>The consumers of the partitions, each with its own client.\<close>

lemma build_partitions_Ok:
  assumes "build_partitions X N pick b ps s = (s', Some (Ok ns))"
  shows "\<exists>is. length is = length ps \<and> ns = [length (consumers (inner s))..<length (consumers (inner s)) + length ps] \<and>
    consumers (inner s') = consumers (inner s) @ map2 (new_ConsumerInternal b) ps is \<and>
    super_consumers s' = super_consumers s"
  using assms
proof (induction ps arbitrary: s ns)
  case Nil
  then show ?case by (simp add: async_defs)
next
  case (Cons p ps)
  from await_OkE' [OF Cons.prems [unfolded build_partitions.simps]] obtain s1 n where
    s1: "on_consumers (consumer_build X N pick b p) s = (s1, Some (Ok n))"
    and k: "await (build_partitions X N pick b ps) (\<lambda>ns. ready (Ok (n # ns))) s1 = (s', Some (Ok ns))"
    by (auto dest!: unwrap_async_OkE)
  from await_OkE' [OF k] obtain ms where
    rest: "build_partitions X N pick b ps s1 = (s', Some (Ok ms))" and ns: "ns = n # ms"
    by (auto simp: async_defs)
  obtain w where w: "consumer_build X N pick b p (inner s) = (w, Some (Ok n))" "s1 = s\<lparr>inner := w\<rparr>"
    using s1 by (rule on_consumers_OkE)
  obtain i where i: "consumers w = consumers (inner s) @ [new_ConsumerInternal b p i]"
    "n = length (consumers (inner s))"
    using consumer_build_run [OF w(1)] by blast
  from Cons.IH [OF rest] obtain "is" where "length is = length ps"
    "ms = [length (consumers w)..<length (consumers w) + length ps]"
    "consumers (inner s') = consumers w @ map2 (new_ConsumerInternal b) ps is"
    "super_consumers s' = super_consumers s1"
    unfolding w(2) by auto
  with i ns w(2) show ?case
    by (intro exI [of _ "i # is"]) (simp add: upt_conv_Cons del: upt_Suc)
qed

lemma super_consumer_build_run:
  fixes X :: "('t, 'u) externals" and N :: "('t, 'u, 'w) network"
  assumes "super_consumer_build X N pick b super_stream' s = (s', Some (Ok k))"
  shows "k = length (super_consumers s) \<and> \<not> unnamed_super_single_active b \<and>
    (\<exists>i w1 w2 response is.
       create_client X N (super_builder_environment b) (base (inner s)) = (w1, Some (Ok i)) \<and>
       partitions X N i super_stream' w1 = (w2, Some (Ok response)) \<and>
       length is = length (SuperStreamPartitionsResponse.streams response) \<and>
       consumers (inner s') = consumers (inner s) @
         map2 (new_ConsumerInternal (partition_consumer b super_stream'))
           (SuperStreamPartitionsResponse.streams response) is \<and>
       handlers (super_consumers s' ! k) =
         [length (consumers (inner s))..<length (consumers (inner s'))]) \<and>
    k < length (super_consumers s') \<and> received (super_consumers s' ! k) = [] \<and>
    forwarders (super_consumers s' ! k) = map (\<lambda>n. (n, None)) (handlers (super_consumers s' ! k))"
proof -
  have named: "\<not> unnamed_super_single_active b"
    using assms by (auto simp: super_consumer_build_def async_defs split: if_splits)
  from assms named obtain s1 i where
    s1: "on_consumers (on_clients (create_client X N (super_builder_environment b))) s = (s1, Some (Ok i))"
    and k1: "await (on_consumers (on_clients
         (metadata_partitions X N (new_DefaultSuperStreamMetadata super_stream' i)))) (\<lambda>(_, partitions').
       await (build_partitions X N pick (partition_consumer b super_stream') partitions') (\<lambda>ns s.
         (s\<lparr>super_consumers := super_consumers s @
            [\<lparr>super_closed = False, handlers = ns, super_waker = False, super_woken = False,
              super_consumer_client = i, received = [], forwarders = map (\<lambda>n. (n, None)) ns\<rparr>]\<rparr>,
          Some (Ok (length (super_consumers s)))))) s1 = (s', Some (Ok k))"
    by (auto simp: super_consumer_build_def dest!: await_OkE' lift_error_OkE)
  from await_OkE' [OF k1] obtain s2 md ps where
    s2: "on_consumers (on_clients (metadata_partitions X N (new_DefaultSuperStreamMetadata super_stream' i))) s1 =
      (s2, Some (Ok (md, ps)) :: (_, ConsumerCreateError) result option)"
    and k2: "await (build_partitions X N pick (partition_consumer b super_stream') ps) (\<lambda>ns s.
         (s\<lparr>super_consumers := super_consumers s @
            [\<lparr>super_closed = False, handlers = ns, super_waker = False, super_woken = False,
              super_consumer_client = i, received = [], forwarders = map (\<lambda>n. (n, None)) ns\<rparr>]\<rparr>,
          Some (Ok (length (super_consumers s))))) s2 = (s', Some (Ok k))"
    by auto
  from await_OkE' [OF k2] obtain s3 ns where
    s3: "build_partitions X N pick (partition_consumer b super_stream') ps s2 = (s3, Some (Ok ns))"
    and fin: "k = length (super_consumers s3)" "inner s' = inner s3"
      "handlers (super_consumers s' ! k) = ns" "k < length (super_consumers s')"
      "received (super_consumers s' ! k) = []" "forwarders (super_consumers s' ! k) = map (\<lambda>n. (n, None)) ns"
    by auto
  obtain w1 where w1: "create_client X N (super_builder_environment b) (base (inner s)) = (w1, Some (Ok i))"
    "s1 = s\<lparr>inner := (inner s)\<lparr>base := w1\<rparr>\<rparr>"
    using s1 by (auto elim!: on_consumers_OkE on_clients_OkE)
  obtain w2 where w2: "metadata_partitions X N (new_DefaultSuperStreamMetadata super_stream' i) w1 =
      (w2, Some (Ok (md, ps)) :: (_, ConsumerCreateError) result option)"
    "s2 = s\<lparr>inner := (inner s)\<lparr>base := w2\<rparr>\<rparr>"
    using s2 w1(2) by (auto elim!: on_consumers_OkE on_clients_OkE)
  obtain response where "partitions X N i super_stream' w1 = (w2, Some (Ok response))"
    "ps = SuperStreamPartitionsResponse.streams response"
    using w2(1) by (auto simp: metadata_partitions_def new_DefaultSuperStreamMetadata_def async_defs
        dest!: await_OkE' unwrap_async_OkE)
  moreover obtain "is" where "length is = length ps"
    "ns = [length (consumers (inner s2))..<length (consumers (inner s2)) + length ps]"
    "consumers (inner s3) = consumers (inner s2) @ map2 (new_ConsumerInternal (partition_consumer b super_stream')) ps is"
    "super_consumers s3 = super_consumers s2"
    using build_partitions_Ok [OF s3] by blast
  ultimately show ?thesis
    using w1(1) w2(2) fin named by auto
qed

text \<open>A consumer of a super stream that is built has one consumer for each partition the
  broker named, in that order and all with the settings of the builder; single active consumers
  also tell the broker their super stream.  When the broker does not answer for the partitions or
  a consumer cannot be built, the call panics.\<close>

theorem super_consumer_has_partitions:
  fixes X :: "('t, 'u) externals" and N :: "('t, 'u, 'w) network"
  assumes "super_consumer_build X N pick b super_stream' s = (s', Some (Ok k))"
  shows "k = length (super_consumers s) \<and> \<not> unnamed_super_single_active b \<and>
    (\<exists>i w1 w2 response is.
       create_client X N (super_builder_environment b) (base (inner s)) = (w1, Some (Ok i)) \<and>
       partitions X N i super_stream' w1 = (w2, Some (Ok response)) \<and>
       length is = length (SuperStreamPartitionsResponse.streams response) \<and>
       consumers (inner s') = consumers (inner s) @
         map2 (new_ConsumerInternal (partition_consumer b super_stream'))
           (SuperStreamPartitionsResponse.streams response) is \<and>
       handlers (super_consumers s' ! k) =
         [length (consumers (inner s))..<length (consumers (inner s')) ])"
  using super_consumer_build_run [OF assms] by blast

section \<open>Properties of closing\<close>


section \<open>Merging the partitions\<close>

text \<open>Everything that happens around the \<open>k\<close>-th consumer of a super stream: the handler of a
  partition's consumer puts a delivery or an error into that consumer's channel, or marks it closed
  when the connection is lost; a forwarding task takes a turn; the user polls; the consumer, or the
  consumer of one partition, is closed; and the clients do what they like.  \<open>arrived\<close> lists what each
  partition's channel accepted, \<open>seen\<close> what the user got from polling.\<close>

record ('t, 'u, 'w) super_run =
  sys :: "('t, 'u, 'w) super_consumer_system"
  arrived :: "nat \<Rightarrow> ('t, 'u) delivered list"
  seen :: "('t, 'u) delivered list"

definition polled :: "('t, 'u) delivered option poll \<Rightarrow> ('t, 'u) delivered list" where
  "polled p = (case p of Ready (Some d) \<Rightarrow> [d] | _ \<Rightarrow> [])"

inductive super_consumer_step ::
  "('t, 'u) externals \<Rightarrow> ('t, 'u, 'w) network \<Rightarrow> nat \<Rightarrow> ('t, 'u, 'w) super_run \<Rightarrow> ('t, 'u, 'w) super_run \<Rightarrow> bool"
  for X N k where
  deliver: "n < length (consumers (inner (sys r))) \<Longrightarrow> c = consumers (inner (sys r)) ! n \<Longrightarrow>
    d = Ok (new_Delivery c m offset') \<or> d = Err (DeliveryClient e) \<Longrightarrow>
    on_consumers (send_delivery n d) (sys r) = (s', Some (Ok ())) \<Longrightarrow>
    super_consumer_step X N k r (r\<lparr>sys := s',
      arrived := (if receiver_dropped c then arrived r else (arrived r)(n := arrived r n @ [d]))\<rparr>)"
| lost: "n < length (consumers (inner (sys r))) \<Longrightarrow>
    super_consumer_step X N k r (r\<lparr>sys := fst (on_consumers (handle_consumer_message X N n None) (sys r))\<rparr>)"
| turn: "j < length (forwarders (super_consumers (sys r) ! k)) \<Longrightarrow>
    super_consumer_step X N k r (r\<lparr>sys := forward k j (sys r)\<rparr>)"
| poll: "super_poll_next k (sys r) = (s', p) \<Longrightarrow>
    super_consumer_step X N k r (r\<lparr>sys := s', seen := seen r @ polled p\<rparr>)"
| close_all: "super_consumer_step X N k r (r\<lparr>sys := fst (super_consumer_close X N k (sys r))\<rparr>)"
| close_one: "super_consumer_step X N k r (r\<lparr>sys := fst (on_consumers (internal_close X N n) (sys r))\<rparr>)"
| clients_move: "super_consumer_step X N k r (r\<lparr>sys := (sys r)\<lparr>inner := (inner (sys r))\<lparr>base := w\<rparr>\<rparr>\<rparr>)"

inductive_cases super_consumer_stepE [elim]: "super_consumer_step X N k r r'"


definition only_from :: "string \<Rightarrow> ('t, 'u) delivered list \<Rightarrow> bool" where
  "only_from st ds \<longleftrightarrow> list_all (\<lambda>d. case d of Ok x \<Rightarrow> Delivery.stream x = st | _ \<Rightarrow> True) ds"

definition partitions_of :: "nat \<Rightarrow> ('t, 'u, 'w) super_consumer_system \<Rightarrow> bool" where
  "partitions_of k s \<longleftrightarrow> k < length (super_consumers s) \<and>
     (let ns = handlers (super_consumers s ! k) in
      list_all (\<lambda>n. n < length (consumers (inner s))) ns \<and>
      distinct (map (\<lambda>n. consumer_stream (consumers (inner s) ! n)) ns))"

definition starts :: "nat \<Rightarrow> ('t, 'u, 'w) super_run \<Rightarrow> bool" where
  "starts k r \<longleftrightarrow> partitions_of k (sys r) \<and> seen r = [] \<and>
     (let sc = super_consumers (sys r) ! k in
      received sc = [] \<and> forwarders sc = map (\<lambda>n. (n, None)) (handlers sc) \<and>
      list_all (\<lambda>n. let c = consumers (inner (sys r)) ! n in
        arrived r n = deliveries c \<and> only_from (consumer_stream c) (deliveries c) \<and>
        length (deliveries c) \<le> CHANNEL_SIZE) (handlers sc))"




section \<open>The merge invariant\<close>

lemma only_from_simps [simp]:
  "only_from st []" "only_from st (xs @ ys) \<longleftrightarrow> only_from st xs \<and> only_from st ys"
  "only_from st (d # ds) \<longleftrightarrow> (case d of Ok x \<Rightarrow> Delivery.stream x = st | _ \<Rightarrow> True) \<and> only_from st ds"
  by (simp_all add: only_from_def)




text \<open>What the invariant reads of a consumer and of a super stream's consumer, and calls that keep it.\<close>

definition chan ::
  "('t, 'u, 'w) ConsumerInternal \<Rightarrow> string \<times> ('t, 'u) delivered list \<times> bool" where
  "chan c = (consumer_stream c, deliveries c, receiver_dropped c)"

definition flow ::
  "('t, 'u) SuperStreamConsumerInternal \<Rightarrow>
     nat list \<times> ('t, 'u) delivered list \<times> (nat \<times> ('t, 'u) delivered option) list" where
  "flow sc = (handlers sc, received sc, forwarders sc)"


lemma map_update_same:
  "f y = f (xs ! n) \<Longrightarrow> map f (xs[n := y]) = map f xs"
  by (cases "n < length xs") (simp_all add: map_update list_update_same_conv list_update_beyond)



lemma map_chan_update:
  "chan (g (consumers s ! n)) = chan (consumers s ! n) \<Longrightarrow>
   map chan (consumers (update_consumer n g s)) = map chan (consumers s)"
  by (simp add: update_consumer_def map_update_same)

lemma grows_modify: "(\<And>s. f (g s) = f s) \<Longrightarrow> grows f (modify g)"
  by (simp add: grows_def async_defs)

lemma grows_unwrap [grows_intros]: "grows f m \<Longrightarrow> grows f (unwrap_async m)"
  by (auto simp: grows_def unwrap_async_def split: prod.split option.split result.split) (metis fst_conv)+

lemma grows_on_consumers [grows_intros]:
  "grows f m \<Longrightarrow> grows (\<lambda>s. f (inner s)) (on_consumers m)"
  "grows (\<lambda>s. map flow (super_consumers s)) (on_consumers m)"
  by (auto simp: grows_def on_consumers_def zoom_def split: prod.split) (metis fst_conv)

lemma grows_on_clients [grows_intros]: "grows (\<lambda>s. map chan (consumers s)) (on_clients m)"
  by (rule grows_same) simp

lemma chan_simps [simp]: "chan (wake c) = chan c" "chan (c\<lparr>closed := b\<rparr>) = chan c"
  by (simp_all add: chan_def wake_def)

lemma internal_close_grows [grows_intros]: "grows (\<lambda>s. map chan (consumers s)) (internal_close X N n)"
  unfolding grows_def
proof
  fix s :: "('a, 'b, 'c) consumer_system"
  let ?c = "consumers s ! n"
  have "grows (\<lambda>s. map chan (consumers s))
      (await (lift_error CloseConsumerClient (on_clients (unsubscribe X N (client ?c) (consumer_id ?c)))) (\<lambda>response.
         if GenericResponse.code response = ResponseOk
         then await (modify (update_consumer n wake)) (\<lambda>_.
           lift_error CloseConsumerClient (on_clients (close X N (client ?c))))
         else ready (Err (CloseConsumer (consumer_stream ?c) (GenericResponse.code response)))))"
    (is "grows _ ?m")
    by (auto intro!: grows_intros grows_modify map_chan_update)
  then have "prefix (map chan (consumers t)) (map chan (consumers (fst (?m t))))" for t
    by (simp add: grows_def)
  from this [of "update_consumer n (\<lambda>c. c\<lparr>closed := True\<rparr>) s"]
  show "prefix (map chan (consumers s)) (map chan (consumers (fst (internal_close X N n s))))"
    by (simp add: internal_close_def Let_def map_chan_update)
qed

lemma close_handlers_grows [grows_intros]:
  "grows (\<lambda>s. map chan (consumers (inner s))) (close_handlers X N ns)"
  "grows (\<lambda>s. map flow (super_consumers s)) (close_handlers X N ns)"
  by (induction ns) (auto intro!: grows_intros)















text \<open>Building gives such a start when the partitions are different streams.\<close>

lemma super_consumer_starts:
  assumes "super_consumer_build X N pick b super_stream' s = (s', Some (Ok k))"
    and "distinct (map consumer_stream (drop (length (consumers (inner s))) (consumers (inner s'))))"
  shows "starts k \<lparr>sys = s', arrived = \<lambda>_. [], seen = []\<rparr>"
proof -
  obtain "is" ps where built: "length is = length ps"
    "consumers (inner s') = consumers (inner s) @ map2 (new_ConsumerInternal (partition_consumer b super_stream')) ps is"
    and ns: "handlers (super_consumers s' ! k) = [length (consumers (inner s))..<length (consumers (inner s'))]"
    using super_consumer_build_run [OF assms(1)] by blast
  have sc: "k < length (super_consumers s')" "received (super_consumers s' ! k) = []"
    "forwarders (super_consumers s' ! k) = map (\<lambda>n. (n, None)) (handlers (super_consumers s' ! k))"
    using super_consumer_build_run [OF assms(1)] by blast+
  let ?ns = "[length (consumers (inner s))..<length (consumers (inner s'))]"
  have "map (\<lambda>n. consumer_stream (consumers (inner s') ! n)) ?ns =
      map consumer_stream (drop (length (consumers (inner s))) (consumers (inner s')))"
    by (rule nth_equalityI) simp_all
  moreover have "deliveries (consumers (inner s') ! n) = []" if "n \<in> set ?ns" for n
    using that built by (auto simp: nth_append new_ConsumerInternal_def)
  ultimately show ?thesis
    using assms(2) by (simp add: starts_def partitions_of_def Let_def list_all_iff sc ns)
qed

section \<open>Properties of merging\<close>


section \<open>Instances\<close>



text \<open>Two partitions; the second one delivers a message, its task forwards it, and the user polls.
  The arguments are what the second partition's channel, its task and the common channel hold.\<close>

definition second_consumer :: "(i64, bytes) delivered list \<Rightarrow> (i64, bytes, (i64, bytes) script) ConsumerInternal" where
  "second_consumer ds = sample_consumer\<lparr>consumer_stream := ''b'', deliveries := ds\<rparr>"



lemma second_consumer_simps [simp]:
  "consumer_stream sample_consumer = ''s''" "consumer_stream (second_consumer ds) = ''b''"
  "deliveries (second_consumer ds) = ds" "\<not> receiver_dropped (second_consumer ds)"
  "(second_consumer ds)\<lparr>waker := True, woken := False, deliveries := ds'\<rparr> = second_consumer ds'"
  "(second_consumer ds)\<lparr>deliveries := ds'\<rparr> = second_consumer ds'"
  by (simp_all add: second_consumer_def sample_consumer_def new_ConsumerInternal_def)




theorem super_consumer_has_partitions_witness:
  "\<exists>s'. super_consumer_build byte_externals scripted (\<lambda>_. None)
      (environment_super_stream_consumer sample_environment) ''t''
      \<lparr>inner = \<lparr>base = scripted_world (handshake_script @ [[Some (Ok (sample_partitions 5 []))]]) [],
         consumers = []\<rparr>, super_consumers = []\<rparr> = (s', Some (Ok 0)) \<and>
    handlers (super_consumers s' ! 0) = []"
proof -
  let ?rest = "[Some (Ok (sample_partitions 5 []))] # []"
  let ?w = "scripted_world (handshake_script @ ?rest) [] :: (i64, bytes, (i64, bytes) script) world"
  let ?b = "environment_super_stream_consumer sample_environment
    :: (i64, bytes, (i64, bytes) script) SuperStreamConsumerBuilder"
  let ?s = "\<lparr>inner = \<lparr>base = ?w, consumers = []\<rparr>, super_consumers = []\<rparr>"
  let ?r = "\<lparr>SuperStreamPartitionsResponse.correlation_id = 5, response_code = ResponseOk, streams = []\<rparr>"
  have "net ?w = ([], handshake_script @ ?rest)" by (simp add: scripted_world_def)
  from scripted_connect [OF this, of default_ClientOptions] obtain c out1 where c:
    "connect byte_externals scripted default_ClientOptions ?w =
       (with_client ?w c (out1, ?rest), Some (Ok (length (clients ?w))))"
    "waiting_client 5 c" .
  let ?cmd = "\<lambda>cid. RequestKind.SuperStreamPartitions (new_SuperStreamPartitionsRequest cid ''t'')"
  from c(2) obtain d out2 where "send_and_receive byte_externals scripted (length (clients ?w))
      ''SuperStreamPartitionsResponse'' from_response_SuperStreamPartitionsResponse ?cmd
      (with_client ?w c (out1, ?rest)) =
      (with_client ?w (c\<lparr>dispatcher := d\<rparr>) (out2, []), Some (Ok ?r))"
    by (rule scripted_exchange [where r = "sample_partitions 5 []" and w = ?w and out = out1 and rest = "[]"
          and type_name = "''SuperStreamPartitionsResponse''"
          and from_response = from_response_SuperStreamPartitionsResponse and msg_factory = ?cmd and x = ?r
          and bs = "encode_SuperStreamPartitionsRequest (new_SuperStreamPartitionsRequest 5 ''t'')"])
       (simp_all add: encode_RequestKind_def sample_partitions_def respond_def answers_id_def
         response_correlation_id_def is_ConsumerUpdate_def from_response_SuperStreamPartitionsResponse_def)
  then have "partitions byte_externals scripted (length (clients ?w)) ''t'' (with_client ?w c (out1, ?rest)) =
      (with_client ?w (c\<lparr>dispatcher := d\<rparr>) (out2, []), Some (Ok ?r))"
    by (simp add: partitions_def)
  with c(1) have "\<exists>s'. super_consumer_build byte_externals scripted (\<lambda>_. None) ?b ''t'' ?s = (s', Some (Ok 0))"
    by (simp add: super_consumer_build_def unnamed_super_single_active_def environment_super_stream_consumer_def
        sample_environment_def default_EnvironmentOptions_def create_client_def on_consumers_def on_clients_def
        zoom_def metadata_partitions_def new_DefaultSuperStreamMetadata_def async_defs)
  then obtain s' where s': "super_consumer_build byte_externals scripted (\<lambda>_. None) ?b ''t'' ?s = (s', Some (Ok 0))" ..
  moreover have "handlers (super_consumers s' ! 0) = []"
    using s' c(1) super_consumer_has_partitions [OF s'] \<open>partitions byte_externals scripted _ _ _ = _\<close>
    by (auto simp: create_client_def environment_super_stream_consumer_def sample_environment_def
        default_EnvironmentOptions_def)
  ultimately show ?thesis by blast
qed

end
