(* ===== verification/Message_Builder.thy ===== *)
theory Message_Builder
  imports Amqp_Message
begin

text \<open>
  Building messages (\<open>protocol/src/message/builder.rs\<close>), the mutable access to the sections of a
  message that the builder uses (\<open>message/amqp/message.rs\<close>), and the accessors of a built message
  (\<open>message/mod.rs\<close>).

  A mutable reference that a function returns is the function that applies an update through it.
  A conversation with the builder is a list of calls (\<open>builder_call\<close>), and \<open>build_calls\<close> makes
  them one after the other: it is shown which value each part of the message has in the end, and
  that the message survives the wire.
\<close>

section \<open>Mutable access to a message (amqp/message.rs)\<close>

definition set_body ::
  "(('t, 'u) MessageBody \<Rightarrow> ('t, 'u) MessageBody) \<Rightarrow> ('t, 'u) AmqpMessage \<Rightarrow> ('t, 'u) AmqpMessage" where
  "set_body f m = m\<lparr>body := f (body m)\<rparr>"

definition set_value :: "('t, 'u) Value \<Rightarrow> ('t, 'u) MessageBody \<Rightarrow> ('t, 'u) MessageBody" where
  "set_value v b = b\<lparr>body_value := Some v\<rparr>"

definition with_header ::
  "(AmqpHeader \<Rightarrow> AmqpHeader) \<Rightarrow> ('t, 'u) AmqpMessage \<Rightarrow> ('t, 'u) AmqpMessage" where
  "with_header f m =
     (let m = (if header m = None then m\<lparr>header := Some default_AmqpHeader\<rparr> else m)
      in case header m of Some h \<Rightarrow> m\<lparr>header := Some (f h)\<rparr> | None \<Rightarrow> m)"

definition with_footer ::
  "(('t, 'u) Annotations \<Rightarrow> ('t, 'u) Annotations) \<Rightarrow> ('t, 'u) AmqpMessage \<Rightarrow> ('t, 'u) AmqpMessage" where
  "with_footer f m =
     (let m = (if footer m = None then m\<lparr>footer := Some []\<rparr> else m)
      in case footer m of Some ft \<Rightarrow> m\<lparr>footer := Some (f ft)\<rparr> | None \<Rightarrow> m)"

definition set_message_properties ::
  "('t, 'u) Properties \<Rightarrow> ('t, 'u) AmqpMessage \<Rightarrow> ('t, 'u) AmqpMessage" where
  "set_message_properties p m = m\<lparr>properties := Some p\<rparr>"

definition message_annotations_mut ::
  "(('t, 'u) Annotations \<Rightarrow> ('t, 'u) Annotations) \<Rightarrow> ('t, 'u) AmqpMessage \<Rightarrow> ('t, 'u) AmqpMessage" where
  "message_annotations_mut f m =
     (let m = (if message_annotations m = None then m\<lparr>message_annotations := Some []\<rparr> else m)
      in m\<lparr>message_annotations := map_option f (message_annotations m)\<rparr>)"

definition application_properties_mut ::
  "(('t, 'u) ApplicationProperties \<Rightarrow> ('t, 'u) ApplicationProperties) \<Rightarrow>
   ('t, 'u) AmqpMessage \<Rightarrow> ('t, 'u) AmqpMessage" where
  "application_properties_mut f m =
     (let m = (if application_properties m = None
               then m\<lparr>application_properties := Some []\<rparr> else m)
      in m\<lparr>application_properties := map_option f (application_properties m)\<rparr>)"

definition with_properties ::
  "(('t, 'u) Properties \<Rightarrow> ('t, 'u) Properties) \<Rightarrow> ('t, 'u) AmqpMessage \<Rightarrow> ('t, 'u) AmqpMessage" where
  "with_properties f m =
     (let m = (if properties m = None then m\<lparr>properties := Some default_Properties\<rparr> else m)
      in case properties m of Some p \<Rightarrow> m\<lparr>properties := Some (f p)\<rparr> | None \<Rightarrow> m)"

section \<open>Keys and values from plain data\<close>

definition annotation_key_from_str :: "string \<Rightarrow> AnnonationKey" where
  "annotation_key_from_str s = AnnonationKey.Symbol s"

definition annotation_key_from_u64 :: "u64 \<Rightarrow> AnnonationKey" where
  "annotation_key_from_u64 n = AnnonationKey.ULong n"

definition simple_value_from_str :: "string \<Rightarrow> ('t, 'u) SimpleValue" where
  "simple_value_from_str s = SimpleValue.String s"

text \<open>The macro \<open>impl_simple_value\<close>: a value from whatever is a simple value.\<close>

definition value_from_simple :: "('a \<Rightarrow> ('t, 'u) SimpleValue) \<Rightarrow> 'a \<Rightarrow> ('t, 'u) Value" where
  "value_from_simple into x = Value.Simple (into x)"

definition value_from_list :: "('t, 'u) Value list \<Rightarrow> ('t, 'u) Value" where
  "value_from_list xs = Value.Collection (CollectionValue.List xs)"

text \<open>The macro \<open>impl_try_from_simple_value_ref\<close>; the conversion of the simple value is derived
  by the crate derive\_more and is a parameter.\<close>

definition try_from_simple ::
  "(('t, 'u) SimpleValue \<Rightarrow> ('a, string) result) \<Rightarrow> ('t, 'u) Value \<Rightarrow> ('a, DecodeError) result" where
  "try_from_simple try_into v =
     (case v of
        Value.Simple simple \<Rightarrow> map_err MessageParse (try_into simple)
      | _ \<Rightarrow> Err (MessageParse ''Failed to cast Value to simple type''))"

definition list_push :: "('t, 'u) Value list \<Rightarrow> ('t, 'u) Value \<Rightarrow> ('t, 'u) Value list" where
  "list_push xs elem = xs @ [elem]"

section \<open>The builders\<close>

datatype ('t, 'u) MessageBuilder = MessageBuilder (internal: "('t, 'u) Message")

definition Message_builder :: "('t, 'u) MessageBuilder" where
  "Message_builder = MessageBuilder \<lparr>publishing_id = None, message = default_AmqpMessage\<rparr>"

definition update_message ::
  "(('t, 'u) AmqpMessage \<Rightarrow> ('t, 'u) AmqpMessage) \<Rightarrow> ('t, 'u) MessageBuilder \<Rightarrow> ('t, 'u) MessageBuilder" where
  "update_message f b = MessageBuilder ((internal b)\<lparr>message := f (message (internal b))\<rparr>)"

definition builder_body :: "bytes \<Rightarrow> ('t, 'u) MessageBuilder \<Rightarrow> ('t, 'u) MessageBuilder" where
  "builder_body d b = update_message (set_body (set_data d)) b"

definition builder_publising_id :: "u64 \<Rightarrow> ('t, 'u) MessageBuilder \<Rightarrow> ('t, 'u) MessageBuilder" where
  "builder_publising_id i b = MessageBuilder ((internal b)\<lparr>publishing_id := Some i\<rparr>)"

definition builder_build :: "('t, 'u) MessageBuilder \<Rightarrow> ('t, 'u) Message" where
  "builder_build b = internal b"

datatype ('t, 'u) PropertiesBuilder =
  PropertiesBuilder (properties_message_builder: "('t, 'u) MessageBuilder")

definition builder_properties :: "('t, 'u) MessageBuilder \<Rightarrow> ('t, 'u) PropertiesBuilder" where
  "builder_properties b = PropertiesBuilder b"

definition update_properties ::
  "(('t, 'u) Properties \<Rightarrow> ('t, 'u) Properties) \<Rightarrow>
   ('t, 'u) PropertiesBuilder \<Rightarrow> ('t, 'u) PropertiesBuilder" where
  "update_properties f b =
     PropertiesBuilder (update_message (with_properties f) (properties_message_builder b))"

definition with_message_id ::
  "('t, 'u) MessageId \<Rightarrow> ('t, 'u) PropertiesBuilder \<Rightarrow> ('t, 'u) PropertiesBuilder" where
  "with_message_id v b = update_properties (\<lambda>p. p\<lparr>message_id := Some v\<rparr>) b"

definition with_user_id ::
  "bytes \<Rightarrow> ('t, 'u) PropertiesBuilder \<Rightarrow> ('t, 'u) PropertiesBuilder" where
  "with_user_id v b = update_properties (\<lambda>p. p\<lparr>user_id := Some v\<rparr>) b"

definition with_to ::
  "string \<Rightarrow> ('t, 'u) PropertiesBuilder \<Rightarrow> ('t, 'u) PropertiesBuilder" where
  "with_to v b = update_properties (\<lambda>p. p\<lparr>to := Some v\<rparr>) b"

definition with_subject ::
  "string \<Rightarrow> ('t, 'u) PropertiesBuilder \<Rightarrow> ('t, 'u) PropertiesBuilder" where
  "with_subject v b = update_properties (\<lambda>p. p\<lparr>subject := Some v\<rparr>) b"

definition with_reply_to ::
  "string \<Rightarrow> ('t, 'u) PropertiesBuilder \<Rightarrow> ('t, 'u) PropertiesBuilder" where
  "with_reply_to v b = update_properties (\<lambda>p. p\<lparr>reply_to := Some v\<rparr>) b"

definition with_correlation_id ::
  "('t, 'u) MessageId \<Rightarrow> ('t, 'u) PropertiesBuilder \<Rightarrow> ('t, 'u) PropertiesBuilder" where
  "with_correlation_id v b = update_properties (\<lambda>p. p\<lparr>correlation_id := Some v\<rparr>) b"

definition with_content_type ::
  "string \<Rightarrow> ('t, 'u) PropertiesBuilder \<Rightarrow> ('t, 'u) PropertiesBuilder" where
  "with_content_type v b = update_properties (\<lambda>p. p\<lparr>content_type := Some v\<rparr>) b"

definition with_content_encoding ::
  "string \<Rightarrow> ('t, 'u) PropertiesBuilder \<Rightarrow> ('t, 'u) PropertiesBuilder" where
  "with_content_encoding v b = update_properties (\<lambda>p. p\<lparr>content_encoding := Some v\<rparr>) b"

definition with_absolute_expiry_time ::
  "'t \<Rightarrow> ('t, 'u) PropertiesBuilder \<Rightarrow> ('t, 'u) PropertiesBuilder" where
  "with_absolute_expiry_time v b = update_properties (\<lambda>p. p\<lparr>absolute_expiry_time := Some v\<rparr>) b"

definition with_creation_time ::
  "'t \<Rightarrow> ('t, 'u) PropertiesBuilder \<Rightarrow> ('t, 'u) PropertiesBuilder" where
  "with_creation_time v b = update_properties (\<lambda>p. p\<lparr>creation_time := Some v\<rparr>) b"

definition with_group_id ::
  "string \<Rightarrow> ('t, 'u) PropertiesBuilder \<Rightarrow> ('t, 'u) PropertiesBuilder" where
  "with_group_id v b = update_properties (\<lambda>p. p\<lparr>group_id := Some v\<rparr>) b"

definition with_group_sequence ::
  "u32 \<Rightarrow> ('t, 'u) PropertiesBuilder \<Rightarrow> ('t, 'u) PropertiesBuilder" where
  "with_group_sequence v b = update_properties (\<lambda>p. p\<lparr>group_sequence := Some v\<rparr>) b"

definition with_reply_to_group_id ::
  "string \<Rightarrow> ('t, 'u) PropertiesBuilder \<Rightarrow> ('t, 'u) PropertiesBuilder" where
  "with_reply_to_group_id v b = update_properties (\<lambda>p. p\<lparr>reply_to_group_id := Some v\<rparr>) b"

text \<open>The second component reaches the annotations of the builder in the first one.\<close>

datatype ('t, 'u) AnnotationBuider =
  AnnotationBuider (annotation_message_builder: "('t, 'u) MessageBuilder")
    (reach: "(('t, 'u) Annotations \<Rightarrow> ('t, 'u) Annotations) \<Rightarrow>
       ('t, 'u) MessageBuilder \<Rightarrow> ('t, 'u) MessageBuilder")

definition builder_message_annotations ::
  "('t, 'u) MessageBuilder \<Rightarrow> ('t, 'u) AnnotationBuider" where
  "builder_message_annotations b =
     AnnotationBuider b (\<lambda>f. update_message (message_annotations_mut f))"

definition annotation_insert ::
  "AnnonationKey \<Rightarrow> ('t, 'u) Value \<Rightarrow> ('t, 'u) AnnotationBuider \<Rightarrow> ('t, 'u) AnnotationBuider" where
  "annotation_insert k v b =
     AnnotationBuider (reach b (put_Annotations k v) (annotation_message_builder b)) (reach b)"

datatype ('t, 'u) ApplicationPropertiesBuider =
  ApplicationPropertiesBuider (application_message_builder: "('t, 'u) MessageBuilder")

definition builder_application_properties ::
  "('t, 'u) MessageBuilder \<Rightarrow> ('t, 'u) ApplicationPropertiesBuider" where
  "builder_application_properties b = ApplicationPropertiesBuider b"

definition application_insert ::
  "string \<Rightarrow> ('t, 'u) SimpleValue \<Rightarrow>
   ('t, 'u) ApplicationPropertiesBuider \<Rightarrow> ('t, 'u) ApplicationPropertiesBuider" where
  "application_insert k v b =
     ApplicationPropertiesBuider
       (update_message (application_properties_mut (insert_by (\<lambda>k. k) k v))
         (application_message_builder b))"

section \<open>Accessors of a message (message/mod.rs)\<close>

definition get_data :: "('t, 'u) Message \<Rightarrow> bytes option" where
  "get_data m = body_data (body (message m))"

definition get_properties :: "('t, 'u) Message \<Rightarrow> ('t, 'u) Properties option" where
  "get_properties m = properties (message m)"

definition get_header :: "('t, 'u) Message \<Rightarrow> AmqpHeader option" where
  "get_header m = header (message m)"

definition get_message_annotations :: "('t, 'u) Message \<Rightarrow> ('t, 'u) Annotations option" where
  "get_message_annotations m = message_annotations (message m)"

definition get_application_properties ::
  "('t, 'u) Message \<Rightarrow> ('t, 'u) ApplicationProperties option" where
  "get_application_properties m = application_properties (message m)"

definition get_delivery_annotations :: "('t, 'u) Message \<Rightarrow> ('t, 'u) Annotations option" where
  "get_delivery_annotations m = delivery_annotations (message m)"

definition get_publishing_id :: "('t, 'u) Message \<Rightarrow> u64 option" where
  "get_publishing_id m = publishing_id m"

definition value_ref ::
  "(('t, 'u) Value \<Rightarrow> ('a, DecodeError) result) \<Rightarrow> ('t, 'u) Message \<Rightarrow>
   ('a option, DecodeError) result" where
  "value_ref try_from m =
     (case body_value (body (message m)) of
        None \<Rightarrow> Ok None
      | Some v \<Rightarrow> and_then (try_from v) (\<lambda>x. Ok (Some x)))"

definition get_annotation :: "AnnonationKey \<Rightarrow> ('t, 'u) Annotations \<Rightarrow> ('t, 'u) Value option" where
  "get_annotation k m = map_of m k"

text \<open>An update of a section concerns that section only, and sections that are absent are made first.\<close>

lemma section_updates:
  "header (with_header f m) = Some (f (case header m of Some h \<Rightarrow> h | None \<Rightarrow> default_AmqpHeader))"
  "footer (with_footer g m) = Some (g (case footer m of Some ft \<Rightarrow> ft | None \<Rightarrow> []))"
  "(with_header f m)\<lparr>header := None\<rparr> = m\<lparr>header := None\<rparr>"
  "(with_footer g m)\<lparr>footer := None\<rparr> = m\<lparr>footer := None\<rparr>"
  "with_properties h (set_message_properties p m) = set_message_properties (h p) m"
  by (simp_all add: with_header_def with_footer_def with_properties_def set_message_properties_def
      Let_def split: option.split)

lemma value_ref_set_value:
  "value_ref try_from (builder_build (update_message (set_body (set_value v)) b)) =
     and_then (try_from v) (\<lambda>x. Ok (Some x))"
  by (simp add: value_ref_def builder_build_def update_message_def set_body_def set_value_def)

text \<open>A value converted to the type it was made from is that value; a list or a described value is
  an error and no panic.\<close>

lemma value_ref_from_simple:
  assumes "body_value (body (message m)) = Some (value_from_simple into x)"
    and "try_into (into x) = Ok x"
  shows "value_ref (try_from_simple try_into) m = Ok (Some x)"
  using assms by (simp add: value_ref_def try_from_simple_def value_from_simple_def)

lemma value_ref_from_list:
  "body_value (body (message m)) = Some (value_from_list (list_push xs x)) \<Longrightarrow>
   value_ref (try_from_simple try_into) m =
     Err (MessageParse ''Failed to cast Value to simple type'')"
  by (simp add: value_ref_def try_from_simple_def value_from_list_def)

section \<open>Conversations with the builder\<close>

datatype ('t, 'u) property_call =
    Message_id "('t, 'u) MessageId"
  | User_id bytes
  | To string
  | Subject string
  | Reply_to string
  | Correlation_id "('t, 'u) MessageId"
  | Content_type string
  | Content_encoding string
  | Absolute_expiry_time 't
  | Creation_time 't
  | Group_id string
  | Group_sequence u32
  | Reply_to_group_id string

datatype ('t, 'u) builder_call =
    Body bytes
  | Publising_id u64
  | Property "('t, 'u) property_call"
  | Annotation AnnonationKey "('t, 'u) Value"
  | Application_property string "('t, 'u) SimpleValue"

fun set_property ::
  "('t, 'u) property_call \<Rightarrow> ('t, 'u) PropertiesBuilder \<Rightarrow> ('t, 'u) PropertiesBuilder" where
  "set_property (Message_id v) = with_message_id v"
| "set_property (User_id v) = with_user_id v"
| "set_property (To v) = with_to v"
| "set_property (Subject v) = with_subject v"
| "set_property (Reply_to v) = with_reply_to v"
| "set_property (Correlation_id v) = with_correlation_id v"
| "set_property (Content_type v) = with_content_type v"
| "set_property (Content_encoding v) = with_content_encoding v"
| "set_property (Absolute_expiry_time v) = with_absolute_expiry_time v"
| "set_property (Creation_time v) = with_creation_time v"
| "set_property (Group_id v) = with_group_id v"
| "set_property (Group_sequence v) = with_group_sequence v"
| "set_property (Reply_to_group_id v) = with_reply_to_group_id v"

fun make_call ::
  "('t, 'u) builder_call \<Rightarrow> ('t, 'u) MessageBuilder \<Rightarrow> ('t, 'u) MessageBuilder" where
  "make_call (Body d) b = builder_body d b"
| "make_call (Publising_id i) b = builder_publising_id i b"
| "make_call (Property c) b = properties_message_builder (set_property c (builder_properties b))"
| "make_call (Annotation k v) b =
     annotation_message_builder (annotation_insert k v (builder_message_annotations b))"
| "make_call (Application_property k v) b =
     application_message_builder (application_insert k v (builder_application_properties b))"

definition build_calls :: "('t, 'u) builder_call list \<Rightarrow> ('t, 'u) Message" where
  "build_calls cs = builder_build (fold make_call cs Message_builder)"

section \<open>What the calls ask for\<close>

text \<open>The answer of the last call that concerns a part, if any does.\<close>

definition last_call :: "('c \<Rightarrow> 'a option) \<Rightarrow> 'c list \<Rightarrow> 'a option" where
  "last_call f cs = (let xs = List.map_filter f cs in if xs = [] then None else Some (last xs))"

fun body_of :: "('t, 'u) builder_call \<Rightarrow> bytes option" where
  "body_of (Body d) = Some d"
| "body_of _ = None"

fun publishing_id_of :: "('t, 'u) builder_call \<Rightarrow> u64 option" where
  "publishing_id_of (Publising_id i) = Some i"
| "publishing_id_of _ = None"

fun property_of :: "('t, 'u) builder_call \<Rightarrow> ('t, 'u) property_call option" where
  "property_of (Property c) = Some c"
| "property_of _ = None"

fun annotation_of :: "AnnonationKey \<Rightarrow> ('t, 'u) builder_call \<Rightarrow> ('t, 'u) Value option" where
  "annotation_of k (Annotation k' v) = (if k' = k then Some v else None)"
| "annotation_of k _ = None"

fun application_property_of :: "string \<Rightarrow> ('t, 'u) builder_call \<Rightarrow> ('t, 'u) SimpleValue option" where
  "application_property_of k (Application_property k' v) = (if k' = k then Some v else None)"
| "application_property_of k _ = None"

fun apply_property :: "('t, 'u) property_call \<Rightarrow> ('t, 'u) Properties \<Rightarrow> ('t, 'u) Properties" where
  "apply_property (Message_id v) = (\<lambda>p. p\<lparr>message_id := Some v\<rparr>)"
| "apply_property (User_id v) = (\<lambda>p. p\<lparr>user_id := Some v\<rparr>)"
| "apply_property (To v) = (\<lambda>p. p\<lparr>to := Some v\<rparr>)"
| "apply_property (Subject v) = (\<lambda>p. p\<lparr>subject := Some v\<rparr>)"
| "apply_property (Reply_to v) = (\<lambda>p. p\<lparr>reply_to := Some v\<rparr>)"
| "apply_property (Correlation_id v) = (\<lambda>p. p\<lparr>correlation_id := Some v\<rparr>)"
| "apply_property (Content_type v) = (\<lambda>p. p\<lparr>content_type := Some v\<rparr>)"
| "apply_property (Content_encoding v) = (\<lambda>p. p\<lparr>content_encoding := Some v\<rparr>)"
| "apply_property (Absolute_expiry_time v) = (\<lambda>p. p\<lparr>absolute_expiry_time := Some v\<rparr>)"
| "apply_property (Creation_time v) = (\<lambda>p. p\<lparr>creation_time := Some v\<rparr>)"
| "apply_property (Group_id v) = (\<lambda>p. p\<lparr>group_id := Some v\<rparr>)"
| "apply_property (Group_sequence v) = (\<lambda>p. p\<lparr>group_sequence := Some v\<rparr>)"
| "apply_property (Reply_to_group_id v) = (\<lambda>p. p\<lparr>reply_to_group_id := Some v\<rparr>)"

definition wanted_properties :: "('t, 'u) builder_call list \<Rightarrow> ('t, 'u) Properties option" where
  "wanted_properties cs =
     (case List.map_filter property_of cs of
        [] \<Rightarrow> None
      | ps \<Rightarrow> Some (fold apply_property ps default_Properties))"

lemma map_filter_snoc:
  "List.map_filter f (cs @ [c]) = List.map_filter f cs @ (case f c of None \<Rightarrow> [] | Some x \<Rightarrow> [x])"
  by (simp add: List.map_filter_def split: option.split)

lemma last_call_Nil [simp]: "last_call f [] = None"
  by (simp add: last_call_def List.map_filter_def)

lemma last_call_snoc [simp]:
  "last_call f (cs @ [c]) = (case f c of Some x \<Rightarrow> Some x | None \<Rightarrow> last_call f cs)"
  by (simp add: last_call_def Let_def map_filter_snoc split: option.split)

lemma wanted_properties_Nil [simp]: "wanted_properties [] = None"
  by (simp add: wanted_properties_def List.map_filter_def)

lemma wanted_properties_snoc [simp]:
  "wanted_properties (cs @ [c]) =
     (case property_of c of
        None \<Rightarrow> wanted_properties cs
      | Some q \<Rightarrow> Some (apply_property q (case_option default_Properties id (wanted_properties cs))))"
  by (simp add: wanted_properties_def map_filter_snoc split: option.split list.split)

section \<open>What the calls do\<close>

lemma set_property_update:
  "set_property c b = update_properties (apply_property c) b"
  by (cases c) (simp_all add:
      with_message_id_def with_user_id_def with_to_def with_subject_def with_reply_to_def with_correlation_id_def with_content_type_def with_content_encoding_def with_absolute_expiry_time_def with_creation_time_def with_group_id_def with_group_sequence_def with_reply_to_group_id_def)

lemma with_properties_eq:
  "with_properties f m = m\<lparr>properties := Some (f (case_option default_Properties id (properties m)))\<rparr>"
  by (simp add: with_properties_def Let_def split: option.split)

lemma message_annotations_mut_eq:
  "message_annotations_mut f m =
     m\<lparr>message_annotations := Some (f (case_option [] id (message_annotations m)))\<rparr>"
  by (auto simp: message_annotations_mut_def Let_def split: option.split)

lemma application_properties_mut_eq:
  "application_properties_mut f m =
     m\<lparr>application_properties := Some (f (case_option [] id (application_properties m)))\<rparr>"
  by (auto simp: application_properties_mut_def Let_def split: option.split)

lemmas builder_defs = builder_body_def builder_publising_id_def builder_properties_def
  builder_message_annotations_def builder_application_properties_def annotation_insert_def
  application_insert_def update_message_def update_properties_def set_property_update
  with_properties_eq message_annotations_mut_eq application_properties_mut_eq set_body_def
  set_data_def builder_build_def

lemma build_calls_Nil: "build_calls [] = \<lparr>publishing_id = None, message = default_AmqpMessage\<rparr>"
  by (simp add: build_calls_def Message_builder_def builder_build_def)

fun effect_of :: "('t, 'u) builder_call \<Rightarrow> ('t, 'u) AmqpMessage \<Rightarrow> ('t, 'u) AmqpMessage" where
  "effect_of (Body d) m = m\<lparr>body := (body m)\<lparr>data := [d]\<rparr>\<rparr>"
| "effect_of (Publising_id i) m = m"
| "effect_of (Property c) m =
     m\<lparr>properties := Some (apply_property c (case_option default_Properties id (properties m)))\<rparr>"
| "effect_of (Annotation k v) m =
     m\<lparr>message_annotations :=
         Some (put_Annotations k v (case_option [] id (message_annotations m)))\<rparr>"
| "effect_of (Application_property k v) m =
     m\<lparr>application_properties :=
         Some (insert_by (\<lambda>k. k) k v (case_option [] id (application_properties m)))\<rparr>"

lemma build_calls_snoc:
  "build_calls (cs @ [c]) =
     \<lparr>publishing_id = (case publishing_id_of c of
        Some i \<Rightarrow> Some i | None \<Rightarrow> publishing_id (build_calls cs)),
      message = effect_of c (message (build_calls cs))\<rparr>"
  by (cases c) (simp_all add: build_calls_def builder_defs)

lemma map_of_insert_by: "map_of (insert_by (\<lambda>k. k) k v m) = (map_of m)(k \<mapsto> v)"
  by (induction m) auto

lemma set_keys_insert_by: "fst ` set (insert_by (\<lambda>k. k) k v m) = insert k (fst ` set m)"
  by (simp add: map_of_insert_by flip: dom_map_of_conv_image_fst)

lemma keys_insert_by:
  "distinct (map fst m) \<Longrightarrow> distinct (map fst (insert_by (\<lambda>k. k) k v m))"
  by (induction m) (auto simp: set_keys_insert_by simp flip: image_set)

lemma list_all_insert_by:
  "list_all (\<lambda>p. P (fst p) \<and> Q (snd p)) m \<Longrightarrow> P k \<Longrightarrow> Q v \<Longrightarrow>
   list_all (\<lambda>p. P (fst p) \<and> Q (snd p)) (insert_by (\<lambda>k. k) k v m)"
  by (induction m) auto

lemma publishing_id_build_calls: "publishing_id (build_calls cs) = last_call publishing_id_of cs"
  by (induction cs rule: rev_induct) (simp_all add: build_calls_Nil build_calls_snoc split: option.split)

lemma body_build_calls:
  "body (message (build_calls cs)) =
     default_MessageBody\<lparr>data := option_list (last_call body_of cs)\<rparr>"
proof (induction cs rule: rev_induct)
  case (snoc c cs)
  then show ?case by (cases c) (simp_all add: build_calls_snoc option_list_def)
qed (simp add: build_calls_Nil default_AmqpMessage_def default_MessageBody_def option_list_def)

lemma properties_build_calls:
  "properties (message (build_calls cs)) = wanted_properties cs"
proof (induction cs rule: rev_induct)
  case (snoc c cs)
  then show ?case by (cases c) (simp_all add: build_calls_snoc)
qed (simp add: build_calls_Nil default_AmqpMessage_def)

lemma annotation_build_calls:
  "Option.bind (message_annotations (message (build_calls cs))) (get_annotation k) =
     last_call (annotation_of k) cs"
proof (induction cs rule: rev_induct)
  case (snoc c cs)
  then show ?case
    by (cases c) (auto simp: build_calls_snoc get_annotation_def put_Annotations_def
        map_of_insert_by split: option.split)
qed (simp add: build_calls_Nil default_AmqpMessage_def)

lemma application_property_build_calls:
  "Option.bind (application_properties (message (build_calls cs))) (\<lambda>m. map_of m k) =
     last_call (application_property_of k) cs"
proof (induction cs rule: rev_induct)
  case (snoc c cs)
  then show ?case
    by (cases c) (auto simp: build_calls_snoc map_of_insert_by split: option.split)
qed (simp add: build_calls_Nil default_AmqpMessage_def)

section \<open>Built messages are well formed\<close>

fun wf_property :: "('t, 'u) externals \<Rightarrow> ('t, 'u) property_call \<Rightarrow> bool" where
  "wf_property X (Message_id v) = wf_MessageId X v"
| "wf_property X (User_id v) = wf_Binary v"
| "wf_property X (To v) = wf_Str v"
| "wf_property X (Subject v) = wf_Str v"
| "wf_property X (Reply_to v) = wf_Str v"
| "wf_property X (Correlation_id v) = wf_MessageId X v"
| "wf_property X (Content_type v) = wf_Str v"
| "wf_property X (Content_encoding v) = wf_Str v"
| "wf_property X (Absolute_expiry_time v) = wf_Timestamp X v"
| "wf_property X (Creation_time v) = wf_Timestamp X v"
| "wf_property X (Group_id v) = wf_Str v"
| "wf_property X (Group_sequence v) = True"
| "wf_property X (Reply_to_group_id v) = wf_Str v"

fun wf_call :: "('t, 'u) externals \<Rightarrow> ('t, 'u) builder_call \<Rightarrow> bool" where
  "wf_call X (Body d) = wf_Binary d"
| "wf_call X (Publising_id i) = True"
| "wf_call X (Property c) = wf_property X c"
| "wf_call X (Annotation k v) = (wf_AnnonationKey k \<and> wf_Value X v)"
| "wf_call X (Application_property k v) = (wf_Str k \<and> wf_SimpleValue X v)"

definition wf_fields :: "('t, 'u) externals \<Rightarrow> ('t, 'u) Properties \<Rightarrow> bool" where
  "wf_fields X p \<longleftrightarrow>
     pred_option (wf_MessageId X) (message_id p) \<and>
     pred_option wf_Binary (user_id p) \<and>
     pred_option wf_Str (to p) \<and>
     pred_option wf_Str (subject p) \<and>
     pred_option wf_Str (reply_to p) \<and>
     pred_option (wf_MessageId X) (correlation_id p) \<and>
     pred_option wf_Str (content_type p) \<and>
     pred_option wf_Str (content_encoding p) \<and>
     pred_option (wf_Timestamp X) (absolute_expiry_time p) \<and>
     pred_option (wf_Timestamp X) (creation_time p) \<and>
     pred_option wf_Str (group_id p) \<and>
     pred_option wf_Str (reply_to_group_id p)"

definition built_parts :: "('t, 'u) externals \<Rightarrow> ('t, 'u) AmqpMessage \<Rightarrow> bool" where
  "built_parts X m \<longleftrightarrow>
     header m = None \<and> delivery_annotations m = None \<and> footer m = None \<and>
     list_all wf_Binary (data (body m)) \<and> sequence (body m) = [] \<and> body_value (body m) = None \<and>
     pred_option (wf_fields X) (properties m) \<and>
     pred_option (\<lambda>a. distinct (map fst a) \<and>
       list_all (\<lambda>p. wf_AnnonationKey (fst p) \<and> wf_Value X (snd p)) a) (message_annotations m) \<and>
     pred_option (\<lambda>a. distinct (map fst a) \<and>
       list_all (\<lambda>p. wf_Str (fst p) \<and> wf_SimpleValue X (snd p)) a) (application_properties m)"

text \<open>The bounds the wire sets: properties in the small form, and counts of entries that fit the
  form of their map.\<close>

definition map_fits :: "('k \<Rightarrow> u32) \<Rightarrow> ('v \<Rightarrow> u32) \<Rightarrow> ('k \<times> 'v) list \<Rightarrow> bool" where
  "map_fits szk szv m \<longleftrightarrow>
     length m * 2 < (if content_size_Map szk szv m + 1 > 255 then 2 ^ 32 else 2 ^ 8)"

definition within_bounds :: "('t, 'u) AmqpMessage \<Rightarrow> bool" where
  "within_bounds m \<longleftrightarrow>
     pred_option (\<lambda>p. \<not> content_size_Properties p + 1 > 255) (properties m) \<and>
     pred_option (map_fits encoded_size_AnnonationKey encoded_size_Value) (message_annotations m) \<and>
     pred_option (map_fits encoded_size_Str encoded_size_SimpleValue) (application_properties m)"

lemma wf_fields_default [simp]: "wf_fields X default_Properties"
  by (simp add: wf_fields_def default_Properties_def)

lemma wf_fields_apply: "wf_fields X p \<Longrightarrow> wf_property X c \<Longrightarrow> wf_fields X (apply_property c p)"
  by (cases c) (simp_all add: wf_fields_def)

lemma built_parts_effect:
  assumes "built_parts X m" "wf_call X c"
  shows "built_parts X (effect_of c m)"
  using assms
  by (cases c)
     (auto simp: built_parts_def put_Annotations_def keys_insert_by list_all_insert_by
       intro!: wf_fields_apply split: option.split)

lemma built_parts_build_calls:
  "list_all (wf_call X) cs \<Longrightarrow> built_parts X (message (build_calls cs))"
proof (induction cs rule: rev_induct)
  case (snoc c cs)
  then show ?case by (simp add: build_calls_snoc built_parts_effect)
qed (simp add: build_calls_Nil built_parts_def default_AmqpMessage_def default_MessageBody_def)

lemma built_message_wf:
  assumes "built_parts X m" "within_bounds m"
  shows "wf_AmqpMessage X m"
  using assms
  by (auto simp: wf_AmqpMessage_def sections_of_def built_parts_def within_bounds_def
      map_fits_def option_list_def wf_Annotations_def wf_ApplicationProperties_def wf_Map_def
      wf_Properties_def wf_fields_def list.pred_map comp_def list.pred_True
      split: option.splits)

section \<open>Properties too long for the small form\<close>

text \<open>No descriptor starts with a byte other than 0.\<close>

lemma decode_Descriptor_nonzero: "b \<noteq> 0 \<Longrightarrow> \<exists>e. decode_Descriptor (b # bs) = Err e"
  by (cases "type_code_try_from b")
     (auto simp: decode_Descriptor_def decode_TypeCode_def read_u8_def check_len_def
       invalid_type_code_def dest: type_code_try_from_Some)

lemma decode_sections_nonzero: "b \<noteq> 0 \<Longrightarrow> \<exists>e. decode_sections X m (b # bs) = Err e"
  using decode_Descriptor_nonzero [of b bs]
  by (subst decode_sections.simps) (auto simp: decode_MessageSection_def)

lemma unat_drop_bit: "unat (drop_bit k (w :: u32)) = unat w div 2 ^ k"
  using unsigned_less [of w, where ?'a = nat]
  by (simp add: unsigned_drop_bit_eq take_bit_nat_eq_self flip: drop_bit_eq_div)

lemma encode_u32_between:
  assumes "256 \<le> unat w" "unat w < 65536"
  obtains b lo where "encode_u32 w = [0, 0, b, lo]" "b \<noteq> 0"
proof -
  have zero: "drop_bit 16 w = 0"
    using assms by (simp add: unat_drop_bit flip: unat_eq_0)
  have "unat (ucast (drop_bit 8 w) :: u8) = unat (drop_bit 8 w)"
    using assms by (simp add: unat_drop_bit unsigned_ucast_eq take_bit_nat_eq_self)
  then have "(ucast (drop_bit 8 w) :: u8) \<noteq> 0"
    using assms by (auto simp: unat_drop_bit simp flip: unat_eq_0)
  moreover have "encode_u32 w = [0, 0, ucast (drop_bit 8 w), ucast w]"
    using zero zero [THEN arg_cong, of "drop_bit 8"]
    by (simp add: encode_u32_def numeral_eq_Suc)
  ultimately show thesis using that by blast
qed

lemma decode_long_Properties:
  assumes "255 \<le> unat (content_size_Properties p)" "unat (content_size_Properties p) < 65532"
  obtains b bs where "b \<noteq> 0"
    "decode_Properties X (encode_Properties X p @ rest) = Ok (b # bs @ rest, default_Properties)"
proof -
  let ?n = "content_size_Properties p"
  have n: "unat (?n + 4) = unat ?n + 4" "unat (?n + 1) = unat ?n + 1"
    using assms by (simp_all add: unat_word_ariths)
  then obtain b lo where w: "encode_u32 (?n + 4) = [0, 0, b, lo]" "b \<noteq> 0"
    using assms encode_u32_between [of "?n + 4"] by auto
  have "?n + 1 > 255" using assms n by (simp add: word_less_nat_alt)
  then have "decode_Properties X (encode_Properties X p @ rest) =
      Ok (b # (lo # encode_u32 13 @ encode_Properties_fields X p) @ rest, default_Properties)"
    by (simp add: encode_Properties_def decode_Properties_def decode_with_fields_def
        Descriptor.dec_enc w read_u8_def check_len_def)
  with w that show thesis by blast
qed

lemma sections_before_properties:
  assumes "properties m = Some p"
    and "pred_option (wf_Annotations X) (delivery_annotations m)"
    and "pred_option (wf_Annotations X) (message_annotations m)"
  obtains pre post where "sections_of m = pre @ MessageSection.Properties p # post"
    "list_all (wf_section X) pre"
proof
  let ?pre = "map MessageSection.Header (option_list (header m)) @
    map MessageSection.DeliveryAnnotations (option_list (delivery_annotations m)) @
    map MessageSection.MessageAnnotations (option_list (message_annotations m))"
  show "sections_of m = ?pre @ MessageSection.Properties p #
      drop (Suc (length ?pre)) (sections_of m)"
    using assms(1) by (simp add: sections_of_def option_list_def split: option.split)
  show "list_all (wf_section X) ?pre"
    using assms(2,3) by (auto simp: option_list_def split: option.split)
qed

lemma decode_long_AmqpMessage:
  assumes "properties m = Some p"
    and "255 \<le> unat (content_size_Properties p)" "unat (content_size_Properties p) < 65532"
    and "pred_option (wf_Annotations X) (delivery_annotations m)"
    and "pred_option (wf_Annotations X) (message_annotations m)"
  shows "\<exists>e. decode_AmqpMessage X (encode_AmqpMessage X m) = Err e"
proof -
  obtain pre post where m: "sections_of m = pre @ MessageSection.Properties p # post"
    and pre: "list_all (wf_section X) pre"
    by (rule sections_before_properties [OF assms(1,4,5)])
  let ?pre = "concat (map (encode_section X) pre)"
  let ?post = "concat (map (encode_section X) post)"
  let ?rest = "encode_Properties X p @ ?post"
  obtain b bs where b: "b \<noteq> 0"
    "decode_Properties X ?rest = Ok (b # bs @ ?post, default_Properties)"
    using decode_long_Properties [OF assms(2,3)] by blast
  have enc: "encode_AmqpMessage X m = ?pre @ ?rest"
    by (simp add: encode_AmqpMessage_sections m)
  have "decode_AmqpMessage X (encode_AmqpMessage X m) =
      decode_sections X (foldl apply_section default_AmqpMessage pre) ?rest"
    unfolding decode_AmqpMessage_def enc by (rule decode_sections_append [OF pre])
  moreover have "?rest \<noteq> []" by (auto simp: encode_Properties_def Let_def encode_TypeCode_def encode_u8_def)
  moreover have "decode_MessageSection X ?rest =
      Ok (b # bs @ ?post, MessageSection.Properties default_Properties)"
    by (simp add: decode_MessageSection_def decode_Descriptor_properties b map_second_def
        section_descriptors del: encode_Descriptor.simps)
  ultimately show ?thesis
    using decode_sections_nonzero [OF b(1)] by (subst (asm) decode_sections.simps) simp
qed

section \<open>Properties of the builder\<close>

text \<open>C14.  Whatever calls are made on the builder, in whatever order, the message carries the
  publishing id and the body of the last call that gave one, the properties of all calls applied
  in their order, and for every key of the annotations and of the application properties the
  value of the last call that inserted it; a part no call names is absent.\<close>

theorem built_message:
  "publishing_id (build_calls cs) = last_call publishing_id_of cs \<and>
   get_data (build_calls cs) = last_call body_of cs \<and>
   get_properties (build_calls cs) = wanted_properties cs \<and>
   (\<forall>k. Option.bind (get_message_annotations (build_calls cs)) (get_annotation k) =
        last_call (annotation_of k) cs) \<and>
   (\<forall>k. Option.bind (get_application_properties (build_calls cs)) (\<lambda>m. map_of m k) =
        last_call (application_property_of k) cs)"
  by (simp add: publishing_id_build_calls properties_build_calls annotation_build_calls
      application_property_build_calls get_data_def body_build_calls body_data_def
      get_properties_def get_message_annotations_def get_application_properties_def
      default_MessageBody_def option_list_def split: option.split)

text \<open>C13.  A message built from well-formed arguments, within the bounds of the wire, arrives as
  it was built, less the publishing id, which travels beside the message.\<close>

theorem built_message_round_trip:
  assumes "list_all (wf_call X) cs" "within_bounds (message (build_calls cs))"
  shows "decode_Message X (encode_Message X (build_calls cs)) =
    Ok ([], (build_calls cs)\<lparr>publishing_id := None\<rparr>)"
proof -
  have "wf_Message X ((build_calls cs)\<lparr>publishing_id := None\<rparr>)"
    using assms by (simp add: wf_Message_def built_message_wf built_parts_build_calls)
  from decode_Message_enc [OF this] show ?thesis by (simp add: encode_Message_def)
qed

definition sample_calls :: "(i64, bytes) builder_call list" where
  "sample_calls =
     [Annotation (annotation_key_from_str ''test'') (value_from_simple simple_value_from_str ''a''),
      Annotation (annotation_key_from_u64 7) (value_from_simple SimpleValue.Boolean True),
      Annotation (annotation_key_from_str ''test'') (value_from_simple simple_value_from_str ''b''),
      Application_property ''test'' (simple_value_from_str ''c''),
      Property (Content_encoding ''application/json''),
      Property (Absolute_expiry_time 5), Publising_id 3, Body [104, 105]]"

lemmas sample_call_defs = sample_calls_def annotation_key_from_str_def annotation_key_from_u64_def
  value_from_simple_def simple_value_from_str_def

lemma built_sample_calls:
  "build_calls sample_calls =
     \<lparr>publishing_id = Some 3, message = default_AmqpMessage
       \<lparr>message_annotations := Some [(AnnonationKey.Symbol ''test'', Value.Simple (SimpleValue.String ''b'')),
          (AnnonationKey.ULong 7, Value.Simple (SimpleValue.Boolean True))],
        properties := Some (default_Properties
          \<lparr>content_encoding := Some ''application/json'', absolute_expiry_time := Some 5\<rparr>),
        application_properties := Some [(''test'', SimpleValue.String ''c'')],
        body := default_MessageBody\<lparr>data := [[104, 105]]\<rparr>\<rparr>\<rparr>"
  by (simp del: set_property.simps
      add: build_calls_def Message_builder_def builder_defs sample_call_defs
      put_Annotations_def default_AmqpMessage_def)

lemma sample_calls_wf:
  "list_all (wf_call byte_externals) sample_calls"
  "within_bounds (message (build_calls sample_calls))"
proof -
  show "list_all (wf_call byte_externals) sample_calls"
    by (simp add: sample_call_defs wf_Binary_def wf_Str_def wf_Timestamp_def byte_externals_def
        ascii_rust_string)
  show "within_bounds (message (build_calls sample_calls))"
    by (simp add: built_sample_calls within_bounds_def default_AmqpMessage_def map_fits_def
        content_size_Map_def content_size_Properties_def default_Properties_def
        encoded_size_Option_def amqp_defs)
qed

theorem built_message_round_trip_witness:
  "decode_Message byte_externals (encode_Message byte_externals (build_calls sample_calls)) =
    Ok ([], (build_calls sample_calls)\<lparr>publishing_id := None\<rparr>)"
  by (rule built_message_round_trip [OF sample_calls_wf])

text \<open>C40.  A message whose properties take 255 bytes or more cannot be read back: the large form
  of the properties is written with the type code of the small one, the decoder takes the first
  two bytes of the 32-bit size for the size and the count, and fails on the third.  The properties
  take less than 65532 bytes, and the annotations in front of them are well-formed.\<close>

theorem long_properties_unreadable:
  assumes "get_properties m = Some p"
    and "255 \<le> unat (content_size_Properties p)" "unat (content_size_Properties p) < 65532"
    and "pred_option (wf_Annotations X) (get_delivery_annotations m)"
    and "pred_option (wf_Annotations X) (get_message_annotations m)"
  shows "\<exists>e. decode_Message X (encode_Message X m) = Err e"
proof -
  have "\<exists>e. decode_AmqpMessage X (encode_AmqpMessage X (message m)) = Err e"
    using assms
    by (intro decode_long_AmqpMessage)
       (simp_all add: get_properties_def get_delivery_annotations_def get_message_annotations_def)
  then show ?thesis by (auto simp: decode_Message_def encode_Message_def map_second_def)
qed

definition long_subject :: "(i64, bytes) Message" where
  "long_subject = build_calls [Property (Subject (replicate 300 CHR ''a''))]"

theorem long_properties_unreadable_witness:
  "\<exists>e. decode_Message byte_externals (encode_Message byte_externals long_subject) = Err e"
proof -
  have m: "message long_subject =
      default_AmqpMessage\<lparr>properties := Some (default_Properties\<lparr>subject := Some (replicate 300 CHR ''a'')\<rparr>)\<rparr>"
    by (simp del: set_property.simps add: long_subject_def build_calls_def Message_builder_def builder_defs
        default_AmqpMessage_def)
  have size: "content_size_Properties
      (default_Properties\<lparr>subject := Some (replicate 300 CHR ''a'')\<rparr> :: (i64, bytes) Properties) = 317"
    by (simp add: content_size_Properties_def default_Properties_def encoded_size_Option_def
        amqp_defs)
  show ?thesis
    by (rule long_properties_unreadable
          [where p = "default_Properties\<lparr>subject := Some (replicate 300 CHR ''a'')\<rparr>"])
       (simp_all add: get_properties_def get_delivery_annotations_def get_message_annotations_def
         m size default_AmqpMessage_def)
qed

end
