(* ===== verification/Connection.thy ===== *)
theory Connection
  imports Handshake
begin

text \<open>
  Opening the connection of a client (\<open>Client::create_connection\<close> and the functions it calls in
  \<open>src/client/mod.rs\<close>): plain TCP, TLS against the root certificates of a file, with or without a
  client certificate, and TLS without verification.

  Sockets, files and the crates rustls and rustls\_pemfile are the fields of \<open>transport\<close>.  A root
  store is the list of the certificates added to it, and a configuration is what its builder was
  given.  \<open>connect_over\<close> is \<open>Client::connect\<close> over a connection opened this way.
\<close>

section \<open>What the connection is built on\<close>

datatype server_verifier = RootCertificates "bytes list" | NoCertificateVerification

record ClientConfig =
  verifier :: server_verifier
  client_auth :: "(bytes list \<times> bytes) option"

datatype GenericTcpStream = Tcp (stream_handle: nat) | SecureTcp (stream_handle: nat)

record 'w transport =
  tcp_open :: "string \<Rightarrow> u16 \<Rightarrow> 'w \<Rightarrow> 'w \<times> nat option"
  read_file :: "string \<Rightarrow> 'w \<Rightarrow> bytes option"
  pem_certs :: "bytes \<Rightarrow> bytes list option"
  pem_pkcs8_private_keys :: "bytes \<Rightarrow> bytes list option"
  root_accepted :: "bytes \<Rightarrow> bool"
  auth_accepted :: "bytes list \<Rightarrow> bytes \<Rightarrow> bool"
  is_server_name :: "string \<Rightarrow> bool"
  tls_handshake :: "ClientConfig \<Rightarrow> string \<Rightarrow> nat \<Rightarrow> 'w \<Rightarrow> 'w \<times> bool"

section \<open>Reading and writing a connection\<close>

text \<open>What a plain socket and a TLS stream offer, by the number of the socket; an operation that is
  not ready yields \<open>None\<close>.\<close>

record 'w async_io =
  io_read :: "nat \<Rightarrow> nat \<Rightarrow> 'w \<Rightarrow> 'w \<times> (bytes, ClientError) result option"
  io_write :: "nat \<Rightarrow> bytes \<Rightarrow> 'w \<Rightarrow> 'w \<times> (nat, ClientError) result option"
  io_flush :: "nat \<Rightarrow> 'w \<Rightarrow> 'w \<times> (unit, ClientError) result option"
  io_shutdown :: "nat \<Rightarrow> 'w \<Rightarrow> 'w \<times> (unit, ClientError) result option"

definition poll_read ::
  "'w async_io \<Rightarrow> 'w async_io \<Rightarrow> GenericTcpStream \<Rightarrow> nat \<Rightarrow> ('w, bytes, ClientError) async" where
  "poll_read plain secure s capacity =
     (case s of Tcp h \<Rightarrow> io_read plain h capacity | SecureTcp h \<Rightarrow> io_read secure h capacity)"

definition poll_write ::
  "'w async_io \<Rightarrow> 'w async_io \<Rightarrow> GenericTcpStream \<Rightarrow> bytes \<Rightarrow> ('w, nat, ClientError) async" where
  "poll_write plain secure s buf =
     (case s of Tcp h \<Rightarrow> io_write plain h buf | SecureTcp h \<Rightarrow> io_write secure h buf)"

definition poll_flush ::
  "'w async_io \<Rightarrow> 'w async_io \<Rightarrow> GenericTcpStream \<Rightarrow> ('w, unit, ClientError) async" where
  "poll_flush plain secure s =
     (case s of Tcp h \<Rightarrow> io_flush plain h | SecureTcp h \<Rightarrow> io_flush secure h)"

definition poll_shutdown ::
  "'w async_io \<Rightarrow> 'w async_io \<Rightarrow> GenericTcpStream \<Rightarrow> ('w, unit, ClientError) async" where
  "poll_shutdown plain secure s =
     (case s of Tcp h \<Rightarrow> io_shutdown plain h | SecureTcp h \<Rightarrow> io_shutdown secure h)"

lemmas stream_io_defs = poll_read_def poll_write_def poll_flush_def poll_shutdown_def

section \<open>Getters of the TLS configuration (src/environment.rs)\<close>

definition get_tls :: "ClientOptions \<Rightarrow> TlsConfiguration" where
  "get_tls options = tls options"

definition trust_certificates_enabled :: "TlsConfiguration \<Rightarrow> bool" where
  "trust_certificates_enabled t = trust_certificates t"

definition get_root_certificates_path :: "TlsConfiguration \<Rightarrow> string" where
  "get_root_certificates_path t = root_certificates_path t"

definition get_client_certificates_path :: "TlsConfiguration \<Rightarrow> string" where
  "get_client_certificates_path t = client_certificates_path t"

definition get_client_keys_path :: "TlsConfiguration \<Rightarrow> string" where
  "get_client_keys_path t = client_keys_path t"

lemmas tls_getters = get_tls_def trust_certificates_enabled_def get_root_certificates_path_def
  get_client_certificates_path_def get_client_keys_path_def

text \<open>The builder, a wrapper of the configuration.\<close>

datatype TlsConfigurationBuilder = TlsConfigurationBuilder (built_tls: TlsConfiguration)

definition TlsConfiguration_builder :: TlsConfigurationBuilder where
  "TlsConfiguration_builder = TlsConfigurationBuilder default_TlsConfiguration"

definition tls_builder_enable :: "bool \<Rightarrow> TlsConfigurationBuilder \<Rightarrow> TlsConfigurationBuilder" where
  "tls_builder_enable enable b = TlsConfigurationBuilder ((built_tls b)\<lparr>enabled := enable\<rparr>)"

definition tls_builder_trust_certificates ::
  "bool \<Rightarrow> TlsConfigurationBuilder \<Rightarrow> TlsConfigurationBuilder" where
  "tls_builder_trust_certificates trust b =
     TlsConfigurationBuilder ((built_tls b)\<lparr>trust_certificates := trust\<rparr>)"

definition tls_builder_add_root_certificates ::
  "string \<Rightarrow> TlsConfigurationBuilder \<Rightarrow> TlsConfigurationBuilder" where
  "tls_builder_add_root_certificates path b =
     TlsConfigurationBuilder ((built_tls b)\<lparr>root_certificates_path := path\<rparr>)"

definition tls_builder_add_client_certificates_keys ::
  "string \<Rightarrow> string \<Rightarrow> TlsConfigurationBuilder \<Rightarrow> TlsConfigurationBuilder" where
  "tls_builder_add_client_certificates_keys certificate_path client_private_key_path b =
     TlsConfigurationBuilder ((built_tls b)
       \<lparr>client_certificates_path := certificate_path, client_keys_path := client_private_key_path\<rparr>)"

definition tls_builder_build :: "TlsConfigurationBuilder \<Rightarrow> TlsConfiguration" where
  "tls_builder_build b = built_tls b"

section \<open>Certificates and keys\<close>

text \<open>The conversion of an input or output error, and \<open>unwrap\<close>.\<close>

definition io_result :: "'a option \<Rightarrow> ('a, ClientError) result" where
  "io_result v = (case v of Some x \<Rightarrow> Ok x | None \<Rightarrow> Err Io)"

definition unwrap_io :: "'a option \<Rightarrow> ('a, ClientError) result" where
  "unwrap_io v = (case v of Some x \<Rightarrow> Ok x | None \<Rightarrow> Panic)"

primrec add_roots ::
  "'w transport \<Rightarrow> bytes list \<Rightarrow> bytes list \<Rightarrow> (bytes list, ClientError) result" where
  "add_roots T roots [] = Ok roots"
| "add_roots T roots (cert # certs) =
     (if root_accepted T cert then add_roots T (roots @ [cert]) certs else Panic)"

definition build_root_store ::
  "'w transport \<Rightarrow> string option \<Rightarrow> 'w \<Rightarrow> (bytes list, ClientError) result" where
  "build_root_store T root_ca_cert w =
     and_then (unwrap_io root_ca_cert) (\<lambda>path.
     and_then (unwrap_io (read_file T path w)) (\<lambda>cert_bytes.
     and_then (unwrap_io (pem_certs T cert_bytes)) (\<lambda>root_cert_store.
       add_roots T [] root_cert_store)))"

definition build_client_certificates ::
  "'w transport \<Rightarrow> string \<Rightarrow> 'w \<Rightarrow> (bytes list, ClientError) result" where
  "build_client_certificates T client_cert w =
     and_then (io_result (read_file T client_cert w)) (\<lambda>pem. io_result (pem_certs T pem))"

definition build_client_private_keys ::
  "'w transport \<Rightarrow> string \<Rightarrow> 'w \<Rightarrow> (bytes list, ClientError) result" where
  "build_client_private_keys T client_private_key w =
     and_then (io_result (read_file T client_private_key w))
       (\<lambda>pem. io_result (pem_pkcs8_private_keys T pem))"

section \<open>TLS configurations\<close>

definition with_client_auth_cert ::
  "'w transport \<Rightarrow> server_verifier \<Rightarrow> bytes list \<Rightarrow> bytes \<Rightarrow> ClientConfig option" where
  "with_client_auth_cert T v certs private_key =
     (if auth_accepted T certs private_key
      then Some \<lparr>verifier = v, client_auth = Some (certs, private_key)\<rparr> else None)"

definition build_tls_client_configuration ::
  "'w transport \<Rightarrow> string \<Rightarrow> bytes list \<Rightarrow> ClientOptions \<Rightarrow> 'w \<Rightarrow>
   (ClientConfig, ClientError) result" where
  "build_tls_client_configuration T client_certificate_path roots broker w =
     (if client_certificate_path = []
      then Ok \<lparr>verifier = RootCertificates roots, client_auth = None\<rparr>
      else
        and_then (build_client_certificates T (get_client_certificates_path (get_tls broker)) w)
          (\<lambda>client_certs.
        and_then (build_client_private_keys T (get_client_keys_path (get_tls broker)) w)
          (\<lambda>client_keys.
        and_then (unwrap_io (case client_keys of k # _ \<Rightarrow> Some k | [] \<Rightarrow> None)) (\<lambda>private_key.
          unwrap_io (with_client_auth_cert T (RootCertificates roots) client_certs private_key)))))"

definition build_tls_client_configuration_untrusted :: "(ClientConfig, ClientError) result" where
  "build_tls_client_configuration_untrusted =
     Ok \<lparr>verifier = NoCertificateVerification, client_auth = None\<rparr>"

section \<open>Opening a connection\<close>

definition open_tcp :: "'w transport \<Rightarrow> ClientOptions \<Rightarrow> ('w, nat, ClientError) async" where
  "open_tcp T broker w =
     (case tcp_open T (ClientOptions.host broker) (ClientOptions.port broker) w of (w, s) \<Rightarrow> (w, Some (io_result s)))"

definition connector_connect ::
  "'w transport \<Rightarrow> ClientConfig \<Rightarrow> string \<Rightarrow> nat \<Rightarrow> ('w, nat, ClientError) async" where
  "connector_connect T config domain socket w =
     (case tls_handshake T config domain socket w of
        (w, done) \<Rightarrow> (w, Some (if done then Ok socket else Err Io)))"

definition tls_config ::
  "'w transport \<Rightarrow> ClientOptions \<Rightarrow> 'w \<Rightarrow> (ClientConfig, ClientError) result" where
  "tls_config T broker w =
     (if \<not> trust_certificates_enabled (get_tls broker)
      then
        and_then (build_root_store T (Some (get_root_certificates_path (get_tls broker))) w) (\<lambda>roots.
          build_tls_client_configuration T (get_client_certificates_path (get_tls broker))
            roots broker w)
      else build_tls_client_configuration_untrusted)"

definition create_connection ::
  "'w transport \<Rightarrow> ClientOptions \<Rightarrow> ('w, GenericTcpStream, ClientError) async" where
  "create_connection T broker =
     (if enabled (get_tls broker)
      then
        await (open_tcp T broker) (\<lambda>socket.
        await (\<lambda>w. (w, Some (tls_config T broker w))) (\<lambda>config.
        await (ready (unwrap_io (if is_server_name T (ClientOptions.host broker) then Some (ClientOptions.host broker) else None)))
          (\<lambda>domain.
        await (connector_connect T config domain socket) (\<lambda>conn.
          ready (Ok (SecureTcp conn))))))
      else
        await (open_tcp T broker) (\<lambda>socket. ready (Ok (Tcp socket))))"

definition connect_over ::
  "('t, 'u) externals \<Rightarrow> 'w transport \<Rightarrow> ('t, 'u, 'w) network \<Rightarrow> ClientOptions \<Rightarrow>
   ('t, 'u, 'w, nat) client_async" where
  "connect_over X T N broker w =
     (case create_connection T broker (net w) of
        (n, Some (Ok s)) \<Rightarrow>
          connect_on X N broker n (stream_handle s) w
      | (n, Some (Err e)) \<Rightarrow> (w\<lparr>net := n\<rparr>, Some (Err e))
      | (n, Some Panic) \<Rightarrow> (w\<lparr>net := n\<rparr>, Some Panic)
      | (n, None) \<Rightarrow> (w\<lparr>net := n\<rparr>, None))"

section \<open>What the files must hold\<close>

definition root_certificates :: "'w transport \<Rightarrow> TlsConfiguration \<Rightarrow> 'w \<Rightarrow> bytes list option" where
  "root_certificates T t w =
     Option.bind (Option.bind (read_file T (root_certificates_path t) w) (pem_certs T))
       (\<lambda>certs. if list_all (root_accepted T) certs then Some certs else None)"

definition client_certificates :: "'w transport \<Rightarrow> TlsConfiguration \<Rightarrow> 'w \<Rightarrow> bytes list option" where
  "client_certificates T t w =
     Option.bind (read_file T (client_certificates_path t) w) (pem_certs T)"

definition client_keys :: "'w transport \<Rightarrow> TlsConfiguration \<Rightarrow> 'w \<Rightarrow> bytes list option" where
  "client_keys T t w =
     Option.bind (read_file T (client_keys_path t) w) (pem_pkcs8_private_keys T)"

lemma add_roots_eq:
  "add_roots T roots certs =
     (if list_all (root_accepted T) certs then Ok (roots @ certs) else Panic)"
  by (induction certs arbitrary: roots) simp_all

lemma build_root_store_eq:
  "build_root_store T (Some (root_certificates_path t)) w = unwrap_io (root_certificates T t w)"
  by (auto simp: build_root_store_def root_certificates_def unwrap_io_def add_roots_eq
      split: option.split bind_splits)

lemma build_client_certificates_eq:
  "build_client_certificates T (client_certificates_path t) w =
     io_result (client_certificates T t w)"
  by (simp add: build_client_certificates_def client_certificates_def io_result_def
      split: option.split bind_splits)

lemma build_client_private_keys_eq:
  "build_client_private_keys T (client_keys_path t) w = io_result (client_keys T t w)"
  by (simp add: build_client_private_keys_def client_keys_def io_result_def
      split: option.split bind_splits)

lemmas certificate_files = build_root_store_eq build_client_certificates_eq
  build_client_private_keys_eq

definition client_auth_files ::
  "'w transport \<Rightarrow> TlsConfiguration \<Rightarrow> 'w \<Rightarrow> (bytes list \<times> bytes) option \<Rightarrow> bool" where
  "client_auth_files T t w auth \<longleftrightarrow>
     (case auth of
        None \<Rightarrow> client_certificates_path t = []
      | Some (certs, private_key) \<Rightarrow>
          client_certificates_path t \<noteq> [] \<and> client_certificates T t w = Some certs \<and>
          (\<exists>more. client_keys T t w = Some (private_key # more)) \<and>
          auth_accepted T certs private_key)"

text \<open>What makes a trusted configuration panic once the root certificates are loaded: a key file
  without keys, or a pair that rustls refuses.\<close>

definition client_auth_refused :: "'w transport \<Rightarrow> TlsConfiguration \<Rightarrow> 'w \<Rightarrow> bool" where
  "client_auth_refused T t w \<longleftrightarrow>
     client_certificates_path t \<noteq> [] \<and>
     (case (client_certificates T t w, client_keys T t w) of
        (Some certs, Some []) \<Rightarrow> True
      | (Some certs, Some (private_key # _)) \<Rightarrow> \<not> auth_accepted T certs private_key
      | _ \<Rightarrow> False)"

lemma tls_config_Ok:
  "tls_config T broker w = Ok config \<longleftrightarrow>
     (if trust_certificates (tls broker)
      then config = \<lparr>verifier = NoCertificateVerification, client_auth = None\<rparr>
      else \<exists>roots. root_certificates T (tls broker) w = Some roots \<and>
             verifier config = RootCertificates roots \<and>
             client_auth_files T (tls broker) w (client_auth config))"
  by (cases config)
     (auto simp: tls_config_def tls_getters certificate_files build_tls_client_configuration_def
       build_tls_client_configuration_untrusted_def client_auth_files_def io_result_def
       unwrap_io_def with_client_auth_cert_def split: option.splits list.splits)

lemma tls_config_Panic:
  "tls_config T broker w = Panic \<longleftrightarrow>
     \<not> trust_certificates (tls broker) \<and>
     (root_certificates T (tls broker) w = None \<or> client_auth_refused T (tls broker) w)"
  by (auto simp: tls_config_def tls_getters certificate_files build_tls_client_configuration_def
      build_tls_client_configuration_untrusted_def client_auth_refused_def io_result_def
      unwrap_io_def with_client_auth_cert_def split: option.splits list.splits)

lemma create_connection_secure:
  assumes "enabled (tls broker)" "create_connection T broker w = (w', Some (Ok s))"
  shows "\<exists>socket w1 config.
    tcp_open T (ClientOptions.host broker) (ClientOptions.port broker) w = (w1, Some socket) \<and>
    s = SecureTcp socket \<and> is_server_name T (ClientOptions.host broker) \<and>
    tls_handshake T config (ClientOptions.host broker) socket w1 = (w', True) \<and>
    tls_config T broker w1 = Ok config"
  using assms
  by (auto simp: create_connection_def tls_getters open_tcp_def connector_connect_def
      io_result_def unwrap_io_def async_defs elim!: await_OkE
      split: prod.splits option.splits if_splits)

text \<open>The parameter of the model of the client is what opening a connection does, where it does not
  panic.\<close>

lemma connect_over_connect:
  assumes "create_connection T broker (net w) = (n, Some (Ok s))"
    and "tcp_connect N broker (net w) = (n, Inr (stream_handle s))"
  shows "connect_over X T N broker w = connect X N broker w"
  using assms by (simp add: connect_over_def connect_def)

lemma connect_over_error:
  assumes "create_connection T broker (net w) = (n, Some (Err e))"
    and "tcp_connect N broker (net w) = (n, Inl e)"
  shows "connect_over X T N broker w = connect X N broker w"
  using assms by (simp add: connect_over_def connect_def)

text \<open>Once TLS is enabled, nothing is read from or written to the plain socket after the handshake:
  the four operations of the connection are those of the TLS stream.\<close>

lemma secure_connection_io:
  assumes "enabled (tls broker)" "create_connection T broker w = (w', Some (Ok s))"
  shows "poll_read plain secure s = io_read secure (stream_handle s)"
    "poll_write plain secure s = io_write secure (stream_handle s)"
    "poll_flush plain secure s = io_flush secure (stream_handle s)"
    "poll_shutdown plain secure s = io_shutdown secure (stream_handle s)"
  using create_connection_secure [OF assms] by (auto simp: fun_eq_iff stream_io_defs)

section \<open>Properties of connections\<close>

text \<open>C15.  A client that connects with TLS enabled talks over a secure stream: before anything is
  sent, the handshake with the host has succeeded under a configuration that verifies the server
  against all certificates of the root file, and only those, and presents the client certificate
  with the first key of its file exactly when one is configured; or, when certificates are to be
  trusted, under one that verifies nothing and presents nothing.\<close>

theorem secure_connection:
  assumes "enabled (tls broker)" "connect_over X T N broker w = (w', Some (Ok i))"
  shows "\<exists>socket n1 n2 config.
    tcp_open T (ClientOptions.host broker) (ClientOptions.port broker) (net w) = (n1, Some socket) \<and>
    is_server_name T (ClientOptions.host broker) \<and>
    tls_handshake T config (ClientOptions.host broker) socket n1 = (n2, True) \<and>
    (if trust_certificates (tls broker)
     then config = \<lparr>verifier = NoCertificateVerification, client_auth = None\<rparr>
     else \<exists>roots. root_certificates T (tls broker) n1 = Some roots \<and>
            verifier config = RootCertificates roots \<and>
            client_auth_files T (tls broker) n1 (client_auth config)) \<and>
    connect_on X N broker n2 socket w = (w', Some (Ok i))"
proof -
  obtain n2 s where "create_connection T broker (net w) = (n2, Some (Ok s))"
    "connect_on X N broker n2 (stream_handle s) w = (w', Some (Ok i))"
    using assms(2) by (auto simp: connect_over_def split: prod.splits option.splits result.splits)
  with create_connection_secure [OF assms(1)] show ?thesis
    unfolding tls_config_Ok by fastforce
qed

text \<open>Opening a TLS connection to a reachable host panics, instead of returning an error, in
  exactly these cases: the root file is missing, malformed or holds a certificate that rustls
  refuses; the key file holds no key or one that does not fit the client certificate; or the host
  is not a server name.\<close>

theorem tls_connection_panics:
  assumes "enabled (tls broker)"
    and "tcp_open T (ClientOptions.host broker) (ClientOptions.port broker) w = (w1, Some socket)"
  shows "snd (create_connection T broker w) = Some Panic \<longleftrightarrow>
    (\<not> trust_certificates (tls broker) \<and>
      (root_certificates T (tls broker) w1 = None \<or> client_auth_refused T (tls broker) w1)) \<or>
    ((\<exists>config. tls_config T broker w1 = Ok config) \<and> \<not> is_server_name T (ClientOptions.host broker))"
proof -
  have "open_tcp T broker w = (w1, Some (Ok socket))"
    using assms by (simp add: open_tcp_def io_result_def)
  then have "snd (create_connection T broker w) = Some Panic \<longleftrightarrow>
      tls_config T broker w1 = Panic \<or>
      ((\<exists>config. tls_config T broker w1 = Ok config) \<and> \<not> is_server_name T (ClientOptions.host broker))"
    using assms
    by (cases "tls_config T broker w1")
       (auto simp: create_connection_def tls_getters await_def connector_connect_def async_defs
         unwrap_io_def split: prod.splits)
  then show ?thesis by (simp add: tls_config_Panic)
qed

definition sample_transport :: "(i64, bytes) script transport" where
  "sample_transport =
     \<lparr>tcp_open = (\<lambda>_ _ n. (n, Some 0)),
      read_file = (\<lambda>path _. if path = ''ca.pem'' then Some [1, 2] else None),
      pem_certs = (\<lambda>bs. Some (map (\<lambda>b. [b]) bs)), pem_pkcs8_private_keys = (\<lambda>bs. Some []),
      root_accepted = (\<lambda>_. True), auth_accepted = (\<lambda>_ _. True), is_server_name = (\<lambda>_. True),
      tls_handshake = (\<lambda>config _ _ n. (n, verifier config = RootCertificates [[1], [2]]))\<rparr>"

definition sample_tls_options :: "string \<Rightarrow> ClientOptions" where
  "sample_tls_options path =
     builder_tls (tls_builder_build
       (tls_builder_add_root_certificates path TlsConfiguration_builder)) default_ClientOptions"

lemmas sample_transport_defs = sample_transport_def sample_tls_options_def builder_tls_def
  tls_builder_build_def tls_builder_add_root_certificates_def TlsConfiguration_builder_def
  default_TlsConfiguration_def

lemma sample_create_connection:
  "create_connection sample_transport (sample_tls_options ''ca.pem'') n = (n, Some (Ok (SecureTcp 0)))"
  by (simp add: create_connection_def tls_config_def build_root_store_def add_roots_eq
      build_tls_client_configuration_def open_tcp_def connector_connect_def io_result_def
      unwrap_io_def tls_getters async_defs await_def sample_transport_defs)

theorem secure_connection_witness:
  "\<exists>w' i. connect_over byte_externals sample_transport scripted (sample_tls_options ''ca.pem'')
       (scripted_world handshake_script []) = (w', Some (Ok i)) \<and>
     root_certificates sample_transport (tls (sample_tls_options ''ca.pem''))
       (net (scripted_world handshake_script [])) = Some [[1], [2]]"
proof -
  let ?o = "sample_tls_options ''ca.pem''"
  let ?w = "scripted_world handshake_script [] :: (i64, bytes, (i64, bytes) script) world"
  have "connect_over byte_externals sample_transport scripted ?o ?w =
      connect byte_externals scripted ?o ?w"
    by (rule connect_over_connect [OF sample_create_connection]) simp
  moreover obtain c out where "connect byte_externals scripted ?o ?w =
      (with_client ?w c (out, []), Some (Ok (length (clients ?w))))"
    by (rule scripted_connect [where w = ?w and out = "[]" and rest = "[]" and broker = ?o])
       (auto simp: scripted_world_def)
  ultimately have run: "connect_over byte_externals sample_transport scripted ?o ?w =
      (with_client ?w c (out, []), Some (Ok (length (clients ?w))))" by simp
  have "enabled (tls ?o)" by (simp add: sample_transport_defs)
  from secure_connection [OF this run] run show ?thesis
    by (auto simp: sample_transport_defs)
qed

theorem tls_connection_panics_witness:
  "snd (create_connection sample_transport (sample_tls_options ''missing.pem'') ([], [])) = Some Panic"
proof -
  let ?o = "sample_tls_options ''missing.pem''"
  have "enabled (tls ?o)"
    and "tcp_open sample_transport (ClientOptions.host ?o) (ClientOptions.port ?o) ([], []) =
      (([], []), Some 0)"
    by (simp_all add: sample_transport_defs)
  from tls_connection_panics [OF this] show ?thesis
    by (simp add: root_certificates_def sample_transport_defs)
qed

end
