(* ===== verification/Producer_Api.thy ===== *)
theory Producer_Api
  imports Producer
begin

text \<open>
  The public operations of the two kinds of producers (\<open>src/producer.rs\<close>): \<open>Producer<NoDedup>\<close>, whose
  methods take a shared reference, and \<open>Producer<Dedup>\<close>, whose methods take an exclusive one.  The
  model runs one call at a time, so both are the same calls.

  Sending a full batch one message at a time is shown to do what sending the batch at once does.
\<close>

section \<open>Producers without deduplication\<close>

definition send_with_confirm_NoDedup ::
  "('t, 'u) externals \<Rightarrow> ('t, 'u, 'w) network \<Rightarrow> nat \<Rightarrow> ('t, 'u) Message \<Rightarrow>
     ('t, 'u, 'w, 'cb, ('t, 'u) ConfirmationStatus, ProducerPublishError) producer_async" where
  "send_with_confirm_NoDedup X N p m = do_send_with_confirm X N p m"

definition batch_send_with_confirm_NoDedup ::
  "('t, 'u) externals \<Rightarrow> ('t, 'u, 'w) network \<Rightarrow> nat \<Rightarrow> ('t, 'u) Message list \<Rightarrow>
     ('t, 'u, 'w, 'cb, ('t, 'u) ConfirmationStatus list, ProducerPublishError) producer_async" where
  "batch_send_with_confirm_NoDedup X N p ms = do_batch_send_with_confirm X N p ms"

definition batch_send_NoDedup ::
  "('t, 'u) externals \<Rightarrow> ('t, 'u, 'w) network \<Rightarrow> nat \<Rightarrow> ('t, 'u) Message list \<Rightarrow> 'cb \<Rightarrow>
     ('t, 'u, 'w, 'cb, unit, ProducerPublishError) producer_async" where
  "batch_send_NoDedup X N p ms f = do_batch_send X N p ms f"

definition send_NoDedup ::
  "('t, 'u) externals \<Rightarrow> ('t, 'u, 'w) network \<Rightarrow> nat \<Rightarrow> ('t, 'u) Message \<Rightarrow> 'cb \<Rightarrow>
     ('t, 'u, 'w, 'cb, unit, ProducerPublishError) producer_async" where
  "send_NoDedup X N p m f = do_send X N p m f"

section \<open>Producers with deduplication\<close>

definition send_with_confirm_Dedup ::
  "('t, 'u) externals \<Rightarrow> ('t, 'u, 'w) network \<Rightarrow> nat \<Rightarrow> ('t, 'u) Message \<Rightarrow>
     ('t, 'u, 'w, 'cb, ('t, 'u) ConfirmationStatus, ProducerPublishError) producer_async" where
  "send_with_confirm_Dedup X N p m = do_send_with_confirm X N p m"

definition batch_send_with_confirm_Dedup ::
  "('t, 'u) externals \<Rightarrow> ('t, 'u, 'w) network \<Rightarrow> nat \<Rightarrow> ('t, 'u) Message list \<Rightarrow>
     ('t, 'u, 'w, 'cb, ('t, 'u) ConfirmationStatus list, ProducerPublishError) producer_async" where
  "batch_send_with_confirm_Dedup X N p ms = do_batch_send_with_confirm X N p ms"

definition batch_send_Dedup ::
  "('t, 'u) externals \<Rightarrow> ('t, 'u, 'w) network \<Rightarrow> nat \<Rightarrow> ('t, 'u) Message list \<Rightarrow> 'cb \<Rightarrow>
     ('t, 'u, 'w, 'cb, unit, ProducerPublishError) producer_async" where
  "batch_send_Dedup X N p ms f = do_batch_send X N p ms f"

definition send_Dedup ::
  "('t, 'u) externals \<Rightarrow> ('t, 'u, 'w) network \<Rightarrow> nat \<Rightarrow> ('t, 'u) Message \<Rightarrow> 'cb \<Rightarrow>
     ('t, 'u, 'w, 'cb, unit, ProducerPublishError) producer_async" where
  "send_Dedup X N p m f = do_send X N p m f"

section \<open>Status of a confirmation\<close>

definition status_confirmed :: "('t, 'u) ConfirmationStatus \<Rightarrow> bool" where
  "status_confirmed st = confirmed st"

definition status_publishing_id :: "('t, 'u) ConfirmationStatus \<Rightarrow> u64" where
  "status_publishing_id st = ConfirmationStatus.publishing_id st"

definition status_code :: "('t, 'u) ConfirmationStatus \<Rightarrow> ResponseCode" where
  "status_code st = status st"

definition status_message :: "('t, 'u) ConfirmationStatus \<Rightarrow> ('t, 'u) Message" where
  "status_message st = ConfirmationStatus.message st"

section \<open>Sending one message at a time\<close>

primrec send_each ::
  "('t, 'u) externals \<Rightarrow> ('t, 'u, 'w) network \<Rightarrow> nat \<Rightarrow> ('t, 'u) Message list \<Rightarrow> 'cb \<Rightarrow>
     ('t, 'u, 'w, 'cb, unit, ProducerPublishError) producer_async" where
  "send_each X N p [] f = ready (Ok ())"
| "send_each X N p (m # ms) f = await (send_NoDedup X N p m f) (\<lambda>_. send_each X N p ms f)"

lemma await_unit: "await m (\<lambda>_. ready (Ok ())) = m"
  by (simp add: fun_eq_iff await_def async_defs split: prod.split option.split result.split)

lemma wrap_batch_accumulator:
  "wrap_batch ms c (q\<lparr>accumulator := a\<rparr>) =
     (case wrap_batch ms c q of (q', cs) \<Rightarrow> (q'\<lparr>accumulator := a\<rparr>, cs))"
proof (induction ms arbitrary: q)
  case (Cons m ms)
  obtain pid seq where pid: "next_publishing_id m (publish_sequence q) = (pid, seq)"
    by (cases "next_publishing_id m (publish_sequence q)")
  have "add_waiter pid c m (q\<lparr>accumulator := a, publish_sequence := seq\<rparr>) =
      (add_waiter pid c m (q\<lparr>publish_sequence := seq\<rparr>))\<lparr>accumulator := a\<rparr>"
    by (cases q) (simp add: add_waiter_def)
  then show ?case
    by (simp add: pid Cons.IH wrap_message_def split: prod.split)
qed simp

lemma wrap_batch_fields:
  "wrap_batch ms c q = (q', cs) \<Longrightarrow>
   client q' = client q \<and> producer_id q' = producer_id q \<and> publish_version q' = publish_version q \<and>
   batch_size q' = batch_size q \<and> accumulator q' = accumulator q \<and>
   map ClientMessage.message cs = ms"
proof (induction ms arbitrary: q cs)
  case (Cons m ms)
  obtain pid seq where pid: "next_publishing_id m (publish_sequence q) = (pid, seq)"
    by (cases "next_publishing_id m (publish_sequence q)")
  with Cons.prems obtain cs' where
    "wrap_batch ms c (add_waiter pid c m (q\<lparr>publish_sequence := seq\<rparr>)) = (q', cs')"
    "cs = wrap_message q pid m # cs'" by (auto split: prod.splits)
  with Cons.IH show ?case
    by (fastforce simp: add_waiter_def wrap_message_def Let_def new_ClientMessage_def
        filter_value_extract_def split: option.split)
qed simp

text \<open>The messages that complete a batch are published with everything that was queued.\<close>

lemma send_each_full:
  fixes X :: "('t, 'u) externals" and N :: "('t, 'u, 'w) network"
  assumes "p < length (producers s)" "q = producers s ! p" "producer_inv q" "\<not> is_closed p s"
    and "wrap_batch ms (UserCallback f) q = (q', cs)" "ms \<noteq> []"
    and "length (queue (accumulator q)) + length ms = batch_size q"
  shows "send_each X N p ms f s =
    await (lift_error PublishClient (on_base (publish X N (client q) (producer_id q)
        (map base_of_ClientMessage (queue (accumulator q) @ cs)) (publish_version q))))
      (\<lambda>_. ready (Ok ()))
      (update_producer p (\<lambda>_. q'\<lparr>accumulator := (accumulator q)\<lparr>queue := [], message_count := 0\<rparr>\<rparr>) s)"
  using assms
proof (induction ms arbitrary: s q q' cs)
  case (Cons m ms)
  obtain pid seq where pid: "next_publishing_id m (publish_sequence q) = (pid, seq)"
    by (cases "next_publishing_id m (publish_sequence q)")
  let ?c = "UserCallback f"
  let ?batch = "queue (accumulator q) @ [wrap_message q pid m]"
  let ?q1 = "add_waiter pid ?c m (q\<lparr>publish_sequence := seq\<rparr>)"
  obtain cs' where w: "wrap_batch ms ?c ?q1 = (q', cs')" "cs = wrap_message q pid m # cs'"
    using Cons.prems(5) by (auto simp: pid split: prod.splits)
  note run = internal_send_run [OF Cons.prems(1-4) pid refl refl, of X N ?c]
  show ?case
  proof (cases "ms = []")
    case True
    with run w Cons.prems(7) show ?thesis
      by (simp add: send_NoDedup_def do_send_def await_unit)
  next
    case False
    let ?q2 = "?q1\<lparr>accumulator := (accumulator q)\<lparr>queue := ?batch, message_count := of_nat (length ?batch)\<rparr>\<rparr>"
    let ?s = "update_producer p (\<lambda>_. ?q2) s"
    have short: "length ?batch < batch_size q" using False Cons.prems(7) by (cases ms) auto
    with run have send: "internal_send X N p m ?c s = (?s, Some (Ok ()))" by simp
    with conjunct2 [OF run] have inv: "producer_inv ?q2" using Cons.prems(1) by simp
    have q2: "client ?q2 = client q" "producer_id ?q2 = producer_id q" "producer_closed ?q2 = producer_closed q"
      "publish_version ?q2 = publish_version q" "batch_size ?q2 = batch_size q"
      by (simp_all add: add_waiter_def)
    have at: "p < length (producers ?s)" "?q2 = producers ?s ! p" using Cons.prems(1) by simp_all
    have closed: "\<not> is_closed p ?s"
      using Cons.prems(1,2,4) q2(3) by (simp add: is_closed_def)
    have wrapped: "wrap_batch ms ?c ?q2 = (q'\<lparr>accumulator := accumulator ?q2\<rparr>, cs')"
      by (simp add: wrap_batch_accumulator w)
    have "length (queue (accumulator ?q2)) + length ms = batch_size ?q2"
      using Cons.prems(7) q2(5) by simp
    from Cons.IH [OF at inv closed wrapped False this]
    have "send_each X N p ms f ?s =
      await (lift_error PublishClient (on_base (publish X N (client q) (producer_id q)
          (map base_of_ClientMessage (queue (accumulator q) @ cs)) (publish_version q))))
        (\<lambda>_. ready (Ok ()))
        (update_producer p (\<lambda>_. q'\<lparr>accumulator := (accumulator q)\<lparr>queue := [], message_count := 0\<rparr>\<rparr>) s)"
      unfolding q2 using Cons.prems(1) by (simp add: w(2))
    then show ?thesis by (simp add: send_NoDedup_def do_send_def send)
  qed
qed simp

lemma send_each_batch:
  fixes X :: "('t, 'u) externals" and N :: "('t, 'u, 'w) network"
  assumes "p < length (producers s)" "q = producers s ! p" "producer_inv q" "\<not> is_closed p s"
    and "queue (accumulator q) = []" "length ms = batch_size q"
  shows "send_each X N p ms f s = batch_send_NoDedup X N p ms f s"
proof -
  obtain q' cs where w: "wrap_batch ms (UserCallback f) q = (q', cs)"
    by (cases "wrap_batch ms (UserCallback f) q")
  have "ms \<noteq> []" using assms(3,6) by (auto simp: producer_inv_def accumulator_inv_def)
  moreover have "q'\<lparr>accumulator := (accumulator q)\<lparr>queue := [], message_count := 0\<rparr>\<rparr> = q'"
    using wrap_batch_fields [OF w] assms(3,5) by (auto simp: producer_inv_def accumulator_inv_def)
  ultimately show ?thesis
    using send_each_full [OF assms(1-4) w, of X N] wrap_batch_fields [OF w] assms(2,4-6) w
    by (simp add: batch_send_NoDedup_def do_batch_send_def internal_batch_send_def)
qed

section \<open>Properties of the public operations\<close>

text \<open>C18.  Sending as many messages as a batch holds, one after the other on an open producer with
  nothing queued, is the same as sending them as one batch: the ids, the waiting callbacks, the
  frame on the network, the metrics, the state afterwards and the outcome, errors included.\<close>

theorem full_batch_equivalence:
  fixes X :: "('t, 'u) externals" and N :: "('t, 'u, 'w) network"
  assumes "p < length (producers s)" "q = producers s ! p" "producer_inv q" "\<not> is_closed p s"
    and "queue (accumulator q) = []" "length ms = batch_size q"
  shows "send_each X N p ms f s = batch_send_NoDedup X N p ms f s"
  using assms by (rule send_each_batch)

theorem full_batch_equivalence_witness:
  "send_each byte_externals scripted 0 [sample_message, sample_message] 1 (sample_system [[]]) =
   batch_send_NoDedup byte_externals scripted 0 [sample_message, sample_message] 1 (sample_system [[]])"
  by (rule full_batch_equivalence [where q = sample_producer]) simp_all

end
