(* ===== verification/End_To_End.thy ===== *)
theory End_To_End
  imports Producer_Api Consumer
begin

text \<open>
  The way of a message from a producer to a consumer, through every layer of both: the batch is
  numbered and published (\<open>src/producer.rs\<close>, \<open>src/client/mod.rs\<close>), framed (\<open>protocol/src/request\<close>),
  stored by the broker, sent back in a chunk, cut out of the byte stream by the codec
  (\<open>src/client/codec.rs\<close>), handed over by the dispatcher, and polled from the consumer
  (\<open>src/consumer.rs\<close>).

  The broker is a parameter, and \<open>broker_delivers\<close> is what is expected of it: the messages of a
  publish frame come back in one chunk, in their order, from a given offset on, cut into pieces in
  any way.
\<close>

section \<open>What travels\<close>

text \<open>The publishing id travels beside the message, and the filter value only in version 2.\<close>

definition anonymous :: "('t, 'u) Message \<Rightarrow> ('t, 'u) Message" where
  "anonymous m = m\<lparr>Message.publishing_id := None\<rparr>"

definition wire_view :: "('t, 'u) PublishedMessage \<Rightarrow> ('t, 'u) PublishedMessage" where
  "wire_view m = new_PublishedMessage (PublishedMessage.publishing_id m)
     (anonymous (PublishedMessage.message m)) None"

lemma encode_anonymous [simp]:
  "encode_Message X (anonymous m) = encode_Message X m"
  "encoded_size_Message (anonymous m) = encoded_size_Message m"
  by (simp_all add: anonymous_def encode_Message_def encoded_size_Message_def)

lemma encode_wire_view [simp]:
  "encode_PublishedMessage X (wire_view m) = encode_PublishedMessage X m"
  by (simp add: wire_view_def new_PublishedMessage_def encode_PublishedMessage_def)

lemma size_wire_view [simp]:
  "encoded_size_PublishedMessage (wire_view m) = encoded_size_PublishedMessage m"
  by (simp add: wire_view_def new_PublishedMessage_def encoded_size_PublishedMessage_def)

lemma frame_wire_views:
  "frame X (RequestKind.Publish (new_PublishCommand pid (map wire_view ps) 1)) =
   frame X (RequestKind.Publish (new_PublishCommand pid ps 1))"
proof -
  let ?c = "\<lambda>ps. new_PublishCommand pid ps 1"
  have "encode_PublishCommand X (?c (map wire_view ps)) = encode_PublishCommand X (?c ps)"
    "encoded_size_PublishCommand (?c (map wire_view ps)) = encoded_size_PublishCommand (?c ps)"
    by (simp_all add: encode_PublishCommand_def encoded_size_PublishCommand_def encode_published_def
        encoded_size_published_def new_PublishCommand_def PROTOCOL_VERSION_2_def comp_def foldl_map)
  then show ?thesis
    by (simp add: frame_def encode_RequestKind_def request_bytes_def request_from_def
        encoded_size_Request_def encoded_size_RequestKind_def request_key_def request_version_def
        key_PublishCommand_def new_PublishCommand_def)
qed

text \<open>The broker finds the messages in the frame.\<close>

definition published_request ::
  "u8 \<Rightarrow> ('t, 'u) PublishedMessage list \<Rightarrow> ('t, 'u) Request" where
  "published_request pid ps =
     request_from (RequestKind.Publish (new_PublishCommand pid (map wire_view ps) 1))"

lemma publish_frame_read:
  assumes "list_all (\<lambda>m. wf_sized_message X (anonymous (PublishedMessage.message m))) ps"
    and "vec_fits32 ps"
  shows "decode_Request X (frame X (RequestKind.Publish (new_PublishCommand pid ps 1))) =
    Ok ([], published_request pid ps)"
proof -
  let ?k = "RequestKind.Publish (new_PublishCommand pid (map wire_view ps) 1)"
  have "wf_RequestKind X ?k"
    using assms by (simp add: wf_RequestKind_def wf_PublishCommand_def wf_PublishedMessage_def
        wire_view_def new_PublishCommand_def new_PublishedMessage_def vec_fits32_def list.pred_map comp_def)
  then have "decode_Request X (frame X ?k @ []) = Ok ([], request_from ?k)"
    unfolding frame_def
    by (simp add: encode_RequestKind_def decode_request_bytes [where rest = "[]", simplified])
  then show ?thesis by (simp add: frame_wire_views published_request_def)
qed

section \<open>The producer\<close>

lemma published_messages [simp]:
  "map (\<lambda>m. PublishedMessage.message (wire_view (published m))) cs = map anonymous (map ClientMessage.message cs)"
  by (simp add: wire_view_def published_def new_PublishedMessage_def)

lemma batch_send_written:
  fixes X :: "('t, 'u) externals" and N :: "('t, 'u, 'w) network"
  assumes "p < length (producers s)" "q = producers s ! p" "\<not> is_closed p s"
    and "ProducerInternal.client q < length (clients (producer_system.base s))"
    and "cl = clients (producer_system.base s) ! ProducerInternal.client q" "sink cl = []"
    and "\<And>f. tcp_write N (connection cl) f (net (producer_system.base s)) = (store f, Inr [])"
  obtains cs s' where "map ClientMessage.message cs = ms"
    "internal_batch_send X N p ms c s = (s', Some (Ok ()))"
    "net (producer_system.base s') = store (frame X (RequestKind.Publish
       (new_PublishCommand (producer_id q) (map published cs) (publish_version q))))"
proof -
  obtain q' cs where w: "wrap_batch ms c q = (q', cs)" by (cases "wrap_batch ms c q")
  let ?cmd = "new_PublishCommand (producer_id q) (map published cs) (publish_version q)"
  have q': "map ClientMessage.message cs = ms" "ProducerInternal.client q' = ProducerInternal.client q"
    "producer_id q' = producer_id q" "publish_version q' = publish_version q"
    using wrap_batch_fields [OF w] by simp_all
  have "\<exists>w'. publish X N (ProducerInternal.client q) (producer_id q) (map base_of_ClientMessage cs)
      (publish_version q) (producer_system.base s) = (w', Some (Ok (map ClientMessage.publishing_id cs))) \<and>
    net w' = store (frame X (RequestKind.Publish ?cmd))"
    using publish_numbered [OF assms(4) refl, of N X "producer_id q" cs "publish_version q"
        "store (frame X (RequestKind.Publish ?cmd))" "[]"] assms(5-7) by simp
  then obtain w' where "publish X N (ProducerInternal.client q) (producer_id q)
      (map base_of_ClientMessage cs) (publish_version q) (producer_system.base s) =
      (w', Some (Ok (map ClientMessage.publishing_id cs)))"
    and n: "net w' = store (frame X (RequestKind.Publish ?cmd))" by blast
  then have "internal_batch_send X N p ms c s =
      ((update_producer p (\<lambda>_. q') s)\<lparr>producer_system.base := w'\<rparr>, Some (Ok ()))"
    using assms(2,3) w q'(2-4)
    by (simp add: internal_batch_send_def on_base_def async_defs)
  with that q'(1) n show thesis by simp
qed

section \<open>The broker\<close>

definition deliver_frame :: "u32 \<Rightarrow> u16 \<Rightarrow> ('t, 'u) DeliverCommand \<Rightarrow> ('t, 'u) frame" where
  "deliver_frame len v d =
     \<lparr>frame_len = len, frame_key = COMMAND_DELIVER, frame_version = v,
      frame_kind = ResponseKind.Deliver d\<rparr>"

definition broker_delivers ::
  "('t, 'u) externals \<Rightarrow> u64 \<Rightarrow> (bytes \<Rightarrow> 'w) \<Rightarrow> ('w \<Rightarrow> bytes list) \<Rightarrow> bool" where
  "broker_delivers X first store broker \<longleftrightarrow>
     (\<forall>f pid ps. decode_Request X f =
         Ok ([], request_from (RequestKind.Publish (new_PublishCommand pid ps 1))) \<longrightarrow>
       (\<exists>len v d. messages d = map PublishedMessage.message ps \<and> chunk_first_offset d = first \<and>
          concat (broker (store f)) = frame_bytes X (deliver_frame len v d)))"

lemma chunk_read:
  assumes "wf_DeliverCommand X d" "concat cs = frame_bytes X (deliver_frame len v d)"
  shows "\<exists>h. read_chunks X [] cs = Ok ([\<lparr>Response.header = h, kind = ResponseKind.Deliver d\<rparr>], [])"
proof -
  let ?f = "deliver_frame len v d"
  have "frame_ok X ?f \<and> stringless ?f"
    using assms(1) by (simp add: deliver_frame_def frame_ok_def stringless_def stringless_keys_def
        response_keys_def command_keys wf_ResponseKind_def extract_response_code_def)
  moreover have "frame_bytes X ?f \<noteq> []" using frame_bytes_length [of X ?f] by auto
  ultimately have "read_chunks X [] cs = Ok (map frame_response [?f], [])"
    using assms(2) by (intro read_chunks_frames) (auto simp: strict_prefix_def)
  then show ?thesis by (auto simp: frame_response_def deliver_frame_def)
qed

section \<open>The consumer\<close>

text \<open>The responses the codec has read arrive at the connection's task.\<close>

definition arrived ::
  "nat \<Rightarrow> ('t, 'u) Response list \<Rightarrow> ('t, 'u, 'w) consumer_system \<Rightarrow> ('t, 'u, 'w) consumer_system" where
  "arrived k rs t = t\<lparr>consumer_system.base := update_client (ConsumerInternal.client (consumers t ! k))
     (\<lambda>cl. cl\<lparr>inbox := inbox cl @ map (\<lambda>r. Some (Ok r)) rs\<rparr>) (consumer_system.base t)\<rparr>"

text \<open>A consumer that waits for a chunk: nothing is queued, its handler is installed and it takes
  every message.\<close>

definition waiting_consumer :: "nat \<Rightarrow> ('t, 'u, 'w) consumer_system \<Rightarrow> bool" where
  "waiting_consumer k t \<longleftrightarrow> k < length (consumers t) \<and>
     (let c = consumers t ! k; cl = clients (consumer_system.base t) ! ConsumerInternal.client c in
      \<not> receiver_dropped c \<and> deliveries c = [] \<and> filter_configuration c = None \<and>
      (\<forall>o'. \<not> before_start (offset_specification c) o') \<and>
      ConsumerInternal.client c < length (clients (consumer_system.base t)) \<and>
      task_running cl \<and> DispatcherState.handler (dispatcher cl) \<and> handler (state cl) \<and>
      sink cl = [] \<and> spawned cl = [] \<and> inbox cl = [])"

lemma chunk_polled:
  fixes X :: "('t, 'u) externals" and M :: "('t, 'u, 'w) network"
  assumes "waiting_consumer k t" "c = consumers t ! k"
    and "cl = clients (consumer_system.base t) ! ConsumerInternal.client c"
    and "length (messages d) \<le> CHANNEL_SIZE"
    and "tcp_write M (connection cl) (frame X (RequestKind.Credit (new_CreditCommand (consumer_id c) 1)))
      (net (consumer_system.base t)) = (m, Inr items)"
  shows "\<exists>t'. consumer_background X M k
      (arrived k [\<lparr>Response.header = h, kind = ResponseKind.Deliver d\<rparr>] t) = (t', Some (Ok ())) \<and>
    polls k (length (messages d)) t' = map (\<lambda>j. Ready (Some (Ok (new_Delivery c (messages d ! j)
      (chunk_first_offset d + of_nat j))))) [0..<length (messages d)]"
proof -
  let ?r = "\<lparr>Response.header = h, kind = ResponseKind.Deliver d\<rparr> :: ('t, 'u) Response"
  let ?t = "arrived k [?r] t"
  have w: "k < length (consumers t)" "\<not> receiver_dropped c" "deliveries c = []"
    "filter_configuration c = None" "\<And>o'. \<not> before_start (offset_specification c) o'"
    "ConsumerInternal.client c < length (clients (consumer_system.base t))"
    "task_running cl" "DispatcherState.handler (dispatcher cl)" "handler (state cl)"
    "sink cl = []" "spawned cl = []" "inbox cl = []"
    using assms(1) by (simp_all add: waiting_consumer_def Let_def assms(2,3))
  have ds: "chunk_deliveries c d = map (\<lambda>j. new_Delivery c (messages d ! j)
      (chunk_first_offset d + of_nat j)) [0..<length (messages d)]"
    using w(4,5)
    by (intro nth_equalityI)
       (simp_all add: chunk_deliveries_def client_filter_def offset_deliveries_all numbered_nth numbered_def)
  then have len: "length (chunk_deliveries c d) \<le> CHANNEL_SIZE" using assms(4) by simp
  have "\<exists>t'. consumer_background X M k ?t = (t', Some (Ok ())) \<and>
    polls k (length (chunk_deliveries c d)) t' =
      map (\<lambda>d. Ready (Some (Ok d))) (chunk_deliveries c d) \<and> net (consumer_system.base t') = m"
    by (rule chunk_arrives [where cl = "cl\<lparr>inbox := [Some (Ok ?r)]\<rparr>" and h = h and items = items])
       (use assms(2,3,5) w len in \<open>simp_all add: arrived_def\<close>)
  then show ?thesis by (auto simp: ds comp_def)
qed

section \<open>From the producer to the consumer\<close>

text \<open>C6.  What is sent is what is received: a batch that a producer sends, stored and delivered by a
  broker that keeps the messages of a publish frame in their order, reaches a waiting consumer
  whatever pieces the bytes arrive in.  Polling returns exactly the messages of the batch, in
  order, with consecutive offsets; only the publishing ids stay behind.  The producer publishes with
  version 1 (without a filter), and the messages are well-formed for the wire.\<close>

theorem sent_messages_arrive:
  fixes X :: "('t, 'u) externals" and N :: "('t, 'u, 'w) network" and M :: "('t, 'u, 'v) network"
  assumes "p < length (producers s)" "q = producers s ! p" "\<not> is_closed p s" "publish_version q = 1"
    and "ProducerInternal.client q < length (clients (producer_system.base s))"
    and "cp = clients (producer_system.base s) ! ProducerInternal.client q" "sink cp = []"
    and "\<And>f. tcp_write N (connection cp) f (net (producer_system.base s)) = (store f, Inr [])"
    and "list_all (wf_sized_message X \<circ> anonymous) ms" "length ms \<le> CHANNEL_SIZE"
    and "broker_delivers X first store broker"
    and "waiting_consumer k t" "c = consumers t ! k"
    and "cl = clients (consumer_system.base t) ! ConsumerInternal.client c"
    and "tcp_write M (connection cl) (frame X (RequestKind.Credit (new_CreditCommand (consumer_id c) 1)))
      (net (consumer_system.base t)) = (m, Inr items)"
  shows "\<exists>s' rs t'. batch_send_NoDedup X N p ms f s = (s', Some (Ok ())) \<and>
    read_chunks X [] (broker (net (producer_system.base s'))) = Ok (rs, []) \<and>
    consumer_background X M k (arrived k rs t) = (t', Some (Ok ())) \<and>
    polls k (length ms) t' = map (\<lambda>j. Ready (Some (Ok (new_Delivery c (anonymous (ms ! j))
      (first + of_nat j))))) [0..<length ms]"
proof -
  obtain cs s' where cs: "map ClientMessage.message cs = ms"
    and sent: "internal_batch_send X N p ms (UserCallback f) s = (s', Some (Ok ()))"
    and net: "net (producer_system.base s') = store (frame X (RequestKind.Publish
       (new_PublishCommand (producer_id q) (map published cs) 1)))"
    using batch_send_written [OF assms(1-3,5-8)] assms(4) by metis
  have fits: "length cs = length ms" "vec_fits32 cs"
    using cs assms(10) by (auto simp: vec_fits32_def CHANNEL_SIZE_def)
  have "decode_Request X (frame X (RequestKind.Publish
      (new_PublishCommand (producer_id q) (map published cs) 1))) =
      Ok ([], published_request (producer_id q) (map published cs))"
    using assms(9) fits
    by (intro publish_frame_read)
       (auto simp: published_def new_PublishedMessage_def vec_fits32_def list_all_iff simp flip: cs)
  then obtain len v d where "messages d = map PublishedMessage.message (map wire_view (map published cs))"
    and d: "chunk_first_offset d = first"
      "concat (broker (net (producer_system.base s'))) = frame_bytes X (deliver_frame len v d)"
    using assms(11) unfolding broker_delivers_def published_request_def net by blast
  then have msgs: "messages d = map anonymous ms" by (simp add: comp_def cs)
  have "wf_DeliverCommand X d"
    using assms(9) fits by (simp add: wf_DeliverCommand_def msgs vec_fits32_def list.pred_map)
  from chunk_read [OF this d(2)] obtain h where
    read: "read_chunks X [] (broker (net (producer_system.base s'))) =
      Ok ([\<lparr>Response.header = h, kind = ResponseKind.Deliver d\<rparr>], [])" by blast
  have "length (messages d) \<le> CHANNEL_SIZE" by (simp add: msgs assms(10))
  from chunk_polled [OF assms(12-14) this assms(15), of h] sent read show ?thesis
    by (auto simp: msgs d(1) batch_send_NoDedup_def do_batch_send_def cong: map_cong)
qed

text \<open>A broker made of the readers and writers of the library, which sends one byte at a time.\<close>

definition new_chunk :: "u64 \<Rightarrow> ('t, 'u) Message list \<Rightarrow> ('t, 'u) DeliverCommand" where
  "new_chunk first ms = new_DeliverCommand 1 0 0 (of_nat (length ms)) 0 0 first 0 0 0 ms"

definition echo_broker :: "('t, 'u) externals \<Rightarrow> u64 \<Rightarrow> ('t, 'u) script \<Rightarrow> bytes list" where
  "echo_broker X first n =
     (case decode_Request X (last (fst n)) of
        Ok (_, r) \<Rightarrow>
          (case Request.kind r of
             RequestKind.Publish cmd \<Rightarrow> map (\<lambda>b. [b]) (frame_bytes X (deliver_frame 0 1
               (new_chunk first (map PublishedMessage.message (published_messages cmd)))))
           | _ \<Rightarrow> [])
      | _ \<Rightarrow> [])"

lemma echo_broker_delivers: "broker_delivers X first (\<lambda>f. ([f], [])) (echo_broker X first)"
proof -
  have "concat (map (\<lambda>b. [b]) bs) = bs" for bs :: bytes by (induction bs) simp_all
  then have "messages (new_chunk first ms) = ms \<and> chunk_first_offset (new_chunk first ms) = first \<and>
      concat (echo_broker X first ([f], [])) = frame_bytes X (deliver_frame 0 1 (new_chunk first ms))"
    if "decode_Request X f = Ok ([], request_from (RequestKind.Publish (new_PublishCommand pid ps 1)))"
      "ms = map PublishedMessage.message ps" for f pid ps ms
    using that by (simp add: echo_broker_def request_from_def new_PublishCommand_def new_chunk_def new_DeliverCommand_def)
  then show ?thesis unfolding broker_delivers_def by blast
qed

lemma sample_message_sized: "wf_sized_message byte_externals (anonymous sample_message)"
proof -
  have "anonymous sample_message = sample_message"
    by (simp add: anonymous_def sample_message_def)
  moreover have "length (encode_Message byte_externals sample_message) < 2 ^ 31"
    by (simp add: sample_message_def encode_Message_def encode_AmqpMessage_def encode_MessageBody_def
        default_AmqpMessage_def default_MessageBody_def set_data_def encode_AmqpHeader_def Let_def
        default_AmqpHeader_def section_descriptors amqp_defs encode_Option_def)
  ultimately show ?thesis using sample_message_wf by (simp add: wf_sized_message_def)
qed

theorem sent_messages_arrive_witness:
  "\<exists>s' rs t'. batch_send_NoDedup byte_externals scripted 0 [sample_message, sample_message]
      0 (sample_system [[]]) = (s', Some (Ok ())) \<and>
    read_chunks byte_externals [] (echo_broker byte_externals 40 (net (producer_system.base s'))) = Ok (rs, []) \<and>
    consumer_background byte_externals scripted 0 (arrived 0 rs (sample_consumers [[]] [])) =
      (t', Some (Ok ())) \<and>
    polls 0 2 t' = [Ready (Some (Ok (new_Delivery sample_consumer sample_message 40))),
      Ready (Some (Ok (new_Delivery sample_consumer sample_message 41)))]"
proof -
  let ?s = "sample_system [[]]" and ?t = "sample_consumers [[]] []"
  have msg: "anonymous sample_message = sample_message"
    by (simp add: anonymous_def sample_message_def)
  have "waiting_consumer 0 ?t"
    by (simp add: waiting_consumer_def before_start_def)
  moreover have "clients (producer_system.base ?s) = [handled_client]"
    "net (producer_system.base ?s) = ([], [[]])" "publish_version sample_producer = 1"
    by (simp_all add: sample_system_def scripted_world_def sample_producer_def)
  ultimately show ?thesis
    using sent_messages_arrive [of 0 ?s sample_producer handled_client scripted "\<lambda>f. ([f], [])"
        byte_externals "[sample_message, sample_message]" 40 "echo_broker byte_externals 40" 0 ?t
        sample_consumer handled_client scripted "([frame byte_externals
          (RequestKind.Credit (new_CreditCommand 1 1))], [])" "[]" 0]
      echo_broker_delivers [of byte_externals 40] sample_message_sized
    by (simp add: CHANNEL_SIZE_def msg upt_rec numeral_2_eq_2)
qed

end
