(* ===== verification/Benchmark.thy ===== *)
theory Benchmark
  imports Producer_Api Consumer Message_Builder "HOL-Library.Multiset"
begin

text \<open>
  The benchmark program (\<open>benchmark/src\<close>): the counters it hands to the client as a collector of
  metrics (\<open>stats.rs\<close>), and its publisher and consumer tasks (\<open>main.rs\<close>).

  The calls made to a collector are the metrics of the state; \<open>collect\<close> is what the counters make of
  one.  Times are nanoseconds since the epoch, read from a clock that is an argument.
\<close>

section \<open>Counters (stats.rs)\<close>

record Stats =
  start_time :: u64
  published_count :: u64
  confirmed_message_count :: u64
  consumer_message_count :: u64

text \<open>\<open>now as u64\<close> keeps the low bits.\<close>

definition default_Stats :: "nat \<Rightarrow> Stats" where
  "default_Stats now =
     \<lparr>start_time = of_nat now, published_count = 0, confirmed_message_count = 0,
      consumer_message_count = 0\<rparr>"

definition stats_publish :: "u64 \<Rightarrow> Stats \<Rightarrow> Stats" where
  "stats_publish n s = s\<lparr>published_count := published_count s + n\<rparr>"

definition stats_consume :: "u64 \<Rightarrow> Stats \<Rightarrow> Stats" where
  "stats_consume n s = s\<lparr>consumer_message_count := consumer_message_count s + n\<rparr>"

definition stats_publish_confirm :: "u64 \<Rightarrow> Stats \<Rightarrow> Stats" where
  "stats_publish_confirm n s =
     s\<lparr>confirmed_message_count := confirmed_message_count s + n\<rparr>"

definition stats_publish_error :: "u64 \<Rightarrow> Stats \<Rightarrow> Stats" where
  "stats_publish_error n s = s"

record Report =
  published_rate :: u64
  confirmed_rate :: u64
  consumed_rate :: u64
  elapsed_secs :: nat

text \<open>The difference of two readings panics when it is negative, and so does the division by zero; the
  product wraps around.\<close>

definition stats_dump :: "nat \<Rightarrow> Stats \<Rightarrow> (Report, 'e) result" where
  "stats_dump now s =
    (let start = unat (start_time s) in
     if now < start then Panic
     else
       let diff = now - start; millis = (of_nat (diff div 1000000) :: u64) in
       if millis = 0 then Panic
       else Ok \<lparr>published_rate = published_count s * 1000 div millis,
                confirmed_rate = confirmed_message_count s * 1000 div millis,
                consumed_rate = consumer_message_count s * 1000 div millis,
                elapsed_secs = diff div 1000000000\<rparr>)"

fun collect :: "metric \<Rightarrow> Stats \<Rightarrow> Stats" where
  "collect (PublishMetric n) = stats_publish n"
| "collect (ConsumeMetric n) = stats_consume n"
| "collect (PublishConfirmMetric n) = stats_publish_confirm n"

section \<open>The tasks (main.rs)\<close>

record Opts =
  urls :: "string list"
  opt_streams :: "string list"
  opt_batch_size :: nat
  opt_batch_send :: bool

definition benchmark_message :: "128 word \<Rightarrow> ('t, 'u) Message" where
  "benchmark_message time = builder_build (builder_body (be_bytes 16 time) Message_builder)"

text \<open>One message per reading of the clock.\<close>

primrec single_send ::
  "('t, 'u) externals \<Rightarrow> ('t, 'u, 'w) network \<Rightarrow> nat \<Rightarrow> 128 word list \<Rightarrow> 'cb \<Rightarrow>
     ('t, 'u, 'w, 'cb, unit, ProducerPublishError) producer_async" where
  "single_send X N p [] f = ready (Ok ())"
| "single_send X N p (time # readings) f =
     await (unwrap_async (send_NoDedup X N p (benchmark_message time) f
         :: ('t, 'u, 'w, 'cb, unit, ProducerPublishError) producer_async))
       (\<lambda>_. single_send X N p readings f)"

definition batch_send ::
  "('t, 'u) externals \<Rightarrow> ('t, 'u, 'w) network \<Rightarrow> nat \<Rightarrow> 128 word list \<Rightarrow> 'cb \<Rightarrow>
     ('t, 'u, 'w, 'cb, unit, ProducerPublishError) producer_async" where
  "batch_send X N p readings f =
     unwrap_async (batch_send_NoDedup X N p (map benchmark_message readings) f
       :: ('t, 'u, 'w, 'cb, unit, ProducerPublishError) producer_async)"

text \<open>One turn of the publisher's loop.\<close>

definition publisher_turn ::
  "('t, 'u) externals \<Rightarrow> ('t, 'u, 'w) network \<Rightarrow> Opts \<Rightarrow> nat \<Rightarrow> 128 word list \<Rightarrow> 'cb \<Rightarrow>
     ('t, 'u, 'w, 'cb, unit, ProducerPublishError) producer_async" where
  "publisher_turn X N options' p readings f =
     (if opt_batch_send options'
      then batch_send X N p (take (opt_batch_size options') readings) f
      else single_send X N p (take (opt_batch_size options') readings) f)"

text \<open>Starting the publisher: the outcome of creating the stream is ignored.\<close>

definition start_publisher ::
  "('t, 'u) externals \<Rightarrow> ('t, 'u, 'w) network \<Rightarrow> Environment \<Rightarrow> Opts \<Rightarrow> string \<Rightarrow>
     ('t, 'u, 'w, 'cb, nat, ProducerCreateError) producer_async" where
  "start_publisher X N env' options' stream' =
     await_result (on_base (creator_create X N (environment_stream_creator env') stream')) (\<lambda>_.
       producer_build X N (set_batch_size (opt_batch_size options') (environment_producer env')) stream')"

definition start_consumer ::
  "('t, 'u) externals \<Rightarrow> ('t, 'u, 'w) network \<Rightarrow> (client_Broker list \<Rightarrow> client_Broker option) \<Rightarrow>
     Environment \<Rightarrow> string \<Rightarrow> ('t, 'u, 'w, nat, ConsumerCreateError) consumer_async" where
  "start_consumer X N pick env' stream' = consumer_build X N pick (environment_consumer env') stream'"

text \<open>The reporting task: the clock and the counters at each tick of its interval.  A panic ends the
  task; the reports before it have been printed.\<close>

primrec reporting_task :: "(nat \<times> Stats) list \<Rightarrow> Report list \<times> (unit, 'e) result" where
  "reporting_task [] = ([], Ok ())"
| "reporting_task (tick # ticks) =
     (case stats_dump (fst tick) (snd tick) of
        Ok r \<Rightarrow> (case reporting_task ticks of (rs, out) \<Rightarrow> (r # rs, out))
      | Err e \<Rightarrow> ([], Err e)
      | Panic \<Rightarrow> ([], Panic))"

section \<open>What the counters count\<close>

fun published_by :: "metric \<Rightarrow> u64" where
  "published_by (PublishMetric n) = n"
| "published_by _ = 0"

fun consumed_by :: "metric \<Rightarrow> u64" where
  "consumed_by (ConsumeMetric n) = n"
| "consumed_by _ = 0"

fun confirmed_by :: "metric \<Rightarrow> u64" where
  "confirmed_by (PublishConfirmMetric n) = n"
| "confirmed_by _ = 0"

definition total :: "(metric \<Rightarrow> u64) \<Rightarrow> metric multiset \<Rightarrow> u64" where
  "total f ms = sum_mset (image_mset f ms)"

lemma total_simps [simp]: "total f {#} = 0" "total f (add_mset m ms) = f m + total f ms"
  by (simp_all add: total_def)

lemmas stats_defs = stats_publish_def stats_consume_def stats_publish_confirm_def

lemma fold_collect:
  "fold collect ms s =
     s\<lparr>published_count := published_count s + total published_by (mset ms),
       consumer_message_count := consumer_message_count s + total consumed_by (mset ms),
       confirmed_message_count := confirmed_message_count s + total confirmed_by (mset ms)\<rparr>"
proof (induction ms arbitrary: s)
  case (Cons m ms)
  then show ?case by (cases m) (simp_all add: stats_defs add.assoc)
qed simp

lemma stats_dump_Ok:
  assumes "start = unat (start_time s)" "millis = (now - start) div 1000000"
    and "start + 1000000 \<le> now" "millis < 2 ^ 64"
  shows "stats_dump now s = Ok
    \<lparr>published_rate = published_count s * 1000 div of_nat millis,
     confirmed_rate = confirmed_message_count s * 1000 div of_nat millis,
     consumed_rate = consumer_message_count s * 1000 div of_nat millis,
     elapsed_secs = (now - start) div 1000000000\<rparr>"
proof -
  have "0 < millis" using assms(2,3) by (simp add: div_greater_zero_iff)
  then have "(of_nat millis :: u64) \<noteq> 0"
    using assms(4) by (simp add: word_of_nat_eq_0_iff nat_dvd_not_less)
  then show ?thesis using assms(1-3) by (simp add: stats_dump_def Let_def)
qed

lemma rate_exact:
  assumes "unat c * 1000 < 2 ^ 64" "millis < 2 ^ 64"
  shows "unat (c * 1000 div of_nat millis :: u64) = unat c * 1000 div millis"
proof -
  have "unat (c * 1000) = unat c * 1000" "unat (of_nat millis :: u64) = millis"
    using assms by (simp_all add: unat_word_ariths unat_of_nat take_bit_nat_eq_self)
  then show ?thesis by (simp add: unat_div_distrib)
qed

section \<open>The two modes of the publisher\<close>

lemma unwrap_await:
  "unwrap_async (await m k) = await (unwrap_async m) (\<lambda>x. unwrap_async (k x))"
  by (simp add: fun_eq_iff unwrap_async_def await_def split: prod.split option.split result.split)

lemma unwrap_ready_Ok [simp]: "unwrap_async (ready (Ok x)) = ready (Ok x)"
  by (simp add: fun_eq_iff unwrap_async_def async_defs)

lemma single_send_each:
  "single_send X N p readings f =
     unwrap_async (send_each X N p (map benchmark_message readings) f
       :: ('t, 'u, 'w, 'cb, unit, ProducerPublishError) producer_async)"
  by (induction readings) (simp_all add: unwrap_await)

section \<open>Properties of the benchmark\<close>

text \<open>The counters are the totals of what the collector was told, in whatever order the tasks
  told it.\<close>

theorem stats_any_order:
  assumes "mset ms = mset ms'"
  shows "fold collect ms s = fold collect ms' s \<and>
    published_count (fold collect ms s) = published_count s + total published_by (mset ms') \<and>
    consumer_message_count (fold collect ms s) = consumer_message_count s + total consumed_by (mset ms') \<and>
    confirmed_message_count (fold collect ms s) = confirmed_message_count s + total confirmed_by (mset ms')"
  using assms by (simp add: fold_collect)

theorem stats_any_order_witness:
  "published_count (fold collect [PublishMetric 2, ConsumeMetric 1, PublishMetric 3] (default_Stats 0)) = 5"
  using stats_any_order [of "[PublishMetric 2, ConsumeMetric 1, PublishMetric 3]"
      "[ConsumeMetric 1, PublishMetric 3, PublishMetric 2]" "default_Stats 0"]
  by (auto simp: default_Stats_def)

text \<open>A report within the first millisecond, or after the clock was set back, panics; the first
  tick of the reporting task is immediate.  Later the rates are the counts per second, rounded
  down, as long as a thousand times the count fits into 64 bits.\<close>

theorem dump_rates:
  assumes "start = unat (start_time s)" "millis = (now - start) div 1000000" "millis < 2 ^ 64"
  shows "(now < start + 1000000 \<longrightarrow> stats_dump now s = Panic) \<and>
    (start + 1000000 \<le> now \<longrightarrow> (\<exists>r. stats_dump now s = Ok r \<and> elapsed_secs r = millis div 1000 \<and>
      (unat (published_count s) * 1000 < 2 ^ 64 \<longrightarrow>
         unat (published_rate r) = unat (published_count s) * 1000 div millis) \<and>
      (unat (confirmed_message_count s) * 1000 < 2 ^ 64 \<longrightarrow>
         unat (confirmed_rate r) = unat (confirmed_message_count s) * 1000 div millis) \<and>
      (unat (consumer_message_count s) * 1000 < 2 ^ 64 \<longrightarrow>
         unat (consumed_rate r) = unat (consumer_message_count s) * 1000 div millis)))"
proof (intro conjI impI)
  assume "now < start + 1000000"
  then show "stats_dump now s = Panic"
    using assms(1) by (auto simp: stats_dump_def Let_def)
next
  assume late: "start + 1000000 \<le> now"
  have "(now - start) div 1000000000 = millis div 1000"
    unfolding assms(2) by (simp flip: div_mult2_eq)
  then show "\<exists>r. stats_dump now s = Ok r \<and> elapsed_secs r = millis div 1000 \<and>
      (unat (published_count s) * 1000 < 2 ^ 64 \<longrightarrow>
         unat (published_rate r) = unat (published_count s) * 1000 div millis) \<and>
      (unat (confirmed_message_count s) * 1000 < 2 ^ 64 \<longrightarrow>
         unat (confirmed_rate r) = unat (confirmed_message_count s) * 1000 div millis) \<and>
      (unat (consumer_message_count s) * 1000 < 2 ^ 64 \<longrightarrow>
         unat (consumed_rate r) = unat (consumer_message_count s) * 1000 div millis)"
    by (simp add: stats_dump_Ok [OF assms(1,2) late assms(3)] rate_exact [OF _ assms(3)])
qed

theorem dump_rates_witness:
  "stats_dump 999999 (default_Stats 0) = Panic \<and>
   (\<exists>r. stats_dump 2000000000 (stats_publish 10 (default_Stats 0)) = Ok r \<and>
     unat (published_rate r) = 5 \<and> elapsed_secs r = 2)"
  using dump_rates [of 0 "default_Stats 0" 0 999999]
    dump_rates [of 0 "stats_publish 10 (default_Stats 0)" 2000 2000000000]
  by (auto simp: default_Stats_def stats_publish_def)

text \<open>The first tick of the interval is immediate: when it comes within a millisecond of the start,
  the task is gone and nothing is ever reported; when the first tick succeeds and the clock is not
  set back, every tick is reported.\<close>

lemma reporting_task_silent:
  assumes "now < unat (start_time s) + 1000000"
  shows "reporting_task ((now, s) # ticks) = ([], Panic)"
proof -
  have "stats_dump now s = (Panic :: (Report, 'a) result)"
    using assms by (auto simp: stats_dump_def Let_def)
  then show ?thesis by simp
qed

lemma reporting_task_reports:
  assumes "\<And>now s. (now, s) \<in> set ticks \<Longrightarrow>
    unat (start_time s) + 1000000 \<le> now \<and> (now - unat (start_time s)) div 1000000 < 2 ^ 64"
  shows "\<exists>rs. (reporting_task ticks :: Report list \<times> (unit, 'e) result) = (rs, Ok ()) \<and>
    length rs = length ticks"
  using assms
proof (induction ticks)
  case (Cons tick ticks)
  then obtain rs where
    "(reporting_task ticks :: Report list \<times> (unit, 'e) result) = (rs, Ok ())" "length rs = length ticks"
    by fastforce
  moreover have "\<exists>r. stats_dump (fst tick) (snd tick) = (Ok r :: (Report, 'e) result)"
    using Cons.prems [of "fst tick" "snd tick"] stats_dump_Ok [OF refl refl] by fastforce
  ultimately show ?case by auto
qed simp

text \<open>The two modes of the publisher do the same on a producer with the batch size of the options
  and nothing queued: each turn publishes one full batch.\<close>

lemma publisher_modes_agree:
  assumes "p < length (producers s)" "producer_inv (producers s ! p)" "\<not> is_closed p s"
    and "queue (accumulator (producers s ! p)) = []"
    and "opt_batch_size options' = batch_size (producers s ! p)"
    and "opt_batch_size options' \<le> length readings"
  shows "publisher_turn X N (options'\<lparr>opt_batch_send := True\<rparr>) p readings f s =
    publisher_turn X N (options'\<lparr>opt_batch_send := False\<rparr>) p readings f s"
  using send_each_batch [OF assms(1) refl assms(2-4),
      of "map benchmark_message (take (opt_batch_size options') readings)" X N f] assms(5,6)
  by (simp add: publisher_turn_def single_send_each batch_send_def unwrap_async_def)

text \<open>The consumer's task polls in a loop around a loop that ends with the stream: on a consumer that
  is closed and drained every further poll returns at once, so the task never waits again.\<close>

lemma consumer_task_spins:
  assumes "n < length (consumers s)" "closed (consumers s ! n)" "deliveries (consumers s ! n) = []"
  shows "polls n k s = replicate k (Ready None)"
  using polls_drain [OF assms(1) refl, of k] assms(2,3) by simp

end
